(* ===== verification/Prelude.thy ===== *)
theory Prelude imports Complex_Main "HOL-Library.AList" "HOL-Library.Char_ord" "HOL-Library.List_Lexorder" begin

text \<open>
  The vocabulary every component shares: Python values and dictionaries, exceptions as values,
  the state-and-exception monad the handlers are written in, and the string operations of the
  Python standard library that the source uses (split, join, strip, lower, capitalize, integer
  parsing). Strings are lists of 8-bit characters; the source's text is ASCII wherever the model
  inspects a character.
\<close>

section \<open>Exceptions\<close>

text \<open>
  One constructor per exception class that the source raises, catches or lets through. The second
  component of an exception is its message, which the source reads with \<open>str(ex)\<close>.
\<close>

datatype ekind =
    ETypeError | EValueError | EKeyError | EIndexError | EAttributeError | EUnboundLocalError | EZeroDivisionError
  | EAssertionError | EJSONDecodeError | ETimeoutError | ERuntimeError
  | ENoResultFound | EMultipleResultsFound | EIntegrityError | EDataError | EOperationalError
  | EInvalidRequestError | EInvalidPaddingError | EProgrammingError
  | EOSError | EValidationError | EClientError
  | ERedisConnectionError | ERedisError
  | EAPIcrudFormatError | EAPIcrudSendError | EMediaUploadError
  | EAbort nat | EOther

datatype exc = Exc (exc_kind: ekind) (exc_msg: string)

section \<open>Values and dictionaries\<close>

text \<open>
  A Python value as it occurs in request bodies, database rows and cached sessions. Times are
  microseconds since the Unix epoch; floats are exact rationals.
\<close>

datatype pyval =
    PNone
  | PBool bool
  | PInt int
  | PFloat rat
  | PStr string
  | PBytes string
  | PTime int
  | PList "pyval list"
  | PDict "(string \<times> pyval) list"

text \<open>A Python dict keeps its insertion order: an association list updated in place.\<close>

type_synonym dict = "(string \<times> pyval) list"

fun truthy :: "pyval \<Rightarrow> bool" where
  "truthy PNone = False"
| "truthy (PBool b) = b"
| "truthy (PInt i) = (i \<noteq> 0)"
| "truthy (PFloat r) = (r \<noteq> 0)"
| "truthy (PStr s) = (s \<noteq> [])"
| "truthy (PBytes s) = (s \<noteq> [])"
| "truthy (PTime _) = True"
| "truthy (PList xs) = (xs \<noteq> [])"
| "truthy (PDict d) = (d \<noteq> [])"

definition dhas :: "dict \<Rightarrow> string \<Rightarrow> bool" where
  "dhas d k = (map_of d k \<noteq> None)"

definition dget :: "dict \<Rightarrow> string \<Rightarrow> pyval" where
  "dget d k = (case map_of d k of None \<Rightarrow> PNone | Some v \<Rightarrow> v)"

definition dget_or :: "dict \<Rightarrow> string \<Rightarrow> pyval \<Rightarrow> pyval" where
  "dget_or d k v = (case map_of d k of None \<Rightarrow> v | Some u \<Rightarrow> u)"

definition dsub :: "dict \<Rightarrow> string \<Rightarrow> exc + pyval" where
  "dsub d k = (case map_of d k of None \<Rightarrow> Inl (Exc EKeyError k) | Some v \<Rightarrow> Inr v)"

abbreviation dset :: "dict \<Rightarrow> string \<Rightarrow> pyval \<Rightarrow> dict" where
  "dset d k v \<equiv> AList.update k v d"

abbreviation ddel :: "dict \<Rightarrow> string \<Rightarrow> dict" where
  "ddel d k \<equiv> AList.delete k d"

text \<open>\<open>dict.update(other)\<close> and the \<open>{**a, **b}\<close> display: later keys win.\<close>

fun dmerge :: "dict \<Rightarrow> dict \<Rightarrow> dict" where
  "dmerge d [] = d"
| "dmerge d ((k, v) # es) = dmerge (dset d k v) es"

text \<open>Reading a string out of a value that the code knows to be one.\<close>

definition as_str :: "pyval \<Rightarrow> string option" where
  "as_str v = (case v of PStr s \<Rightarrow> Some s | _ \<Rightarrow> None)"

lemma dget_dset: "dget (dset d k v) k' = (if k' = k then v else dget d k')"
  by (simp add: dget_def update_conv)

lemma dhas_dset: "dhas (dset d k v) k' \<longleftrightarrow> k' = k \<or> dhas d k'"
  by (simp add: dhas_def update_conv)

lemma dget_ddel: "dget (ddel d k) k' = (if k' = k then PNone else dget d k')"
  by (simp add: dget_def delete_conv)

lemma dhas_ddel: "dhas (ddel d k) k' \<longleftrightarrow> k' \<noteq> k \<and> dhas d k'"
  by (simp add: dhas_def delete_conv)

lemma dsub_dset: "dsub (dset d k v) k' = (if k' = k then Inr v else dsub d k')"
  by (simp add: dsub_def update_conv)

lemma dsub_has: "dhas d k \<Longrightarrow> dsub d k = Inr (dget d k)"
  by (auto simp: dsub_def dhas_def dget_def)

lemma map_of_dmerge: "distinct (map fst es) \<Longrightarrow> map_of (dmerge d es) = map_of d ++ map_of es"
proof (induction es arbitrary: d)
  case Nil
  then show ?case by simp
next
  case (Cons e es)
  obtain k v where e: "e = (k, v)" by (cases e)
  from Cons.prems e have fresh: "map_of es k = None"
    by (simp add: map_of_eq_None_iff)
  from Cons e have "map_of (dmerge d (e # es)) = map_of (dset d k v) ++ map_of es" by simp
  with e fresh show ?case
    by (auto simp: update_conv map_add_def fun_eq_iff split: option.splits)
qed

lemma dget_Cons: "dget ((k, v) # d) k' = (if k' = k then v else dget d k')"
  by (simp add: dget_def)

lemma dget_Nil: "dget [] k = PNone"
  by (simp add: dget_def)

lemma dhas_Cons: "dhas ((k, v) # d) k' \<longleftrightarrow> k' = k \<or> dhas d k'"
  by (simp add: dhas_def)

lemma dhas_Nil: "\<not> dhas [] k"
  by (simp add: dhas_def)

lemma dsub_Cons: "dsub ((k, v) # d) k' = (if k' = k then Inr v else dsub d k')"
  by (simp add: dsub_def)

lemmas dict_simps = dget_dset dhas_dset dget_ddel dhas_ddel dsub_dset
  dget_Cons dget_Nil dhas_Cons dhas_Nil dsub_Cons dsub_has

section \<open>Ordering comparisons\<close>

text \<open>
  \<open>a >= b\<close> on Python values: numbers compare, strings compare with strings, anything else
  raises TypeError.
\<close>

fun py_num :: "pyval \<Rightarrow> rat option" where
  "py_num (PInt i) = Some (of_int i)"
| "py_num (PFloat r) = Some r"
| "py_num (PBool b) = Some (if b then 1 else 0)"
| "py_num _ = None"

fun py_ge :: "pyval \<Rightarrow> pyval \<Rightarrow> exc + bool" where
  "py_ge (PStr s) (PStr t) = Inr (t \<le> s)"
| "py_ge (PTime s) (PTime t) = Inr (t \<le> s)"
| "py_ge a b = (case (py_num a, py_num b) of
       (Some x, Some y) \<Rightarrow> Inr (y \<le> x)
     | _ \<Rightarrow> Inl (Exc ETypeError ''not supported between instances''))"

lemma py_ge_int [simp]: "py_ge (PInt a) (PInt b) = Inr (b \<le> a)"
  by simp

section \<open>The state-and-exception monad\<close>

text \<open>
  A statement of the source takes the state it runs in and yields a value or an exception,
  together with the state it leaves: effects made before a raise are kept.
\<close>

type_synonym ('w, 'a) py = "'w \<Rightarrow> (exc + 'a) \<times> 'w"

definition ret :: "'a \<Rightarrow> ('w, 'a) py" where
  "ret x = (\<lambda>w. (Inr x, w))"

definition raise_exc :: "exc \<Rightarrow> ('w, 'a) py" where
  "raise_exc e = (\<lambda>w. (Inl e, w))"

definition bnd :: "('w, 'a) py \<Rightarrow> ('a \<Rightarrow> ('w, 'b) py) \<Rightarrow> ('w, 'b) py" where
  "bnd m f = (\<lambda>w. case m w of (r, w') \<Rightarrow> (case r of Inl e \<Rightarrow> (Inl e, w') | Inr x \<Rightarrow> f x w'))"

definition try_catch :: "('w, 'a) py \<Rightarrow> (exc \<Rightarrow> ('w, 'a) py) \<Rightarrow> ('w, 'a) py" where
  "try_catch m h = (\<lambda>w. case m w of (r, w') \<Rightarrow> (case r of Inl e \<Rightarrow> h e w' | Inr x \<Rightarrow> (Inr x, w')))"

definition gets :: "('w \<Rightarrow> 'a) \<Rightarrow> ('w, 'a) py" where
  "gets f = (\<lambda>w. (Inr (f w), w))"

definition reads :: "('w \<Rightarrow> exc + 'a) \<Rightarrow> ('w, 'a) py" where
  "reads f = (\<lambda>w. (f w, w))"

definition modify :: "('w \<Rightarrow> 'w) \<Rightarrow> ('w, unit) py" where
  "modify f = (\<lambda>w. (Inr (), f w))"

definition of_result :: "exc + 'a \<Rightarrow> ('w, 'a) py" where
  "of_result r = (\<lambda>w. (r, w))"

text \<open>A loop over a list; its body may leave the function early with a value.\<close>

datatype ('s, 'r) flow = Continue 's | Return 'r

fun for_loop :: "('a \<Rightarrow> 's \<Rightarrow> ('w, ('s, 'r) flow) py) \<Rightarrow> 'a list \<Rightarrow> 's \<Rightarrow> ('w, ('s, 'r) flow) py" where
  "for_loop body [] s = ret (Continue s)"
| "for_loop body (x # xs) s =
     bnd (body x s) (\<lambda>fl. case fl of Continue s' \<Rightarrow> for_loop body xs s' | Return r \<Rightarrow> ret (Return r))"

fun for_each :: "('a \<Rightarrow> ('w, unit) py) \<Rightarrow> 'a list \<Rightarrow> ('w, unit) py" where
  "for_each body [] = ret ()"
| "for_each body (x # xs) = bnd (body x) (\<lambda>_. for_each body xs)"

text \<open>\<open>py_simps\<close> runs a handler: the monad's operations applied to a state.\<close>

named_theorems py_simps

lemma ret_run [py_simps]: "ret x w = (Inr x, w)"
  by (simp add: ret_def)

lemma raise_run [py_simps]: "raise_exc e w = (Inl e, w)"
  by (simp add: raise_exc_def)

lemma bnd_run [py_simps]:
  "bnd m f w = (case m w of (r, w') \<Rightarrow> (case r of Inl e \<Rightarrow> (Inl e, w') | Inr x \<Rightarrow> f x w'))"
  by (simp add: bnd_def)

lemma try_run [py_simps]:
  "try_catch m h w = (case m w of (r, w') \<Rightarrow> (case r of Inl e \<Rightarrow> h e w' | Inr x \<Rightarrow> (Inr x, w')))"
  by (simp add: try_catch_def)

lemma gets_run [py_simps]: "gets f w = (Inr (f w), w)"
  by (simp add: gets_def)

lemma reads_run [py_simps]: "reads f w = (f w, w)"
  by (simp add: reads_def)

lemma modify_run [py_simps]: "modify f w = (Inr (), f w)"
  by (simp add: modify_def)

lemma of_result_run [py_simps]: "of_result r w = (r, w)"
  by (simp add: of_result_def)

lemma bnd_ret [simp]: "bnd (ret x) f = f x"
  by (simp add: bnd_def ret_def fun_eq_iff)

lemma bnd_of_Inr [simp]: "bnd (of_result (Inr x)) f = f x"
  by (simp add: bnd_def of_result_def fun_eq_iff)

subsection \<open>What a statement leaves alone\<close>

text \<open>
  \<open>keeps v m\<close>: running \<open>m\<close> from any state leaves the view \<open>v\<close> of the state as it was, whether
  it returns or raises. The collection \<open>keeps_intros\<close> proves it along the structure of a handler.
\<close>

definition keeps :: "('w \<Rightarrow> 'v) \<Rightarrow> ('w, 'a) py \<Rightarrow> bool" where
  "keeps v m \<longleftrightarrow> (\<forall>w. v (snd (m w)) = v w)"

named_theorems keeps_intros

lemma keepsD: "keeps v m \<Longrightarrow> m w = (r, w') \<Longrightarrow> v w' = v w"
  by (metis keeps_def snd_conv)

lemma keeps_ret [keeps_intros]: "keeps v (ret x)"
  by (simp add: keeps_def py_simps)

lemma keeps_raise [keeps_intros]: "keeps v (raise_exc e)"
  by (simp add: keeps_def py_simps)

lemma keeps_gets [keeps_intros]: "keeps v (gets f)"
  by (simp add: keeps_def py_simps)

lemma keeps_reads [keeps_intros]: "keeps v (reads f)"
  by (simp add: keeps_def py_simps)

lemma keeps_of_result [keeps_intros]: "keeps v (of_result r)"
  by (simp add: keeps_def py_simps)

lemma keeps_modify: "(\<And>w. v (f w) = v w) \<Longrightarrow> keeps v (modify f)"
  by (simp add: keeps_def py_simps)

lemma keeps_bnd [keeps_intros]: "keeps v m \<Longrightarrow> (\<And>x. keeps v (f x)) \<Longrightarrow> keeps v (bnd m f)"
  by (auto simp: keeps_def py_simps split: prod.splits sum.splits) (metis snd_conv)+

lemma keeps_try [keeps_intros]: "keeps v m \<Longrightarrow> (\<And>e. keeps v (h e)) \<Longrightarrow> keeps v (try_catch m h)"
  by (auto simp: keeps_def py_simps split: prod.splits sum.splits) (metis snd_conv)+

lemma keeps_if [keeps_intros]: "(b \<Longrightarrow> keeps v m) \<Longrightarrow> (\<not> b \<Longrightarrow> keeps v n) \<Longrightarrow> keeps v (if b then m else n)"
  by simp

lemma keeps_case_option [keeps_intros]:
  "(x = None \<Longrightarrow> keeps v m) \<Longrightarrow> (\<And>y. x = Some y \<Longrightarrow> keeps v (f y)) \<Longrightarrow>
   keeps v (case x of None \<Rightarrow> m | Some y \<Rightarrow> f y)"
  by (cases x) auto

lemma keeps_case_sum [keeps_intros]:
  "(\<And>y. x = Inl y \<Longrightarrow> keeps v (f y)) \<Longrightarrow> (\<And>y. x = Inr y \<Longrightarrow> keeps v (g y)) \<Longrightarrow>
   keeps v (case x of Inl y \<Rightarrow> f y | Inr y \<Rightarrow> g y)"
  by (cases x) auto

lemma keeps_case_prod [keeps_intros]:
  "(\<And>y z. x = (y, z) \<Longrightarrow> keeps v (f y z)) \<Longrightarrow> keeps v (case x of (y, z) \<Rightarrow> f y z)"
  by (cases x) auto

lemma keeps_case_flow [keeps_intros]:
  "(\<And>y. x = Continue y \<Longrightarrow> keeps v (f y)) \<Longrightarrow> (\<And>y. x = Return y \<Longrightarrow> keeps v (g y)) \<Longrightarrow>
   keeps v (case x of Continue y \<Rightarrow> f y | Return y \<Rightarrow> g y)"
  by (cases x) auto

lemma keeps_case_list [keeps_intros]:
  "(x = [] \<Longrightarrow> keeps v m) \<Longrightarrow> (\<And>y ys. x = y # ys \<Longrightarrow> keeps v (f y ys)) \<Longrightarrow>
   keeps v (case x of [] \<Rightarrow> m | y # ys \<Rightarrow> f y ys)"
  by (cases x) auto

lemma keeps_let [keeps_intros]: "(\<And>y. keeps v (f y)) \<Longrightarrow> keeps v (let y = x in f y)"
  by simp

lemma keeps_for_loop [keeps_intros]:
  "(\<And>x s. keeps v (body x s)) \<Longrightarrow> keeps v (for_loop body xs s)"
  by (induction xs arbitrary: s) (auto intro!: keeps_intros)

lemma keeps_for_each [keeps_intros]: "(\<And>x. keeps v (body x)) \<Longrightarrow> keeps v (for_each body xs)"
  by (induction xs) (auto intro!: keeps_intros)

subsection \<open>What a statement leaves alone unless it succeeds\<close>

text \<open>
  \<open>unless P v m\<close>: every run of \<open>m\<close> whose outcome is not one of \<open>P\<close> leaves the view \<open>v\<close> as it was. A
  handler that commits as its last step satisfies it for the outcomes that report success.
\<close>

definition unless :: "(exc + 'a \<Rightarrow> bool) \<Rightarrow> ('w \<Rightarrow> 'v) \<Rightarrow> ('w, 'a) py \<Rightarrow> bool" where
  "unless P v m \<longleftrightarrow> (\<forall>w r w'. m w = (r, w') \<longrightarrow> P r \<or> v w' = v w)"

named_theorems unless_intros

lemma unlessD: "unless P v m \<Longrightarrow> m w = (r, w') \<Longrightarrow> \<not> P r \<Longrightarrow> v w' = v w"
  by (auto simp: unless_def)

lemma unless_keeps: "keeps v m \<Longrightarrow> unless P v m"
  by (auto simp: unless_def dest: keepsD)

lemma unless_ret [unless_intros]: "unless P v (ret x)"
  by (rule unless_keeps) (rule keeps_intros)

lemma unless_raise [unless_intros]: "unless P v (raise_exc e)"
  by (rule unless_keeps) (rule keeps_intros)

lemma unless_bnd [unless_intros]: "keeps v m \<Longrightarrow> (\<And>x. unless P v (f x)) \<Longrightarrow> unless P v (bnd m f)"
  by (auto simp: unless_def keeps_def py_simps split: prod.splits sum.splits) (metis snd_conv)+

lemma unless_then:
  assumes "unless Q v m" and "\<And>e. Q (Inl e) \<Longrightarrow> P (Inl e)" and "\<And>x. \<not> Q (Inr x) \<Longrightarrow> unless P v (f x)"
    and "\<And>x w. Q (Inr x) \<Longrightarrow> P (fst (f x w))"
  shows "unless P v (bnd m f)"
  unfolding unless_def
proof (intro allI impI)
  fix w r w' assume run: "bnd m f w = (r, w')"
  obtain r1 w1 where m: "m w = (r1, w1)" by fastforce
  show "P r \<or> v w' = v w"
  proof (cases r1)
    case (Inl e)
    then show ?thesis using run m assms(1,2) by (auto simp: unless_def py_simps)
  next
    case (Inr x)
    then have "f x w1 = (r, w')" using run m by (simp add: py_simps)
    then show ?thesis using m Inr assms(1) assms(3,4) [of x] by (auto simp: unless_def) (metis fst_conv)+
  qed
qed

lemma unless_try [unless_intros]:
  assumes "unless (\<lambda>r. P r \<and> \<not> isl r) v m" and "\<And>e. unless P v (h e)"
  shows "unless P v (try_catch m h)"
  unfolding unless_def
proof (intro allI impI)
  fix w r w' assume run: "try_catch m h w = (r, w')"
  obtain r1 w1 where m: "m w = (r1, w1)" by fastforce
  show "P r \<or> v w' = v w"
  proof (cases r1)
    case (Inl e)
    then have "v w1 = v w" using unlessD [OF assms(1) m] by simp
    moreover have "h e w1 = (r, w')" using Inl run m by (simp add: py_simps)
    ultimately show ?thesis using unlessD [OF assms(2) [of e]] by metis
  next
    case (Inr x)
    then show ?thesis using run unlessD [OF assms(1) m] by (auto simp: py_simps m)
  qed
qed

lemma unless_if [unless_intros]:
  "(b \<Longrightarrow> unless P v m) \<Longrightarrow> (\<not> b \<Longrightarrow> unless P v n) \<Longrightarrow> unless P v (if b then m else n)"
  by simp

lemma unless_case_option [unless_intros]:
  "(x = None \<Longrightarrow> unless P v m) \<Longrightarrow> (\<And>y. x = Some y \<Longrightarrow> unless P v (f y)) \<Longrightarrow>
   unless P v (case x of None \<Rightarrow> m | Some y \<Rightarrow> f y)"
  by (cases x) auto

lemma unless_case_sum [unless_intros]:
  "(\<And>y. x = Inl y \<Longrightarrow> unless P v (f y)) \<Longrightarrow> (\<And>y. x = Inr y \<Longrightarrow> unless P v (g y)) \<Longrightarrow>
   unless P v (case x of Inl y \<Rightarrow> f y | Inr y \<Rightarrow> g y)"
  by (cases x) auto

lemma unless_case_prod [unless_intros]:
  "(\<And>y z. x = (y, z) \<Longrightarrow> unless P v (f y z)) \<Longrightarrow> unless P v (case x of (y, z) \<Rightarrow> f y z)"
  by (cases x) auto

lemma unless_case_flow [unless_intros]:
  "(\<And>y. x = Continue y \<Longrightarrow> unless P v (f y)) \<Longrightarrow> (\<And>y. x = Return y \<Longrightarrow> unless P v (g y)) \<Longrightarrow>
   unless P v (case x of Continue y \<Rightarrow> f y | Return y \<Rightarrow> g y)"
  by (cases x) auto

lemma unless_let [unless_intros]: "(\<And>y. unless P v (f y)) \<Longrightarrow> unless P v (let y = x in f y)"
  by simp

subsection \<open>What a statement returns\<close>

text \<open>\<open>yields P m\<close>: whatever \<open>m\<close> returns without raising satisfies \<open>P\<close>.\<close>

definition yields :: "('a \<Rightarrow> bool) \<Rightarrow> ('w, 'a) py \<Rightarrow> bool" where
  "yields P m \<longleftrightarrow> (\<forall>w x w'. m w = (Inr x, w') \<longrightarrow> P x)"

named_theorems yields_intros

lemma yieldsD: "yields P m \<Longrightarrow> m w = (Inr x, w') \<Longrightarrow> P x"
  by (auto simp: yields_def)

lemma yields_ret [yields_intros]: "P x \<Longrightarrow> yields P (ret x)"
  by (simp add: yields_def py_simps)

lemma yields_raise [yields_intros]: "yields P (raise_exc e)"
  by (simp add: yields_def py_simps)

lemma yields_of_result: "(\<And>x. r = Inr x \<Longrightarrow> P x) \<Longrightarrow> yields P (of_result r)"
  by (simp add: yields_def py_simps)

lemma yields_reads: "(\<And>x w. f w = Inr x \<Longrightarrow> P x) \<Longrightarrow> yields P (reads f)"
  by (auto simp: yields_def py_simps)

lemma yields_bnd [yields_intros]: "(\<And>x. yields P (f x)) \<Longrightarrow> yields P (bnd m f)"
  by (auto simp: yields_def py_simps split: prod.splits sum.splits)

lemma yields_then:
  assumes "yields Q m" and "\<And>x. Q x \<Longrightarrow> yields P (f x)"
  shows "yields P (bnd m f)"
  unfolding yields_def
proof (intro allI impI)
  fix w x w' assume "bnd m f w = (Inr x, w')"
  then obtain y w1 where "m w = (Inr y, w1)" "f y w1 = (Inr x, w')"
    by (auto simp: py_simps split: prod.splits sum.splits)
  then show "P x" using assms by (auto dest: yieldsD)
qed

lemma yields_try [yields_intros]: "yields P m \<Longrightarrow> (\<And>e. yields P (h e)) \<Longrightarrow> yields P (try_catch m h)"
  by (auto simp: yields_def py_simps split: prod.splits sum.splits)

lemma yields_if [yields_intros]:
  "(b \<Longrightarrow> yields P m) \<Longrightarrow> (\<not> b \<Longrightarrow> yields P n) \<Longrightarrow> yields P (if b then m else n)"
  by simp

lemma yields_case_option [yields_intros]:
  "(x = None \<Longrightarrow> yields P m) \<Longrightarrow> (\<And>y. x = Some y \<Longrightarrow> yields P (f y)) \<Longrightarrow>
   yields P (case x of None \<Rightarrow> m | Some y \<Rightarrow> f y)"
  by (cases x) auto

lemma yields_case_sum [yields_intros]:
  "(\<And>y. x = Inl y \<Longrightarrow> yields P (f y)) \<Longrightarrow> (\<And>y. x = Inr y \<Longrightarrow> yields P (g y)) \<Longrightarrow>
   yields P (case x of Inl y \<Rightarrow> f y | Inr y \<Rightarrow> g y)"
  by (cases x) auto

lemma yields_case_prod [yields_intros]:
  "(\<And>y z. x = (y, z) \<Longrightarrow> yields P (f y z)) \<Longrightarrow> yields P (case x of (y, z) \<Rightarrow> f y z)"
  by (cases x) auto

lemma yields_let [yields_intros]: "(\<And>y. y = x \<Longrightarrow> yields P (f y)) \<Longrightarrow> yields P (let y = x in f y)"
  by simp

section \<open>Strings\<close>

text \<open>\<open>s.split(c)\<close> for a one-character separator: always at least one piece.\<close>

fun py_split :: "char \<Rightarrow> string \<Rightarrow> string list" where
  "py_split c [] = [[]]"
| "py_split c (x # xs) =
     (if x = c then [] # py_split c xs
      else (case py_split c xs of [] \<Rightarrow> [[x]] | p # ps \<Rightarrow> (x # p) # ps))"

text \<open>\<open>s.split(c, maxsplit=1)\<close>.\<close>

fun py_split1 :: "char \<Rightarrow> string \<Rightarrow> string list" where
  "py_split1 c [] = [[]]"
| "py_split1 c (x # xs) =
     (if x = c then [[], xs]
      else (case py_split1 c xs of [] \<Rightarrow> [[x]] | p # ps \<Rightarrow> (x # p) # ps))"

fun py_join :: "string \<Rightarrow> string list \<Rightarrow> string" where
  "py_join sep [] = []"
| "py_join sep [x] = x"
| "py_join sep (x # y # ys) = x @ sep @ py_join sep (y # ys)"

lemma py_split_nonempty [simp]: "py_split c s \<noteq> []"
  by (induction s) (auto split: list.splits)

lemma py_split_no_sep: "c \<notin> set s \<Longrightarrow> py_split c s = [s]"
  by (induction s) auto

lemma py_split_append_sep: "c \<notin> set s \<Longrightarrow> py_split c (s @ c # t) = s # py_split c t"
  by (induction s) auto

lemma py_split_join:
  "xs \<noteq> [] \<Longrightarrow> (\<forall>x \<in> set xs. c \<notin> set x) \<Longrightarrow> py_split c (py_join [c] xs) = xs"
proof (induction "[c]" xs rule: py_join.induct)
  case (3 x y ys)
  then show ?case by (simp add: py_split_append_sep)
qed (simp_all add: py_split_no_sep)

lemma py_join_split: "py_join [c] (py_split c s) = s"
proof (induction s)
  case (Cons x s)
  then show ?case
    by (cases "py_split c s") (auto split: list.splits, (metis append_Cons append_Nil list.exhaust py_join.simps(2,3))+)
qed simp

lemma py_split1_append_sep: "c \<notin> set s \<Longrightarrow> py_split1 c (s @ c # t) = [s, t]"
  by (induction s) auto

fun occurs :: "string \<Rightarrow> string \<Rightarrow> bool" where
  "occurs p [] = (p = [])"
| "occurs p (x # xs) = (take (length p) (x # xs) = p \<or> occurs p xs)"

text \<open>\<open>s[-n:]\<close> for a positive \<open>n\<close>.\<close>

definition last_n :: "nat \<Rightarrow> 'a list \<Rightarrow> 'a list" where
  "last_n n s = drop (length s - n) s"

definition chr_lower :: "char \<Rightarrow> char" where
  "chr_lower c = (if 65 \<le> (of_char c :: nat) \<and> (of_char c :: nat) \<le> 90
                  then char_of ((of_char c :: nat) + 32) else c)"

definition chr_upper :: "char \<Rightarrow> char" where
  "chr_upper c = (if 97 \<le> (of_char c :: nat) \<and> (of_char c :: nat) \<le> 122
                  then char_of ((of_char c :: nat) - 32) else c)"

definition str_lower :: "string \<Rightarrow> string" where
  "str_lower = map chr_lower"

definition str_upper :: "string \<Rightarrow> string" where
  "str_upper = map chr_upper"

fun capitalize :: "string \<Rightarrow> string" where
  "capitalize [] = []"
| "capitalize (c # cs) = chr_upper c # str_lower cs"

definition is_space :: "char \<Rightarrow> bool" where
  "is_space c \<longleftrightarrow> of_char c \<in> ({9, 10, 11, 12, 13, 28, 29, 30, 31, 32} :: nat set)"

definition str_strip :: "string \<Rightarrow> string" where
  "str_strip s = rev (dropWhile is_space (rev (dropWhile is_space s)))"

definition strip_char :: "char \<Rightarrow> string \<Rightarrow> string" where
  "strip_char c s = rev (dropWhile ((=) c) (rev (dropWhile ((=) c) s)))"

definition ends_with :: "string \<Rightarrow> string \<Rightarrow> bool" where
  "ends_with s t \<longleftrightarrow> length t \<le> length s \<and> last_n (length t) s = t"

text \<open>
  Patterns of redis (KEYS, SCAN MATCH): a star matches any text, a question mark any character, a
  backslash takes the next character as it is. Character classes in brackets are not covered.
\<close>

fun glob :: "string \<Rightarrow> string \<Rightarrow> bool" where
  "glob [] s = (s = [])"
| "glob (p # ps) s =
     (if p = CHR ''*'' then glob ps s \<or> (case s of [] \<Rightarrow> False | _ # cs \<Rightarrow> glob (p # ps) cs)
      else (case s of [] \<Rightarrow> False
            | c # cs \<Rightarrow> if p = CHR ''?'' then glob ps cs
                      else if p = CHR 0x5C then (case ps of [] \<Rightarrow> c = p \<and> cs = [] | q # qs \<Rightarrow> q = c \<and> glob qs cs)
                      else p = c \<and> glob ps cs))"

definition glob_plain :: "string \<Rightarrow> bool" where
  "glob_plain s \<longleftrightarrow> set s \<inter> {CHR ''*'', CHR ''?'', CHR 0x5C, CHR ''[''} = {}"

lemma glob_star: "glob (CHR ''*'' # ps) s \<longleftrightarrow> (\<exists>u v. s = u @ v \<and> glob ps v)"
proof (induction s)
  case (Cons c s)
  have "(\<exists>u v. c # s = u @ v \<and> glob ps v) \<longleftrightarrow> glob ps (c # s) \<or> (\<exists>u v. s = u @ v \<and> glob ps v)"
    by (metis (no_types, lifting) append_Cons append_Nil neq_Nil_conv list.inject)
  then show ?case using Cons by simp
qed simp

lemma glob_literal: "glob_plain p \<Longrightarrow> glob p s \<longleftrightarrow> s = p"
proof (induction p arbitrary: s)
  case (Cons x p)
  then show ?case by (cases s) (auto simp: glob_plain_def)
qed simp

text \<open>A plain ending of a pattern is an ending of what it matches (unless a backslash precedes it).\<close>

lemma glob_suffix:
  assumes "glob (p @ l) s" and "glob_plain l" and "CHR 0x5C \<notin> set p"
  shows "\<exists>s'. s = s' @ l"
  using assms
proof (induction p arbitrary: s)
  case Nil
  then show ?case using glob_literal by auto
next
  case (Cons x p)
  obtain u v where s: "s = u @ v" and v: "glob (p @ l) v"
  proof (cases "x = CHR ''*''")
    case True
    then show ?thesis using Cons.prems(1) glob_star [of "p @ l" s] that by auto
  next
    case False
    then obtain c cs where "s = c # cs" "glob (p @ l) cs"
      using Cons.prems(1,3) by (cases s) (auto split: if_splits)
    then show ?thesis using that [of "[c]" cs] by simp
  qed
  then obtain v' where "v = v' @ l" using Cons.IH [OF v] Cons.prems by auto
  then show ?case using s by (metis append_assoc)
qed

lemma chr_lower_idem [simp]: "chr_lower (chr_lower c) = chr_lower c"
  by (auto simp: chr_lower_def)

lemma str_lower_idem [simp]: "str_lower (str_lower s) = str_lower s"
  by (simp add: str_lower_def)

lemma str_lower_append: "str_lower (s @ t) = str_lower s @ str_lower t"
  by (simp add: str_lower_def)

section \<open>Integers as text\<close>

definition digit_chr :: "nat \<Rightarrow> char" where
  "digit_chr d = char_of (48 + d)"

fun show_nat :: "nat \<Rightarrow> string" where
  "show_nat n = (if n < 10 then [digit_chr n] else show_nat (n div 10) @ [digit_chr (n mod 10)])"

declare show_nat.simps [simp del]

definition show_int :: "int \<Rightarrow> string" where
  "show_int i = (if i < 0 then CHR ''-'' # show_nat (nat (- i)) else show_nat (nat i))"

definition digit_val :: "char \<Rightarrow> nat option" where
  "digit_val c = (let n = (of_char c :: nat) in
     if 48 \<le> n \<and> n \<le> 57 then Some (n - 48)
     else if 97 \<le> n \<and> n \<le> 122 then Some (n - 87)
     else if 65 \<le> n \<and> n \<le> 90 then Some (n - 55)
     else None)"

text \<open>
  The digits of a literal in base \<open>b\<close>: single underscores may separate digits; \<open>sep\<close> says that
  the last character read was a digit (or a base prefix), so that an underscore may follow.
\<close>

fun read_digits :: "nat \<Rightarrow> nat \<Rightarrow> bool \<Rightarrow> string \<Rightarrow> nat option" where
  "read_digits b acc sep [] = (if sep then Some acc else None)"
| "read_digits b acc sep (c # cs) =
     (if c = CHR ''_'' then (if sep \<and> cs \<noteq> [] then read_digits b acc False cs else None)
      else (case digit_val c of
              None \<Rightarrow> None
            | Some d \<Rightarrow> if d < b then read_digits b (acc * b + d) True cs else None))"

definition read_nat :: "nat \<Rightarrow> string \<Rightarrow> nat option" where
  "read_nat b s = (if s = [] then None else read_digits b 0 False s)"

fun with_sign :: "(string \<Rightarrow> nat option) \<Rightarrow> string \<Rightarrow> int option" where
  "with_sign rd [] = None"
| "with_sign rd (c # cs) =
     (if c = CHR ''-'' then map_option (\<lambda>n. - int n) (rd cs)
      else if c = CHR ''+'' then map_option int (rd cs)
      else map_option int (rd (c # cs)))"

text \<open>\<open>int(s)\<close>; \<open>None\<close> is ValueError.\<close>

definition py_int :: "string \<Rightarrow> int option" where
  "py_int s = with_sign (read_nat 10) (str_strip s)"

text \<open>
  \<open>int(s, 0)\<close>: the base comes from the literal's prefix; a decimal literal with a leading zero
  is accepted only if it is zero. \<open>None\<close> is ValueError.
\<close>

definition read_literal :: "string \<Rightarrow> nat option" where
  "read_literal s =
     (case s of
        CHR ''0'' # p # ds \<Rightarrow>
          (if p \<in> {CHR ''x'', CHR ''X''} then (if ds = [] then None else read_digits 16 0 True ds)
           else if p \<in> {CHR ''o'', CHR ''O''} then (if ds = [] then None else read_digits 8 0 True ds)
           else if p \<in> {CHR ''b'', CHR ''B''} then (if ds = [] then None else read_digits 2 0 True ds)
           else (case read_nat 10 s of Some 0 \<Rightarrow> Some 0 | _ \<Rightarrow> None))
      | _ \<Rightarrow> read_nat 10 s)"

definition py_int0 :: "string \<Rightarrow> int option" where
  "py_int0 s = with_sign read_literal (str_strip s)"

lemma digit_val_chr: "d < 10 \<Longrightarrow> digit_val (digit_chr d) = Some d"
  by (auto simp: digit_val_def digit_chr_def Let_def)

lemma digit_chr_not_us: "d < 10 \<Longrightarrow> digit_chr d \<noteq> CHR ''_''"
proof
  assume "d < 10" and "digit_chr d = CHR ''_''"
  then have "digit_val (CHR ''_'') = Some d" by (metis digit_val_chr)
  then show False by (simp add: digit_val_def)
qed

lemma read_digits_snoc:
  "d < 10 \<Longrightarrow> read_digits 10 acc sep s = Some n \<Longrightarrow> s \<noteq> [] \<Longrightarrow>
   read_digits 10 acc sep (s @ [digit_chr d]) = Some (n * 10 + d)"
proof (induction s arbitrary: acc sep)
  case Nil
  then show ?case by simp
next
  case (Cons c s)
  then show ?case
    by (cases "s = []") (auto simp: digit_val_chr digit_chr_not_us split: if_splits option.splits)
qed

lemma show_nat_nonempty: "show_nat n \<noteq> []"
  by (subst show_nat.simps) simp

lemma read_show_nat: "read_digits 10 0 False (show_nat n) = Some n"
proof (induction n rule: show_nat.induct)
  case (1 n)
  show ?case
  proof (cases "n < 10")
    case True
    then show ?thesis
      by (subst show_nat.simps) (simp add: digit_val_chr digit_chr_not_us)
  next
    case False
    with 1 have "read_digits 10 0 False (show_nat (n div 10)) = Some (n div 10)" by simp
    then have "read_digits 10 0 False (show_nat (n div 10) @ [digit_chr (n mod 10)]) =
      Some ((n div 10) * 10 + n mod 10)"
      by (intro read_digits_snoc) (auto simp: show_nat_nonempty)
    with False show ?thesis by (subst show_nat.simps) simp
  qed
qed

lemma show_nat_digits: "c \<in> set (show_nat n) \<Longrightarrow> \<exists>d < 10. c = digit_chr d"
proof (induction n rule: show_nat.induct)
  case (1 n)
  then show ?case
    by (subst (asm) (2) show_nat.simps) (auto split: if_splits intro: exI [of _ "n mod 10"])
qed

lemma digit_chr_plain:
  assumes "d < 10"
  shows "digit_chr d \<noteq> CHR ''-''" "digit_chr d \<noteq> CHR ''+''" "digit_chr d \<noteq> CHR '':''"
    "\<not> is_space (digit_chr d)"
proof -
  have n: "(of_char (digit_chr d) :: nat) = 48 + d" using assms by (simp add: digit_chr_def)
  show "\<not> is_space (digit_chr d)" using assms by (auto simp: is_space_def n)
  show "digit_chr d \<noteq> CHR ''-''" "digit_chr d \<noteq> CHR ''+''" "digit_chr d \<noteq> CHR '':''"
    using n assms by (auto dest: arg_cong [where f = "of_char :: char \<Rightarrow> nat"])
qed

lemma show_nat_plain:
  "CHR '':'' \<notin> set (show_nat n)" "\<forall>c \<in> set (show_nat n). \<not> is_space c"
proof -
  have "c \<noteq> CHR '':'' \<and> \<not> is_space c" if "c \<in> set (show_nat n)" for c
  proof -
    from that obtain d where "d < 10" "c = digit_chr d" using show_nat_digits by blast
    then show ?thesis using digit_chr_plain by simp
  qed
  then show "CHR '':'' \<notin> set (show_nat n)" "\<forall>c \<in> set (show_nat n). \<not> is_space c" by auto
qed

lemma strip_no_space: "\<forall>c \<in> set s. \<not> is_space c \<Longrightarrow> str_strip s = s"
proof -
  assume a: "\<forall>c \<in> set s. \<not> is_space c"
  then have "dropWhile is_space s = s" by (cases s) auto
  moreover from a have "\<forall>c \<in> set (rev s). \<not> is_space c" by simp
  then have "dropWhile is_space (rev s) = rev s" by (cases "rev s") auto
  ultimately show ?thesis by (simp add: str_strip_def)
qed

lemma py_int_show_nat: "py_int (show_nat n) = Some (int n)"
proof -
  obtain c cs where s: "show_nat n = c # cs" using show_nat_nonempty by (cases "show_nat n") auto
  then obtain d where d: "d < 10" "c = digit_chr d" using show_nat_digits [of c n] by auto
  have "read_nat 10 (c # cs) = Some n" using read_show_nat [of n] s by (simp add: read_nat_def)
  moreover have "str_strip (c # cs) = c # cs" using show_nat_plain(2) [of n] s by (simp add: strip_no_space)
  ultimately show ?thesis using d s by (simp add: py_int_def digit_chr_plain)
qed

end
