(* ===== verification/Services.thy ===== *)
theory Services imports Prelude begin

text \<open>
  What the program runs against: the SQL database behind SQLAlchemy, the redis server, the TTL
  caches of cachetools and the cryptographic packages. None of them is under src/, so each is a
  record of operations passed to the definitions that use it; the locales below state the
  documented behaviour that theorems rely on, and an in-memory redis shows that the laws can hold.
  The world is the state one request sees, the environment is what stays fixed during it.
\<close>

section \<open>Queries\<close>

text \<open>
  SQLAlchemy queries are built up before they are run; the model keeps them as data. A column is
  a model name and an attribute name. \<open>CEq c PNone\<close> is SQL's IS NULL, as \<open>filter_by(c=None)\<close> is.
\<close>

type_synonym colref = "string \<times> string"

datatype cond =
    CEq colref pyval
  | CNe colref pyval
  | CGt colref pyval
  | CLt colref pyval
  | CLike colref string
  | CIn colref "pyval list"
  | CEqCol colref colref
  | COr "cond list"

record query =
  q_model :: string
  q_joins :: "string list"
  q_conds :: "cond list"
  q_order :: "(colref \<times> bool) list"
  q_slice :: "(int \<times> int) option"

definition query_of :: "string \<Rightarrow> query" where
  "query_of m = \<lparr>q_model = m, q_joins = [], q_conds = [], q_order = [], q_slice = None\<rparr>"

definition filter_by :: "dict \<Rightarrow> query \<Rightarrow> query" where
  "filter_by kvs q = q\<lparr>q_conds := q_conds q @ map (\<lambda>(k, v). CEq (q_model q, k) v) kvs\<rparr>"

definition where_cond :: "cond \<Rightarrow> query \<Rightarrow> query" where
  "where_cond c q = q\<lparr>q_conds := q_conds q @ [c]\<rparr>"

definition join_model :: "string \<Rightarrow> query \<Rightarrow> query" where
  "join_model m q = q\<lparr>q_joins := q_joins q @ [m]\<rparr>"

definition order_by :: "colref \<Rightarrow> bool \<Rightarrow> query \<Rightarrow> query" where
  "order_by c descending q = q\<lparr>q_order := q_order q @ [(c, descending)]\<rparr>"

definition slice_of :: "int \<Rightarrow> int \<Rightarrow> query \<Rightarrow> query" where
  "slice_of a b q = q\<lparr>q_slice := Some (a, b)\<rparr>"

lemma query_simps [simp]:
  "q_model (query_of m) = m" "q_model (filter_by kvs q) = q_model q" "q_model (where_cond c q) = q_model q"
  "q_model (order_by col b q) = q_model q" "q_model (slice_of x y q) = q_model q" "q_model (join_model n q) = q_model q"
  "q_conds (query_of m) = []" "q_conds (filter_by kvs q) = q_conds q @ map (\<lambda>(k, v). CEq (q_model q, k) v) kvs"
  "q_conds (where_cond c q) = q_conds q @ [c]" "q_conds (order_by col b q) = q_conds q"
  "q_conds (slice_of x y q) = q_conds q" "q_conds (join_model n q) = q_conds q"
  by (simp_all add: query_of_def filter_by_def where_cond_def order_by_def slice_of_def join_model_def)

section \<open>Operations of the services\<close>

record 'd dbops =
  db_all :: "query \<Rightarrow> 'd \<Rightarrow> exc + dict list"
  db_count :: "query \<Rightarrow> 'd \<Rightarrow> exc + nat"
  db_update :: "query \<Rightarrow> dict \<Rightarrow> 'd \<Rightarrow> (exc + nat) \<times> 'd"
  db_delete :: "query \<Rightarrow> 'd \<Rightarrow> (exc + nat) \<times> 'd"
  db_add :: "string \<Rightarrow> dict \<Rightarrow> 'd \<Rightarrow> 'd"
  db_set :: "string \<Rightarrow> pyval \<Rightarrow> string \<Rightarrow> pyval \<Rightarrow> 'd \<Rightarrow> 'd"
  db_related :: "string \<Rightarrow> pyval \<Rightarrow> string \<Rightarrow> 'd \<Rightarrow> exc + dict list"
  db_append :: "string \<Rightarrow> pyval \<Rightarrow> string \<Rightarrow> pyval \<Rightarrow> 'd \<Rightarrow> (exc + unit) \<times> 'd"
  db_remove :: "string \<Rightarrow> pyval \<Rightarrow> string \<Rightarrow> pyval \<Rightarrow> 'd \<Rightarrow> (exc + unit) \<times> 'd"
  db_flush :: "'d \<Rightarrow> (exc + unit) \<times> 'd"
  db_commit :: "'d \<Rightarrow> (exc + unit) \<times> 'd"
  db_rollback :: "'d \<Rightarrow> 'd"

datatype rcmd = RIncr string | RExpire string int | RDelete string

text \<open>Redis commands take the current time: keys expire.\<close>

record 'r redisops =
  rd_get :: "string \<Rightarrow> int \<Rightarrow> 'r \<Rightarrow> exc + string option"
  rd_set :: "string \<Rightarrow> string \<Rightarrow> int option \<Rightarrow> bool \<Rightarrow> int \<Rightarrow> 'r \<Rightarrow> (exc + bool) \<times> 'r"
  rd_delete :: "string \<Rightarrow> int \<Rightarrow> 'r \<Rightarrow> (exc + nat) \<times> 'r"
  rd_incrby :: "string \<Rightarrow> int \<Rightarrow> int \<Rightarrow> 'r \<Rightarrow> (exc + unit) \<times> 'r"
  rd_incrbyfloat :: "string \<Rightarrow> rat \<Rightarrow> int \<Rightarrow> 'r \<Rightarrow> (exc + unit) \<times> 'r"
  rd_pipe :: "rcmd list \<Rightarrow> int \<Rightarrow> 'r \<Rightarrow> (exc + unit) \<times> 'r"
  rd_scan :: "string \<Rightarrow> int \<Rightarrow> 'r \<Rightarrow> exc + string list"

record 'c cacheops =
  tc_get :: "pyval \<Rightarrow> int \<Rightarrow> 'c \<Rightarrow> pyval option"
  tc_put :: "pyval \<Rightarrow> pyval \<Rightarrow> int \<Rightarrow> 'c \<Rightarrow> 'c"
  tc_pop :: "pyval \<Rightarrow> 'c \<Rightarrow> 'c"

text \<open>
  Packages that compute: the block cipher (Cryptodome, AES in CBC mode), the digests of hashlib,
  passlib, pyotp, itsdangerous and PyJWT. (\<open>cr_float_repr\<close> is how CPython prints a float.)
\<close>

record cryptops =
  cr_cbc_encrypt :: "string \<Rightarrow> string \<Rightarrow> string \<Rightarrow> exc + string"
  cr_cbc_decrypt :: "string \<Rightarrow> string \<Rightarrow> string \<Rightarrow> exc + string"
  cr_sha256 :: "string \<Rightarrow> string"
  cr_sha1 :: "string \<Rightarrow> string"
  cr_md5 :: "string \<Rightarrow> string"
  cr_pw_verify :: "string \<Rightarrow> string \<Rightarrow> bool"
  cr_pw_hash :: "string \<Rightarrow> nat \<Rightarrow> string"
  cr_totp_now :: "string \<Rightarrow> int \<Rightarrow> string"
  cr_totp_verify :: "string \<Rightarrow> string \<Rightarrow> int \<Rightarrow> int \<Rightarrow> bool"
  cr_token_dumps :: "string \<Rightarrow> string \<Rightarrow> string \<Rightarrow> int \<Rightarrow> string"
  cr_token_loads :: "string \<Rightarrow> string \<Rightarrow> int \<Rightarrow> string \<Rightarrow> int \<Rightarrow> exc + string"
  cr_jwt_encode :: "dict \<Rightarrow> string \<Rightarrow> string"
  cr_float_repr :: "rat \<Rightarrow> string"

section \<open>Configuration, request, environment\<close>

record metric =
  mt_notify :: int
  mt_period :: string
  mt_scope :: string
  mt_style :: string

text \<open>The attributes of the ServiceConfig singleton that the modelled components read.\<close>

record config =
  cf_APPNAME :: string
  cf_APPROVED_SENDERS :: string
  cf_AUTH_METHODS :: "string list"
  cf_AUTH_PARAMS :: "string list"
  cf_AUTH_LANDING_PAGE :: string
  cf_BASE_URL :: string
  cf_DB_AES_SECRET :: string
  cf_DEFAULT_GRANTS :: dict
  cf_HEADER_AUTH_APIKEY :: string
  cf_JWT_ISSUER :: string
  cf_JWT_SECRET :: string
  cf_LOGIN_ADMIN_LIMIT :: int
  cf_LOGIN_ATTEMPTS_MAX :: int
  cf_LOGIN_EXTERNAL_POLICY :: string
  cf_LOGIN_INTERNAL_POLICY :: string
  cf_LOGIN_LOCKOUT_INTERVAL :: int
  cf_LOGIN_MFA_APIKEY :: bool
  cf_LOGIN_MFA_BACKUP_CODES :: nat
  cf_LOGIN_MFA_COOKIE_LIMIT :: int
  cf_LOGIN_MFA_COOKIE_NAME :: string
  cf_LOGIN_MFA_EXTERNAL :: bool
  cf_LOGIN_MFA_REQUIRED :: bool
  cf_LOGIN_SESSION_LIMIT :: int
  cf_METRICS :: "(string \<times> metric) list"
  cf_LDAP_PARAMS :: dict
  cf_PUBLIC_HOST :: string
  cf_PUBLIC_URL :: string
  cf_RATELIMIT_ENABLE :: bool
  cf_RATELIMIT_INTERVAL :: int
  cf_REDIS_AES_SECRET :: string
  cf_REDIS_TTL :: int
  cf_SCOPES_MAX :: int
  cf_TOKEN_SALT :: string
  cf_TOKEN_SECRET :: string
  cf_TOKEN_TIMEOUT :: int

text \<open>The Flask request: its headers, Basic credentials, cookies, URL rule and language match.\<close>

record request =
  rq_headers :: "(string \<times> string) list"
  rq_authorization :: "(string \<times> string) option"
  rq_cookies :: "(string \<times> string) list"
  rq_rule :: string
  rq_language :: "string option"

text \<open>One entry of the RBAC policy table built by \<open>AccessControl.load_rbac\<close>.\<close>

record policy =
  pol_principal :: string
  pol_resource :: string
  pol_actions :: "char set"

text \<open>
  \<open>e_attrs\<close> answers \<open>hasattr(model, name)\<close>; \<open>e_exclude\<close>, \<open>e_related\<close> and \<open>e_hybrid\<close> are a
  model's \<open>__rest_exclude__\<close>, \<open>__rest_related__\<close> and \<open>__rest_hybrid__\<close>, \<open>e_controllers\<close> is the
  registry \<open>state.controllers\<close> (resource name to model class name, in registration order),
  \<open>e_instance\<close> the id under which this instance is registered.
\<close>

record ('d, 'r, 'c) env =
  e_db :: "'d dbops"
  e_redis :: "'r redisops"
  e_cache :: "'c cacheops"
  e_crypt :: cryptops
  e_cfg :: config
  e_req :: request
  e_policies :: "(string \<times> policy list) list"
  e_levels :: "string list"
  e_private :: "(string \<times> string) list"
  e_controllers :: "(string \<times> string) list"
  e_models :: "string list"
  e_attrs :: "string \<Rightarrow> string \<Rightarrow> bool"
  e_exclude :: "string \<Rightarrow> string list"
  e_related :: "string \<Rightarrow> string list option"
  e_hybrid :: "string \<Rightarrow> string list"
  e_func_send :: bool
  e_instance :: string

text \<open>
  \<open>w_now\<close> is the clock in microseconds, \<open>w_start\<close> the arrival of the request. \<open>w_rnd\<close> is the
  stream of random numbers and \<open>w_pos\<close> the next one to be drawn, \<open>w_admin\<close> and \<open>w_account\<close> are the
  attributes of the AccountSettings singleton, \<open>w_apikeys\<close> the process-wide
  APIKEYS dict, \<open>w_sent\<close> the messages handed to \<open>func_send\<close> and \<open>w_calls\<close> the calls that change
  something outside (mail, stored objects, queued work), both oldest first.
\<close>

record apikey_item =
  ak_account_id :: pyval
  ak_expires :: int
  ak_identity :: pyval
  ak_roles :: "string list"
  ak_scopes :: "pyval list"
  ak_totp :: bool
  ak_uid :: pyval

record ('d, 'r, 'c) world =
  w_db :: 'd
  w_redis :: 'r
  w_grants :: 'c
  w_settings :: 'c
  w_admin :: pyval
  w_account :: "(dict \<times> pyval \<times> pyval) option"
  w_apikeys :: "(string \<times> apikey_item) list"
  w_now :: int
  w_start :: int
  w_rnd :: "nat \<Rightarrow> nat"
  w_pos :: nat
  w_sent :: "dict list"
  w_calls :: "(string \<times> dict) list"

section \<open>Statements over the world\<close>

abbreviation run_all :: "('d, 'r, 'c) env \<Rightarrow> query \<Rightarrow> (('d, 'r, 'c) world, dict list) py" where
  "run_all E q \<equiv> reads (\<lambda>w. db_all (e_db E) q (w_db w))"

abbreviation run_count :: "('d, 'r, 'c) env \<Rightarrow> query \<Rightarrow> (('d, 'r, 'c) world, nat) py" where
  "run_count E q \<equiv> reads (\<lambda>w. db_count (e_db E) q (w_db w))"

text \<open>\<open>query.one()\<close>: exactly one row, or an exception.\<close>

definition one_of :: "exc + dict list \<Rightarrow> exc + dict" where
  "one_of r = (case r of
       Inl e \<Rightarrow> Inl e
     | Inr [] \<Rightarrow> Inl (Exc ENoResultFound ''No row was found for one()'')
     | Inr [x] \<Rightarrow> Inr x
     | Inr _ \<Rightarrow> Inl (Exc EMultipleResultsFound ''Multiple rows were found for one()''))"

definition run_one :: "('d, 'r, 'c) env \<Rightarrow> query \<Rightarrow> (('d, 'r, 'c) world, dict) py" where
  "run_one E q = reads (\<lambda>w. one_of (db_all (e_db E) q (w_db w)))"

text \<open>\<open>query.first()\<close>: the first row or None.\<close>

definition run_first :: "('d, 'r, 'c) env \<Rightarrow> query \<Rightarrow> (('d, 'r, 'c) world, dict option) py" where
  "run_first E q = reads (\<lambda>w. case db_all (e_db E) q (w_db w) of
       Inl e \<Rightarrow> Inl e | Inr [] \<Rightarrow> Inr None | Inr (x # _) \<Rightarrow> Inr (Some x))"

definition on_db :: "('d \<Rightarrow> (exc + 'a) \<times> 'd) \<Rightarrow> (('d, 'r, 'c) world, 'a) py" where
  "on_db f = (\<lambda>w. let (r, d) = f (w_db w) in (r, w\<lparr>w_db := d\<rparr>))"

definition on_redis :: "(int \<Rightarrow> 'r \<Rightarrow> (exc + 'a) \<times> 'r) \<Rightarrow> (('d, 'r, 'c) world, 'a) py" where
  "on_redis f = (\<lambda>w. let (r, s) = f (w_now w) (w_redis w) in (r, w\<lparr>w_redis := s\<rparr>))"

abbreviation redis_get :: "('d, 'r, 'c) env \<Rightarrow> string \<Rightarrow> (('d, 'r, 'c) world, string option) py" where
  "redis_get E k \<equiv> reads (\<lambda>w. rd_get (e_redis E) k (w_now w) (w_redis w))"

abbreviation redis_set ::
    "('d, 'r, 'c) env \<Rightarrow> string \<Rightarrow> string \<Rightarrow> int option \<Rightarrow> bool \<Rightarrow> (('d, 'r, 'c) world, bool) py" where
  "redis_set E k v ttl nx \<equiv> on_redis (rd_set (e_redis E) k v ttl nx)"

abbreviation redis_delete :: "('d, 'r, 'c) env \<Rightarrow> string \<Rightarrow> (('d, 'r, 'c) world, nat) py" where
  "redis_delete E k \<equiv> on_redis (rd_delete (e_redis E) k)"

abbreviation commit :: "('d, 'r, 'c) env \<Rightarrow> (('d, 'r, 'c) world, unit) py" where
  "commit E \<equiv> on_db (db_commit (e_db E))"

definition rollback :: "('d, 'r, 'c) env \<Rightarrow> (('d, 'r, 'c) world, unit) py" where
  "rollback E = modify (\<lambda>w. w\<lparr>w_db := db_rollback (e_db E) (w_db w)\<rparr>)"

definition session_add :: "('d, 'r, 'c) env \<Rightarrow> string \<Rightarrow> dict \<Rightarrow> (('d, 'r, 'c) world, unit) py" where
  "session_add E m row = modify (\<lambda>w. w\<lparr>w_db := db_add (e_db E) m row (w_db w)\<rparr>)"

text \<open>Assignment to an attribute of a loaded row: pending until the next commit.\<close>

definition set_attr ::
    "('d, 'r, 'c) env \<Rightarrow> string \<Rightarrow> pyval \<Rightarrow> string \<Rightarrow> pyval \<Rightarrow> (('d, 'r, 'c) world, unit) py" where
  "set_attr E m ident a v = modify (\<lambda>w. w\<lparr>w_db := db_set (e_db E) m ident a v (w_db w)\<rparr>)"

definition draw :: "(('d, 'r, 'c) world, nat) py" where
  "draw = (\<lambda>w. (Inr (w_rnd w (w_pos w)), w\<lparr>w_pos := Suc (w_pos w)\<rparr>))"

fun draws :: "nat \<Rightarrow> (('d, 'r, 'c) world, nat list) py" where
  "draws 0 = ret []"
| "draws (Suc n) = bnd draw (\<lambda>x. bnd (draws n) (\<lambda>xs. ret (x # xs)))"

lemma on_db_run [py_simps]: "on_db f w = (fst (f (w_db w)), w\<lparr>w_db := snd (f (w_db w))\<rparr>)"
  by (simp add: on_db_def Let_def split_beta)

lemma on_redis_run [py_simps]:
  "on_redis f w = (fst (f (w_now w) (w_redis w)), w\<lparr>w_redis := snd (f (w_now w) (w_redis w))\<rparr>)"
  by (simp add: on_redis_def Let_def split_beta)

lemma rollback_run [py_simps]: "rollback E w = (Inr (), w\<lparr>w_db := db_rollback (e_db E) (w_db w)\<rparr>)"
  by (simp add: rollback_def py_simps)

lemma session_add_run [py_simps]:
  "session_add E m row w = (Inr (), w\<lparr>w_db := db_add (e_db E) m row (w_db w)\<rparr>)"
  by (simp add: session_add_def py_simps)

lemma set_attr_run [py_simps]:
  "set_attr E m i a v w = (Inr (), w\<lparr>w_db := db_set (e_db E) m i a v (w_db w)\<rparr>)"
  by (simp add: set_attr_def py_simps)

lemma run_one_run [py_simps]: "run_one E q w = (one_of (db_all (e_db E) q (w_db w)), w)"
  by (simp add: run_one_def py_simps)

lemma draw_run [py_simps]: "draw w = (Inr (w_rnd w (w_pos w)), w\<lparr>w_pos := Suc (w_pos w)\<rparr>)"
  by (simp add: draw_def)

lemma one_of_simps [simp]:
  "one_of (Inr [x]) = Inr x"
  "one_of (Inr []) = Inl (Exc ENoResultFound ''No row was found for one()'')"
  "one_of (Inl e) = Inl e"
  by (simp_all add: one_of_def)

lemma draws_run:
  "draws n w = (Inr (map (\<lambda>i. w_rnd w (w_pos w + i)) [0..<n]), w\<lparr>w_pos := w_pos w + n\<rparr>)"
proof (induction n arbitrary: w)
  case 0
  then show ?case by (simp add: py_simps)
next
  case (Suc n)
  show ?case
    by (simp add: py_simps Suc upt_conv_Cons map_Suc_upt [symmetric] del: upt_Suc)
qed

text \<open>A call to the outside is on record whether it succeeds or raises.\<close>

definition call_out :: "string \<Rightarrow> dict \<Rightarrow> exc + 'a \<Rightarrow> (('d, 'r, 'c) world, 'a) py" where
  "call_out name args r = (\<lambda>w. (r, w\<lparr>w_calls := w_calls w @ [(name, args)]\<rparr>))"

lemma call_out_run [py_simps]: "call_out name args r w = (r, w\<lparr>w_calls := w_calls w @ [(name, args)]\<rparr>)"
  by (simp add: call_out_def)

text \<open>Which parts of the world a statement leaves alone.\<close>

lemma keeps_call_out [keeps_intros]: "keeps w_db (call_out name args r)"
  by (simp add: keeps_def py_simps)

lemma keeps_run_one [keeps_intros]: "keeps v (run_one E q)"
  by (simp add: run_one_def keeps_intros)

lemma keeps_run_first [keeps_intros]: "keeps v (run_first E q)"
  by (simp add: run_first_def keeps_intros)

lemma keeps_on_redis [keeps_intros]: "keeps w_db (on_redis f)"
  by (simp add: keeps_def py_simps)

lemma keeps_draw [keeps_intros]: "keeps w_db draw"
  by (simp add: keeps_def py_simps)

lemma keeps_draws [keeps_intros]: "keeps w_db (draws n)"
  by (simp add: keeps_def draws_run)

section \<open>Contracts of the services\<close>

text \<open>
  A reachable redis: \<open>view t s k\<close> is what the key \<open>k\<close> holds at time \<open>t\<close> if nothing is written
  in between. SET stores, with NX only where the key is absent, and reports whether it did; a key
  set with EX is gone once its time to live (in seconds) has passed. The laws are those of the
  redis command reference (SET, GET, DEL).
\<close>

locale redis_contract =
  fixes R :: "'r redisops"
    and view :: "int \<Rightarrow> 'r \<Rightarrow> string \<Rightarrow> string option"
  assumes get_view: "rd_get R k t s = Inr (view t s k)"
    and set_result: "fst (rd_set R k v ttl nx t s) = Inr (\<not> nx \<or> view t s k = None)"
    and set_same: "\<not> nx \<or> view t s k = None \<Longrightarrow> t \<le> t' \<Longrightarrow>
      view t' (snd (rd_set R k v ttl nx t s)) k =
        (case ttl of None \<Rightarrow> Some v | Some n \<Rightarrow> if t' < t + n * 1000000 then Some v else None)"
    and set_refused: "nx \<Longrightarrow> view t s k \<noteq> None \<Longrightarrow> t \<le> t' \<Longrightarrow>
      view t' (snd (rd_set R k v ttl nx t s)) k' = view t' s k'"
    and set_other: "k' \<noteq> k \<Longrightarrow> t \<le> t' \<Longrightarrow>
      view t' (snd (rd_set R k v ttl nx t s)) k' = view t' s k'"
    and delete_result: "fst (rd_delete R k t s) = Inr (if view t s k = None then 0 else 1)"
    and delete_same: "t \<le> t' \<Longrightarrow> view t' (snd (rd_delete R k t s)) k = None"
    and delete_other: "k' \<noteq> k \<Longrightarrow> t \<le> t' \<Longrightarrow>
      view t' (snd (rd_delete R k t s)) k' = view t' s k'"
    and expiry: "t \<le> t' \<Longrightarrow> view t s k = None \<Longrightarrow> view t' s k = None"
    and unchanged: "t \<le> t' \<Longrightarrow> view t s k = Some v \<Longrightarrow> view t' s k \<in> {None, Some v}"
begin

text \<open>A lock taken with NX is exclusive for as long as it lasts.\<close>

lemma set_nx_exclusive:
  assumes "fst (rd_set R k v ttl True t s) = Inr True"
    and "t \<le> t'" and "case ttl of None \<Rightarrow> True | Some n \<Rightarrow> t' < t + n * 1000000"
  shows "fst (rd_set R k v' ttl' True t' (snd (rd_set R k v ttl True t s))) = Inr False"
  using assms by (auto simp: set_result set_same split: option.splits)

lemma set_then_get:
  assumes "\<not> nx \<or> view t s k = None" and "t \<le> t'"
    and "case ttl of None \<Rightarrow> True | Some n \<Rightarrow> t' < t + n * 1000000"
  shows "rd_get R k t' (snd (rd_set R k v ttl nx t s)) = Inr (Some v)"
  using assms by (auto simp: get_view set_same split: option.splits)

end

text \<open>
  The database session: queries see their own session's writes, and only what was committed
  survives the end of the session. \<open>durable d\<close> is the committed content. Updates, deletions and
  pending objects do not change it before a commit; a rollback and a commit that fails never do.
\<close>

locale db_contract =
  fixes D :: "'d dbops"
    and durable :: "'d \<Rightarrow> 'v"
  assumes update_pending: "durable (snd (db_update D q kvs d)) = durable d"
    and delete_pending: "durable (snd (db_delete D q d)) = durable d"
    and add_pending: "durable (db_add D m row d) = durable d"
    and set_pending: "durable (db_set D m i a v d) = durable d"
    and append_pending: "durable (snd (db_append D m i a v d)) = durable d"
    and remove_pending: "durable (snd (db_remove D m i a v d)) = durable d"
    and flush_pending: "durable (snd (db_flush D d)) = durable d"
    and rollback_durable: "durable (db_rollback D d) = durable d"
    and commit_failed: "fst (db_commit D d) = Inl e \<Longrightarrow> durable (snd (db_commit D d)) = durable d"
begin

lemmas pending_simps = update_pending delete_pending add_pending set_pending append_pending
  remove_pending flush_pending rollback_durable

text \<open>What a statement leaves of the committed content: everything but a commit leaves it alone.\<close>

lemma keeps_durable: "keeps w_db m \<Longrightarrow> keeps (\<lambda>w. durable (w_db w)) m"
  by (simp add: keeps_def)

lemma keeps_update [keeps_intros]: "e_db E = D \<Longrightarrow> keeps (\<lambda>w. durable (w_db w)) (on_db (db_update (e_db E) q kvs))"
  by (simp add: keeps_def py_simps pending_simps)

lemma keeps_delete [keeps_intros]: "e_db E = D \<Longrightarrow> keeps (\<lambda>w. durable (w_db w)) (on_db (db_delete (e_db E) q))"
  by (simp add: keeps_def py_simps pending_simps)

lemma keeps_flush [keeps_intros]: "e_db E = D \<Longrightarrow> keeps (\<lambda>w. durable (w_db w)) (on_db (db_flush (e_db E)))"
  by (simp add: keeps_def py_simps pending_simps)

lemma keeps_add [keeps_intros]: "e_db E = D \<Longrightarrow> keeps (\<lambda>w. durable (w_db w)) (session_add E m row)"
  by (simp add: keeps_def py_simps pending_simps)

lemma keeps_set [keeps_intros]: "e_db E = D \<Longrightarrow> keeps (\<lambda>w. durable (w_db w)) (set_attr E m i a v)"
  by (simp add: keeps_def py_simps pending_simps)

lemma keeps_rollback [keeps_intros]: "e_db E = D \<Longrightarrow> keeps (\<lambda>w. durable (w_db w)) (rollback E)"
  by (simp add: keeps_def py_simps pending_simps)

lemma commit_kept:
  "e_db E = D \<Longrightarrow> commit E w = (Inl ex, w') \<Longrightarrow> durable (w_db w') = durable (w_db w)"
  using commit_failed [of "w_db w" ex] by (auto simp: py_simps)

lemma unless_commit [unless_intros]:
  "e_db E = D \<Longrightarrow> P (Inr x) \<Longrightarrow> unless P (\<lambda>w. durable (w_db w)) (bnd (commit E) (\<lambda>_. ret x))"
  using commit_failed by (auto simp: unless_def py_simps split: sum.splits)

end

text \<open>
  What a SELECT returns meets the conditions of its WHERE clause. The law is stated for equations
  on the columns of the queried model, which is what the theorems about searches need.
\<close>

locale query_contract =
  fixes D :: "'d dbops"
  assumes where_sound: "db_all D q d = Inr rows \<Longrightarrow> row \<in> set rows \<Longrightarrow>
    CEq (q_model q, k) v \<in> set (q_conds q) \<Longrightarrow> dget row k = v"
begin

lemma one_sound:
  "run_one E q w = (Inr row, w') \<Longrightarrow> e_db E = D \<Longrightarrow> CEq (q_model q, k) v \<in> set (q_conds q) \<Longrightarrow> dget row k = v"
  using where_sound [of q "w_db w"]
  by (auto simp: run_one_def reads_def one_of_def split: sum.splits list.splits)

end

section \<open>An in-memory redis\<close>

text \<open>
  Keys with a value and, where they were given one, the time at which they expire. It satisfies
  the contract, so hypotheses that ask for a reachable redis can be met.
\<close>

type_synonym mredis = "(string \<times> (string \<times> int option)) list"

definition mr_view :: "int \<Rightarrow> mredis \<Rightarrow> string \<Rightarrow> string option" where
  "mr_view t s k = (case map_of s k of
       None \<Rightarrow> None
     | Some (v, None) \<Rightarrow> Some v
     | Some (v, Some x) \<Rightarrow> if t < x then Some v else None)"

definition mr_deadline :: "int \<Rightarrow> mredis \<Rightarrow> string \<Rightarrow> int option" where
  "mr_deadline t s k = (case map_of s k of Some (v, Some x) \<Rightarrow> if t < x then Some x else None | _ \<Rightarrow> None)"

definition mr_set ::
    "string \<Rightarrow> string \<Rightarrow> int option \<Rightarrow> bool \<Rightarrow> int \<Rightarrow> mredis \<Rightarrow> (exc + bool) \<times> mredis" where
  "mr_set k v ttl nx t s =
     (if nx \<and> mr_view t s k \<noteq> None then (Inr False, s)
      else (Inr True, AList.update k (v, map_option (\<lambda>n. t + n * 1000000) ttl) s))"

definition mr_delete :: "string \<Rightarrow> int \<Rightarrow> mredis \<Rightarrow> (exc + nat) \<times> mredis" where
  "mr_delete k t s = (Inr (if mr_view t s k = None then 0 else 1), AList.delete k s)"

text \<open>INCRBY: an absent key counts as 0; the time to live is kept; other text is an error.\<close>

definition mr_incrby :: "string \<Rightarrow> int \<Rightarrow> int \<Rightarrow> mredis \<Rightarrow> (exc + unit) \<times> mredis" where
  "mr_incrby k n t s = (case mr_view t s k of
       None \<Rightarrow> (Inr (), AList.update k (show_int n, None) s)
     | Some v \<Rightarrow> (case py_int v of
         None \<Rightarrow> (Inl (Exc ERedisError ''value is not an integer or out of range''), s)
       | Some i \<Rightarrow> (Inr (), AList.update k (show_int (i + n), mr_deadline t s k) s)))"

fun mr_cmd :: "rcmd \<Rightarrow> int \<Rightarrow> mredis \<Rightarrow> (exc + unit) \<times> mredis" where
  "mr_cmd (RIncr k) t s = mr_incrby k 1 t s"
| "mr_cmd (RExpire k n) t s = (case mr_view t s k of
       None \<Rightarrow> (Inr (), s) | Some v \<Rightarrow> (Inr (), AList.update k (v, Some (t + n * 1000000)) s))"
| "mr_cmd (RDelete k) t s = (Inr (), AList.delete k s)"

fun mr_pipe :: "rcmd list \<Rightarrow> int \<Rightarrow> mredis \<Rightarrow> (exc + unit) \<times> mredis" where
  "mr_pipe [] t s = (Inr (), s)"
| "mr_pipe (c # cs) t s = (case mr_cmd c t s of
       (Inl e, s') \<Rightarrow> (Inl e, snd (mr_pipe cs t s')) | (Inr _, s') \<Rightarrow> mr_pipe cs t s')"

definition mem_redis :: "mredis redisops" where
  "mem_redis = \<lparr>
     rd_get = (\<lambda>k t s. Inr (mr_view t s k)),
     rd_set = mr_set,
     rd_delete = mr_delete,
     rd_incrby = mr_incrby,
     rd_incrbyfloat = (\<lambda>k x t s. (Inr (), s)),
     rd_pipe = mr_pipe,
     rd_scan = (\<lambda>p t s. Inr (filter (\<lambda>k. mr_view t s k \<noteq> None \<and> glob p k) (map fst s)))\<rparr>"

lemma mr_view_update:
  "mr_view t (AList.update k (v, x) s) k' =
     (if k' = k then (case x of None \<Rightarrow> Some v | Some y \<Rightarrow> if t < y then Some v else None)
      else mr_view t s k')"
  by (simp add: mr_view_def update_conv split: option.splits)

lemma mr_view_delete: "mr_view t (AList.delete k s) k' = (if k' = k then None else mr_view t s k')"
  by (simp add: mr_view_def delete_conv)

interpretation memory: redis_contract mem_redis mr_view
  by unfold_locales
    (auto simp: mem_redis_def mr_set_def mr_delete_def mr_view_update mr_view_delete
      split: option.splits, auto simp: mr_view_def split: option.splits if_splits prod.splits)

text \<open>
  SCAN with MATCH yields only keys that are there and match the pattern (stated for patterns without
  a character class).
\<close>

locale redis_scanning = redis_contract R view
  for R :: "'r redisops" and view :: "int \<Rightarrow> 'r \<Rightarrow> string \<Rightarrow> string option" +
  assumes scan_live: "rd_scan R p t s = Inr ks \<Longrightarrow> k \<in> set ks \<Longrightarrow> view t s k \<noteq> None"
    and scan_match: "rd_scan R p t s = Inr ks \<Longrightarrow> k \<in> set ks \<Longrightarrow> CHR ''['' \<notin> set p \<Longrightarrow> glob p k"
begin

lemma scan_suffix:
  assumes "rd_scan R (p @ l) t s = Inr ks" and "k \<in> set ks" and "glob_plain l"
    and "set p \<inter> {CHR ''['', CHR 0x5C} = {}"
  shows "\<exists>k'. k = k' @ l"
proof -
  have "CHR ''['' \<notin> set (p @ l)" "CHR 0x5C \<notin> set p" using assms by (auto simp: glob_plain_def)
  then show ?thesis using scan_match [OF assms(1,2)] glob_suffix [OF _ assms(3)] by blast
qed

end

interpretation memory_scan: redis_scanning mem_redis mr_view
  by unfold_locales (auto simp: mem_redis_def)

end
