(* ===== verification/Schema.thy ===== *)
theory Schema imports Services begin

text \<open>
  The database models (apicrud/models/api.py, apicrud/models/base.py and example/models/api.py):
  every table with its columns, keys, uniqueness constraints and relationships, what
  \<open>hasattr(model, name)\<close> answers for them, and \<open>AsDictMixin.as_dict\<close>, which turns a row into the
  dict an endpoint returns.
\<close>

section \<open>Tables and columns\<close>

datatype coltype =
    TString nat
  | TText
  | TInteger
  | TBoolean
  | TTimestamp
  | TEnum "string list"
  | TEncrypted nat
  | TBinary nat
  | TRef string bool \<comment> \<open>foreign key to a table's id; whether deletion cascades\<close>

record column =
  col_name :: string
  col_type :: coltype
  col_nullable :: bool
  col_unique :: bool
  col_primary :: bool
  col_default :: "string option"

record relation =
  rel_name :: string
  rel_target :: string
  rel_key :: "string option"
  rel_secondary :: "string option"
  rel_backref :: "string option"

record model =
  mdl_name :: string
  mdl_table :: string
  mdl_columns :: "column list"
  mdl_unique :: "string list list"
  mdl_relations :: "relation list"
  mdl_exclude :: "string list"
  mdl_related :: "string list option"
  mdl_hybrid :: "string list"

definition col :: "string \<Rightarrow> coltype \<Rightarrow> column" where
  "col n t = \<lparr>col_name = n, col_type = t, col_nullable = True, col_unique = False,
     col_primary = False, col_default = None\<rparr>"

definition needed :: "column \<Rightarrow> column" where
  "needed c = c\<lparr>col_nullable := False\<rparr>"

definition unique :: "column \<Rightarrow> column" where
  "unique c = c\<lparr>col_unique := True\<rparr>"

definition primary :: "column \<Rightarrow> column" where
  "primary c = c\<lparr>col_primary := True, col_nullable := False\<rparr>"

definition server_default :: "string \<Rightarrow> column \<Rightarrow> column" where
  "server_default v c = c\<lparr>col_default := Some v\<rparr>"

definition id_column :: column where
  "id_column = unique (primary (col ''id'' (TString 16)))"

definition created_column :: column where
  "created_column = server_default ''now()'' (needed (col ''created'' TTimestamp))"

definition modified_column :: column where
  "modified_column = col ''modified'' TTimestamp"

definition belongs_to :: "string \<Rightarrow> string \<Rightarrow> string \<Rightarrow> string option \<Rightarrow> relation" where
  "belongs_to n target key back =
     \<lparr>rel_name = n, rel_target = target, rel_key = Some key, rel_secondary = None, rel_backref = back\<rparr>"

definition has_many :: "string \<Rightarrow> string \<Rightarrow> string option \<Rightarrow> string option \<Rightarrow> relation" where
  "has_many n target secondary back =
     \<lparr>rel_name = n, rel_target = target, rel_key = None, rel_secondary = secondary, rel_backref = back\<rparr>"

section \<open>The core models\<close>

definition Account :: model where
  "Account = \<lparr>mdl_name = ''Account'', mdl_table = ''accounts'',
     mdl_columns = [
       id_column,
       unique (needed (col ''name'' (TString 32))),
       unique (needed (col ''uid'' (TRef ''people'' True))),
       needed (col ''password'' (TEncrypted 128)),
       server_default ''False'' (needed (col ''password_must_change'' TBoolean)),
       col ''totp_secret'' (TEncrypted 64),
       col ''backup_codes'' (TBinary 256),
       server_default ''False'' (needed (col ''is_admin'' TBoolean)),
       needed (col ''settings_id'' (TRef ''settings'' False)),
       col ''last_login'' TTimestamp,
       created_column, modified_column,
       needed (col ''status'' (TEnum [''active'', ''disabled'']))],
     mdl_unique = [[''id'', ''uid'']],
     mdl_relations = [belongs_to ''owner'' ''Person'' ''uid'' (Some ''account_uid''),
       belongs_to ''settings'' ''Settings'' ''settings_id'' None],
     mdl_exclude = [''backup_codes'', ''password'', ''totp_secret''],
     mdl_related = None, mdl_hybrid = [''totp'']\<rparr>"

definition APIkey :: model where
  "APIkey = \<lparr>mdl_name = ''APIkey'', mdl_table = ''apikeys'',
     mdl_columns = [
       id_column,
       needed (col ''name'' (TString 32)),
       needed (col ''uid'' (TRef ''people'' True)),
       unique (needed (col ''prefix'' (TString 8))),
       needed (col ''hashvalue'' (TEncrypted 96)),
       col ''expires'' TTimestamp,
       col ''last_used'' TTimestamp,
       created_column, modified_column,
       server_default ''active'' (needed (col ''status'' (TEnum [''active'', ''disabled''])))],
     mdl_unique = [[''uid'', ''name'']],
     mdl_relations = [has_many ''scopes'' ''Scope'' (Some ''apikeyscopes'') (Some ''scope''),
       belongs_to ''owner'' ''Person'' ''uid'' (Some ''apikey_uid'')],
     mdl_exclude = [''hashvalue''],
     mdl_related = Some [''scopes''], mdl_hybrid = []\<rparr>"

definition APIkeyScope :: model where
  "APIkeyScope = \<lparr>mdl_name = ''APIkeyScope'', mdl_table = ''apikeyscopes'',
     mdl_columns = [
       primary (col ''apikey_id'' (TRef ''apikeys'' True)),
       primary (col ''scope_id'' (TRef ''scopes'' True)),
       created_column],
     mdl_unique = [[''apikey_id'', ''scope_id'']],
     mdl_relations = [belongs_to ''apikey'' ''APIkey'' ''apikey_id'' (Some ''apikeyscopes''),
       belongs_to ''scope'' ''Scope'' ''scope_id'' (Some ''apikeyscopes'')],
     mdl_exclude = [], mdl_related = None, mdl_hybrid = []\<rparr>"

definition Category :: model where
  "Category = \<lparr>mdl_name = ''Category'', mdl_table = ''categories'',
     mdl_columns = [
       id_column,
       needed (col ''name'' (TString 64)),
       needed (col ''uid'' (TRef ''people'' False)),
       created_column, modified_column,
       server_default ''active'' (needed (col ''status'' (TEnum [''active'', ''disabled''])))],
     mdl_unique = [[''name'', ''uid'']],
     mdl_relations = [belongs_to ''owner'' ''Person'' ''uid'' (Some ''category_uid'')],
     mdl_exclude = [], mdl_related = None, mdl_hybrid = []\<rparr>"

definition Contact :: model where
  "Contact = \<lparr>mdl_name = ''Contact'', mdl_table = ''contacts'',
     mdl_columns = [
       id_column,
       server_default ''home'' (needed (col ''label'' (TString 16))),
       server_default ''email'' (needed (col ''type'' (TString 12))),
       col ''carrier'' (TString 16),
       col ''info'' (TString 255),
       server_default ''False'' (needed (col ''muted'' TBoolean)),
       server_default ''1'' (needed (col ''rank'' TInteger)),
       needed (col ''uid'' (TRef ''people'' True)),
       server_default ''member'' (needed (col ''privacy'' (TString 8))),
       created_column, modified_column,
       server_default ''unconfirmed'' (needed (col ''status'' (TEnum [''active'', ''unconfirmed'', ''disabled''])))],
     mdl_unique = [[''info'', ''type'']],
     mdl_relations = [belongs_to ''owner'' ''Person'' ''uid'' (Some ''contacts'')],
     mdl_exclude = [], mdl_related = None, mdl_hybrid = []\<rparr>"

definition Credential :: model where
  "Credential = \<lparr>mdl_name = ''Credential'', mdl_table = ''credentials'',
     mdl_columns = [
       id_column,
       needed (col ''name'' (TString 64)),
       needed (col ''vendor'' (TString 32)),
       col ''type'' (TString 16),
       col ''url'' (TString 64),
       col ''key'' (TString 128),
       col ''secret'' (TEncrypted 128),
       col ''otherdata'' (TEncrypted 1024),
       col ''expires'' TTimestamp,
       needed (col ''settings_id'' (TRef ''settings'' False)),
       needed (col ''uid'' (TRef ''people'' True)),
       created_column, modified_column,
       server_default ''active'' (needed (col ''status'' (TEnum [''active'', ''disabled''])))],
     mdl_unique = [[''name'', ''uid'']],
     mdl_relations = [belongs_to ''settings'' ''Settings'' ''settings_id'' None,
       belongs_to ''owner'' ''Person'' ''uid'' (Some ''credential_uid'')],
     mdl_exclude = [''secret'', ''otherdata''], mdl_related = None, mdl_hybrid = []\<rparr>"

definition Grant :: model where
  "Grant = \<lparr>mdl_name = ''Grant'', mdl_table = ''grants'',
     mdl_columns = [
       id_column,
       needed (col ''name'' (TString 24)),
       needed (col ''value'' (TString 64)),
       needed (col ''uid'' (TRef ''people'' False)),
       col ''expires'' TTimestamp,
       created_column, modified_column,
       server_default ''active'' (needed (col ''status'' (TEnum [''active'', ''disabled''])))],
     mdl_unique = [[''name'', ''uid'']],
     mdl_relations = [belongs_to ''owner'' ''Person'' ''uid'' (Some ''grant_uid'')],
     mdl_exclude = [], mdl_related = None, mdl_hybrid = []\<rparr>"

definition List_model :: model where
  "List_model = \<lparr>mdl_name = ''List'', mdl_table = ''lists'',
     mdl_columns = [
       id_column,
       needed (col ''name'' (TString 64)),
       col ''description'' TText,
       server_default ''secret'' (needed (col ''privacy'' (TString 8))),
       needed (col ''category_id'' (TRef ''categories'' False)),
       needed (col ''uid'' (TRef ''people'' True)),
       created_column, modified_column,
       needed (col ''status'' (TEnum [''active'', ''disabled'']))],
     mdl_unique = [[''name'', ''uid'']],
     mdl_relations = [has_many ''members'' ''Person'' (Some ''listmembers'') (Some ''people''),
       belongs_to ''category'' ''Category'' ''category_id'' None,
       belongs_to ''owner'' ''Person'' ''uid'' (Some ''list_uid'')],
     mdl_exclude = [], mdl_related = Some [''members''], mdl_hybrid = []\<rparr>"

definition ListMember :: model where
  "ListMember = \<lparr>mdl_name = ''ListMember'', mdl_table = ''listmembers'',
     mdl_columns = [
       primary (col ''uid'' (TRef ''people'' True)),
       primary (col ''list_id'' (TRef ''lists'' True)),
       server_default ''member'' (needed (col ''authorization'' (TString 8))),
       created_column],
     mdl_unique = [[''list_id'', ''uid'']],
     mdl_relations = [belongs_to ''person'' ''Person'' ''uid'' (Some ''listmembers''),
       belongs_to ''list'' ''List'' ''list_id'' (Some ''listmembers'')],
     mdl_exclude = [], mdl_related = None, mdl_hybrid = []\<rparr>"

definition Location :: model where
  "Location = \<lparr>mdl_name = ''Location'', mdl_table = ''locations'',
     mdl_columns = [
       id_column,
       col ''name'' (TString 255),
       col ''address'' (TString 255),
       needed (col ''city'' (TString 64)),
       col ''state'' (TString 16),
       col ''postalcode'' (TString 12),
       server_default ''US'' (needed (col ''country'' (TString 2))),
       col ''geolat'' TInteger,
       col ''geolong'' TInteger,
       col ''neighborhood'' (TString 32),
       server_default ''public'' (needed (col ''privacy'' (TString 8))),
       needed (col ''uid'' (TRef ''people'' True)),
       needed (col ''category_id'' (TRef ''categories'' False)),
       created_column, modified_column,
       needed (col ''status'' (TEnum [''active'', ''disabled'']))],
     mdl_unique = [],
     mdl_relations = [belongs_to ''category'' ''Category'' ''category_id'' None,
       belongs_to ''owner'' ''Person'' ''uid'' (Some ''location_uid'')],
     mdl_exclude = [], mdl_related = None, mdl_hybrid = []\<rparr>"

definition Person :: model where
  "Person = \<lparr>mdl_name = ''Person'', mdl_table = ''people'',
     mdl_columns = [
       id_column,
       needed (col ''name'' (TString 64)),
       unique (needed (col ''identity'' (TString 64))),
       col ''referrer_id'' (TRef ''people'' False),
       server_default ''public'' (needed (col ''privacy'' (TString 8))),
       created_column, modified_column,
       needed (col ''status'' (TEnum [''active'', ''disabled'', ''suspended'']))],
     mdl_unique = [],
     mdl_relations = [has_many ''lists'' ''List'' (Some ''listmembers'') (Some ''lists''),
       has_many ''profileitems'' ''Profile'' None (Some ''apicrud.profileitems'')],
     mdl_exclude = [], mdl_related = Some [''lists''], mdl_hybrid = []\<rparr>"

definition Profile :: model where
  "Profile = \<lparr>mdl_name = ''Profile'', mdl_table = ''profileitems'',
     mdl_columns = [
       id_column,
       needed (col ''uid'' (TRef ''people'' True)),
       needed (col ''item'' (TString 32)),
       col ''value'' (TString 96),
       col ''location_id'' (TRef ''locations'' False),
       col ''tz_id'' (TRef ''time_zone_name'' False),
       server_default ''public'' (needed (col ''privacy'' (TString 8))),
       created_column, modified_column,
       needed (col ''status'' (TEnum [''active'', ''disabled'']))],
     mdl_unique = [[''uid'', ''item'']],
     mdl_relations = [belongs_to ''location'' ''Location'' ''location_id'' None,
       belongs_to ''owner'' ''Person'' ''uid'' (Some ''profile''),
       belongs_to ''tz'' ''Tz'' ''tz_id'' None],
     mdl_exclude = [], mdl_related = None, mdl_hybrid = []\<rparr>"

definition Scope :: model where
  "Scope = \<lparr>mdl_name = ''Scope'', mdl_table = ''scopes'',
     mdl_columns = [
       id_column,
       needed (col ''name'' (TString 32)),
       needed (col ''settings_id'' (TRef ''settings'' False)),
       created_column, modified_column,
       server_default ''active'' (needed (col ''status'' (TEnum [''active'', ''disabled''])))],
     mdl_unique = [[''name'', ''settings_id'']],
     mdl_relations = [], mdl_exclude = [], mdl_related = None, mdl_hybrid = []\<rparr>"

definition Settings :: model where
  "Settings = \<lparr>mdl_name = ''Settings'', mdl_table = ''settings'',
     mdl_columns = [
       id_column,
       needed (col ''name'' (TString 32)),
       server_default ''public'' (needed (col ''privacy'' (TString 8))),
       server_default ''25'' (needed (col ''smtp_port'' TInteger)),
       col ''smtp_smarthost'' (TString 255),
       col ''smtp_credential_id'' (TRef ''credentials'' False),
       server_default ''US'' (needed (col ''country'' (TString 2))),
       col ''default_storage_id'' (TRef ''storageitems'' False),
       server_default ''en_US'' (needed (col ''lang'' (TString 6))),
       server_default ''598'' (needed (col ''tz_id'' (TRef ''time_zone_name'' False))),
       col ''url'' (TString 255),
       server_default ''Example apicrud Application'' (col ''window_title'' (TString 127)),
       needed (col ''default_cat_id'' (TRef ''categories'' False)),
       needed (col ''administrator_id'' (TRef ''people'' False)),
       col ''default_hostlist_id'' (TRef ''lists'' False),
       created_column, modified_column],
     mdl_unique = [],
     mdl_relations = [belongs_to ''smtp_credential'' ''Credential'' ''smtp_credential_id'' None,
       belongs_to ''default_category'' ''Category'' ''default_cat_id'' None,
       belongs_to ''administrator'' ''Person'' ''administrator_id'' None,
       belongs_to ''default_hostlist'' ''List'' ''default_hostlist_id'' None,
       belongs_to ''tz'' ''Tz'' ''tz_id'' None],
     mdl_exclude = [], mdl_related = None, mdl_hybrid = []\<rparr>"

definition Storage :: model where
  "Storage = \<lparr>mdl_name = ''Storage'', mdl_table = ''storageitems'',
     mdl_columns = [
       id_column,
       needed (col ''name'' (TString 32)),
       col ''prefix'' (TString 128),
       needed (col ''bucket'' (TString 64)),
       server_default ''us-east-2'' (col ''region'' (TString 16)),
       col ''cdn_uri'' (TString 64),
       col ''identifier'' (TString 64),
       server_default ''public'' (needed (col ''privacy'' (TString 8))),
       col ''credentials_id'' (TRef ''credentials'' False),
       needed (col ''uid'' (TRef ''people'' True)),
       created_column, modified_column,
       server_default ''active'' (needed (col ''status'' (TEnum [''active'', ''disabled''])))],
     mdl_unique = [[''name'', ''uid'']],
     mdl_relations = [belongs_to ''credentials'' ''Credential'' ''credentials_id'' None,
       belongs_to ''owner'' ''Person'' ''uid'' (Some ''storage_uid'')],
     mdl_exclude = [], mdl_related = None, mdl_hybrid = []\<rparr>"

definition Tz :: model where
  "Tz = \<lparr>mdl_name = ''Tz'', mdl_table = ''time_zone_name'',
     mdl_columns = [
       unique (primary (col ''id'' TInteger)),
       unique (needed (col ''name'' (TString 32))),
       server_default ''active'' (needed (col ''status'' (TEnum [''active'', ''disabled''])))],
     mdl_unique = [], mdl_relations = [],
     mdl_exclude = [], mdl_related = None, mdl_hybrid = []\<rparr>"

section \<open>The models of the example application\<close>

definition DirectMessage :: model where
  "DirectMessage = \<lparr>mdl_name = ''DirectMessage'', mdl_table = ''directmessages'',
     mdl_columns = [
       primary (col ''message_id'' (TRef ''messages'' True)),
       primary (col ''uid'' (TRef ''people'' True)),
       created_column],
     mdl_unique = [[''message_id'', ''uid'']],
     mdl_relations = [belongs_to ''owner'' ''Person'' ''uid'' (Some ''directmessages''),
       belongs_to ''message'' ''Message'' ''message_id'' (Some ''directmessages'')],
     mdl_exclude = [], mdl_related = None, mdl_hybrid = []\<rparr>"

definition ListMessage :: model where
  "ListMessage = \<lparr>mdl_name = ''ListMessage'', mdl_table = ''listmessages'',
     mdl_columns = [
       primary (col ''message_id'' (TRef ''messages'' True)),
       primary (col ''list_id'' (TRef ''lists'' True)),
       created_column],
     mdl_unique = [[''list_id'', ''message_id'']],
     mdl_relations = [belongs_to ''message'' ''Message'' ''message_id'' (Some ''listmessages''),
       belongs_to ''list'' ''List'' ''list_id'' (Some ''listmessages'')],
     mdl_exclude = [], mdl_related = None, mdl_hybrid = []\<rparr>"

definition Message :: model where
  "Message = \<lparr>mdl_name = ''Message'', mdl_table = ''messages'',
     mdl_columns = [
       id_column,
       needed (col ''content'' TText),
       col ''subject'' (TString 128),
       needed (col ''sender_id'' (TRef ''people'' False)),
       col ''recipient_id'' (TRef ''people'' False),
       col ''list_id'' (TRef ''lists'' False),
       server_default ''secret'' (needed (col ''privacy'' (TString 8))),
       col ''published'' TBoolean,
       needed (col ''uid'' (TRef ''people'' True)),
       col ''viewed'' TTimestamp,
       created_column, modified_column,
       server_default ''active'' (needed (col ''status'' (TEnum [''active'', ''disabled''])))],
     mdl_unique = [],
     mdl_relations = [belongs_to ''list'' ''List'' ''list_id'' None,
       belongs_to ''owner'' ''Person'' ''uid'' None,
       belongs_to ''recipient'' ''Person'' ''recipient_id'' None],
     mdl_exclude = [], mdl_related = None, mdl_hybrid = []\<rparr>"

definition core_models :: "model list" where
  "core_models = [Account, APIkey, APIkeyScope, Category, Contact, Credential, Grant, List_model,
     ListMember, Location, Person, Profile, Scope, Settings, Storage, Tz]"

definition example_models :: "model list" where
  "example_models = core_models @ [DirectMessage, ListMessage, Message]"

lemmas model_defs = Account_def APIkey_def APIkeyScope_def Category_def Contact_def Credential_def
  Grant_def List_model_def ListMember_def Location_def Person_def Profile_def Scope_def
  Settings_def Storage_def Tz_def DirectMessage_def ListMessage_def Message_def

lemmas column_defs = col_def needed_def unique_def primary_def server_default_def id_column_def
  created_column_def modified_column_def belongs_to_def has_many_def

section \<open>Attributes\<close>

definition column_names :: "model \<Rightarrow> string list" where
  "column_names m = map col_name (mdl_columns m)"

text \<open>
  The attributes a mapped class has: its columns, its relationships and hybrid properties, and the
  back references other classes put on it.
\<close>

definition attr_names :: "model list \<Rightarrow> model \<Rightarrow> string list" where
  "attr_names ms m = column_names m @ map rel_name (mdl_relations m) @ mdl_hybrid m @
     concat (map (\<lambda>src. concat (map (\<lambda>r.
       (case rel_backref r of Some b \<Rightarrow> if rel_target r = mdl_name m then [b] else [] | None \<Rightarrow> []))
       (mdl_relations src))) ms)"

fun find_model :: "model list \<Rightarrow> string \<Rightarrow> model option" where
  "find_model [] n = None"
| "find_model (m # ms) n = (if mdl_name m = n then Some m else find_model ms n)"

definition has_attr :: "model list \<Rightarrow> string \<Rightarrow> string \<Rightarrow> bool" where
  "has_attr ms n a = (case find_model ms n of None \<Rightarrow> False | Some m \<Rightarrow> a \<in> set (attr_names ms m))"

section \<open>Rows as dicts\<close>

text \<open>
  \<open>as_dict\<close>: a copy of the instance's \<open>__dict__\<close> without the columns of \<open>__rest_exclude__\<close>
  (\<open>del\<close> raises KeyError where one is not loaded), with the ids of the related records of
  \<open>__rest_related__\<close> and the hybrid properties added. \<open>rel\<close> loads a relationship, \<open>hyb\<close> computes a
  hybrid property.
\<close>

fun del_all :: "string list \<Rightarrow> dict \<Rightarrow> exc + dict" where
  "del_all [] d = Inr d"
| "del_all (k # ks) d = (if dhas d k then del_all ks (ddel d k) else Inl (Exc EKeyError k))"

fun add_related :: "(string \<Rightarrow> exc + dict list) \<Rightarrow> string list \<Rightarrow> dict \<Rightarrow> exc + dict" where
  "add_related rel [] d = Inr d"
| "add_related rel (k # ks) d = (case rel k of
       Inl e \<Rightarrow> Inl e
     | Inr recs \<Rightarrow> add_related rel ks (dset d k (PList (map (\<lambda>r. dget r ''id'') recs))))"

fun add_hybrid :: "(string \<Rightarrow> pyval) \<Rightarrow> string list \<Rightarrow> dict \<Rightarrow> dict" where
  "add_hybrid hyb [] d = d"
| "add_hybrid hyb (k # ks) d = add_hybrid hyb ks (dset d k (hyb k))"

definition as_dict_of ::
    "string list \<Rightarrow> string list option \<Rightarrow> string list \<Rightarrow> (string \<Rightarrow> exc + dict list) \<Rightarrow>
     (string \<Rightarrow> pyval) \<Rightarrow> dict \<Rightarrow> exc + dict" where
  "as_dict_of exclude related hybrid rel hyb row =
     (case del_all exclude row of
        Inl e \<Rightarrow> Inl e
      | Inr d \<Rightarrow> (case add_related rel (case related of None \<Rightarrow> [] | Some ks \<Rightarrow> ks) d of
            Inl e \<Rightarrow> Inl e
          | Inr d' \<Rightarrow> Inr (ddel (add_hybrid hyb hybrid d') ''_sa_instance_state'')))"

text \<open>The hybrid \<open>Account.totp\<close>: whether a TOTP secret is set.\<close>

definition account_totp :: "dict \<Rightarrow> bool" where
  "account_totp row = truthy (dget row ''totp_secret'')"

definition row_as_dict ::
    "('d, 'r, 'c) env \<Rightarrow> string \<Rightarrow> dict \<Rightarrow> (('d, 'r, 'c) world, dict) py" where
  "row_as_dict E m row = reads (\<lambda>w.
     as_dict_of (e_exclude E m) (e_related E m) (e_hybrid E m)
       (\<lambda>a. db_related (e_db E) m (dget row ''id'') a (w_db w))
       (\<lambda>h. if h = ''totp'' then PBool (account_totp row) else PNone) row)"

lemma del_all_absent: "del_all ks d = Inr d' \<Longrightarrow> k \<in> set ks \<or> \<not> dhas d k \<Longrightarrow> \<not> dhas d' k"
  by (induction ks arbitrary: d) (auto simp: dict_simps split: if_splits, (metis dhas_ddel)+)

lemma add_related_absent:
  "add_related rel ks d = Inr d' \<Longrightarrow> k \<notin> set ks \<Longrightarrow> dhas d' k \<longleftrightarrow> dhas d k"
  by (induction ks arbitrary: d) (auto simp: dict_simps split: sum.splits)

lemma add_hybrid_absent: "k \<notin> set ks \<Longrightarrow> dhas (add_hybrid hyb ks d) k \<longleftrightarrow> dhas d k"
  by (induction ks arbitrary: d) (auto simp: dict_simps)

lemma keeps_row_as_dict [keeps_intros]: "keeps v (row_as_dict E m row)"
  by (simp add: row_as_dict_def keeps_intros)

text \<open>
  A model's excluded columns never reach the dict, whatever the row holds, as long as
  no relationship or hybrid property has the same name.
\<close>

lemma as_dict_excludes:
  assumes "as_dict_of ex rl hy rel hyb row = Inr d" and "k \<in> set ex"
    and "k \<notin> set (case rl of None \<Rightarrow> [] | Some ks \<Rightarrow> ks)" and "k \<notin> set hy"
  shows "\<not> dhas d k"
  using assms
  by (auto simp: as_dict_of_def dict_simps add_hybrid_absent add_related_absent
      dest: del_all_absent split: sum.splits)

end
