(* ===== verification/Json.thy ===== *)
theory Json imports Services begin

text \<open>
  The json module as the source uses it: \<open>json.dumps\<close> with its default separators and
  \<open>ensure_ascii\<close>, and \<open>json.loads\<close>. Sessions, registrations and search filters go through it.
  Floats are exact rationals here; how CPython prints one is a parameter. Characters above 255,
  NaN and the infinities have no value in the model and are refused like malformed text.
\<close>

section \<open>Printing\<close>

definition hex_chr :: "nat \<Rightarrow> char" where
  "hex_chr d = char_of (if d < 10 then 48 + d else 87 + d)"

definition json_char :: "char \<Rightarrow> string" where
  "json_char c = (let n = (of_char c :: nat) in
     if c = CHR 0x22 then [CHR 0x5C, CHR 0x22]
     else if c = CHR 0x5C then [CHR 0x5C, CHR 0x5C]
     else if n = 10 then [CHR 0x5C, CHR ''n'']
     else if n = 13 then [CHR 0x5C, CHR ''r'']
     else if n = 9 then [CHR 0x5C, CHR ''t'']
     else if n = 12 then [CHR 0x5C, CHR ''f'']
     else if n = 8 then [CHR 0x5C, CHR ''b'']
     else if 32 \<le> n \<and> n \<le> 126 then [c]
     else [CHR 0x5C, CHR ''u'', CHR ''0'', CHR ''0'', hex_chr (n div 16), hex_chr (n mod 16)])"

definition json_string :: "string \<Rightarrow> string" where
  "json_string s = CHR 0x22 # concat (map json_char s) @ [CHR 0x22]"

definition bind_text :: "exc + string \<Rightarrow> (string \<Rightarrow> exc + string) \<Rightarrow> exc + string" where
  "bind_text r f = (case r of Inl e \<Rightarrow> Inl e | Inr s \<Rightarrow> f s)"

fun json_dumps :: "(rat \<Rightarrow> string) \<Rightarrow> pyval \<Rightarrow> exc + string"
  and json_items :: "(rat \<Rightarrow> string) \<Rightarrow> pyval list \<Rightarrow> exc + string"
  and json_pairs :: "(rat \<Rightarrow> string) \<Rightarrow> (string \<times> pyval) list \<Rightarrow> exc + string" where
  "json_dumps fr PNone = Inr ''null''"
| "json_dumps fr (PBool b) = Inr (if b then ''true'' else ''false'')"
| "json_dumps fr (PInt i) = Inr (show_int i)"
| "json_dumps fr (PFloat x) = Inr (fr x)"
| "json_dumps fr (PStr s) = Inr (json_string s)"
| "json_dumps fr (PBytes s) = Inl (Exc ETypeError ''Object of type bytes is not JSON serializable'')"
| "json_dumps fr (PTime t) = Inl (Exc ETypeError ''Object of type datetime is not JSON serializable'')"
| "json_dumps fr (PList xs) = bind_text (json_items fr xs) (\<lambda>s. Inr (''['' @ s @ '']''))"
| "json_dumps fr (PDict d) = bind_text (json_pairs fr d) (\<lambda>s. Inr (''{'' @ s @ ''}''))"
| "json_items fr [] = Inr []"
| "json_items fr (x # xs) = bind_text (json_dumps fr x) (\<lambda>s.
     if xs = [] then Inr s else bind_text (json_items fr xs) (\<lambda>t. Inr (s @ '', '' @ t)))"
| "json_pairs fr [] = Inr []"
| "json_pairs fr ((k, v) # d) = bind_text (json_dumps fr v) (\<lambda>s.
     if d = [] then Inr (json_string k @ '': '' @ s)
     else bind_text (json_pairs fr d) (\<lambda>t. Inr (json_string k @ '': '' @ s @ '', '' @ t)))"

section \<open>Parsing\<close>

definition json_ws :: "char \<Rightarrow> bool" where
  "json_ws c \<longleftrightarrow> c = CHR '' '' \<or> c = CHR 0x09 \<or> c = CHR 0x0A \<or> c = CHR 0x0D"

abbreviation skip_ws :: "string \<Rightarrow> string" where
  "skip_ws s \<equiv> dropWhile json_ws s"

definition hex_val :: "char \<Rightarrow> nat option" where
  "hex_val c = (case digit_val c of Some d \<Rightarrow> if d < 16 then Some d else None | None \<Rightarrow> None)"

definition json_escape :: "char \<Rightarrow> char option" where
  "json_escape c =
     (if c \<in> {CHR 0x22, CHR 0x5C, CHR ''/''} then Some c
      else if c = CHR ''b'' then Some (CHR 0x08)
      else if c = CHR ''f'' then Some (CHR 0x0C)
      else if c = CHR ''n'' then Some (CHR 0x0A)
      else if c = CHR ''r'' then Some (CHR 0x0D)
      else if c = CHR ''t'' then Some (CHR 0x09)
      else None)"

definition hex_quad :: "string \<Rightarrow> (char \<times> string) option" where
  "hex_quad s = (case s of
       a # b # c # d # r \<Rightarrow> (case (hex_val a, hex_val b, hex_val c, hex_val d) of
           (Some 0, Some 0, Some x, Some y) \<Rightarrow> Some (char_of (16 * x + y), r)
         | _ \<Rightarrow> None)
     | _ \<Rightarrow> None)"

lemma hex_quad_shorter: "hex_quad s = Some (c, r) \<Longrightarrow> length r < length s"
  by (auto simp: hex_quad_def split: list.splits option.splits nat.splits)

definition cons_fst :: "'a \<Rightarrow> ('a list \<times> 'b) option \<Rightarrow> ('a list \<times> 'b) option" where
  "cons_fst x r = (case r of None \<Rightarrow> None | Some (xs, y) \<Rightarrow> Some (x # xs, y))"

text \<open>The rest of a string literal, after its opening quote.\<close>

function parse_str :: "string \<Rightarrow> (string \<times> string) option" where
  "parse_str s = (case s of
       [] \<Rightarrow> None
     | c # s' \<Rightarrow>
         if c = CHR 0x22 then Some ([], s')
         else if c = CHR 0x5C then
           (case s' of
              [] \<Rightarrow> None
            | e # r \<Rightarrow>
                if e = CHR ''u'' then
                  (case hex_quad r of None \<Rightarrow> None | Some (x, r') \<Rightarrow> cons_fst x (parse_str r'))
                else (case json_escape e of None \<Rightarrow> None | Some x \<Rightarrow> cons_fst x (parse_str r)))
         else if (of_char c :: nat) < 32 then None
         else cons_fst c (parse_str s'))"
  by pat_completeness auto

termination
  by (relation "measure length") (auto dest: hex_quad_shorter)

declare parse_str.simps [simp del]

definition digits_val :: "string \<Rightarrow> nat" where
  "digits_val s = (case read_digits 10 0 False s of Some n \<Rightarrow> n | None \<Rightarrow> 0)"

definition is_digit :: "char \<Rightarrow> bool" where
  "is_digit c \<longleftrightarrow> 48 \<le> (of_char c :: nat) \<and> (of_char c :: nat) \<le> 57"

text \<open>The optional fraction and exponent of a number: \<open>(\.\d+)?([eE][-+]?\d+)?\<close>.\<close>

definition parse_frac :: "string \<Rightarrow> string \<times> string" where
  "parse_frac s = (case s of
       c # r \<Rightarrow> if c = CHR ''.'' \<and> takeWhile is_digit r \<noteq> []
               then (takeWhile is_digit r, dropWhile is_digit r) else ([], s)
     | [] \<Rightarrow> ([], s))"

definition parse_exp :: "string \<Rightarrow> int option \<times> string" where
  "parse_exp s = (case s of
       c # r \<Rightarrow>
         (let sg = (r \<noteq> [] \<and> (hd r = CHR ''-'' \<or> hd r = CHR ''+'')); r' = (if sg then tl r else r) in
          if (c = CHR ''e'' \<or> c = CHR ''E'') \<and> takeWhile is_digit r' \<noteq> []
          then (Some ((if sg \<and> hd r = CHR ''-'' then -1 else 1) * int (digits_val (takeWhile is_digit r'))),
                dropWhile is_digit r')
          else (None, s))
     | [] \<Rightarrow> (None, s))"

definition scale10 :: "rat \<Rightarrow> int \<Rightarrow> rat" where
  "scale10 x e = (if 0 \<le> e then x * 10 ^ nat e else x / 10 ^ nat (- e))"

definition parse_num :: "string \<Rightarrow> (pyval \<times> string) option" where
  "parse_num s =
     (let neg = (s \<noteq> [] \<and> hd s = CHR ''-''); s1 = (if neg then tl s else s);
          ds = takeWhile is_digit s1
      in if ds = [] then None
         else let ip = (if hd ds = CHR ''0'' then ''0'' else ds);
                  s2 = drop (length ip) s1;
                  (fd, s3) = parse_frac s2;
                  (ex, s4) = parse_exp s3;
                  sg = (if neg then -1 else 1)
              in if fd = [] \<and> ex = None then Some (PInt (sg * int (digits_val ip)), s2)
                 else Some (PFloat (of_int sg * scale10 (of_nat (digits_val (ip @ fd)))
                        ((case ex of None \<Rightarrow> 0 | Some e \<Rightarrow> e) - int (length fd))), s4))"

fun parse_value :: "nat \<Rightarrow> string \<Rightarrow> (pyval \<times> string) option"
  and parse_items :: "nat \<Rightarrow> string \<Rightarrow> (pyval list \<times> string) option"
  and parse_pairs :: "nat \<Rightarrow> string \<Rightarrow> ((string \<times> pyval) list \<times> string) option" where
  "parse_value 0 s = None"
| "parse_value (Suc n) s =
     (case s of
        [] \<Rightarrow> None
      | c # r \<Rightarrow>
          if c = CHR 0x22 then map_option (\<lambda>(t, r'). (PStr t, r')) (parse_str r)
          else if c = CHR ''{'' then
            (let r1 = skip_ws r in
             if r1 \<noteq> [] \<and> hd r1 = CHR ''}'' then Some (PDict [], tl r1)
             else map_option (\<lambda>(d, r'). (PDict (dmerge [] d), r')) (parse_pairs n r1))
          else if c = CHR ''['' then
            (let r1 = skip_ws r in
             if r1 \<noteq> [] \<and> hd r1 = CHR '']'' then Some (PList [], tl r1)
             else map_option (\<lambda>(xs, r'). (PList xs, r')) (parse_items n r1))
          else if take 4 s = ''null'' then Some (PNone, drop 4 s)
          else if take 4 s = ''true'' then Some (PBool True, drop 4 s)
          else if take 5 s = ''false'' then Some (PBool False, drop 5 s)
          else parse_num s)"
| "parse_items 0 s = None"
| "parse_items (Suc n) s =
     (case parse_value n s of
        None \<Rightarrow> None
      | Some (v, r) \<Rightarrow> (case skip_ws r of
            [] \<Rightarrow> None
          | c # r' \<Rightarrow>
              if c = CHR '']'' then Some ([v], r')
              else if c = CHR '','' then cons_fst v (parse_items n (skip_ws r'))
              else None))"
| "parse_pairs 0 s = None"
| "parse_pairs (Suc n) s =
     (case s of
        [] \<Rightarrow> None
      | q # r0 \<Rightarrow>
         if q \<noteq> CHR 0x22 then None
         else (case parse_str r0 of
            None \<Rightarrow> None
          | Some (k, r1) \<Rightarrow> (case skip_ws r1 of
                [] \<Rightarrow> None
              | c # r2 \<Rightarrow>
                  if c \<noteq> CHR '':'' then None
                  else (case parse_value n (skip_ws r2) of
                      None \<Rightarrow> None
                    | Some (v, r3) \<Rightarrow> (case skip_ws r3 of
                          [] \<Rightarrow> None
                        | c' # r4 \<Rightarrow>
                            if c' = CHR ''}'' then Some ([(k, v)], r4)
                            else if c' = CHR '','' then cons_fst (k, v) (parse_pairs n (skip_ws r4))
                            else None)))))"

definition json_error :: "exc + 'a" where
  "json_error = Inl (Exc EJSONDecodeError ''Expecting value'')"

text \<open>Each step of the parser consumes a character, so the text's length is fuel enough.\<close>

definition json_loads :: "string \<Rightarrow> exc + pyval" where
  "json_loads s = (case parse_value (length s) (skip_ws s) of
       Some (v, r) \<Rightarrow> if skip_ws r = [] then Inr v else json_error
     | None \<Rightarrow> json_error)"

section \<open>Round trip\<close>

text \<open>Values that JSON can carry unchanged: no floats, bytes or times, no repeated keys.\<close>

fun json_ok :: "pyval \<Rightarrow> bool" where
  "json_ok PNone = True"
| "json_ok (PBool b) = True"
| "json_ok (PInt i) = True"
| "json_ok (PFloat x) = False"
| "json_ok (PStr s) = True"
| "json_ok (PBytes s) = False"
| "json_ok (PTime t) = False"
| "json_ok (PList xs) = (\<forall>x \<in> set xs. json_ok x)"
| "json_ok (PDict d) = (distinct (map fst d) \<and> (\<forall>e \<in> set d. json_ok (snd e)))"

lemma hex_val_chr: "d < 16 \<Longrightarrow> hex_val (hex_chr d) = Some d"
  by (auto simp: hex_val_def hex_chr_def digit_val_def Let_def)

lemma hex_quad_chr:
  "hex_quad (CHR ''0'' # CHR ''0'' # hex_chr ((of_char c :: nat) div 16) # hex_chr ((of_char c :: nat) mod 16) # t)
     = Some (c, t)"
proof -
  have "(of_char c :: nat) < 16 * 16" using nat_of_char_less_256 [of c] by (simp del: nat_of_char_less_256)
  then have "(of_char c :: nat) div 16 < 16" by (simp only: less_mult_imp_div_less)
  then have "hex_val (hex_chr ((of_char c :: nat) div 16)) = Some ((of_char c :: nat) div 16)"
    by (intro hex_val_chr) auto
  moreover have "hex_val (hex_chr ((of_char c :: nat) mod 16)) = Some ((of_char c :: nat) mod 16)"
    by (intro hex_val_chr) auto
  moreover have "hex_val (CHR ''0'') = Some 0" by (simp add: hex_val_def digit_val_def)
  moreover have "16 * ((of_char c :: nat) div 16) + (of_char c :: nat) mod 16 = of_char c" by simp
  ultimately show ?thesis by (simp add: hex_quad_def)
qed

lemma chr_code: "c = d \<longleftrightarrow> (of_char c :: nat) = of_char d"
  by (metis char_of_char)

lemma parse_str_char: "parse_str (json_char c @ t) = cons_fst c (parse_str t)"
proof -
  consider "c = CHR 0x22" | "c = CHR 0x5C" | "(of_char c :: nat) \<in> {8, 9, 10, 12, 13}"
    | "c \<noteq> CHR 0x22" "c \<noteq> CHR 0x5C" "32 \<le> (of_char c :: nat)" "(of_char c :: nat) \<le> 126"
    | "c \<noteq> CHR 0x22" "c \<noteq> CHR 0x5C" "(of_char c :: nat) \<notin> {8, 9, 10, 12, 13}"
      "\<not> (32 \<le> (of_char c :: nat) \<and> (of_char c :: nat) \<le> 126)"
    by blast
  then show ?thesis
  proof cases
    case 3
    then have "c \<in> {CHR 0x08, CHR 0x09, CHR 0x0A, CHR 0x0C, CHR 0x0D}"
      by (auto simp: chr_code [of c])
    then show ?thesis
      by (elim insertE emptyE; hypsubst; subst parse_str.simps; simp add: json_char_def json_escape_def)
  next
    case 5
    then have "json_char c = [CHR 0x5C, CHR ''u'', CHR ''0'', CHR ''0'',
      hex_chr ((of_char c :: nat) div 16), hex_chr ((of_char c :: nat) mod 16)]"
      unfolding json_char_def Let_def by auto
    then show ?thesis by (subst parse_str.simps) (simp add: hex_quad_chr)
  qed (subst parse_str.simps, simp add: json_char_def json_escape_def Let_def)+
qed

lemma parse_str_string: "parse_str (concat (map json_char s) @ CHR 0x22 # t) = Some (s, t)"
proof (induction s)
  case Nil
  show ?case by (simp, subst parse_str.simps) simp
next
  case (Cons c s)
  then show ?case by (simp add: parse_str_char cons_fst_def)
qed

definition num_end :: "string \<Rightarrow> bool" where
  "num_end s \<longleftrightarrow> s = [] \<or> hd s \<in> {CHR '','', CHR '']'', CHR ''}''}"

lemma digit_chr_is_digit: "d < 10 \<Longrightarrow> is_digit (digit_chr d)"
  by (simp add: is_digit_def digit_chr_def)

lemma show_nat_all_digits: "list_all is_digit (show_nat n)"
  using show_nat_digits digit_chr_is_digit by (fastforce simp: list_all_iff)

lemma show_nat_hd: "0 < n \<Longrightarrow> hd (show_nat n) \<noteq> CHR ''0''"
proof (induction n rule: show_nat.induct)
  case (1 n)
  show ?case
  proof (cases "n < 10")
    case True
    then have "(of_char (digit_chr n) :: nat) = 48 + n" by (simp add: digit_chr_def)
    then have "digit_chr n \<noteq> CHR ''0''" using 1(2) by (simp add: chr_code [of "digit_chr n"])
    with True show ?thesis by (subst show_nat.simps) simp
  next
    case False
    then show ?thesis using 1 by (subst show_nat.simps) (simp add: show_nat_nonempty)
  qed
qed

lemma is_digit_json_end:
  assumes "num_end t"
  shows "takeWhile is_digit t = []" "parse_frac t = ([], t)" "parse_exp t = (None, t)"
  using assms by (cases t; auto simp: num_end_def is_digit_def parse_frac_def parse_exp_def Let_def)+

lemma digits_show_nat:
  "num_end t \<Longrightarrow> takeWhile is_digit (show_nat n @ t) = show_nat n"
  using show_nat_all_digits [of n] is_digit_json_end(1)
  by (subst takeWhile_append2) (auto simp: list_all_iff)

lemma digits_val_show_nat: "digits_val (show_nat n) = n"
  by (simp add: digits_val_def read_show_nat)

lemma show_nat_zero: "show_nat 0 = ''0''"
  by (subst show_nat.simps) (simp add: digit_chr_def char_of_def bit_0)

lemma show_nat_int_part: "(if hd (show_nat n) = CHR ''0'' then ''0'' else show_nat n) = show_nat n"
  using show_nat_hd [of n] by (cases "n = 0") (auto simp: show_nat_zero)

lemma show_nat_no_minus: "hd (show_nat n) \<noteq> CHR ''-''"
proof -
  have "hd (show_nat n) \<in> set (show_nat n)" by (simp add: show_nat_nonempty)
  then obtain d where "d < 10" "hd (show_nat n) = digit_chr d" using show_nat_digits by blast
  then show ?thesis using digit_chr_plain by simp
qed

lemma parse_num_show_nat:
  assumes t: "num_end t"
  shows "parse_num (show_nat n @ t) = Some (PInt (int n), t)"
proof (cases "n = 0")
  case True
  have "takeWhile is_digit (CHR ''0'' # t) = ''0''" using is_digit_json_end [OF t] by (simp add: is_digit_def)
  moreover have "digits_val ''0'' = 0" using digits_val_show_nat [of 0] by (simp add: show_nat_zero)
  ultimately show ?thesis using True
    by (simp add: parse_num_def show_nat_zero Let_def is_digit_json_end [OF t] del: takeWhile.simps)
next
  case False
  then show ?thesis
    by (simp add: parse_num_def Let_def digits_show_nat [OF t] show_nat_nonempty show_nat_no_minus
        show_nat_hd digits_val_show_nat is_digit_json_end [OF t])
qed

lemma parse_num_show_int:
  assumes t: "num_end t"
  shows "parse_num (show_int i @ t) = Some (PInt i, t)"
proof (cases "i < 0")
  case True
  then show ?thesis
    by (simp add: parse_num_def show_int_def Let_def digits_show_nat [OF t] show_nat_nonempty
        show_nat_hd digits_val_show_nat is_digit_json_end [OF t])
next
  case False
  then show ?thesis using parse_num_show_nat [OF t] by (simp add: show_int_def)
qed

lemma show_int_hd: "hd (show_int i @ t) = CHR ''-'' \<or> is_digit (hd (show_int i @ t))" "show_int i \<noteq> []"
proof -
  have "is_digit (hd (show_nat n))" for n
    using show_nat_all_digits [of n] by (cases "show_nat n") (auto simp: show_nat_nonempty)
  then show "hd (show_int i @ t) = CHR ''-'' \<or> is_digit (hd (show_int i @ t))" "show_int i \<noteq> []"
    by (auto simp: show_int_def show_nat_nonempty)
qed

lemma parse_value_int:
  assumes "num_end t"
  shows "parse_value (Suc n) (show_int i @ t) = Some (PInt i, t)"
proof -
  obtain c r where cr: "show_int i @ t = c # r" using show_int_hd(2) by (cases "show_int i @ t") auto
  then have "c = CHR ''-'' \<or> is_digit c" using show_int_hd(1) [of i t] by simp
  then have "c \<noteq> CHR 0x22" "c \<noteq> CHR ''{''" "c \<noteq> CHR ''[''" "c \<noteq> CHR ''n''" "c \<noteq> CHR ''t''" "c \<noteq> CHR ''f''"
    by (auto simp: is_digit_def)
  then have "parse_value (Suc n) (c # r) = parse_num (c # r)" by simp
  with cr parse_num_show_int [OF assms, of i] show ?thesis by simp
qed

lemma json_string_parse: "json_string s @ t = CHR 0x22 # concat (map json_char s) @ CHR 0x22 # t"
  by (simp add: json_string_def)

lemma show_int_first:
  "\<not> json_ws (hd (show_int i))" "hd (show_int i) \<notin> {CHR '']'', CHR ''}'', CHR '',''}"
proof -
  have "hd (show_int i) = CHR ''-'' \<or> is_digit (hd (show_int i))"
    using show_int_hd(1) [of i "[]"] show_int_hd(2) [of i] by simp
  then show "\<not> json_ws (hd (show_int i))" "hd (show_int i) \<notin> {CHR '']'', CHR ''}'', CHR '',''}"
    by (auto simp: is_digit_def json_ws_def)
qed

lemma json_dumps_hd:
  "json_ok v \<Longrightarrow> json_dumps fr v = Inr s \<Longrightarrow>
     s \<noteq> [] \<and> \<not> json_ws (hd s) \<and> hd s \<notin> {CHR '']'', CHR ''}'', CHR '',''}"
  using show_int_first show_int_hd(2)
  by (cases v) (auto simp: json_ws_def json_string_def bind_text_def split: sum.splits if_splits)

lemma bind_text_Inr: "bind_text r f = Inr s \<longleftrightarrow> (\<exists>t. r = Inr t \<and> f t = Inr s)"
  by (auto simp: bind_text_def split: sum.splits)

lemma dmerge_Nil: "distinct (map fst d) \<Longrightarrow> dmerge [] d = d"
proof -
  have "distinct (map fst (a @ d)) \<Longrightarrow> dmerge a d = a @ d" for a
  proof (induction d arbitrary: a)
    case (Cons e d)
    obtain k v where e: "e = (k, v)" by (cases e)
    have "k \<notin> fst ` set a" using Cons.prems e by auto
    then have "dset a k v = a @ [(k, v)]" by (induction a) auto
    moreover have "dmerge (a @ [(k, v)]) d = (a @ [(k, v)]) @ d"
      using Cons.prems e by (intro Cons.IH) auto
    ultimately show ?case using e by simp
  qed simp
  from this [of "[]"] show "distinct (map fst d) \<Longrightarrow> dmerge [] d = d" by simp
qed

lemma skip_ws_other: "s \<noteq> [] \<Longrightarrow> \<not> json_ws (hd s) \<Longrightarrow> skip_ws (s @ t) = s @ t"
  by (cases s) auto

lemma json_ws_simps [simp]: "json_ws (CHR '' '')" "\<not> json_ws (CHR '']'')" "\<not> json_ws (CHR ''}'')"
  "\<not> json_ws (CHR '','')" "\<not> json_ws (CHR '':'')" "\<not> json_ws (CHR 0x22)"
  by (simp_all add: json_ws_def)

lemma json_items_hd:
  assumes "\<forall>x \<in> set xs. json_ok x" and "xs \<noteq> []" and "json_items fr xs = Inr u"
  shows "u \<noteq> []" "\<not> json_ws (hd u)" "hd u \<noteq> CHR '']''"
proof -
  obtain x ys where x: "xs = x # ys" using assms(2) by (cases xs) auto
  then obtain s r where s: "json_dumps fr x = Inr s" "u = s @ r"
    using assms(3) by (auto simp: bind_text_Inr split: if_splits)
  with json_dumps_hd [of x fr s] x assms(1) show "u \<noteq> []" "\<not> json_ws (hd u)" "hd u \<noteq> CHR '']''"
    by (cases s; auto)+
qed

lemma json_pairs_hd: "d \<noteq> [] \<Longrightarrow> json_pairs fr d = Inr u \<Longrightarrow> \<exists>r. u = CHR 0x22 # r"
  by (cases d) (auto simp: bind_text_Inr json_string_def split: if_splits)

text \<open>What the parser does on the text of a value, of the items of a list, of the pairs of a dict.\<close>

lemma parse_printed:
  "json_ok v \<Longrightarrow> json_dumps fr v = Inr s \<Longrightarrow> num_end t \<Longrightarrow> length s \<le> n \<Longrightarrow>
     parse_value n (s @ t) = Some (v, t)"
  "(\<forall>x \<in> set xs. json_ok x) \<Longrightarrow> xs \<noteq> [] \<Longrightarrow> json_items fr xs = Inr s' \<Longrightarrow> length s' < m \<Longrightarrow>
     parse_items m (s' @ CHR '']'' # t) = Some (xs, t)"
  "(\<forall>e \<in> set d. json_ok (snd e)) \<Longrightarrow> d \<noteq> [] \<Longrightarrow> json_pairs fr d = Inr s'' \<Longrightarrow> length s'' < m' \<Longrightarrow>
     parse_pairs m' (s'' @ CHR ''}'' # t) = Some (d, t)"
proof (induction fr v and fr xs and fr d arbitrary: s n t and s' m t and s'' m' t
    rule: json_dumps_json_items_json_pairs.induct)
  case (1 fr)
  then show ?case by (cases n) auto
next
  case (2 fr b)
  then show ?case by (cases n; cases b) auto
next
  case (3 fr i)
  then obtain k where "n = Suc k" using show_int_hd(2) [of i] by (cases n) auto
  moreover have "s = show_int i" using 3(2) by simp
  ultimately show ?case using parse_value_int [OF 3(3)] by metis
next
  case (5 fr x)
  then show ?case by (cases n) (auto simp: json_string_parse parse_str_string json_string_def)
next
  case (8 fr xs)
  then obtain u where u: "json_items fr xs = Inr u" "s = ''['' @ u @ '']''" by (auto simp: bind_text_Inr)
  obtain k where k: "n = Suc k" "length u < k" using 8(5) u by (cases n) auto
  show ?case
  proof (cases "xs = []")
    case True
    with u k show ?thesis by simp
  next
    case False
    note h = json_items_hd [OF _ False u(1)]
    have "parse_items k (u @ CHR '']'' # t) = Some (xs, t)"
      using 8(1) [OF _ False u(1) k(2)] 8(2) by simp
    then show ?thesis using u k h 8(2) by (simp add: Let_def skip_ws_other)
  qed
next
  case (9 fr d)
  then obtain u where u: "json_pairs fr d = Inr u" "s = ''{'' @ u @ ''}''" by (auto simp: bind_text_Inr)
  obtain k where k: "n = Suc k" "length u < k" using 9(5) u by (cases n) auto
  show ?case
  proof (cases "d = []")
    case True
    with u k show ?thesis by simp
  next
    case False
    then obtain r where r: "u = CHR 0x22 # r" using json_pairs_hd u(1) by blast
    have "parse_pairs k (u @ CHR ''}'' # t) = Some (d, t)"
      using 9(1) [OF _ False u(1) k(2)] 9(2) by simp
    then show ?thesis using u k 9(2) r by (simp add: Let_def dmerge_Nil)
  qed
next
  case (11 fr x xs)
  obtain sx where sx: "json_dumps fr x = Inr sx" using 11(5) by (auto simp: bind_text_Inr)
  obtain k where k: "m = Suc k" using 11(6) by (cases m) auto
  show ?case
  proof (cases "xs = []")
    case True
    then have "s' = sx" using 11(5) sx by (simp add: bind_text_def)
    moreover have "parse_value k (sx @ CHR '']'' # t) = Some (x, CHR '']'' # t)"
      using 11(1) [OF _ sx] 11(3,6) k \<open>s' = sx\<close> by (simp add: num_end_def)
    ultimately show ?thesis using k True by simp
  next
    case False
    then obtain u where u: "json_items fr xs = Inr u" "s' = sx @ '', '' @ u"
      using 11(5) sx by (auto simp: bind_text_Inr)
    have "parse_value k (sx @ CHR '','' # CHR '' '' # u @ CHR '']'' # t) = Some (x, CHR '','' # CHR '' '' # u @ CHR '']'' # t)"
      using 11(1) [OF _ sx] 11(3,6) k u by (simp add: num_end_def)
    moreover have "parse_items k (u @ CHR '']'' # t) = Some (xs, t)"
      using 11(2) [OF False _ False u(1)] 11(3,6) k u by simp
    moreover have "skip_ws (u @ CHR '']'' # t) = u @ CHR '']'' # t"
      using json_items_hd [OF _ False u(1)] 11(3) by (intro skip_ws_other) auto
    ultimately show ?thesis using k u by (simp add: cons_fst_def)
  qed
next
  case (13 fr k v d)
  obtain sv where sv: "json_dumps fr v = Inr sv" using 13(5) by (auto simp: bind_text_Inr)
  obtain j where j: "m' = Suc j" using 13(6) by (cases m') auto
  have ws: "skip_ws (sv @ r) = sv @ r" for r
    using json_dumps_hd [OF _ sv] 13(3) by (intro skip_ws_other) auto
  show ?case
  proof (cases "d = []")
    case True
    then have s: "s'' = json_string k @ '': '' @ sv" using 13(5) sv by (simp add: bind_text_def)
    moreover have "parse_value j (sv @ CHR ''}'' # t) = Some (v, CHR ''}'' # t)"
      using 13(1) [OF _ sv] 13(3,6) j s by (simp add: num_end_def)
    ultimately show ?thesis using j True ws by (simp add: json_string_parse parse_str_string)
  next
    case False
    then obtain u where u: "json_pairs fr d = Inr u" "s'' = json_string k @ '': '' @ sv @ '', '' @ u"
      using 13(5) sv by (auto simp: bind_text_Inr)
    have "parse_value j (sv @ CHR '','' # CHR '' '' # u @ CHR ''}'' # t) = Some (v, CHR '','' # CHR '' '' # u @ CHR ''}'' # t)"
      using 13(1) [OF _ sv] 13(3,6) j u by (simp add: num_end_def)
    moreover have "parse_pairs j (u @ CHR ''}'' # t) = Some (d, t)"
      using 13(2) [OF False _ False u(1)] 13(3,6) j u by simp
    moreover have "skip_ws (u @ CHR ''}'' # t) = u @ CHR ''}'' # t"
      using json_pairs_hd [OF False u(1)] by auto
    ultimately show ?thesis using j u ws by (simp add: json_string_parse parse_str_string cons_fst_def)
  qed
qed simp_all

lemma json_loads_dumps:
  assumes "json_ok v" and "json_dumps fr v = Inr s"
  shows "json_loads s = Inr v"
proof -
  have h: "s \<noteq> []" "\<not> json_ws (hd s)" using json_dumps_hd [OF assms] by auto
  then have "skip_ws s = s" using skip_ws_other [of s "[]"] by simp
  moreover have "parse_value (length s) (s @ []) = Some (v, [])"
    by (rule parse_printed(1) [OF assms]) (simp_all add: num_end_def)
  ultimately show ?thesis by (simp add: json_loads_def)
qed

lemma json_dumps_ok: "json_ok v \<Longrightarrow> \<exists>s. json_dumps fr v = Inr s"
  "(\<forall>x \<in> set xs. json_ok x) \<Longrightarrow> \<exists>s. json_items fr xs = Inr s"
  "(\<forall>e \<in> set d. json_ok (snd e)) \<Longrightarrow> \<exists>s. json_pairs fr d = Inr s"
  by (induction fr v and fr xs and fr d rule: json_dumps_json_items_json_pairs.induct)
    (auto simp: bind_text_def)

text \<open>The text is plain ASCII.\<close>

definition ascii :: "string \<Rightarrow> bool" where
  "ascii s \<longleftrightarrow> (\<forall>c \<in> set s. (of_char c :: nat) < 128)"

lemma hex_chr_ascii: "d < 16 \<Longrightarrow> (of_char (hex_chr d) :: nat) < 128"
  by (simp add: hex_chr_def)

lemma json_char_ascii: "ascii (json_char c)"
proof -
  have "(of_char c :: nat) < 16 * 16" using nat_of_char_less_256 [of c] by (simp del: nat_of_char_less_256)
  then have "(of_char c :: nat) div 16 < 16" by (simp only: less_mult_imp_div_less)
  then show ?thesis by (auto simp: ascii_def json_char_def Let_def hex_chr_ascii)
qed

lemma ascii_simps [simp]: "ascii []" "ascii (c # s) \<longleftrightarrow> (of_char c :: nat) < 128 \<and> ascii s"
  "ascii (s @ t) \<longleftrightarrow> ascii s \<and> ascii t"
  by (auto simp: ascii_def)

lemma ascii_json_string: "ascii (json_string s)"
  using json_char_ascii by (auto simp: json_string_def) (auto simp: ascii_def)

lemma ascii_show_int: "ascii (show_int i)"
  using show_nat_all_digits by (auto simp: show_int_def ascii_def list_all_iff is_digit_def) fastforce+

lemma json_dumps_ascii: "json_ok v \<Longrightarrow> json_dumps fr v = Inr s \<Longrightarrow> ascii s"
  "(\<forall>x \<in> set xs. json_ok x) \<Longrightarrow> json_items fr xs = Inr s' \<Longrightarrow> ascii s'"
  "(\<forall>e \<in> set d. json_ok (snd e)) \<Longrightarrow> json_pairs fr d = Inr s'' \<Longrightarrow> ascii s''"
  by (induction fr v and fr xs and fr d arbitrary: s and s' and s'' rule: json_dumps_json_items_json_pairs.induct)
    (auto simp: bind_text_Inr ascii_show_int ascii_json_string split: if_splits)

end
