(* ===== verification/Codec.thy ===== *)
theory Codec imports Json begin

text \<open>
  Byte-level encodings: UTF-8 (\<open>str.encode\<close>, \<open>bytes.decode\<close>) for the characters of the model,
  base64 (\<open>b64encode\<close>, \<open>b64decode\<close>), and apicrud/aes_encrypt.py: the padding of AESEncrypt and
  AESEncryptBin around the CBC cipher of Cryptodome, which is a parameter. Bytes are characters.
\<close>

section \<open>UTF-8\<close>

definition utf8_chr :: "char \<Rightarrow> string" where
  "utf8_chr c = (let n = (of_char c :: nat) in
     if n < 128 then [c] else [char_of (192 + n div 64), char_of (128 + n mod 64)])"

definition utf8_encode :: "string \<Rightarrow> string" where
  "utf8_encode s = concat (map utf8_chr s)"

text \<open>Code points above 255 have no character here; their sequences are refused like invalid ones.\<close>

fun utf8_decode :: "string \<Rightarrow> string option" where
  "utf8_decode [] = Some []"
| "utf8_decode (b # bs) =
     (if (of_char b :: nat) < 128 then map_option ((#) b) (utf8_decode bs)
      else if of_char b \<in> {194, 195 :: nat} then
        (case bs of
           [] \<Rightarrow> None
         | b' # bs' \<Rightarrow>
             if 128 \<le> (of_char b' :: nat) \<and> (of_char b' :: nat) < 192
             then map_option ((#) (char_of (((of_char b :: nat) - 192) * 64 + ((of_char b' :: nat) - 128))))
                    (utf8_decode bs')
             else None)
      else None)"

lemma utf8_encode_ascii: "ascii s \<Longrightarrow> utf8_encode s = s"
  by (induction s) (auto simp: utf8_encode_def utf8_chr_def Let_def)

lemma utf8_decode_ascii: "ascii s \<Longrightarrow> utf8_decode s = Some s"
  by (induction s) auto

section \<open>Base64\<close>

definition b64_chr :: "nat \<Rightarrow> char" where
  "b64_chr n = char_of (if n < 26 then n + 65 else if n < 52 then n + 71
     else if n < 62 then n - 4 else if n = 62 then 43 else 47)"

definition b64_val :: "char \<Rightarrow> nat option" where
  "b64_val c = (let n = (of_char c :: nat) in
     if 65 \<le> n \<and> n \<le> 90 then Some (n - 65)
     else if 97 \<le> n \<and> n \<le> 122 then Some (n - 71)
     else if 48 \<le> n \<and> n \<le> 57 then Some (n + 4)
     else if n = 43 then Some 62 else if n = 47 then Some 63 else None)"

fun b64encode :: "string \<Rightarrow> string" where
  "b64encode [] = []"
| "b64encode [a] = (let x = (of_char a :: nat) in
     [b64_chr (x div 4), b64_chr (x mod 4 * 16), CHR ''='', CHR ''=''])"
| "b64encode [a, b] = (let x = (of_char a :: nat); y = (of_char b :: nat) in
     [b64_chr (x div 4), b64_chr (x mod 4 * 16 + y div 16), b64_chr (y mod 16 * 4), CHR ''=''])"
| "b64encode (a # b # c # r) =
     (let x = (of_char a :: nat); y = (of_char b :: nat); z = (of_char c :: nat) in
      b64_chr (x div 4) # b64_chr (x mod 4 * 16 + y div 16) # b64_chr (y mod 16 * 4 + z div 64) #
      b64_chr (z mod 64) # b64encode r)"

text \<open>
  \<open>binascii.a2b_base64\<close> without \<open>strict_mode\<close>: characters outside the alphabet are skipped; the
  state is the position \<open>q\<close> in the current group of four, the bits \<open>acc\<close> left over and the number
  of padding characters seen since the last character of the alphabet. Two padding characters
  complete a group of two, one completes a group of three, and then the rest is ignored; an
  incomplete group at the end is binascii.Error, a ValueError.
\<close>

fun b64_scan :: "nat \<Rightarrow> nat \<Rightarrow> nat \<Rightarrow> string \<Rightarrow> string option" where
  "b64_scan q acc pads [] = (if q = 0 then Some [] else None)"
| "b64_scan q acc pads (c # cs) =
     (if c = CHR ''='' then
        (if 2 \<le> q \<and> 4 \<le> q + Suc pads then Some [] else b64_scan q acc (Suc pads) cs)
      else case b64_val c of
        None \<Rightarrow> b64_scan q acc pads cs
      | Some v \<Rightarrow>
          (if q = 0 then b64_scan 1 v 0 cs
           else if q = 1 then map_option ((#) (char_of (acc * 4 + v div 16))) (b64_scan 2 (v mod 16) 0 cs)
           else if q = 2 then map_option ((#) (char_of (acc * 16 + v div 4))) (b64_scan 3 (v mod 4) 0 cs)
           else map_option ((#) (char_of (acc * 64 + v))) (b64_scan 0 0 0 cs)))"

definition b64decode :: "string \<Rightarrow> exc + string" where
  "b64decode s = (case b64_scan 0 0 0 s of
       None \<Rightarrow> Inl (Exc EValueError ''Incorrect padding'') | Some bs \<Rightarrow> Inr bs)"

lemma b64_val_chr: "n < 64 \<Longrightarrow> b64_val (b64_chr n) = Some n"
  by (auto simp: b64_val_def b64_chr_def Let_def)

lemma b64_chr_eq: "n < 64 \<Longrightarrow> b64_chr n \<noteq> CHR ''=''"
proof
  assume "n < 64" and "b64_chr n = CHR ''=''"
  then have "b64_val (CHR ''='') = Some n" by (metis b64_val_chr)
  then show False by (simp add: b64_val_def)
qed

lemma byte_bounds: "(of_char c :: nat) div 4 < 64" "(of_char c :: nat) div 16 < 16" "(of_char c :: nat) div 64 < 4"
  by (simp_all add: div_less_iff_less_mult)

text \<open>How six-bit groups and bytes cut the same bits; \<open>n\<close> is 256 for a whole byte.\<close>

lemma group_arith:
  fixes x y z :: nat
  shows "y div 16 < 16 \<Longrightarrow> x mod 4 * 16 + y div 16 < 64"
    and "z div 64 < 4 \<Longrightarrow> y mod 16 * 4 + z div 64 < 64"
    and "x mod 4 * 16 < 64" and "y mod 16 * 4 < 64" and "z mod 64 < 64"
    and "y div 16 < 16 \<Longrightarrow> x div 4 * 4 + (x mod 4 * 16 + y div 16) div 16 = x"
    and "y div 16 < 16 \<Longrightarrow> (x mod 4 * 16 + y div 16) mod 16 = y div 16"
    and "z div 64 < 4 \<Longrightarrow> y div 16 * 16 + (y mod 16 * 4 + z div 64) div 4 = y"
    and "z div 64 < 4 \<Longrightarrow> (y mod 16 * 4 + z div 64) mod 4 = z div 64"
    and "x div 4 * 4 + (x mod 4 * 16) div 16 = x"
    and "y div 16 * 16 + (y mod 16 * 4) div 4 = y"
    and "z div 64 * 64 + z mod 64 = z"
proof -
  have m: "x mod 4 < 4" "y mod 16 < 16" "z mod 64 < 64" by simp_all
  from m show "y div 16 < 16 \<Longrightarrow> x mod 4 * 16 + y div 16 < 64"
    "z div 64 < 4 \<Longrightarrow> y mod 16 * 4 + z div 64 < 64"
    "x mod 4 * 16 < 64" "y mod 16 * 4 < 64" "z mod 64 < 64" by linarith+
qed simp_all

lemmas group_simps = group_arith b64_val_chr b64_chr_eq byte_bounds Let_def

lemma b64_scan_encode: "b64_scan 0 0 0 (b64encode s) = Some s"
  by (induction s rule: b64encode.induct) (simp_all add: group_simps)

lemma b64_round_trip: "b64decode (b64encode s) = Inr s"
  by (simp add: b64decode_def b64_scan_encode)

lemma b64_chr_ascii: "n < 64 \<Longrightarrow> (of_char (b64_chr n) :: nat) < 128"
  by (auto simp: b64_chr_def)

lemma b64encode_ascii: "ascii (b64encode s)"
  by (induction s rule: b64encode.induct) (simp_all add: group_simps b64_chr_ascii)

section \<open>AES\<close>

text \<open>\<open>AESEncrypt._pad\<close> and \<open>_unpad\<close>; the slice \<open>s[:-n]\<close> is empty for \<open>n = 0\<close>.\<close>

definition BLOCK_SIZE :: nat where
  "BLOCK_SIZE = 16"

definition aes_pad :: "string \<Rightarrow> string" where
  "aes_pad s = s @ replicate (BLOCK_SIZE - length s mod BLOCK_SIZE) (char_of (BLOCK_SIZE - length s mod BLOCK_SIZE))"

definition drop_last :: "nat \<Rightarrow> string \<Rightarrow> string" where
  "drop_last n s = (if n = 0 then [] else take (length s - n) s)"

text \<open>\<open>ord(b'')\<close> is a TypeError in \<open>AESEncrypt\<close>, \<open>b''[-1]\<close> an IndexError in \<open>AESEncryptBin\<close>.\<close>

definition aes_unpad :: "string \<Rightarrow> exc + string" where
  "aes_unpad s = (if s = [] then Inl (Exc ETypeError ''ord() expected a character'')
                  else Inr (drop_last (of_char (last s)) s))"

definition aes_unpad_bin :: "string \<Rightarrow> exc + string" where
  "aes_unpad_bin s = (if s = [] then Inl (Exc EIndexError ''index out of range'')
                      else Inr (drop_last (of_char (last s)) s))"

text \<open>
  A cipher is given its key (the SHA-256 of the passphrase) and the initialisation vector, sixteen
  random bytes that \<open>encrypt\<close> puts in front. The text is padded before it is encoded, so a
  non-ASCII text has no whole number of blocks and the cipher raises ValueError.
\<close>

definition aes_key :: "cryptops \<Rightarrow> string \<Rightarrow> string" where
  "aes_key C secret = cr_sha256 C (utf8_encode secret)"

definition aes_encrypt :: "cryptops \<Rightarrow> string \<Rightarrow> string \<Rightarrow> string \<Rightarrow> exc + string" where
  "aes_encrypt C secret iv raw =
     (case cr_cbc_encrypt C (aes_key C secret) iv (utf8_encode (aes_pad raw)) of
        Inl e \<Rightarrow> Inl e | Inr ct \<Rightarrow> Inr (b64encode (iv @ ct)))"

definition aes_decrypt :: "cryptops \<Rightarrow> string \<Rightarrow> string \<Rightarrow> exc + string" where
  "aes_decrypt C secret enc =
     (case b64decode enc of Inl e \<Rightarrow> Inl e | Inr b \<Rightarrow>
       (case cr_cbc_decrypt C (aes_key C secret) (take 16 b) (drop 16 b) of
          Inl e \<Rightarrow> Inl e | Inr p \<Rightarrow> aes_unpad p))"

definition aes_encrypt_bin :: "cryptops \<Rightarrow> string \<Rightarrow> string \<Rightarrow> string \<Rightarrow> exc + string" where
  "aes_encrypt_bin C secret iv raw =
     (case cr_cbc_encrypt C (aes_key C secret) iv (aes_pad raw) of
        Inl e \<Rightarrow> Inl e | Inr ct \<Rightarrow> Inr (iv @ ct))"

definition aes_decrypt_bin :: "cryptops \<Rightarrow> string \<Rightarrow> string \<Rightarrow> exc + string" where
  "aes_decrypt_bin C secret enc =
     (case cr_cbc_decrypt C (aes_key C secret) (take 16 enc) (drop 16 enc) of
        Inl e \<Rightarrow> Inl e | Inr p \<Rightarrow> aes_unpad_bin p)"

lemma aes_pad_blocks: "16 dvd length (aes_pad s)"
proof -
  define q r where "q = length s div 16" and "r = length s mod 16"
  have s: "length s = q * 16 + r" and r: "r < 16" by (simp_all add: q_def r_def)
  have "length (aes_pad s) = length s + (16 - r)" by (simp add: aes_pad_def BLOCK_SIZE_def r_def)
  also have "\<dots> = (q + 1) * 16" using s r by simp
  finally show ?thesis by (metis dvd_triv_right)
qed

lemma aes_pad_longer: "length s < length (aes_pad s)" "length (aes_pad s) \<le> length s + 16"
  by (simp_all add: aes_pad_def BLOCK_SIZE_def)

lemma drop_last_pad: "drop_last (of_char (last (aes_pad s))) (aes_pad s) = s"
proof -
  define n where "n = 16 - length s mod 16"
  have n: "0 < n" "n \<le> 16" by (simp_all add: n_def)
  then have "last (aes_pad s) = char_of n"
    by (simp add: aes_pad_def BLOCK_SIZE_def n_def [symmetric])
  moreover have "(of_char (char_of n) :: nat) = n" using n by simp
  ultimately show ?thesis using n
    by (simp add: drop_last_def) (simp add: aes_pad_def BLOCK_SIZE_def n_def [symmetric])
qed

lemma aes_unpad_pad: "aes_unpad (aes_pad s) = Inr s" "aes_unpad_bin (aes_pad s) = Inr s"
  using aes_pad_longer(1) [of s] by (auto simp: aes_unpad_def aes_unpad_bin_def drop_last_pad)

lemma ascii_aes_pad: "ascii s \<Longrightarrow> ascii (aes_pad s)"
proof -
  assume "ascii s"
  moreover have "ascii (replicate n (char_of (16 - length s mod 16)))" for n
    by (auto simp: ascii_def)
  ultimately show ?thesis by (simp add: aes_pad_def BLOCK_SIZE_def)
qed

text \<open>
  The cipher of the Cryptodome documentation: CBC mode encrypts whole blocks, keeps their length
  and is undone by decryption with the same key and initialisation vector; anything else is a
  ValueError.
\<close>

definition cbc_ok :: "cryptops \<Rightarrow> bool" where
  "cbc_ok C \<longleftrightarrow>
     (\<forall>key iv p. length iv = 16 \<and> 16 dvd length p \<longrightarrow>
        (\<exists>ct. cr_cbc_encrypt C key iv p = Inr ct \<and> cr_cbc_decrypt C key iv ct = Inr p)) \<and>
     (\<forall>key iv p. \<not> 16 dvd length p \<longrightarrow> (\<exists>m. cr_cbc_encrypt C key iv p = Inl (Exc EValueError m)))"

lemma cbc_okD:
  "cbc_ok C \<Longrightarrow> length iv = 16 \<Longrightarrow> 16 dvd length p \<Longrightarrow>
     \<exists>ct. cr_cbc_encrypt C key iv p = Inr ct \<and> cr_cbc_decrypt C key iv ct = Inr p"
  by (auto simp: cbc_ok_def)

lemma aes_bin_round_trip:
  "cbc_ok C \<Longrightarrow> length iv = 16 \<Longrightarrow>
     \<exists>e. aes_encrypt_bin C secret iv raw = Inr e \<and> aes_decrypt_bin C secret e = Inr raw"
  using cbc_okD [of C iv "aes_pad raw" "aes_key C secret"] aes_pad_blocks [of raw]
  by (auto simp: aes_encrypt_bin_def aes_decrypt_bin_def aes_unpad_pad)

lemma aes_ascii_round_trip:
  assumes "cbc_ok C" and "length iv = 16" and "ascii raw"
  shows "\<exists>e. aes_encrypt C secret iv raw = Inr e \<and> aes_decrypt C secret e = Inr raw \<and> ascii e"
  using cbc_okD [of C iv "aes_pad raw" "aes_key C secret"] aes_pad_blocks [of raw] assms
  by (auto simp: aes_encrypt_def aes_decrypt_def aes_unpad_pad utf8_encode_ascii ascii_aes_pad
      b64_round_trip b64encode_ascii)

text \<open>
  Operations for the packages, simple enough to compute with: the cipher turns a text around, the
  digests are the identity. They meet \<open>cbc_ok\<close>, so hypotheses that ask for it can hold.
\<close>

definition mem_crypt :: cryptops where
  "mem_crypt = \<lparr>
     cr_cbc_encrypt = (\<lambda>key iv p. if length p mod 16 = 0 then Inr (rev p) else Inl (Exc EValueError ''blocks'')),
     cr_cbc_decrypt = (\<lambda>key iv p. if length p mod 16 = 0 then Inr (rev p) else Inl (Exc EValueError ''blocks'')),
     cr_sha256 = (\<lambda>s. s),
     cr_sha1 = (\<lambda>s. s),
     cr_md5 = (\<lambda>s. take 16 (s @ replicate 16 (CHR ''0''))),
     cr_pw_verify = (\<lambda>p h. h = CHR ''#'' # p),
     cr_pw_hash = (\<lambda>p n. CHR ''#'' # p),
     cr_totp_now = (\<lambda>s t. take 6 s),
     cr_totp_verify = (\<lambda>s p w t. p = take 6 s),
     cr_token_dumps = (\<lambda>key salt s t. s),
     cr_token_loads = (\<lambda>key salt age s t. Inr s),
     cr_jwt_encode = (\<lambda>d key. ''jwt''),
     cr_float_repr = (\<lambda>x. show_int (fst (quotient_of x)))\<rparr>"

lemma mem_crypt_ok: "cbc_ok mem_crypt"
  by (auto simp: cbc_ok_def mem_crypt_def mod_eq_0_iff_dvd)

end
