(* ===== verification/Memory.thy ===== *)
theory Memory imports Schema Codec begin

text \<open>
  A database in memory, and with the in-memory redis a complete environment: theorems that have a
  service's contract as a hypothesis are applied to it. Tables are lists of rows; a session works on
  a copy that a commit makes durable. Joined tables are searched for a row that meets the conditions.
\<close>

section \<open>Database\<close>

record mdb =
  md_durable :: "(string \<times> dict list) list"
  md_current :: "(string \<times> dict list) list"

definition table_of :: "(string \<times> dict list) list \<Rightarrow> string \<Rightarrow> dict list" where
  "table_of ts m = (case map_of ts m of None \<Rightarrow> [] | Some rows \<Rightarrow> rows)"

fun sql_like :: "string \<Rightarrow> string \<Rightarrow> bool" where
  "sql_like [] s = (s = [])"
| "sql_like (p # ps) s =
     (if p = CHR ''%'' then sql_like ps s \<or> (case s of [] \<Rightarrow> False | _ # r \<Rightarrow> sql_like (p # ps) r)
      else (case s of [] \<Rightarrow> False | c # r \<Rightarrow> (p = CHR ''_'' \<or> p = c) \<and> sql_like ps r))"

fun pv_less :: "pyval \<Rightarrow> pyval \<Rightarrow> bool" where
  "pv_less (PTime a) (PTime b) = (a < b)"
| "pv_less (PInt a) (PInt b) = (a < b)"
| "pv_less (PStr a) (PStr b) = (a < b)"
| "pv_less a b = False"

text \<open>Comparisons with NULL are not true; an empty OR is no condition at all.\<close>

fun holds_at :: "(string \<times> dict) list \<Rightarrow> cond \<Rightarrow> bool" where
  "holds_at b (CEq (m, c) v) = (case map_of b m of None \<Rightarrow> False | Some r \<Rightarrow> dget r c = v)"
| "holds_at b (CNe (m, c) v) = (case map_of b m of None \<Rightarrow> False | Some r \<Rightarrow> dget r c \<noteq> PNone \<and> dget r c \<noteq> v)"
| "holds_at b (CGt (m, c) v) = (case map_of b m of None \<Rightarrow> False | Some r \<Rightarrow> pv_less v (dget r c))"
| "holds_at b (CLt (m, c) v) = (case map_of b m of None \<Rightarrow> False | Some r \<Rightarrow> pv_less (dget r c) v)"
| "holds_at b (CLike (m, c) p) = (case map_of b m of None \<Rightarrow> False | Some r \<Rightarrow>
     (case dget r c of PStr s \<Rightarrow> sql_like p s | _ \<Rightarrow> False))"
| "holds_at b (CIn (m, c) vs) = (case map_of b m of None \<Rightarrow> False | Some r \<Rightarrow> dget r c \<in> set vs)"
| "holds_at b (CEqCol (m, c) (m', c')) = (case (map_of b m, map_of b m') of
     (Some r, Some r') \<Rightarrow> dget r c = dget r' c' | _ \<Rightarrow> False)"
| "holds_at b (COr cs) = (cs = [] \<or> (\<exists>c \<in> set cs. holds_at b c))"

fun bindings :: "(string \<times> dict list) list \<Rightarrow> string list \<Rightarrow> (string \<times> dict) list list" where
  "bindings ts [] = [[]]"
| "bindings ts (m # ms) = concat (map (\<lambda>r. map (\<lambda>b. (m, r) # b) (bindings ts ms)) (table_of ts m))"

definition matches :: "(string \<times> dict list) list \<Rightarrow> query \<Rightarrow> dict \<Rightarrow> bool" where
  "matches ts q row = list_ex (\<lambda>b. list_all (holds_at ((q_model q, row) # b)) (q_conds q)) (bindings ts (q_joins q))"

definition mem_select :: "query \<Rightarrow> mdb \<Rightarrow> dict list" where
  "mem_select q d =
     (let rows = filter (matches (md_current d) q) (table_of (md_current d) (q_model q))
      in case q_slice q of None \<Rightarrow> rows | Some (a, b) \<Rightarrow> take (nat (b - a)) (drop (nat a) rows))"

definition put_table :: "string \<Rightarrow> dict list \<Rightarrow> mdb \<Rightarrow> mdb" where
  "put_table m rows d = d\<lparr>md_current := AList.update m rows (md_current d)\<rparr>"

definition mem_update :: "query \<Rightarrow> dict \<Rightarrow> mdb \<Rightarrow> (exc + nat) \<times> mdb" where
  "mem_update q kvs d =
     (let rows = table_of (md_current d) (q_model q); hit = matches (md_current d) q
      in (Inr (length (filter hit rows)),
          put_table (q_model q) (map (\<lambda>r. if hit r then dmerge r kvs else r) rows) d))"

definition mem_delete :: "query \<Rightarrow> mdb \<Rightarrow> (exc + nat) \<times> mdb" where
  "mem_delete q d =
     (let rows = table_of (md_current d) (q_model q); hit = matches (md_current d) q
      in (Inr (length (filter hit rows)), put_table (q_model q) (filter (\<lambda>r. \<not> hit r) rows) d))"

definition map_row :: "string \<Rightarrow> pyval \<Rightarrow> (dict \<Rightarrow> dict) \<Rightarrow> mdb \<Rightarrow> mdb" where
  "map_row m i f d =
     put_table m (map (\<lambda>r. if dget r ''id'' = i then f r else r) (table_of (md_current d) m)) d"

definition rows_in :: "pyval \<Rightarrow> dict list" where
  "rows_in v = (case v of PList xs \<Rightarrow> concat (map (\<lambda>x. case x of PDict r \<Rightarrow> [r] | _ \<Rightarrow> []) xs) | _ \<Rightarrow> [])"

definition mem_db :: "mdb dbops" where
  "mem_db = \<lparr>
     db_all = (\<lambda>q d. Inr (mem_select q d)),
     db_count = (\<lambda>q d. Inr (length (mem_select q d))),
     db_update = mem_update,
     db_delete = mem_delete,
     db_add = (\<lambda>m row d. put_table m (table_of (md_current d) m @ [row]) d),
     db_set = (\<lambda>m i a v d. map_row m i (\<lambda>r. dset r a v) d),
     db_related = (\<lambda>m i a d. Inr (concat (map (\<lambda>r. if dget r ''id'' = i then rows_in (dget r a) else [])
        (table_of (md_current d) m)))),
     db_append = (\<lambda>m i a v d. (Inr (), map_row m i (\<lambda>r. dset r a
        (PList (map PDict (rows_in (dget r a)) @ [PDict [(''id'', v)]]))) d)),
     db_remove = (\<lambda>m i a v d. (Inr (), map_row m i (\<lambda>r. dset r a
        (PList (map PDict (filter (\<lambda>x. dget x ''id'' \<noteq> v) (rows_in (dget r a)))))) d)),
     db_flush = (\<lambda>d. (Inr (), d)),
     db_commit = (\<lambda>d. (Inr (), d\<lparr>md_durable := md_current d\<rparr>)),
     db_rollback = (\<lambda>d. d\<lparr>md_current := md_durable d\<rparr>)\<rparr>"

interpretation memory_db: db_contract mem_db md_durable
  by unfold_locales (simp_all add: mem_db_def mem_update_def mem_delete_def put_table_def map_row_def Let_def)

interpretation memory_query: query_contract mem_db
proof
  fix q d rows row k v
  assume "db_all mem_db q d = Inr rows" "row \<in> set rows" "CEq (q_model q, k) v \<in> set (q_conds q)"
  then have "matches (md_current d) q row"
    by (auto simp: mem_db_def mem_select_def Let_def split: option.splits dest!: in_set_takeD in_set_dropD)
  then show "dget row k = v" using \<open>CEq (q_model q, k) v \<in> set (q_conds q)\<close>
    by (auto simp: matches_def list_ex_iff list_all_iff)
qed

section \<open>Cache\<close>

text \<open>A cache that forgets nothing by itself: entries with the time they were put.\<close>

type_synonym mcache = "(pyval \<times> pyval) list"

definition mem_cache :: "mcache cacheops" where
  "mem_cache = \<lparr>tc_get = (\<lambda>k t c. map_of c k), tc_put = (\<lambda>k v t c. AList.update k v c),
     tc_pop = (\<lambda>k c. AList.delete k c)\<rparr>"

section \<open>Environment\<close>

text \<open>The defaults of apicrud/service_config.yaml where it has one.\<close>

definition mem_config :: config where
  "mem_config = \<lparr>
     cf_APPNAME = ''Example'', cf_APPROVED_SENDERS = ''local-senders'',
     cf_AUTH_METHODS = [''local''], cf_AUTH_PARAMS = [''azure'', ''google''],
     cf_AUTH_LANDING_PAGE = ''/#/login/ext'', cf_BASE_URL = ''/api/v1'', cf_DB_AES_SECRET = ''dev-dbsec'',
     cf_DEFAULT_GRANTS = [(''apikeys'', PInt 2), (''contacts'', PInt 8), (''ratelimit'', PInt 500)],
     cf_HEADER_AUTH_APIKEY = ''X-Api-Key'', cf_JWT_ISSUER = ''example.com'', cf_JWT_SECRET = ''secret'',
     cf_LOGIN_ADMIN_LIMIT = 86400, cf_LOGIN_ATTEMPTS_MAX = 5, cf_LOGIN_EXTERNAL_POLICY = ''closed'',
     cf_LOGIN_INTERNAL_POLICY = ''open'', cf_LOGIN_LOCKOUT_INTERVAL = 1800, cf_LOGIN_MFA_APIKEY = False,
     cf_LOGIN_MFA_BACKUP_CODES = 4, cf_LOGIN_MFA_COOKIE_LIMIT = 0, cf_LOGIN_MFA_COOKIE_NAME = ''__Secure-totp'',
     cf_LOGIN_MFA_EXTERNAL = False, cf_LOGIN_MFA_REQUIRED = False, cf_LOGIN_SESSION_LIMIT = 86400,
     cf_METRICS = [], cf_LDAP_PARAMS = [], cf_PUBLIC_HOST = ''localhost'', cf_PUBLIC_URL = ''http://localhost:3000'', cf_RATELIMIT_ENABLE = True, cf_RATELIMIT_INTERVAL = 3600,
     cf_REDIS_AES_SECRET = ''dev-redissec'', cf_REDIS_TTL = 3600, cf_SCOPES_MAX = 16,
     cf_TOKEN_SALT = ''salt'', cf_TOKEN_SECRET = ''sec'', cf_TOKEN_TIMEOUT = 86400\<rparr>"

definition mem_request :: request where
  "mem_request = \<lparr>rq_headers = [], rq_authorization = None, rq_cookies = [],
     rq_rule = ''/api/v1/contact'', rq_language = None\<rparr>"

definition model_of :: "string \<Rightarrow> model option" where
  "model_of n = find_model example_models n"

definition mem_env :: "(mdb, mredis, mcache) env" where
  "mem_env = \<lparr>
     e_db = mem_db, e_redis = mem_redis, e_cache = mem_cache, e_crypt = mem_crypt,
     e_cfg = mem_config, e_req = mem_request, e_policies = [], e_levels = [], e_private = [(''list'', ''list_id'')],
     e_controllers = [(''account'', ''Account''), (''apikey'', ''APIkey''), (''contact'', ''Contact''),
       (''person'', ''Person'')],
     e_models = map mdl_name example_models,
     e_attrs = has_attr example_models,
     e_exclude = (\<lambda>n. case model_of n of None \<Rightarrow> [] | Some m \<Rightarrow> mdl_exclude m),
     e_related = (\<lambda>n. case model_of n of None \<Rightarrow> None | Some m \<Rightarrow> mdl_related m),
     e_hybrid = (\<lambda>n. case model_of n of None \<Rightarrow> [] | Some m \<Rightarrow> mdl_hybrid m),
     e_func_send = False, e_instance = ''host''\<rparr>"

definition mem_world :: "(string \<times> dict list) list \<Rightarrow> (mdb, mredis, mcache) world" where
  "mem_world ts = \<lparr>
     w_db = \<lparr>md_durable = ts, md_current = ts\<rparr>, w_redis = [], w_grants = [], w_settings = [], w_admin = PNone, w_account = None, w_apikeys = [],
     w_now = 1640995200000000, w_start = 1640995200000000, w_rnd = (\<lambda>i. i), w_pos = 0, w_sent = [], w_calls = []\<rparr>"

lemma mem_env_simps [simp]: "e_db mem_env = mem_db" "e_redis mem_env = mem_redis" "e_crypt mem_env = mem_crypt"
  "e_cache mem_env = mem_cache" "e_cfg mem_env = mem_config" "e_req mem_env = mem_request"
  by (simp_all add: mem_env_def)

end
