(* ===== verification/Utils.thy ===== *)
theory Utils imports Services begin

text \<open>
  apicrud/utils.py and the regular expressions of apicrud/const.py: record identifiers, the clock,
  the normal form of an e-mail identity, and the phone and e-mail patterns. The last part is the
  fragment of Python's \<open>re\<close> and \<open>str.format\<close> that RBAC policies go through.
\<close>

section \<open>Record identifiers\<close>

definition id_chars :: string where
  "id_chars = CHR ''-'' # map char_of ([48..<58] @ [65..<91] @ [95] @ [97..<123::nat])"

definition base36_chars :: string where
  "base36_chars = map char_of ([48..<58] @ [97..<123::nat])"

definition lstrip_char :: "char \<Rightarrow> string \<Rightarrow> string" where
  "lstrip_char c s = dropWhile ((=) c) s"

text \<open>
  \<open>_int2base\<close>; the caller's base is the number of characters. (With fewer than two characters the
  recursion of the source would not end; no caller passes so few.)
\<close>

fun int2base :: "string \<Rightarrow> nat \<Rightarrow> string" where
  "int2base chars x =
     (if x = 0 \<or> length chars < 2 then [chars ! 0]
      else lstrip_char (chars ! 0) (int2base chars (x div length chars)) @ [chars ! (x mod length chars)])"

declare int2base.simps [simp del]

text \<open>Whole days since 2018-01-01 of a time in microseconds.\<close>

definition days_2018 :: "int \<Rightarrow> int" where
  "days_2018 t = (t - 1514764800000000) div 86400000000"

definition gen_id :: "nat \<Rightarrow> string \<Rightarrow> string \<Rightarrow> (('d, 'r, 'c) world, string) py" where
  "gen_id len prefix chars =
     bnd (gets w_now) (\<lambda>t.
     bnd draw (\<lambda>r.
     bnd (draws (len - 3)) (\<lambda>xs.
     ret (prefix @ int2base chars (nat (days_2018 t) * 8 + r mod 9) @
          map (\<lambda>x. chars ! (x mod length chars)) xs))))"

abbreviation gen_id_default :: "(('d, 'r, 'c) world, string) py" where
  "gen_id_default \<equiv> gen_id 8 ''x-'' id_chars"

lemma id_chars_nth:
  assumes "i < 64"
  shows "id_chars ! i = char_of (if i = 0 then 45 else if i < 11 then i + 47 else if i < 37 then i + 54
    else if i = 37 then 95 else i + 59)"
proof -
  have "id_chars ! i = (CHR ''-'' # map char_of ([48..<58] @ [65..<91] @ [95] @ [97..<123::nat])) ! i"
    by (simp add: id_chars_def)
  also have "\<dots> = char_of (if i = 0 then 45 else if i < 11 then i + 47 else if i < 37 then i + 54
    else if i = 37 then 95 else i + 59)"
    using assms by (auto simp: nth_Cons nth_append char_of_def bit_0 split: nat.splits)
  finally show ?thesis .
qed

lemma id_chars_length [simp]: "length id_chars = 64"
  by (simp add: id_chars_def)

lemma id_chars_code:
  assumes "i < 64"
  shows "(of_char (id_chars ! i) :: nat) = (if i = 0 then 45 else if i < 11 then i + 47 else
    if i < 37 then i + 54 else if i = 37 then 95 else i + 59)"
  using assms by (auto simp: id_chars_nth)

lemma id_chars_less: "i < j \<Longrightarrow> j < 64 \<Longrightarrow> id_chars ! i < id_chars ! j"
  by (simp add: less_char_def id_chars_code)

lemma id_chars_inj: "i < 64 \<Longrightarrow> j < 64 \<Longrightarrow> id_chars ! i = id_chars ! j \<longleftrightarrow> i = j"
  by (metis id_chars_less linorder_neqE_nat order_less_irrefl)

lemma int2base_digit: "0 < x \<Longrightarrow> x < 64 \<Longrightarrow> int2base id_chars x = [id_chars ! x]"
  by (subst int2base.simps, subst int2base.simps) (simp add: lstrip_char_def)

lemma int2base_two:
  assumes "64 \<le> x" and "x < 4096"
  shows "int2base id_chars x = [id_chars ! (x div 64), id_chars ! (x mod 64)]"
proof -
  have "0 < x div 64" and "x div 64 < 64" using assms by auto
  then have "int2base id_chars (x div 64) = [id_chars ! (x div 64)]" by (rule int2base_digit)
  moreover have "id_chars ! 0 \<noteq> id_chars ! (x div 64)"
    using \<open>0 < x div 64\<close> \<open>x div 64 < 64\<close> by (simp add: id_chars_inj)
  ultimately show ?thesis using assms by (subst int2base.simps) (simp add: lstrip_char_def)
qed

lemma int2base_three:
  assumes "4096 \<le> x" and "x < 262144"
  shows "int2base id_chars x =
    [id_chars ! (x div 4096), id_chars ! (x div 64 mod 64), id_chars ! (x mod 64)]"
proof -
  have d: "64 \<le> x div 64" "x div 64 < 4096" using assms by auto
  then have "int2base id_chars (x div 64) = [id_chars ! (x div 64 div 64), id_chars ! (x div 64 mod 64)]"
    by (rule int2base_two)
  moreover have "0 < x div 64 div 64" "x div 64 div 64 < 64" using d by auto
  then have "id_chars ! 0 \<noteq> id_chars ! (x div 64 div 64)" by (simp add: id_chars_inj)
  ultimately show ?thesis using assms
    by (subst int2base.simps) (simp add: lstrip_char_def div_mult2_eq [symmetric])
qed

text \<open>Three-digit numbers in base 64 keep their order as strings.\<close>

lemma base64_digits: "x = (x div 4096) * 4096 + (x div 64 mod 64) * 64 + x mod (64::nat)"
proof -
  have "x div 64 = (x div 64 div 64) * 64 + x div 64 mod 64" by simp
  moreover have "x div 64 div 64 = x div 4096" by (simp add: div_mult2_eq [symmetric])
  moreover have "x = (x div 64) * 64 + x mod 64" by simp
  ultimately show ?thesis by linarith
qed

lemma digits_less:
  fixes a b c a' b' c' :: nat
  assumes "a * 4096 + b * 64 + c < a' * 4096 + b' * 64 + c'"
    and "b < 64" "c < 64" "b' < 64" "c' < 64"
  shows "a < a' \<or> a = a' \<and> (b < b' \<or> b = b' \<and> c < c')"
  using assms by linarith

lemma int2base_mono:
  assumes "4096 \<le> x" and "x < y" and "y < 262144"
  shows "int2base id_chars x @ s < int2base id_chars y @ t"
proof -
  let ?a = "x div 4096" and ?b = "x div 64 mod 64" and ?c = "x mod 64"
  let ?a' = "y div 4096" and ?b' = "y div 64 mod 64" and ?c' = "y mod 64"
  have "?a * 4096 + ?b * 64 + ?c < ?a' * 4096 + ?b' * 64 + ?c'"
    using \<open>x < y\<close> base64_digits [of x] base64_digits [of y] by linarith
  then have "?a < ?a' \<or> ?a = ?a' \<and> (?b < ?b' \<or> ?b = ?b' \<and> ?c < ?c')"
    by (rule digits_less) simp_all
  moreover have "?a' < 64" using assms by auto
  ultimately have "[id_chars ! ?a, id_chars ! ?b, id_chars ! ?c] @ s <
      [id_chars ! ?a', id_chars ! ?b', id_chars ! ?c'] @ t"
    by (elim disjE conjE) (simp_all add: id_chars_less)
  then show ?thesis using assms by (simp add: int2base_three)
qed

lemma gen_id_run:
  "gen_id len prefix chars w =
     (Inr (prefix @ int2base chars (nat (days_2018 (w_now w)) * 8 + w_rnd w (w_pos w) mod 9) @
        map (\<lambda>i. chars ! (w_rnd w (Suc (w_pos w) + i) mod length chars)) [0..<len - 3]),
      w\<lparr>w_pos := Suc (w_pos w) + (len - 3)\<rparr>)"
  by (simp add: gen_id_def py_simps draws_run comp_def)

lemma keeps_gen_id [keeps_intros]: "keeps w_db (gen_id len prefix chars)"
  by (simp add: keeps_def gen_id_run)

section \<open>E-mail identities\<close>

abbreviation newline :: char where
  "newline \<equiv> CHR 0x0A"

text \<open>
  \<open>re.match('.*@gmail.com$', s, re.I)\<close>: the dot before \<open>com\<close> stands for any character but a
  newline, and \<open>$\<close> also matches before a final newline.
\<close>

definition gmail_core :: "string \<Rightarrow> bool" where
  "gmail_core s \<longleftrightarrow> 10 \<le> length s \<and> newline \<notin> set (take (length s - 10) s) \<and>
     (let m = last_n 10 s in
        str_lower (take 6 m) = ''@gmail'' \<and> m ! 6 \<noteq> newline \<and> str_lower (drop 7 m) = ''com'')"

definition is_gmail :: "string \<Rightarrow> bool" where
  "is_gmail s \<longleftrightarrow> gmail_core s \<or> (s \<noteq> [] \<and> last s = newline \<and> gmail_core (butlast s))"

definition identity_normalize :: "string \<Rightarrow> string option" where
  "identity_normalize identity =
     (if identity = [] then None
      else let ident = (if is_gmail identity
                        then removeAll (CHR ''.'') (hd (py_split (CHR ''@'') identity)) @ ''@gmail.com''
                        else identity)
           in (case py_split (CHR ''@'') ident of
                 [user, domain] \<Rightarrow> Some (str_lower (hd (py_split (CHR ''+'') user) @ ''@'' @ domain))
               | _ \<Rightarrow> Some (str_lower ident)))"

lemma hd_split: "hd (py_split c s) = takeWhile (\<lambda>x. x \<noteq> c) s"
  by (induction s) (auto split: list.splits simp: hd_conv_nth)

lemma split_two_iff:
  "py_split c s = [a, b] \<longleftrightarrow> s = a @ c # b \<and> c \<notin> set a \<and> c \<notin> set b"
proof
  assume sp: "py_split c s = [a, b]"
  have j: "s = a @ c # b" using py_join_split [of c s] sp by simp
  have pieces: "\<forall>p \<in> set (py_split c t). c \<notin> set p" for t
    by (induction t) (auto split: list.splits)
  from sp pieces [of s] have "c \<notin> set a" "c \<notin> set b" by auto
  with j show "s = a @ c # b \<and> c \<notin> set a \<and> c \<notin> set b" by simp
qed (auto simp: py_split_append_sep py_split_no_sep)

lemma chr_lower_at [simp]: "chr_lower c = CHR ''@'' \<longleftrightarrow> c = CHR ''@''"
  by (auto simp: chr_lower_def dest: arg_cong [where f = "of_char :: char \<Rightarrow> nat"])

lemma chr_lower_plus [simp]: "chr_lower c = CHR ''+'' \<longleftrightarrow> c = CHR ''+''"
  by (auto simp: chr_lower_def dest: arg_cong [where f = "of_char :: char \<Rightarrow> nat"])

lemma chr_lower_newline [simp]: "chr_lower c = newline \<longleftrightarrow> c = newline"
  by (auto simp: chr_lower_def dest: arg_cong [where f = "of_char :: char \<Rightarrow> nat"])

lemma chr_lower_dot [simp]: "chr_lower c = CHR ''.'' \<longleftrightarrow> c = CHR ''.''"
  by (auto simp: chr_lower_def dest: arg_cong [where f = "of_char :: char \<Rightarrow> nat"])

lemma takeWhile_absent: "c \<notin> set s \<Longrightarrow> takeWhile (\<lambda>x. x \<noteq> c) s = s"
  by (induction s) auto

lemma takeWhile_absent_append: "c \<notin> set s \<Longrightarrow> takeWhile (\<lambda>x. x \<noteq> c) (s @ t) = s @ takeWhile (\<lambda>x. x \<noteq> c) t"
  by (induction s) auto

lemma lower_chr_eqs [simp]:
  "CHR ''@'' = chr_lower c \<longleftrightarrow> c = CHR ''@''" "CHR ''+'' = chr_lower c \<longleftrightarrow> c = CHR ''+''"
  "newline = chr_lower c \<longleftrightarrow> c = newline" "CHR ''.'' = chr_lower c \<longleftrightarrow> c = CHR ''.''"
  by (metis chr_lower_at, metis chr_lower_plus, metis chr_lower_newline, metis chr_lower_dot)

lemma str_lower_nil [simp]: "str_lower s = [] \<longleftrightarrow> s = []"
  by (simp add: str_lower_def)

lemma str_lower_at: "CHR ''@'' \<in> set (str_lower s) \<longleftrightarrow> CHR ''@'' \<in> set s"
  by (auto simp: str_lower_def image_iff eq_commute [of "CHR ''@''"])

lemma str_lower_newline: "newline \<in> set (str_lower s) \<longleftrightarrow> newline \<in> set s"
  by (auto simp: str_lower_def image_iff eq_commute [of newline])

lemma str_lower_takeWhile_plus:
  "takeWhile (\<lambda>x. x \<noteq> CHR ''+'') (str_lower s) = str_lower (takeWhile (\<lambda>x. x \<noteq> CHR ''+'') s)"
  by (simp add: str_lower_def takeWhile_map comp_def)

lemma str_lower_removeAll_dot: "removeAll (CHR ''.'') (str_lower s) = str_lower (removeAll (CHR ''.'') s)"
  by (induction s) (auto simp: str_lower_def)

lemma str_lower_gmail: "str_lower ''@gmail.com'' = ''@gmail.com''" "str_lower ''gmail.com'' = ''gmail.com''"
  by (simp_all add: str_lower_def chr_lower_def)

lemma gmail_core_lower: "gmail_core (str_lower s) = gmail_core s"
proof -
  have l: "last_n 10 (str_lower s) = str_lower (last_n 10 s)" by (simp add: last_n_def str_lower_def drop_map)
  have t: "take n (str_lower m) = str_lower (take n m)" "drop n (str_lower m) = str_lower (drop n m)" for n m
    by (simp_all add: str_lower_def take_map drop_map)
  have "10 \<le> length s \<Longrightarrow> 6 < length (last_n 10 s)" by (simp add: last_n_def)
  then have n: "10 \<le> length s \<Longrightarrow> str_lower (last_n 10 s) ! 6 = newline \<longleftrightarrow> last_n 10 s ! 6 = newline"
    by (simp add: str_lower_def)
  have "length (str_lower s) = length s" by (simp add: str_lower_def)
  with n show ?thesis unfolding gmail_core_def Let_def l t by (auto simp: str_lower_newline)
qed

lemma is_gmail_lower: "is_gmail (str_lower s) = is_gmail s"
proof -
  have "butlast (str_lower s) = str_lower (butlast s)" by (simp add: str_lower_def map_butlast)
  moreover have "s \<noteq> [] \<Longrightarrow> last (str_lower s) = chr_lower (last s)" by (simp add: str_lower_def last_map)
  ultimately show ?thesis by (auto simp: is_gmail_def gmail_core_lower)
qed

lemma is_gmail_intro: "newline \<notin> set u \<Longrightarrow> is_gmail (u @ ''@gmail.com'')"
  by (simp add: is_gmail_def gmail_core_def last_n_def str_lower_def chr_lower_def)

lemma normalize_gmail:
  assumes "is_gmail s"
  shows "identity_normalize s =
    Some (str_lower (takeWhile (\<lambda>x. x \<noteq> CHR ''+'')
      (removeAll (CHR ''.'') (takeWhile (\<lambda>x. x \<noteq> CHR ''@'') s))) @ ''@gmail.com'')"
proof -
  let ?u = "removeAll (CHR ''.'') (takeWhile (\<lambda>x. x \<noteq> CHR ''@'') s)"
  have "s \<noteq> []" using assms by (auto simp: is_gmail_def gmail_core_def)
  moreover have "CHR ''@'' \<notin> set ?u" by (auto dest: set_takeWhileD)
  then have "py_split (CHR ''@'') (?u @ ''@gmail.com'') = [?u, ''gmail.com'']"
    by (subst split_two_iff) simp
  ultimately show ?thesis using assms
    by (simp add: identity_normalize_def hd_split str_lower_append str_lower_gmail)
qed

lemma normalize_other:
  assumes "\<not> is_gmail s" and "s \<noteq> []"
  shows "identity_normalize s = (case py_split (CHR ''@'') s of
      [user, domain] \<Rightarrow> Some (str_lower (takeWhile (\<lambda>x. x \<noteq> CHR ''+'') user) @ ''@'' @ str_lower domain)
    | _ \<Rightarrow> Some (str_lower s))"
proof -
  have "str_lower (a @ ''@'' @ b) = str_lower a @ ''@'' @ str_lower b" for a b
    by (simp add: str_lower_def chr_lower_def)
  then show ?thesis using assms
    by (simp add: identity_normalize_def hd_split split: list.splits)
qed

text \<open>In an address with one at sign, the part after it decides whether it is a gmail one.\<close>

definition gmail_domain :: "string \<Rightarrow> bool" where
  "gmail_domain b \<longleftrightarrow> length b = 9 \<and> str_lower (take 5 b) = ''gmail'' \<and> b ! 5 \<noteq> newline \<and>
     str_lower (drop 6 b) = ''com''"

lemma gmail_core_domain:
  assumes a: "CHR ''@'' \<notin> set a" and b: "CHR ''@'' \<notin> set b"
  shows "gmail_core (a @ CHR ''@'' # b) \<longleftrightarrow> newline \<notin> set a \<and> gmail_domain b"
proof
  let ?s = "a @ CHR ''@'' # b"
  assume g: "gmail_core ?s"
  then have len: "10 \<le> length ?s" and nl: "newline \<notin> set (take (length ?s - 10) ?s)"
    and m: "str_lower (take 6 (last_n 10 ?s)) = ''@gmail''" "last_n 10 ?s ! 6 \<noteq> newline"
      "str_lower (drop 7 (last_n 10 ?s)) = ''com''"
    unfolding gmail_core_def Let_def by blast+
  have lm: "length (last_n 10 ?s) = 10" using len by (simp add: last_n_def)
  then obtain c r where r: "last_n 10 ?s = c # r" "length r = 9" by (cases "last_n 10 ?s") auto
  with m(1) have c: "c = CHR ''@''" by (simp add: str_lower_def)
  have "?s = take (length ?s - 10) ?s @ last_n 10 ?s" unfolding last_n_def by (rule append_take_drop_id [symmetric])
  then have "a @ CHR ''@'' # b = take (length ?s - 10) ?s @ CHR ''@'' # r" by (simp only: r c)
  then have "a = take (length ?s - 10) ?s \<and> b = r" using a b append_Cons_eq_iff by metis
  then have "newline \<notin> set a" "b = r" using nl by metis+
  with m r c show "newline \<notin> set a \<and> gmail_domain b"
    by (auto simp: gmail_domain_def str_lower_def)
next
  assume "newline \<notin> set a \<and> gmail_domain b"
  moreover from this have "last_n 10 (a @ CHR ''@'' # b) = CHR ''@'' # b"
    by (simp add: last_n_def gmail_domain_def)
  ultimately show "gmail_core (a @ CHR ''@'' # b)"
    by (simp add: gmail_core_def gmail_domain_def str_lower_def)
qed

text \<open>An address that is not a gmail one does not become one when its user part is cut at a plus.\<close>

lemma is_gmail_user_prefix:
  assumes "CHR ''@'' \<notin> set a" and "CHR ''@'' \<notin> set b"
    and "newline \<notin> set a" and "newline \<notin> set b"
    and "CHR ''@'' \<notin> set a'" and "newline \<notin> set a'"
  shows "is_gmail (a' @ CHR ''@'' # b) = is_gmail (a @ CHR ''@'' # b)"
proof -
  have "last (x @ CHR ''@'' # b) \<noteq> newline" for x
    using assms(4) by (cases b rule: rev_cases) auto
  then show ?thesis using assms by (simp add: is_gmail_def gmail_core_domain)
qed

lemma identity_normalize_twice:
  assumes "newline \<notin> set s" and n: "identity_normalize s = Some t"
  shows "identity_normalize t = Some t"
proof -
  have ne: "s \<noteq> []" using n by (auto simp: identity_normalize_def)
  show ?thesis
  proof (cases "is_gmail s")
    case True
    let ?u = "takeWhile (\<lambda>x. x \<noteq> CHR ''+'') (removeAll (CHR ''.'') (takeWhile (\<lambda>x. x \<noteq> CHR ''@'') s))"
    have sub: "set ?u \<subseteq> set s" by (auto dest!: set_takeWhileD)
    have props: "CHR ''@'' \<notin> set ?u" "CHR ''+'' \<notin> set ?u" "CHR ''.'' \<notin> set ?u" "newline \<notin> set ?u"
      using sub assms(1) by (auto dest!: set_takeWhileD)
    let ?l = "str_lower ?u"
    have lp: "CHR ''@'' \<notin> set ?l" "newline \<notin> set ?l"
      using props by (simp_all add: str_lower_at str_lower_newline)
    have t: "t = ?l @ ''@gmail.com''" using n normalize_gmail [OF True] by simp
    have w: "takeWhile (\<lambda>x. x \<noteq> CHR ''@'') t = ?l"
      using lp by (simp add: t takeWhile_absent_append)
    have d: "removeAll (CHR ''.'') ?l = ?l"
      using props(3) by (simp add: str_lower_removeAll_dot del: removeAll_filter_not_eq)
    have p: "takeWhile (\<lambda>x. x \<noteq> CHR ''+'') ?l = ?l"
      unfolding str_lower_takeWhile_plus by (rule arg_cong [OF takeWhile_absent [OF props(2)]])
    have "is_gmail t" unfolding t by (rule is_gmail_intro [OF lp(2)])
    from normalize_gmail [OF this] have "identity_normalize t = Some (str_lower ?l @ ''@gmail.com'')"
      by (simp only: w d p)
    then show ?thesis by (simp add: t)
  next
    case False
    show ?thesis
    proof (cases "\<exists>a b. py_split (CHR ''@'') s = [a, b]")
      case True
      then obtain a b where ab: "py_split (CHR ''@'') s = [a, b]" by blast
      let ?a = "takeWhile (\<lambda>x. x \<noteq> CHR ''+'') a"
      have s: "s = a @ CHR ''@'' # b" "CHR ''@'' \<notin> set a" "CHR ''@'' \<notin> set b"
        using ab by (simp_all add: split_two_iff)
      have a': "CHR ''@'' \<notin> set ?a" "newline \<notin> set ?a" "newline \<notin> set a" "newline \<notin> set b"
        using s assms(1) by (auto dest!: set_takeWhileD)
      have t: "t = str_lower (?a @ CHR ''@'' # b)"
        using n normalize_other [OF False ne] ab by (simp add: str_lower_def chr_lower_def)
      have ng: "\<not> is_gmail t"
        using False is_gmail_user_prefix [OF s(2,3) a'(3,4,1,2)] s(1) by (simp add: t is_gmail_lower)
      have sp: "py_split (CHR ''@'') t = [str_lower ?a, str_lower b]"
        using s(3) a'(1) by (simp only: split_two_iff t str_lower_at) (simp add: str_lower_def chr_lower_def)
      have p: "takeWhile (\<lambda>x. x \<noteq> CHR ''+'') (str_lower ?a) = str_lower ?a"
        unfolding str_lower_takeWhile_plus by (rule arg_cong [OF takeWhile_absent]) (auto dest!: set_takeWhileD)
      have "t \<noteq> []" by (simp add: t)
      from normalize_other [OF ng this]
      have "identity_normalize t = Some (str_lower ?a @ ''@'' @ str_lower b)"
        by (simp only: sp p list.case str_lower_idem)
      then show ?thesis by (simp add: t str_lower_append) (simp add: str_lower_def chr_lower_def)
    next
      case nf: False
      then have t: "t = str_lower s"
        using n normalize_other [OF False ne] by (auto split: list.splits)
      have "\<not> (\<exists>a b. py_split (CHR ''@'') t = [a, b])"
      proof
        assume "\<exists>a b. py_split (CHR ''@'') t = [a, b]"
        then have c: "count_list t (CHR ''@'') = 1" by (auto simp: split_two_iff count_list_0_iff)
        have "count_list (str_lower s) (CHR ''@'') = count_list s (CHR ''@'')"
          by (induction s) (auto simp: str_lower_def)
        with c t have "count_list s (CHR ''@'') = 1" by simp
        then have "CHR ''@'' \<in> set s" by (metis count_list_0_iff zero_neq_one)
        then obtain a b where sp: "s = a @ CHR ''@'' # b" "CHR ''@'' \<notin> set a" by (metis split_list_first)
        with \<open>count_list s (CHR ''@'') = 1\<close> have "CHR ''@'' \<notin> set b" by (simp add: count_list_0_iff)
        with sp have "py_split (CHR ''@'') s = [a, b]" by (simp add: split_two_iff)
        with nf show False by blast
      qed
      moreover have "\<not> is_gmail t" "t \<noteq> []" using False ne by (simp_all add: t is_gmail_lower)
      ultimately have "identity_normalize t = Some (str_lower t)"
        by (simp add: normalize_other split: list.splits)
      then show ?thesis by (simp add: t)
    qed
  qed
qed

lemma identity_normalize_mailbox:
  assumes "CHR ''@'' \<notin> set u" and "newline \<notin> set u"
  shows "identity_normalize (u @ ''@gmail.com'') =
    Some (str_lower (takeWhile (\<lambda>x. x \<noteq> CHR ''+'') (removeAll (CHR ''.'') u)) @ ''@gmail.com'')"
  using assms by (simp add: normalize_gmail is_gmail_intro takeWhile_absent_append)

section \<open>Phone numbers and e-mail addresses\<close>

text \<open>
  \<open>re.match(Constants.REGEX_PHONE, s)\<close>, for the pattern \<open>[0-9()+ -]{5,20}\<close>: the match is anchored
  at the start only, so five such characters at the front are enough, whatever follows.
\<close>

definition phone_char :: "char \<Rightarrow> bool" where
  "phone_char c \<longleftrightarrow> (48 \<le> (of_char c :: nat) \<and> (of_char c :: nat) \<le> 57) \<or> c \<in> set ''()+ -''"

definition phone_match :: "string \<Rightarrow> bool" where
  "phone_match s \<longleftrightarrow> 5 \<le> length s \<and> list_all phone_char (take 5 s)"

text \<open>\<open>re.sub('[- ()]', '', s)\<close>.\<close>

definition phone_strip :: "string \<Rightarrow> string" where
  "phone_strip s = filter (\<lambda>c. c \<notin> set ''- ()'') s"

text \<open>
  \<open>re.match(Constants.REGEX_EMAIL, s)\<close>: a run of user characters, an at sign, a run of domain
  characters, a dot and two letters; anything may follow.
\<close>

definition lower_letter :: "char \<Rightarrow> bool" where
  "lower_letter c \<longleftrightarrow> 97 \<le> (of_char c :: nat) \<and> (of_char c :: nat) \<le> 122"

definition digit_char :: "char \<Rightarrow> bool" where
  "digit_char c \<longleftrightarrow> 48 \<le> (of_char c :: nat) \<and> (of_char c :: nat) \<le> 57"

definition email_user_char :: "char \<Rightarrow> bool" where
  "email_user_char c \<longleftrightarrow> lower_letter c \<or> digit_char c \<or> c \<in> set ''._%+-''"

definition email_domain_char :: "char \<Rightarrow> bool" where
  "email_domain_char c \<longleftrightarrow> lower_letter c \<or> digit_char c \<or> c \<in> set ''.-''"

fun email_domain :: "string \<Rightarrow> bool" where
  "email_domain (a # b # c # d # s) \<longleftrightarrow> email_domain_char a \<and>
     ((b = CHR ''.'' \<and> lower_letter c \<and> lower_letter d) \<or> email_domain (b # c # d # s))"
| "email_domain _ \<longleftrightarrow> False"

definition email_match :: "string \<Rightarrow> bool" where
  "email_match s \<longleftrightarrow>
     (let u = takeWhile email_user_char s; r = dropWhile email_user_char s
      in u \<noteq> [] \<and> r \<noteq> [] \<and> hd r = CHR ''@'' \<and> email_domain (tl r))"

section \<open>Formatting and pattern matching of policies\<close>

text \<open>
  \<open>s.format(**args)\<close> with plain field names: doubled braces stand for themselves, a field that is
  not an argument is a KeyError, a brace without its partner a ValueError.
\<close>

fun format_field :: "string \<Rightarrow> (string \<times> string) option" where
  "format_field [] = None"
| "format_field (c # s) =
     (if c = CHR ''}'' then Some ([], s)
      else (case format_field s of None \<Rightarrow> None | Some (f, r) \<Rightarrow> Some (c # f, r)))"

lemma format_field_shorter: "format_field s = Some (f, r) \<Longrightarrow> length r < length s"
  by (induction s arbitrary: f r) (fastforce split: if_splits option.splits)+

definition prepend :: "string \<Rightarrow> exc + string \<Rightarrow> exc + string" where
  "prepend p r = (case r of Inl e \<Rightarrow> Inl e | Inr s \<Rightarrow> Inr (p @ s))"

function py_format :: "(string \<times> string) list \<Rightarrow> string \<Rightarrow> exc + string" where
  "py_format args s = (case s of
       [] \<Rightarrow> Inr []
     | c # s' \<Rightarrow>
         if c = CHR ''{'' then
           (if s' \<noteq> [] \<and> hd s' = CHR ''{'' then prepend ''{'' (py_format args (tl s'))
            else (case format_field s' of
                None \<Rightarrow> Inl (Exc EValueError ''expected }'')
              | Some (f, r) \<Rightarrow> (case map_of args f of
                  None \<Rightarrow> Inl (Exc EKeyError f)
                | Some v \<Rightarrow> prepend v (py_format args r))))
         else if c = CHR ''}'' then
           (if s' \<noteq> [] \<and> hd s' = CHR ''}'' then prepend ''}'' (py_format args (tl s'))
            else Inl (Exc EValueError ''Single } encountered in format string''))
         else prepend [c] (py_format args s'))"
  by pat_completeness auto

termination
  by (relation "measure (\<lambda>(args, s). length s)") (auto dest: format_field_shorter simp: less_Suc_eq)

declare py_format.simps [simp del]

lemma py_format_Nil [simp]: "py_format args [] = Inr []"
  by (simp add: py_format.simps)

lemma py_format_char:
  "c \<noteq> CHR ''{'' \<Longrightarrow> c \<noteq> CHR ''}'' \<Longrightarrow> py_format args (c # s) = prepend [c] (py_format args s)"
  by (subst py_format.simps) simp

lemma py_format_plain:
  "CHR ''{'' \<notin> set s \<Longrightarrow> CHR ''}'' \<notin> set s \<Longrightarrow> py_format args s = Inr s"
  by (induction s) (auto simp: py_format_char prepend_def)

lemma py_format_prefix:
  "CHR ''{'' \<notin> set s \<Longrightarrow> CHR ''}'' \<notin> set s \<Longrightarrow> py_format args (s @ t) = prepend s (py_format args t)"
  by (induction s) (auto simp: py_format_char prepend_def split: sum.splits)

text \<open>
  The regular expressions that a policy turns into: literal characters, \<open>.\<close> and \<open>.*\<close>. A brace is
  literal unless a repetition count follows. \<open>None\<close>: the pattern uses another operator of \<open>re\<close>,
  which no policy or identifier of the program contains.
\<close>

datatype rx = RLit char | RAny | RStar

fun rx_compile :: "string \<Rightarrow> rx list option" where
  "rx_compile [] = Some []"
| "rx_compile (c # s) =
     (if c = CHR ''.'' then
        (if s \<noteq> [] \<and> hd s = CHR ''*'' then map_option ((#) RStar) (rx_compile (tl s))
         else map_option ((#) RAny) (rx_compile s))
      else if c \<in> set ''^$*+?[]|()'' \<or> c = CHR 0x5C then None
      else if c = CHR ''{'' \<and> s \<noteq> [] \<and> (digit_char (hd s) \<or> hd s = CHR '','') then None
      else map_option ((#) (RLit c)) (rx_compile s))"

fun rx_match :: "rx list \<Rightarrow> bool \<Rightarrow> string \<Rightarrow> bool" where
  "rx_match [] anchored s \<longleftrightarrow> \<not> anchored \<or> s = [] \<or> s = [newline]"
| "rx_match (RLit c # r) anchored s \<longleftrightarrow> (case s of [] \<Rightarrow> False | x # xs \<Rightarrow> x = c \<and> rx_match r anchored xs)"
| "rx_match (RAny # r) anchored s \<longleftrightarrow> (case s of [] \<Rightarrow> False | x # xs \<Rightarrow> x \<noteq> newline \<and> rx_match r anchored xs)"
| "rx_match (RStar # r) anchored s \<longleftrightarrow>
     rx_match r anchored s \<or> (case s of [] \<Rightarrow> False | x # xs \<Rightarrow> x \<noteq> newline \<and> rx_match (RStar # r) anchored xs)"

text \<open>\<open>re.match('^%s$' % pattern, s)\<close> when anchored, \<open>re.match(pattern, s)\<close> otherwise.\<close>

definition re_match :: "bool \<Rightarrow> string \<Rightarrow> string \<Rightarrow> exc + bool" where
  "re_match anchored pat s = (case rx_compile pat of
       None \<Rightarrow> Inl (Exc EOther ''pattern not modelled'')
     | Some r \<Rightarrow> Inr (rx_match r anchored s))"

definition rx_plain :: "char \<Rightarrow> bool" where
  "rx_plain c \<longleftrightarrow> c \<notin> set ''.^$*+?[]|(){'' \<and> c \<noteq> CHR 0x5C"

lemma rx_compile_plain: "list_all rx_plain p \<Longrightarrow> rx_compile (p @ s) = map_option ((@) (map RLit p)) (rx_compile s)"
  by (induction p) (cases "rx_compile s"; auto simp: rx_plain_def)+

lemma rx_match_literal: "rx_match (map RLit p @ r) a s \<longleftrightarrow> (\<exists>t. s = p @ t \<and> rx_match r a t)"
  by (induction p arbitrary: s) (auto split: list.splits)

lemma re_match_plain: "list_all rx_plain p \<Longrightarrow> re_match True p s = Inr (s = p \<or> s = p @ [newline])"
  using rx_compile_plain [of p "[]"] rx_match_literal [of p "[]" True s]
  by (auto simp: re_match_def)

lemma rx_match_star: "newline \<notin> set s \<Longrightarrow> rx_match [RStar] True s"
  by (induction s) auto

lemma re_match_prefix_star:
  assumes "list_all rx_plain p" and "newline \<notin> set s"
  shows "re_match True (p @ ''.*'') s = Inr (take (length p) s = p)"
proof -
  have "rx_compile (p @ ''.*'') = Some (map RLit p @ [RStar])"
    using assms by (simp add: rx_compile_plain)
  moreover have "rx_match (map RLit p @ [RStar]) True s \<longleftrightarrow> take (length p) s = p"
    unfolding rx_match_literal
  proof
    assume "take (length p) s = p"
    then have "s = p @ drop (length p) s" by (metis append_take_drop_id)
    moreover have "rx_match [RStar] True (drop (length p) s)"
      using assms(2) by (intro rx_match_star) (meson in_set_dropD)
    ultimately show "\<exists>t. s = p @ t \<and> rx_match [RStar] True t" by blast
  qed auto
  ultimately show ?thesis by (simp add: re_match_def)
qed

end
