(* ===== verification/Session_Manager.thy ===== *)
theory Session_Manager imports Memory Utils begin

text \<open>
  apicrud/session_manager.py. A session is a JSON object, encrypted, under the redis key
  \<open>ses:<uid>:<last three characters of its token>\<close>; the token itself is only inside. Mutex is a lock
  made of one redis key that holds the signature of its owner.
\<close>

section \<open>Sessions\<close>

text \<open>\<open>'%s' % v\<close> for the values that identify users and records: strings and None, sometimes numbers.\<close>

fun py_str :: "pyval \<Rightarrow> string" where
  "py_str (PStr s) = s"
| "py_str PNone = ''None''"
| "py_str (PInt i) = show_int i"
| "py_str (PBool b) = (if b then ''True'' else ''False'')"
| "py_str _ = ''?''"

definition ses_key :: "string option \<Rightarrow> pyval \<Rightarrow> string \<Rightarrow> string" where
  "ses_key key_id uid token =
     ''ses:'' @ (case key_id of Some k \<Rightarrow> (if k = [] then py_str uid else k) | None \<Rightarrow> py_str uid) @
     '':'' @ last_n 3 token"

text \<open>Seconds since the epoch, as \<open>strftime('%s')\<close> prints them where the local time zone is UTC.\<close>

definition epoch_secs :: "int \<Rightarrow> string" where
  "epoch_secs t = show_int (t div 1000000)"

definition random_bytes :: "nat \<Rightarrow> (('d, 'r, 'c) world, string) py" where
  "random_bytes n = bnd (draws n) (\<lambda>xs. ret (map char_of xs))"

definition encrypt_json :: "('d, 'r, 'c) env \<Rightarrow> string \<Rightarrow> dict \<Rightarrow> (('d, 'r, 'c) world, string) py" where
  "encrypt_json E secret content =
     bnd (of_result (json_dumps (cr_float_repr (e_crypt E)) (PDict content))) (\<lambda>text.
     bnd (random_bytes 16) (\<lambda>iv.
     of_result (aes_encrypt (e_crypt E) secret iv text)))"

definition decrypt_json :: "('d, 'r, 'c) env \<Rightarrow> string \<Rightarrow> string \<Rightarrow> exc + pyval" where
  "decrypt_json E secret enc = (case aes_decrypt (e_crypt E) secret enc of
       Inl e \<Rightarrow> Inl e
     | Inr bytes \<Rightarrow> (case utf8_decode bytes of
         None \<Rightarrow> Inl (Exc EValueError ''codec can't decode byte'')
       | Some text \<Rightarrow> json_loads text))"

text \<open>
  The nonce of \<open>create\<close> defaults to a generated id, which is drawn whether or not it is used. The
  result is \<open>None\<close> where the key exists already or redis cannot be reached.
\<close>

definition session_content ::
    "('d, 'r, 'c) env \<Rightarrow> pyval \<Rightarrow> string list \<Rightarrow> string \<Rightarrow> int \<Rightarrow> dict \<Rightarrow> int \<Rightarrow> dict" where
  "session_content E uid roles token ttl kwargs now =
     dmerge [(''auth'', PStr (py_join '':'' roles)),
             (''exp'', PStr (epoch_secs (now + ttl * 1000000))),
             (''iss'', PStr (cf_JWT_ISSUER (e_cfg E))),
             (''jti'', PStr token),
             (''sub'', uid)] kwargs"

definition session_create ::
    "('d, 'r, 'c) env \<Rightarrow> pyval \<Rightarrow> string list \<Rightarrow> string option \<Rightarrow> string option \<Rightarrow> int option \<Rightarrow> dict \<Rightarrow>
     (('d, 'r, 'c) world, dict option) py" where
  "session_create E uid roles key_id nonce ttl_arg kwargs =
     bnd (gen_id 8 [] id_chars) (\<lambda>fresh.
     bnd (gets w_now) (\<lambda>now.
     let token = (case nonce of Some n \<Rightarrow> n | None \<Rightarrow> fresh);
         ttl = (case ttl_arg of Some t \<Rightarrow> t | None \<Rightarrow> cf_REDIS_TTL (e_cfg E));
         content = session_content E uid roles token ttl kwargs now
     in try_catch
          (bnd (encrypt_json E (cf_REDIS_AES_SECRET (e_cfg E)) content) (\<lambda>data.
           bnd (redis_set E (ses_key key_id uid token) data (Some ttl) True) (\<lambda>ok.
           ret (if ok then Some content else None))))
          (\<lambda>ex. if exc_kind ex = ERedisConnectionError then ret None else raise_exc ex)))"

text \<open>
  \<open>get\<close> with no \<open>arg\<close>. Every failure to read, decrypt or parse is \<open>None\<close>; subscripting data that is
  not a dict, or a dict without \<open>jti\<close>, happens outside the \<open>try\<close>.
\<close>

definition session_data ::
    "('d, 'r, 'c) env \<Rightarrow> string \<Rightarrow> string \<Rightarrow> exc + string option \<Rightarrow> exc + dict option" where
  "session_data E secret token stored = (case stored of
       Inl e \<Rightarrow> Inr None
     | Inr None \<Rightarrow> Inr None
     | Inr (Some enc) \<Rightarrow> (case decrypt_json E secret enc of
         Inl e \<Rightarrow> Inr None
       | Inr (PDict d) \<Rightarrow> (case dsub d ''jti'' of
             Inl e \<Rightarrow> Inl e
           | Inr v \<Rightarrow> Inr (if v = PStr token then Some d else None))
       | Inr _ \<Rightarrow> Inl (Exc ETypeError ''indices must be integers'')))"

definition session_get ::
    "('d, 'r, 'c) env \<Rightarrow> pyval \<Rightarrow> string \<Rightarrow> string option \<Rightarrow> (('d, 'r, 'c) world, dict option) py" where
  "session_get E uid token key_id = reads (\<lambda>w.
     session_data E (cf_REDIS_AES_SECRET (e_cfg E)) token
       (rd_get (e_redis E) (ses_key key_id uid token) (w_now w) (w_redis w)))"

definition session_get_arg ::
    "('d, 'r, 'c) env \<Rightarrow> pyval \<Rightarrow> string \<Rightarrow> string \<Rightarrow> string option \<Rightarrow> (('d, 'r, 'c) world, pyval) py" where
  "session_get_arg E uid token arg key_id =
     bnd (session_get E uid token key_id) (\<lambda>r.
     ret (case r of None \<Rightarrow> PNone | Some d \<Rightarrow> dget d arg))"

text \<open>
  \<open>update\<close> reads under the user's own key whatever \<open>key_id\<close> is, writes under \<open>key_id\<close>, and restarts
  the manager's time to live.
\<close>

definition session_update ::
    "('d, 'r, 'c) env \<Rightarrow> pyval \<Rightarrow> string \<Rightarrow> string \<Rightarrow> pyval \<Rightarrow> string option \<Rightarrow> (('d, 'r, 'c) world, unit) py" where
  "session_update E uid token arg value key_id =
     bnd (session_get E uid token None) (\<lambda>r. case r of
       None \<Rightarrow> raise_exc (Exc ETypeError ''NoneType object does not support item assignment'')
     | Some d \<Rightarrow>
         bnd (encrypt_json E (cf_REDIS_AES_SECRET (e_cfg E)) (dset d arg value)) (\<lambda>data.
         bnd (redis_set E (ses_key key_id uid token) data (Some (cf_REDIS_TTL (e_cfg E))) False) (\<lambda>_.
         ret ())))"

definition session_delete ::
    "('d, 'r, 'c) env \<Rightarrow> pyval \<Rightarrow> string \<Rightarrow> string option \<Rightarrow> (('d, 'r, 'c) world, unit) py" where
  "session_delete E uid token key_id =
     try_catch (bnd (redis_delete E (ses_key key_id uid token)) (\<lambda>_. ret ()))
       (\<lambda>ex. if exc_kind ex = ERedisConnectionError then ret () else raise_exc ex)"

subsection \<open>What the operations leave alone\<close>

lemma random_bytes_run [py_simps]:
  "random_bytes n w = (Inr (map (\<lambda>i. char_of (w_rnd w (w_pos w + i))) [0..<n]), w\<lparr>w_pos := w_pos w + n\<rparr>)"
  by (simp add: random_bytes_def py_simps draws_run comp_def)

lemma keeps_session_get [keeps_intros]: "keeps v (session_get E uid token key_id)"
  by (simp add: session_get_def keeps_intros)

lemma keeps_session_get_arg [keeps_intros]: "keeps v (session_get_arg E uid token arg key_id)"
  by (auto simp: session_get_arg_def intro!: keeps_intros)

lemma keeps_random_bytes [keeps_intros]: "keeps w_db (random_bytes n)"
  by (simp add: keeps_def py_simps)

lemma keeps_encrypt_json [keeps_intros]: "keeps w_db (encrypt_json E s d)"
  by (auto simp: encrypt_json_def intro!: keeps_intros)

lemma keeps_session_create [keeps_intros]: "keeps w_db (session_create E uid roles key_id nonce ttl kw)"
  by (auto simp: session_create_def Let_def intro!: keeps_intros)

lemma keeps_session_update [keeps_intros]: "keeps w_db (session_update E uid token arg value key_id)"
  by (auto simp: session_update_def intro!: keeps_intros)

lemma keeps_session_delete [keeps_intros]: "keeps w_db (session_delete E uid token key_id)"
  by (auto simp: session_delete_def intro!: keeps_intros)

subsection \<open>Encrypted text\<close>

definition storable :: "dict \<Rightarrow> bool" where
  "storable d \<longleftrightarrow> json_ok (PDict d)"

lemma encrypt_json_run:
  assumes "cbc_ok (e_crypt E)" and "storable d"
  shows "\<exists>data. encrypt_json E secret d w = (Inr data, w\<lparr>w_pos := w_pos w + 16\<rparr>) \<and>
    decrypt_json E secret data = Inr (PDict d)"
proof -
  obtain js where js: "json_dumps (cr_float_repr (e_crypt E)) (PDict d) = Inr js"
    using json_dumps_ok(1) [of "PDict d"] assms(2) by (auto simp: storable_def)
  note a = json_dumps_ascii(1) [OF _ js] and l = json_loads_dumps [OF _ js]
  let ?iv = "map (\<lambda>i. char_of (w_rnd w (w_pos w + i))) [0..<16]"
  obtain e where "aes_encrypt (e_crypt E) secret ?iv js = Inr e" "aes_decrypt (e_crypt E) secret e = Inr js"
    using aes_ascii_round_trip [OF assms(1), of ?iv js] a assms(2) by (auto simp: storable_def)
  then show ?thesis using js a l assms(2)
    by (simp add: encrypt_json_def py_simps decrypt_json_def utf8_decode_ascii storable_def del: json_ok.simps)
qed

lemma session_data_stored:
  "decrypt_json E secret enc = Inr (PDict d) \<Longrightarrow> map_of d ''jti'' = Some (PStr jti) \<Longrightarrow>
     session_data E secret token (Inr (Some enc)) = Inr (if jti = token then Some d else None)"
  by (auto simp: session_data_def dsub_def)

lemma map_of_dmerge_other: "k \<notin> fst ` set es \<Longrightarrow> map_of (dmerge d es) k = map_of d k"
  by (induction d es rule: dmerge.induct) (auto simp: update_conv)

lemma dmerge_distinct: "distinct (map fst d) \<Longrightarrow> distinct (map fst (dmerge d es))"
  by (induction d es rule: dmerge.induct) (auto simp: distinct_update)

lemma json_ok_update: "json_ok v \<Longrightarrow> \<forall>e \<in> set d. json_ok (snd e) \<Longrightarrow> \<forall>e \<in> set (dset d k v). json_ok (snd e)"
  by (induction d) auto

lemma json_ok_dmerge:
  "\<forall>e \<in> set d. json_ok (snd e) \<Longrightarrow> \<forall>e \<in> set es. json_ok (snd e) \<Longrightarrow>
     \<forall>e \<in> set (dmerge d es). json_ok (snd e)"
proof (induction d es rule: dmerge.induct)
  case (2 d k v es)
  from json_ok_update [of v d k] 2 show ?case by simp
qed simp

lemma storable_content:
  "json_ok uid \<Longrightarrow> \<forall>e \<in> set kw. json_ok (snd e) \<Longrightarrow> storable (session_content E uid roles token ttl kw now)"
  unfolding storable_def session_content_def json_ok.simps
  by (intro conjI dmerge_distinct json_ok_dmerge) auto

text \<open>A claim that the caller's own values do not override is what \<open>create\<close> puts there.\<close>

lemma content_claims:
  "''jti'' \<notin> fst ` set kw \<Longrightarrow> map_of (session_content E uid roles token ttl kw now) ''jti'' = Some (PStr token)"
  "''sub'' \<notin> fst ` set kw \<Longrightarrow> map_of (session_content E uid roles token ttl kw now) ''sub'' = Some uid"
  "''auth'' \<notin> fst ` set kw \<Longrightarrow>
     map_of (session_content E uid roles token ttl kw now) ''auth'' = Some (PStr (py_join '':'' roles))"
  "''exp'' \<notin> fst ` set kw \<Longrightarrow>
     map_of (session_content E uid roles token ttl kw now) ''exp'' = Some (PStr (epoch_secs (now + ttl * 1000000)))"
  by (simp_all add: session_content_def map_of_dmerge_other)

lemma content_kwargs:
  "distinct (map fst kw) \<Longrightarrow> map_of kw k = Some v \<Longrightarrow>
     map_of (session_content E uid roles token ttl kw now) k = Some v"
  by (simp add: session_content_def map_of_dmerge)

section \<open>The session store as an interface\<close>

text \<open>
  What the login, confirmation and TOTP code relies on. \<open>live w k\<close> is the session stored under a
  key, \<open>vacant w k\<close> says that nothing is stored there, \<open>later w w'\<close> that only time has passed.
\<close>

locale session_store =
  fixes create :: "pyval \<Rightarrow> string list \<Rightarrow> string option \<Rightarrow> string option \<Rightarrow> int option \<Rightarrow> dict \<Rightarrow> ('w, dict option) py"
    and get :: "pyval \<Rightarrow> string \<Rightarrow> string option \<Rightarrow> ('w, dict option) py"
    and delete :: "pyval \<Rightarrow> string \<Rightarrow> string option \<Rightarrow> ('w, unit) py"
    and content :: "pyval \<Rightarrow> string list \<Rightarrow> string \<Rightarrow> int \<Rightarrow> dict \<Rightarrow> 'w \<Rightarrow> dict"
    and live :: "'w \<Rightarrow> string \<Rightarrow> dict option"
    and vacant :: "'w \<Rightarrow> string \<Rightarrow> bool"
    and clock :: "'w \<Rightarrow> int"
    and later :: "'w \<Rightarrow> 'w \<Rightarrow> bool"
  assumes later_refl: "later w w"
    and get_live: "live w (ses_key kid uid token) = Some d \<Longrightarrow> map_of d ''jti'' = Some (PStr jti) \<Longrightarrow>
      get uid token kid w = (Inr (if jti = token then Some d else None), w)"
    and get_vacant: "vacant w (ses_key kid uid token) \<Longrightarrow> get uid token kid w = (Inr None, w)"
    and create_vacant: "vacant w (ses_key kid uid token) \<Longrightarrow> storable (content uid roles token ttl kw w) \<Longrightarrow>
      \<exists>w'. create uid roles kid (Some token) (Some ttl) kw w = (Inr (Some (content uid roles token ttl kw w)), w')"
    and create_live: "vacant w (ses_key kid uid token) \<Longrightarrow> storable (content uid roles token ttl kw w) \<Longrightarrow>
      create uid roles kid (Some token) (Some ttl) kw w = (r, w') \<Longrightarrow> later w' w'' \<Longrightarrow>
      clock w'' < clock w + ttl * 1000000 \<Longrightarrow>
      live w'' (ses_key kid uid token) = Some (content uid roles token ttl kw w)"
    and create_expires: "vacant w (ses_key kid uid token) \<Longrightarrow> storable (content uid roles token ttl kw w) \<Longrightarrow>
      create uid roles kid (Some token) (Some ttl) kw w = (r, w') \<Longrightarrow> later w' w'' \<Longrightarrow>
      clock w + ttl * 1000000 \<le> clock w'' \<Longrightarrow> vacant w'' (ses_key kid uid token)"
    and create_taken: "\<not> vacant w (ses_key kid uid token) \<Longrightarrow> storable (content uid roles token ttl kw w) \<Longrightarrow>
      create uid roles kid (Some token) (Some ttl) kw w = (r, w') \<Longrightarrow> r = Inr None \<and> live w' k = live w k"
    and create_other: "k \<noteq> ses_key kid uid token \<Longrightarrow> storable (content uid roles token ttl kw w) \<Longrightarrow>
      create uid roles kid (Some token) (Some ttl) kw w = (r, w') \<Longrightarrow> live w' k = live w k"
    and delete_vacates: "delete uid token kid w = (u, w') \<Longrightarrow> later w' w'' \<Longrightarrow>
      u = Inr () \<and> vacant w'' (ses_key kid uid token)"
    and delete_leaves: "k \<noteq> ses_key kid uid token \<Longrightarrow> delete uid token kid w = (u, w') \<Longrightarrow> live w' k = live w k"
begin

lemma create_then_get:
  assumes "vacant w (ses_key kid uid token)" and "storable (content uid roles token ttl kw w)"
    and "map_of (content uid roles token ttl kw w) ''jti'' = Some (PStr token)"
    and "create uid roles kid (Some token) (Some ttl) kw w = (r, w')"
    and "later w' w''" and "clock w'' < clock w + ttl * 1000000"
  shows "get uid token kid w'' = (Inr (Some (content uid roles token ttl kw w)), w'')"
  using get_live [OF create_live [OF assms(1,2,4,5,6)] assms(3)] by simp

text \<open>Another token whose last three characters are the same does not open the session.\<close>

lemma create_then_get_wrong:
  assumes "vacant w (ses_key kid uid token)" and "storable (content uid roles token ttl kw w)"
    and "map_of (content uid roles token ttl kw w) ''jti'' = Some (PStr token)"
    and "create uid roles kid (Some token) (Some ttl) kw w = (r, w')"
    and "later w' w''" and "clock w'' < clock w + ttl * 1000000"
    and "token' \<noteq> token" and "last_n 3 token' = last_n 3 token"
  shows "get uid token' kid w'' = (Inr None, w'')"
proof -
  have k: "ses_key kid uid token' = ses_key kid uid token" using assms(8) by (simp add: ses_key_def)
  have "live w'' (ses_key kid uid token') = Some (content uid roles token ttl kw w)"
    unfolding k by (rule create_live [OF assms(1,2,4,5,6)])
  from get_live [OF this assms(3)] assms(7) show ?thesis by simp
qed

lemma create_then_expired:
  assumes "vacant w (ses_key kid uid token)" and "storable (content uid roles token ttl kw w)"
    and "create uid roles kid (Some token) (Some ttl) kw w = (r, w')"
    and "later w' w''" and "clock w + ttl * 1000000 \<le> clock w''"
  shows "get uid token kid w'' = (Inr None, w'')"
  by (rule get_vacant [OF create_expires [OF assms]])

lemma delete_then_get: "delete uid token kid w = (u, w') \<Longrightarrow> later w' w'' \<Longrightarrow> get uid token kid w'' = (Inr None, w'')"
  using delete_vacates get_vacant by blast

end

section \<open>The model provides it\<close>

definition live_session ::
    "('d, 'r, 'c) env \<Rightarrow> (int \<Rightarrow> 'r \<Rightarrow> string \<Rightarrow> string option) \<Rightarrow> ('d, 'r, 'c) world \<Rightarrow> string \<Rightarrow> dict option" where
  "live_session E view w k = (case view (w_now w) (w_redis w) k of
       None \<Rightarrow> None
     | Some enc \<Rightarrow> (case decrypt_json E (cf_REDIS_AES_SECRET (e_cfg E)) enc of
         Inr (PDict d) \<Rightarrow> Some d | _ \<Rightarrow> None))"

definition vacant_key ::
    "(int \<Rightarrow> 'r \<Rightarrow> string \<Rightarrow> string option) \<Rightarrow> ('d, 'r, 'c) world \<Rightarrow> string \<Rightarrow> bool" where
  "vacant_key view w k \<longleftrightarrow> view (w_now w) (w_redis w) k = None"

definition time_passes :: "('d, 'r, 'c) world \<Rightarrow> ('d, 'r, 'c) world \<Rightarrow> bool" where
  "time_passes w w' \<longleftrightarrow> w_redis w' = w_redis w \<and> w_now w \<le> w_now w'"

abbreviation content_at ::
    "('d, 'r, 'c) env \<Rightarrow> pyval \<Rightarrow> string list \<Rightarrow> string \<Rightarrow> int \<Rightarrow> dict \<Rightarrow> ('d, 'r, 'c) world \<Rightarrow> dict" where
  "content_at E uid roles token ttl kw w \<equiv> session_content E uid roles token ttl kw (w_now w)"

locale session_env = redis_contract "e_redis E" view
  for E :: "('d, 'r, 'c) env" and view :: "int \<Rightarrow> 'r \<Rightarrow> string \<Rightarrow> string option" +
  assumes cipher: "cbc_ok (e_crypt E)"
begin

text \<open>\<open>create\<close> with an explicit nonce: one SET with NX of the encrypted content.\<close>

lemma session_create_run:
  assumes "storable (content_at E uid roles token ttl kw w)"
  obtains data p where "session_create E uid roles kid (Some token) (Some ttl) kw w =
      (let s = rd_set (e_redis E) (ses_key kid uid token) data (Some ttl) True (w_now w) (w_redis w)
       in (Inr (if view (w_now w) (w_redis w) (ses_key kid uid token) = None
                then Some (content_at E uid roles token ttl kw w) else None),
           w\<lparr>w_pos := p, w_redis := snd s\<rparr>))"
    and "decrypt_json E (cf_REDIS_AES_SECRET (e_cfg E)) data = Inr (PDict (content_at E uid roles token ttl kw w))"
proof -
  let ?w = "w\<lparr>w_pos := Suc (w_pos w) + 5\<rparr>"
  obtain data where d: "encrypt_json E (cf_REDIS_AES_SECRET (e_cfg E)) (content_at E uid roles token ttl kw w) ?w
      = (Inr data, ?w\<lparr>w_pos := w_pos ?w + 16\<rparr>)"
    "decrypt_json E (cf_REDIS_AES_SECRET (e_cfg E)) data = Inr (PDict (content_at E uid roles token ttl kw w))"
    using encrypt_json_run [OF cipher assms] by blast
  show thesis
  proof (rule that [OF _ d(2)])
    show "session_create E uid roles kid (Some token) (Some ttl) kw w =
      (let s = rd_set (e_redis E) (ses_key kid uid token) data (Some ttl) True (w_now w) (w_redis w)
       in (Inr (if view (w_now w) (w_redis w) (ses_key kid uid token) = None
                then Some (content_at E uid roles token ttl kw w) else None),
           w\<lparr>w_pos := w_pos w + 22, w_redis := snd s\<rparr>))"
      using d(1) by (simp add: session_create_def py_simps gen_id_run set_result Let_def)
  qed
qed

lemma session_delete_run:
  "session_delete E uid token kid w =
     (Inr (), w\<lparr>w_redis := snd (rd_delete (e_redis E) (ses_key kid uid token) (w_now w) (w_redis w))\<rparr>)"
  by (simp add: session_delete_def py_simps delete_result)

lemma view_unchanged_time: "view t s k = None \<Longrightarrow> t \<le> t' \<Longrightarrow> view t' s k = None"
  using expiry by blast

end

sublocale session_env \<subseteq> session_store "session_create E" "session_get E" "session_delete E"
  "content_at E" "live_session E view" "vacant_key view" w_now time_passes
proof
  fix w :: "('d, 'r, 'c) world"
  show "time_passes w w" by (simp add: time_passes_def)
next
  fix w :: "('d, 'r, 'c) world" and kid uid token d jti
  assume "live_session E view w (ses_key kid uid token) = Some d" and "map_of d ''jti'' = Some (PStr jti)"
  then show "session_get E uid token kid w = (Inr (if jti = token then Some d else None), w)"
    by (auto simp: live_session_def session_get_def py_simps get_view session_data_stored
        split: option.splits sum.splits pyval.splits)
next
  fix w :: "('d, 'r, 'c) world" and kid uid token
  assume "vacant_key view w (ses_key kid uid token)"
  then show "session_get E uid token kid w = (Inr None, w)"
    by (simp add: vacant_key_def session_get_def py_simps get_view session_data_def)
next
  fix w :: "('d, 'r, 'c) world" and kid uid token roles ttl kw
  assume v: "vacant_key view w (ses_key kid uid token)"
    and s: "storable (content_at E uid roles token ttl kw w)"
  obtain data p where "session_create E uid roles kid (Some token) (Some ttl) kw w =
      (let s = rd_set (e_redis E) (ses_key kid uid token) data (Some ttl) True (w_now w) (w_redis w)
       in (Inr (if view (w_now w) (w_redis w) (ses_key kid uid token) = None
                then Some (content_at E uid roles token ttl kw w) else None),
           w\<lparr>w_pos := p, w_redis := snd s\<rparr>))"
    using session_create_run [OF s] by metis
  with v show "\<exists>w'. session_create E uid roles kid (Some token) (Some ttl) kw w =
      (Inr (Some (content_at E uid roles token ttl kw w)), w')"
    by (simp add: vacant_key_def Let_def)
next
  fix w w' w'' :: "('d, 'r, 'c) world" and kid uid token roles ttl kw and r :: "exc + dict option"
  assume v: "vacant_key view w (ses_key kid uid token)"
    and s: "storable (content_at E uid roles token ttl kw w)"
    and c: "session_create E uid roles kid (Some token) (Some ttl) kw w = (r, w')"
    and l: "time_passes w' w''"
  obtain data p where d: "session_create E uid roles kid (Some token) (Some ttl) kw w =
      (let s = rd_set (e_redis E) (ses_key kid uid token) data (Some ttl) True (w_now w) (w_redis w)
       in (Inr (if view (w_now w) (w_redis w) (ses_key kid uid token) = None
                then Some (content_at E uid roles token ttl kw w) else None),
           w\<lparr>w_pos := p, w_redis := snd s\<rparr>))"
    "decrypt_json E (cf_REDIS_AES_SECRET (e_cfg E)) data = Inr (PDict (content_at E uid roles token ttl kw w))"
    using session_create_run [OF s] by metis
  have r: "w_redis w'' = snd (rd_set (e_redis E) (ses_key kid uid token) data (Some ttl) True (w_now w) (w_redis w))"
    "w_now w \<le> w_now w''"
    using c d(1) l by (auto simp: time_passes_def Let_def)
  have vw: "view (w_now w'') (w_redis w'') (ses_key kid uid token) =
      (if w_now w'' < w_now w + ttl * 1000000 then Some data else None)"
    using set_same [of True "w_now w" "w_redis w" "ses_key kid uid token" "w_now w''" data "Some ttl"] v r
    by (simp add: vacant_key_def)
  { assume "w_now w'' < w_now w + ttl * 1000000"
    then show "live_session E view w'' (ses_key kid uid token) = Some (content_at E uid roles token ttl kw w)"
      using vw d(2) by (simp add: live_session_def) }
  { assume "w_now w + ttl * 1000000 \<le> w_now w''"
    then show "vacant_key view w'' (ses_key kid uid token)" using vw by (simp add: vacant_key_def) }
next
  fix w w' :: "('d, 'r, 'c) world" and kid uid token roles ttl kw k and r :: "exc + dict option"
  assume s: "storable (content_at E uid roles token ttl kw w)"
    and c: "session_create E uid roles kid (Some token) (Some ttl) kw w = (r, w')"
  obtain data p where d: "session_create E uid roles kid (Some token) (Some ttl) kw w =
      (let s = rd_set (e_redis E) (ses_key kid uid token) data (Some ttl) True (w_now w) (w_redis w)
       in (Inr (if view (w_now w) (w_redis w) (ses_key kid uid token) = None
                then Some (content_at E uid roles token ttl kw w) else None),
           w\<lparr>w_pos := p, w_redis := snd s\<rparr>))"
    using session_create_run [OF s] by metis
  { assume "\<not> vacant_key view w (ses_key kid uid token)"
    then show "r = Inr None \<and> live_session E view w' k = live_session E view w k"
      using c d set_refused [of True "w_now w" "w_redis w" "ses_key kid uid token" "w_now w"]
      by (auto simp: vacant_key_def live_session_def Let_def) }
  { assume "k \<noteq> ses_key kid uid token"
    then show "live_session E view w' k = live_session E view w k"
      using c d set_other [of k "ses_key kid uid token" "w_now w" "w_now w"]
      by (auto simp: live_session_def Let_def) }
next
  fix w w' w'' :: "('d, 'r, 'c) world" and kid uid token and u :: "exc + unit"
  assume "session_delete E uid token kid w = (u, w')" and "time_passes w' w''"
  then show "u = Inr () \<and> vacant_key view w'' (ses_key kid uid token)"
    using delete_same [of "w_now w" "w_now w''" "ses_key kid uid token" "w_redis w"]
    by (auto simp: session_delete_run time_passes_def vacant_key_def)
next
  fix w w' :: "('d, 'r, 'c) world" and kid uid token k and u :: "exc + unit"
  assume "k \<noteq> ses_key kid uid token" and "session_delete E uid token kid w = (u, w')"
  then show "live_session E view w' k = live_session E view w k"
    using delete_other [of k "ses_key kid uid token" "w_now w" "w_now w" "w_redis w"]
    by (auto simp: session_delete_run live_session_def)
qed

section \<open>Properties\<close>

interpretation memory_sessions: session_env mem_env mr_view
proof (rule session_env.intro)
  show "redis_contract (e_redis mem_env) mr_view" using memory.redis_contract_axioms by simp
  show "session_env_axioms mem_env" by (simp add: session_env_axioms_def mem_crypt_ok)
qed

context session_env
begin

lemma session_window:
  assumes v: "view (w_now w) (w_redis w) (ses_key kid uid token) = None"
    and st: "storable (session_content E uid roles token ttl kw (w_now w))" and kw: "''jti'' \<notin> fst ` set kw"
    and c: "session_create E uid roles kid (Some token) (Some ttl) kw w = (r, w1)"
    and l: "w_redis w2 = w_redis w1" "w_now w1 \<le> w_now w2" and t: "last_n 3 token' = last_n 3 token"
  shows "session_get E uid token' kid w2 =
    (Inr (if token' = token \<and> w_now w2 < w_now w + ttl * 1000000
          then Some (session_content E uid roles token ttl kw (w_now w)) else None), w2)"
proof -
  have vac: "vacant_key view w (ses_key kid uid token)" using v by (simp add: vacant_key_def)
  have later: "time_passes w1 w2" using l by (simp add: time_passes_def)
  have k: "ses_key kid uid token' = ses_key kid uid token" using t by (simp add: ses_key_def)
  note jti = content_claims(1) [OF kw]
  show ?thesis
  proof (cases "w_now w2 < w_now w + ttl * 1000000")
    case True
    then show ?thesis
      using create_then_get [OF vac st jti c later True]
        create_then_get_wrong [OF vac st jti c later True _ t] by auto
  next
    case False
    then have "vacant_key view w2 (ses_key kid uid token')"
      using create_expires [OF vac st c later] k by simp
    then show ?thesis using get_vacant False by simp
  qed
qed

end

text \<open>C7: A session that create wrote is returned by get exactly while its time to live lasts and exactly
  to the token that opened it: any other token with the same last three characters (which name the
  same redis key) and any later time get None.\<close>

lemma session_lifetime:
  assumes env: "session_env E view" and v: "view (w_now w) (w_redis w) (ses_key kid uid token) = None"
    and st: "storable (session_content E uid roles token ttl kw (w_now w))" and kw: "''jti'' \<notin> fst ` set kw"
    and c: "session_create E uid roles kid (Some token) (Some ttl) kw w = (r, w1)"
    and l: "w_redis w2 = w_redis w1" "w_now w1 \<le> w_now w2" and t: "last_n 3 token' = last_n 3 token"
  shows "session_get E uid token' kid w2 =
    (Inr (if token' = token \<and> w_now w2 < w_now w + ttl * 1000000
          then Some (session_content E uid roles token ttl kw (w_now w)) else None), w2)"
  by (rule session_env.session_window [OF assms])

lemma session_lifetime_witness:
  "\<exists>r w1. session_create mem_env (PStr ''u-1'') [''user''] None (Some ''abcdef'') (Some 60) [(''acc'', PStr ''a-1'')] (mem_world []) = (r, w1) \<and>
     fst (session_get mem_env (PStr ''u-1'') ''abcdef'' None (w1\<lparr>w_now := 1640995230000000\<rparr>)) \<noteq> Inr None \<and>
     fst (session_get mem_env (PStr ''u-1'') ''xbcdef'' None (w1\<lparr>w_now := 1640995230000000\<rparr>)) = Inr None"
proof -
  let ?kw = "[(''acc'', PStr ''a-1'')]" and ?w = "mem_world []"
  obtain r w1 where c: "session_create mem_env (PStr ''u-1'') [''user''] None (Some ''abcdef'') (Some 60) ?kw ?w = (r, w1)" by fastforce
  have "storable (session_content mem_env (PStr ''u-1'') [''user''] ''abcdef'' 60 ?kw (w_now ?w))"
    by (rule storable_content) simp_all
  moreover have "mr_view (w_now ?w) (w_redis ?w) k = None" for k by (simp add: mem_world_def mr_view_def)
  moreover have "w_now w1 = 1640995200000000"
  proof -
    have "keeps w_now (session_create mem_env (PStr ''u-1'') [''user''] None (Some ''abcdef'') (Some 60) ?kw)"
      by (auto simp: keeps_def session_create_def py_simps gen_id_run encrypt_json_def Let_def draws_run random_bytes_run split: sum.splits)
    then have "w_now (snd (session_create mem_env (PStr ''u-1'') [''user''] None (Some ''abcdef'') (Some 60) ?kw ?w)) = w_now ?w"
      unfolding keeps_def by blast
    then show ?thesis using c by (simp add: mem_world_def)
  qed
  ultimately show ?thesis
    using session_lifetime [OF memory_sessions.session_env_axioms _ _ _ c, of "w1\<lparr>w_now := 1640995230000000\<rparr>" "''abcdef''"]
      session_lifetime [OF memory_sessions.session_env_axioms _ _ _ c, of "w1\<lparr>w_now := 1640995230000000\<rparr>" "''xbcdef''"] c
    by (simp add: mem_world_def last_n_def)
qed

end
