(* ===== verification/Foundations.thy ===== *)
theory Foundations imports Session_Manager begin

text \<open>
  What the other components rely on in utils.py, json and aes_encrypt.py, stated over the
  definitions of Utils, Json and Codec and applied to the in-memory environment.
\<close>

lemma gen_id_sorts_by_day:
  assumes "512 \<le> days_2018 (w_now w1)" and "days_2018 (w_now w1) + 1 < days_2018 (w_now w2)"
    and "days_2018 (w_now w2) < 32767"
    and "gen_id len1 prefix id_chars w1 = (Inr a, w1')" and "gen_id len2 prefix id_chars w2 = (Inr b, w2')"
  shows "a < b"
proof -
  let ?x = "nat (days_2018 (w_now w1)) * 8 + w_rnd w1 (w_pos w1) mod 9"
  let ?y = "nat (days_2018 (w_now w2)) * 8 + w_rnd w2 (w_pos w2) mod 9"
  have m: "n mod 9 \<le> 8" for n :: nat using mod_less_divisor [of 9 n] by linarith
  have "4096 \<le> ?x" "?x < ?y" "?y < 262144"
    using assms(1-3) m [of "w_rnd w1 (w_pos w1)"] m [of "w_rnd w2 (w_pos w2)"] by linarith+
  then have "int2base id_chars ?x @ s < int2base id_chars ?y @ t" for s t by (rule int2base_mono)
  moreover have "prefix @ u < prefix @ v" if "u < v" for u v :: string
    using that by (induction prefix) auto
  ultimately show ?thesis using assms(4,5) unfolding gen_id_run by (auto simp del: append_assoc)
qed

lemma gen_id_sorts_by_day_witness:
  "\<exists>a b w1 w2. gen_id 8 ''x-'' id_chars (mem_world []) = (Inr a, w1) \<and>
     gen_id 8 ''x-'' id_chars ((mem_world [])\<lparr>w_now := 1641400000000000\<rparr>) = (Inr b, w2) \<and> a < b"
proof -
  let ?w = "(mem_world [])\<lparr>w_now := 1641400000000000\<rparr>"
  have "days_2018 (w_now (mem_world [])) = 1461" "days_2018 (w_now ?w) = 1465"
    by (simp_all add: mem_world_def days_2018_def)
  moreover obtain a w1 b w2 where "gen_id 8 ''x-'' id_chars (mem_world []) = (Inr a, w1)"
    "gen_id 8 ''x-'' id_chars ?w = (Inr b, w2)" by (simp add: gen_id_run)
  ultimately show ?thesis using gen_id_sorts_by_day [of "mem_world []" ?w 8 "''x-''" a w1 8 b w2] by auto
qed

lemma normalized_is_stable:
  assumes "newline \<notin> set s" and "identity_normalize s = Some t"
  shows "identity_normalize t = Some t"
  using identity_normalize_twice [OF assms] .

lemma normalized_is_stable_witness:
  "identity_normalize ''J.Doe+news@gmail.com'' = Some ''jdoe@gmail.com'' \<and> identity_normalize ''jdoe@gmail.com'' = Some ''jdoe@gmail.com''"
proof -
  have "identity_normalize ''J.Doe+news@gmail.com'' = Some ''jdoe@gmail.com''" by code_simp
  then show ?thesis using normalized_is_stable [of "''J.Doe+news@gmail.com''" "''jdoe@gmail.com''"] by simp
qed

lemma json_round_trip:
  assumes "json_ok v" and "json_dumps fr v = Inr s"
  shows "json_loads s = Inr v"
  using assms by (rule json_loads_dumps)

lemma json_round_trip_witness:
  "\<exists>s. json_dumps (\<lambda>_. []) (PDict [(''auth'', PStr ''user''), (''n'', PList [PInt 3, PNone])]) = Inr s \<and>
     json_loads s = Inr (PDict [(''auth'', PStr ''user''), (''n'', PList [PInt 3, PNone])])"
proof -
  let ?v = "PDict [(''auth'', PStr ''user''), (''n'', PList [PInt 3, PNone])]"
  have ok: "json_ok ?v" by simp
  then obtain s where "json_dumps (\<lambda>_. []) ?v = Inr s" using json_dumps_ok(1) by blast
  then show ?thesis using json_round_trip [OF ok] by blast
qed

lemma aes_round_trip:
  assumes "cbc_ok C" and "length iv = 16" and "ascii raw"
  shows "\<exists>e. aes_encrypt C secret iv raw = Inr e \<and> aes_decrypt C secret e = Inr raw"
  using aes_ascii_round_trip [OF assms] by blast

lemma aes_round_trip_witness:
  "\<exists>e. aes_encrypt mem_crypt ''secret'' (replicate 16 CHR ''x'') ''hello'' = Inr e \<and> aes_decrypt mem_crypt ''secret'' e = Inr ''hello''"
  using aes_round_trip [OF mem_crypt_ok, of "replicate 16 CHR ''x''" "''hello''" "''secret''"] by (simp add: ascii_def)

end
