(* ===== verification/Mutex.thy ===== *)
theory Mutex imports Session_Manager begin

text \<open>
  The class Mutex of apicrud/session_manager.py: a redis key that the owner sets with NX and EX and
  that holds the owner's signature. \<open>release\<close> reads the key and then deletes it, in two commands;
  the step relation below interleaves them with the steps of other owners and with time.
\<close>

section \<open>The operations\<close>

record mutex =
  mx_name :: string
  mx_sig :: string
  mx_ttl :: int
  mx_maxwait :: nat

definition mutex_init ::
    "('d, 'r, 'c) env \<Rightarrow> string \<Rightarrow> nat \<Rightarrow> int \<Rightarrow> (('d, 'r, 'c) world, mutex) py" where
  "mutex_init E name maxwait ttl =
     bnd gen_id_default (\<lambda>s.
     ret \<lparr>mx_name = name, mx_sig = s, mx_ttl = (if ttl = 0 then cf_REDIS_TTL (e_cfg E) else ttl),
          mx_maxwait = maxwait\<rparr>)"

abbreviation mutex_key :: "mutex \<Rightarrow> string" where
  "mutex_key m \<equiv> ''mutex:'' @ mx_name m"

definition sleep_secs :: "int \<Rightarrow> (('d, 'r, 'c) world, unit) py" where
  "sleep_secs n = modify (\<lambda>w. w\<lparr>w_now := w_now w + n * 1000000\<rparr>)"

definition mutex_try :: "('d, 'r, 'c) env \<Rightarrow> mutex \<Rightarrow> (('d, 'r, 'c) world, bool) py" where
  "mutex_try E m = try_catch
     (redis_set E (mutex_key m) (mx_sig m) (Some (mx_ttl m)) True)
     (\<lambda>ex. if exc_kind ex = ERedisConnectionError then ret False else raise_exc ex)"

fun mutex_retry :: "('d, 'r, 'c) env \<Rightarrow> mutex \<Rightarrow> nat \<Rightarrow> (('d, 'r, 'c) world, bool) py" where
  "mutex_retry E m 0 = raise_exc (Exc ETimeoutError (''Unable to acquire mutex='' @ mx_name m))"
| "mutex_retry E m (Suc n) =
     bnd (mutex_try E m) (\<lambda>ok. if ok then ret True else bnd (sleep_secs 1) (\<lambda>_. mutex_retry E m n))"

definition mutex_acquire :: "('d, 'r, 'c) env \<Rightarrow> mutex \<Rightarrow> (('d, 'r, 'c) world, bool) py" where
  "mutex_acquire E m = mutex_retry E m (mx_maxwait m)"

definition mutex_owned :: "('d, 'r, 'c) env \<Rightarrow> mutex \<Rightarrow> (('d, 'r, 'c) world, bool) py" where
  "mutex_owned E m =
     bnd (redis_get E (mutex_key m)) (\<lambda>r. case r of
       None \<Rightarrow> raise_exc (Exc EAttributeError ''NoneType object has no attribute decode'')
     | Some v \<Rightarrow> (case utf8_decode v of
         None \<Rightarrow> raise_exc (Exc EValueError ''codec cannot decode byte'')
       | Some s \<Rightarrow> ret (s = mx_sig m)))"

definition mutex_expired :: exc where
  "mutex_expired = Exc ETimeoutError ''Mutex held too long, may need a longer ttl''"

definition mutex_remove :: "('d, 'r, 'c) env \<Rightarrow> mutex \<Rightarrow> (('d, 'r, 'c) world, unit) py" where
  "mutex_remove E m =
     bnd (redis_delete E (mutex_key m)) (\<lambda>n. if n = 0 then raise_exc mutex_expired else ret ())"

definition mutex_release :: "('d, 'r, 'c) env \<Rightarrow> mutex \<Rightarrow> (('d, 'r, 'c) world, unit) py" where
  "mutex_release E m =
     bnd (mutex_owned E m) (\<lambda>mine. if \<not> mine then raise_exc mutex_expired else mutex_remove E m)"

section \<open>Owners, interleaved\<close>

text \<open>
  A state is the world the owners share and, for each owner that holds the lock as far as it knows,
  the time until which its key lives. \<open>checked\<close> are the owners between the two commands of
  \<open>release\<close>. All owners use one lock name; they differ in their signatures.
\<close>

record ('d, 'r, 'c) lock_state =
  lk_world :: "('d, 'r, 'c) world"
  lk_held :: "mutex \<Rightarrow> int option"
  lk_checked :: "mutex set"

text \<open>
  \<open>prompt\<close> restricts the relation to runs in which an owner that started to release deletes the
  key before its own time to live is over.
\<close>

inductive lock_step ::
    "('d, 'r, 'c) env \<Rightarrow> string \<Rightarrow> bool \<Rightarrow> ('d, 'r, 'c) lock_state \<Rightarrow> ('d, 'r, 'c) lock_state \<Rightarrow> bool"
  for E :: "('d, 'r, 'c) env" and name :: string and prompt :: bool where
  acquire: "mx_name m = name \<Longrightarrow> 0 < mx_ttl m \<Longrightarrow> mutex_try E m (lk_world s) = (Inr True, w') \<Longrightarrow>
     lock_step E name prompt s
       (s\<lparr>lk_world := w', lk_held := (lk_held s)(m := Some (w_now (lk_world s) + mx_ttl m * 1000000))\<rparr>)"
| refused: "mx_name m = name \<Longrightarrow> mutex_try E m (lk_world s) = (Inr False, w') \<Longrightarrow>
     lock_step E name prompt s (s\<lparr>lk_world := w'\<rparr>)"
| check: "lk_held s m \<noteq> None \<Longrightarrow> mx_name m = name \<Longrightarrow> mutex_owned E m (lk_world s) = (Inr True, w') \<Longrightarrow>
     lock_step E name prompt s (s\<lparr>lk_world := w', lk_checked := insert m (lk_checked s)\<rparr>)"
| remove: "m \<in> lk_checked s \<Longrightarrow> mx_name m = name \<Longrightarrow> mutex_remove E m (lk_world s) = (r, w') \<Longrightarrow>
     (\<And>d. prompt \<Longrightarrow> lk_held s m = Some d \<Longrightarrow> w_now (lk_world s) < d) \<Longrightarrow>
     lock_step E name prompt s
       (s\<lparr>lk_world := w', lk_held := (lk_held s)(m := None), lk_checked := lk_checked s - {m}\<rparr>)"
| tick: "0 \<le> n \<Longrightarrow> lock_step E name prompt s (s\<lparr>lk_world := (lk_world s)\<lparr>w_now := w_now (lk_world s) + n\<rparr>\<rparr>)"

inductive_cases lock_stepE: "lock_step E name prompt s s'"

definition lock_start :: "('d, 'r, 'c) world \<Rightarrow> ('d, 'r, 'c) lock_state" where
  "lock_start w = \<lparr>lk_world = w, lk_held = Map.empty, lk_checked = {}\<rparr>"

inductive lock_reach ::
    "('d, 'r, 'c) env \<Rightarrow> string \<Rightarrow> bool \<Rightarrow> ('d, 'r, 'c) world \<Rightarrow> ('d, 'r, 'c) lock_state \<Rightarrow> bool"
  for E :: "('d, 'r, 'c) env" and name :: string and prompt :: bool and w :: "('d, 'r, 'c) world" where
  start: "lock_reach E name prompt w (lock_start w)"
| step: "lock_reach E name prompt w s \<Longrightarrow> lock_step E name prompt s s' \<Longrightarrow> lock_reach E name prompt w s'"

text \<open>An owner is inside as long as its key has not expired.\<close>

definition inside :: "('d, 'r, 'c) lock_state \<Rightarrow> mutex \<Rightarrow> bool" where
  "inside s m \<longleftrightarrow> lk_held s m \<noteq> None \<and> w_now (lk_world s) < the (lk_held s m)"

definition lock_inv ::
    "(int \<Rightarrow> 'r \<Rightarrow> string \<Rightarrow> string option) \<Rightarrow> string \<Rightarrow> ('d, 'r, 'c) lock_state \<Rightarrow> bool" where
  "lock_inv view name s \<longleftrightarrow>
     (\<forall>m d t. lk_held s m = Some d \<and> w_now (lk_world s) \<le> t \<and> t < d \<longrightarrow>
        view t (w_redis (lk_world s)) (''mutex:'' @ name) = Some (mx_sig m)) \<and>
     (\<forall>m m'. inside s m \<and> inside s m' \<longrightarrow> m = m') \<and>
     lk_checked s \<subseteq> dom (lk_held s)"

context redis_contract
begin

lemma mutex_try_run:
  assumes "e_redis E = R"
  shows "mutex_try E m w = (Inr (view (w_now w) (w_redis w) (mutex_key m) = None),
     w\<lparr>w_redis := snd (rd_set R (mutex_key m) (mx_sig m) (Some (mx_ttl m)) True (w_now w) (w_redis w))\<rparr>)"
  using assms by (simp add: mutex_try_def py_simps set_result)

lemma mutex_remove_world:
  assumes "e_redis E = R" and "mutex_remove E m w = (r, w')"
  shows "w' = w\<lparr>w_redis := snd (rd_delete R (mutex_key m) (w_now w) (w_redis w))\<rparr>"
  using assms by (auto simp: mutex_remove_def py_simps delete_result split: if_splits)

lemma mutex_owned_world: "mutex_owned E m w = (r, w') \<Longrightarrow> w' = w"
  by (auto simp: mutex_owned_def py_simps split: sum.splits option.splits)

lemma lock_inv_acquire:
  assumes R: "e_redis E = R" and m: "mx_name m = name"
    and tk: "mutex_try E m (lk_world s) = (Inr True, w')" and inv: "lock_inv view name s"
  shows "lock_inv view name
    (s\<lparr>lk_world := w', lk_held := (lk_held s)(m := Some (w_now (lk_world s) + mx_ttl m * 1000000))\<rparr>)"
proof -
  let ?t = "w_now (lk_world s)" and ?k = "''mutex:'' @ name"
  have free: "view ?t (w_redis (lk_world s)) ?k = None"
    and w': "w' = (lk_world s)\<lparr>w_redis := snd (rd_set R ?k (mx_sig m) (Some (mx_ttl m)) True ?t (w_redis (lk_world s)))\<rparr>"
    using tk m mutex_try_run [OF R, of m "lk_world s"] by auto
  have dead: "d \<le> ?t" if "lk_held s m' = Some d" for m' d
    using inv that free unfolding lock_inv_def by (metis linorder_not_less option.distinct(1) order_refl)
  have "view t (w_redis w') ?k = Some (mx_sig m)" if "?t \<le> t" "t < ?t + mx_ttl m * 1000000" for t
    using set_same [of True ?t "w_redis (lk_world s)" ?k t "mx_sig m" "Some (mx_ttl m)"] free that by (simp add: w')
  moreover have "w_now w' = ?t" by (simp add: w')
  ultimately show ?thesis using inv dead unfolding lock_inv_def inside_def
    by (auto split: if_splits option.splits) force+
qed

lemma lock_inv_remove:
  assumes R: "e_redis E = R" and m: "mx_name m = name"
    and rm: "mutex_remove E m (lk_world s) = (r, w')" and inv: "lock_inv view name s" and live: "inside s m"
  shows "lock_inv view name (s\<lparr>lk_world := w', lk_held := (lk_held s)(m := None), lk_checked := lk_checked s - {m}\<rparr>)"
proof -
  have now: "w_now w' = w_now (lk_world s)" using mutex_remove_world [OF R rm] by simp
  have "d \<le> w_now (lk_world s)" if "lk_held s m' = Some d" "m' \<noteq> m" for m' d
    using inv live that unfolding lock_inv_def inside_def by (metis linorder_not_less option.distinct(1) option.sel)
  then show ?thesis using inv now unfolding lock_inv_def inside_def
    by (auto split: if_splits option.splits) force+
qed

lemma lock_inv_step:
  assumes R: "e_redis E = R" and step: "lock_step E name True s s'" and inv: "lock_inv view name s"
  shows "lock_inv view name s'"
  using step
proof (cases rule: lock_step.cases)
  case (acquire m w')
  then show ?thesis using lock_inv_acquire [OF R _ _ inv] by blast
next
  case (refused m w')
  let ?k = "''mutex:'' @ name"
  have "view (w_now (lk_world s)) (w_redis (lk_world s)) ?k \<noteq> None"
    and w': "w' = (lk_world s)\<lparr>w_redis := snd (rd_set R ?k (mx_sig m) (Some (mx_ttl m)) True
      (w_now (lk_world s)) (w_redis (lk_world s)))\<rparr>"
    using refused mutex_try_run [OF R, of m "lk_world s"] by auto
  then have eq: "view t (w_redis w') ?k = view t (w_redis (lk_world s)) ?k" if "w_now (lk_world s) \<le> t" for t
    using that set_refused [of True "w_now (lk_world s)" "w_redis (lk_world s)" ?k t] by simp
  have "w_now w' = w_now (lk_world s)" by (simp add: w')
  then show ?thesis using inv eq unfolding refused(1) lock_inv_def inside_def by auto
next
  case (check m w')
  moreover from check have "w' = lk_world s" using mutex_owned_world by blast
  ultimately show ?thesis using inv unfolding lock_inv_def inside_def by auto
next
  case (remove m r w')
  then have "inside s m" using inv unfolding lock_inv_def inside_def by auto
  with remove show ?thesis using lock_inv_remove [OF R _ _ inv] by blast
next
  case (tick n)
  then show ?thesis using inv unfolding lock_inv_def inside_def by (auto split: option.splits)
qed

lemma lock_inv_reach:
  assumes "e_redis E = R" and "lock_reach E name True w s"
  shows "lock_inv view name s"
  using assms(2)
proof (induction rule: lock_reach.induct)
  case start
  then show ?case by (simp add: lock_inv_def lock_start_def inside_def)
next
  case (step s s')
  then show ?case using lock_inv_step [OF assms(1)] by blast
qed

lemma mutex_exclusion:
  "e_redis E = R \<Longrightarrow> lock_reach E name True w s \<Longrightarrow> inside s m \<Longrightarrow> inside s m' \<Longrightarrow> m = m'"
  using lock_inv_reach unfolding lock_inv_def by blast

text \<open>
  \<open>acquire\<close> returns only with the lock, and it does return, within \<open>maxwait\<close> seconds: with the lock
  if the key becomes free in time, with TimeoutError otherwise.
\<close>

lemma mutex_retry_result:
  assumes "e_redis E = R" and ttl: "0 < mx_ttl m"
  shows "\<exists>w'. (mutex_retry E m n w = (Inr True, w') \<and> view (w_now w') (w_redis w') (mutex_key m) \<noteq> None \<or>
      mutex_retry E m n w = (Inl (Exc ETimeoutError (''Unable to acquire mutex='' @ mx_name m)), w')) \<and>
    w_now w' \<le> w_now w + int n * 1000000"
proof (induction n arbitrary: w)
  case 0
  then show ?case by (simp add: py_simps)
next
  case (Suc n)
  show ?case
  proof (cases "view (w_now w) (w_redis w) (mutex_key m) = None")
    case True
    then show ?thesis using ttl assms
      by (simp add: py_simps mutex_try_run set_same)
  next
    case False
    let ?w = "(snd (mutex_try E m w))\<lparr>w_now := w_now w + 1000000\<rparr>"
    from Suc [of ?w] obtain w' where "(mutex_retry E m n ?w = (Inr True, w') \<and> view (w_now w') (w_redis w') (mutex_key m) \<noteq> None \<or>
      mutex_retry E m n ?w = (Inl (Exc ETimeoutError (''Unable to acquire mutex='' @ mx_name m)), w')) \<and>
      w_now w' \<le> w_now ?w + int n * 1000000" by blast
    then show ?thesis using False assms
      by (intro exI [of _ w']) (auto simp: py_simps mutex_try_run sleep_secs_def)
  qed
qed

end

section \<open>Properties\<close>

text \<open>C14: In every reachable state of the lock protocol in which a release only removes the key it has
  just checked, at most one process holds the lock before its time to live is over.\<close>

lemma mutex_one_owner:
  assumes "redis_contract (e_redis E) view" and "lock_reach E name True w s" and "inside s m" and "inside s m'"
  shows "m = m'"
  using redis_contract.mutex_exclusion [OF assms(1)] assms(2-) by blast

definition lock_of :: "string \<Rightarrow> mutex" where
  "lock_of sig = \<lparr>mx_name = ''job'', mx_sig = sig, mx_ttl = 10, mx_maxwait = 10\<rparr>"

definition redis_at :: "int \<Rightarrow> mredis \<Rightarrow> (mdb, mredis, mcache) world" where
  "redis_at t r = (mem_world [])\<lparr>w_now := t, w_redis := r\<rparr>"

definition lock_at ::
    "int \<Rightarrow> mredis \<Rightarrow> (mutex \<Rightarrow> int option) \<Rightarrow> mutex set \<Rightarrow> (mdb, mredis, mcache) lock_state" where
  "lock_at t r h c = \<lparr>lk_world = redis_at t r, lk_held = h, lk_checked = c\<rparr>"

lemma lock_at_simps [simp]:
  "lk_world (lock_at t r h c) = redis_at t r" "lk_held (lock_at t r h c) = h" "lk_checked (lock_at t r h c) = c"
  "w_now (redis_at t r) = t" "w_redis (redis_at t r) = r"
  by (simp_all add: lock_at_def redis_at_def)

lemma lock_at_acquire:
  assumes "lock_reach mem_env ''job'' p w (lock_at t r h c)" and "mr_view t r ''mutex:job'' = None"
  shows "lock_reach mem_env ''job'' p w
    (lock_at t (AList.update ''mutex:job'' (sig, Some (t + 10000000)) r) (h(lock_of sig \<mapsto> t + 10000000)) c)"
proof -
  have "mutex_try mem_env (lock_of sig) (redis_at t r) =
      (Inr True, redis_at t (AList.update ''mutex:job'' (sig, Some (t + 10000000)) r))"
    using assms(2) by (simp add: memory.mutex_try_run lock_of_def mem_redis_def mr_set_def) (simp add: redis_at_def)
  from lock_step.acquire [of "lock_of sig" "''job''", OF _ _ this [folded lock_at_simps(1) [of t r h c]]]
  have "lock_step mem_env ''job'' p (lock_at t r h c)
      (lock_at t (AList.update ''mutex:job'' (sig, Some (t + 10000000)) r) (h(lock_of sig \<mapsto> t + 10000000)) c)"
    by (simp add: lock_of_def lock_at_def)
  with assms(1) show ?thesis by (rule lock_reach.step)
qed

lemma lock_at_check:
  assumes "lock_reach mem_env ''job'' p w (lock_at t r h c)" and "mr_view t r ''mutex:job'' = Some sig"
    and "h (lock_of sig) \<noteq> None" and "ascii sig"
  shows "lock_reach mem_env ''job'' p w (lock_at t r h (insert (lock_of sig) c))"
proof -
  have "mutex_owned mem_env (lock_of sig) (redis_at t r) = (Inr True, redis_at t r)"
    using assms(2,4) by (simp add: mutex_owned_def py_simps memory.get_view lock_of_def utf8_decode_ascii)
  from lock_step.check [of "lock_at t r h c" "lock_of sig" "''job''", OF _ _ this [folded lock_at_simps(1) [of t r h c]]]
  have "lock_step mem_env ''job'' p (lock_at t r h c) (lock_at t r h (insert (lock_of sig) c))"
    using assms(3) by (simp add: lock_of_def lock_at_def)
  with assms(1) show ?thesis by (rule lock_reach.step)
qed

lemma lock_at_remove:
  assumes "lock_reach mem_env ''job'' False w (lock_at t r h c)" and "lock_of sig \<in> c"
  shows "lock_reach mem_env ''job'' False w (lock_at t (AList.delete ''mutex:job'' r) (h(lock_of sig := None)) (c - {lock_of sig}))"
proof -
  obtain res where "mutex_remove mem_env (lock_of sig) (redis_at t r) = (res, redis_at t (AList.delete ''mutex:job'' r))"
    by (cases "mutex_remove mem_env (lock_of sig) (redis_at t r)")
      (auto simp: mutex_remove_def py_simps lock_of_def mem_redis_def mr_delete_def redis_at_def split: if_splits)
  from lock_step.remove [of "lock_of sig" "lock_at t r h c" "''job''", OF _ _ this [folded lock_at_simps(1) [of t r h c]]]
  have "lock_step mem_env ''job'' False (lock_at t r h c)
      (lock_at t (AList.delete ''mutex:job'' r) (h(lock_of sig := None)) (c - {lock_of sig}))"
    using assms(2) by (simp add: lock_of_def lock_at_def)
  with assms(1) show ?thesis by (rule lock_reach.step)
qed

lemma lock_at_tick:
  assumes "lock_reach mem_env ''job'' p w (lock_at t r h c)" and "0 \<le> n"
  shows "lock_reach mem_env ''job'' p w (lock_at (t + n) r h c)"
  using lock_reach.step [OF assms(1) lock_step.tick [OF assms(2)]] by (simp add: lock_at_def redis_at_def mem_world_def)

lemma mutex_release_race:
  "\<exists>s m m'. lock_reach mem_env ''job'' False (mem_world []) s \<and> inside s m \<and> inside s m' \<and> m \<noteq> m'"
proof -
  let ?R = "lock_reach mem_env ''job'' False (mem_world [])"
  let ?t = "1640995200000000 :: int"
  let ?a = "lock_of ''a''" and ?b = "lock_of ''b''" and ?c = "lock_of ''c''"
  let ?k = "''mutex:job''"
  have ne: "?a \<noteq> ?b" "?a \<noteq> ?c" "?b \<noteq> ?c" by (simp_all add: lock_of_def)
  have "lock_start (mem_world []) = lock_at ?t [] Map.empty {}"
    by (simp add: lock_start_def lock_at_def redis_at_def mem_world_def)
  then have "?R (lock_at ?t [] Map.empty {})"
    using lock_reach.start [of mem_env "''job''" False "mem_world []"] by simp
  from lock_at_acquire [OF this, of "''a''"]
  have "?R (lock_at ?t [(?k, ''a'', Some (?t + 10000000))] [?a \<mapsto> ?t + 10000000] {})" by (simp add: mr_view_def)
  from lock_at_check [OF this, of "''a''"]
  have "?R (lock_at ?t [(?k, ''a'', Some (?t + 10000000))] [?a \<mapsto> ?t + 10000000] {?a})" by (simp add: mr_view_def ascii_def)
  from lock_at_tick [OF this, of 10000000]
  have "?R (lock_at (?t + 10000000) [(?k, ''a'', Some (?t + 10000000))] [?a \<mapsto> ?t + 10000000] {?a})" by simp
  from lock_at_acquire [OF this, of "''b''"]
  have "?R (lock_at (?t + 10000000) [(?k, ''b'', Some (?t + 20000000))] [?a \<mapsto> ?t + 10000000, ?b \<mapsto> ?t + 20000000] {?a})"
    by (simp add: mr_view_def)
  from lock_at_remove [OF this, of "''a''"]
  have "?R (lock_at (?t + 10000000) [] [?b \<mapsto> ?t + 20000000] {})"
    using ne by (simp add: fun_upd_twist)
  from lock_at_acquire [OF this, of "''c''"]
  have r: "?R (lock_at (?t + 10000000) [(?k, ''c'', Some (?t + 20000000))] [?b \<mapsto> ?t + 20000000, ?c \<mapsto> ?t + 20000000] {})"
    by (simp add: mr_view_def)
  then show ?thesis using ne
    by (intro exI [of _ "lock_at (?t + 10000000) [(?k, ''c'', Some (?t + 20000000))] [?b \<mapsto> ?t + 20000000, ?c \<mapsto> ?t + 20000000] {}"]
        exI [of _ ?b] exI [of _ ?c]) (simp add: inside_def)
qed

lemma mutex_one_owner_witness:
  "\<exists>s. lock_reach mem_env ''job'' True (mem_world []) s \<and> inside s (lock_of ''a'') \<and>
     (\<forall>m. inside s m \<longrightarrow> m = lock_of ''a'')"
proof -
  let ?s = "lock_at 1640995200000000 [(''mutex:job'', ''a'', Some 1640995210000000)] [lock_of ''a'' \<mapsto> 1640995210000000] {}"
  have "lock_start (mem_world []) = lock_at 1640995200000000 [] Map.empty {}"
    by (simp add: lock_start_def lock_at_def redis_at_def mem_world_def)
  then have "lock_reach mem_env ''job'' True (mem_world []) (lock_at 1640995200000000 [] Map.empty {})"
    using lock_reach.start [of mem_env "''job''" True "mem_world []"] by simp
  from lock_at_acquire [OF this, of "''a''"]
  have r: "lock_reach mem_env ''job'' True (mem_world []) ?s" by (simp add: mr_view_def)
  have i: "inside ?s (lock_of ''a'')" by (simp add: inside_def)
  have "redis_contract (e_redis mem_env) mr_view" using memory.redis_contract_axioms by simp
  then show ?thesis using r i mutex_one_owner [OF _ r] by blast
qed



end
