(* ===== verification/Access.thy ===== *)
theory Access imports Session_Manager begin

text \<open>
  apicrud/access.py: role-based access control. \<open>load_rbac\<close> turns the policies of rbac.yaml into
  the table \<open>POLICIES\<close>; an \<open>AccessControl\<close> object reads the roles of the caller from the session
  named by the request's credentials; \<open>rbac_permissions\<close> evaluates the actions the caller has on a
  record, \<open>with_filter\<close> restricts a query to the records it may see.
\<close>

section \<open>Policies\<close>

text \<open>One policy of rbac.yaml: principal, resource, actions; \<open>*\<close> becomes \<open>.*\<close> for \<open>re.match\<close>.\<close>

type_synonym rbac_file = "(string \<times> (string \<times> string \<times> string) list) list"

definition star_to_rx :: "string \<Rightarrow> string" where
  "star_to_rx s = concat (map (\<lambda>c. if c = CHR ''*'' then ''.*'' else [c]) s)"

definition load_policy :: "string \<Rightarrow> string \<times> string \<times> string \<Rightarrow> exc + policy" where
  "load_policy res p = (case p of (who, target, actions) \<Rightarrow>
     (case py_format [] who of
        Inl e \<Rightarrow> Inl e
      | Inr f \<Rightarrow> (case py_format [(''resource'', res)] target of
          Inl e \<Rightarrow> Inl e
        | Inr r \<Rightarrow> Inr \<lparr>pol_principal = star_to_rx f, pol_resource = star_to_rx r, pol_actions = set actions\<rparr>)))"

fun load_each :: "string \<Rightarrow> (string \<times> string \<times> string) list \<Rightarrow> exc + policy list" where
  "load_each res [] = Inr []"
| "load_each res (p # ps) = (case load_policy res p of
       Inl e \<Rightarrow> Inl e
     | Inr q \<Rightarrow> (case load_each res ps of Inl e \<Rightarrow> Inl e | Inr qs \<Rightarrow> Inr (q # qs)))"

fun load_rbac :: "rbac_file \<Rightarrow> exc + (string \<times> policy list) list" where
  "load_rbac [] = Inr []"
| "load_rbac ((res, ps) # rest) = (case load_each res ps of
       Inl e \<Rightarrow> Inl e
     | Inr qs \<Rightarrow> (case load_rbac rest of Inl e \<Rightarrow> Inl e | Inr r \<Rightarrow> Inr ((res, qs) # r)))"

text \<open>The policies of example/rbac.yaml and its other two sections.\<close>

definition base_policy :: "(string \<times> string \<times> string) list" where
  "base_policy = [(''admin'', ''{resource}:*'', ''cdru''), (''user/{{uid}}'', ''{resource}:{{uid}}'', ''cdru'')]"

definition example_rbac :: rbac_file where
  "example_rbac = [
     (''apikey'', base_policy), (''category'', base_policy), (''credential'', base_policy),
     (''location'', base_policy), (''profile'', base_policy), (''trashcan'', base_policy), (''tz'', base_policy),
     (''account'', [(''*'', ''{resource}:*'', ''c''), (''admin'', ''{resource}:*'', ''cdru''),
        (''user/{{uid}}'', ''{resource}:{{uid}}'', ''cdru''),
        (''mfarequired:{{uid}}'', ''{resource}:{{uid}}'', ''ru'')]),
     (''contact'', [(''admin'', ''{resource}:*'', ''cdru''), (''user/{{uid}}'', ''{resource}:{{uid}}'', ''cdru''),
        (''pending'', ''{resource}:{{uid}}'', ''ru''), (''person/{{uid}}'', ''{resource}:{{uid}}'', ''ru''),
        (''list-*'', ''{resource}:{{uid}}'', ''cru''),
        (''list-{{list_id}}-member'', ''{resource}:{{list_id}}'', ''r'')]),
     (''grant'', [(''admin'', ''{resource}:*'', ''cdru''), (''user/{{uid}}'', ''{resource}:{{uid}}'', ''r'')]),
     (''list'', [(''admin'', ''{resource}:*'', ''cdiru''), (''user/{{uid}}'', ''{resource}:{{uid}}'', ''cdghjiru''),
        (''list-{{eid}}-manager'', ''{resource}:{{list_id}}'', ''cdghijru''),
        (''list-{{list_id}}-member'', ''{resource}:{{list_id}}'', ''gijr''),
        (''list-{{list_id}}-invitee'', ''{resource}:{{list_id}}'', ''r'')]),
     (''message'', [(''admin'', ''{resource}:*'', ''cdru''), (''user/{{uid}}'', ''{resource}:{{uid}}'', ''cdru''),
        (''list-{{list_id}}-manager'', ''{resource}:{{list_id}}'', ''cdhr''),
        (''list-{{list_id}}-invitee'', ''{resource}:{{list_id}}'', ''cr'')]),
     (''metric'', [(''admin'', ''{resource}:*'', ''r''), (''user/{{uid}}'', ''{resource}:{{uid}}'', ''r'')]),
     (''person'', [(''*'', ''{resource}:*'', ''cr''), (''admin'', ''{resource}:*'', ''cdru''),
        (''user/{{uid}}'', ''{resource}:{{uid}}'', ''cdru''), (''list-*'', ''{resource}:{{uid}}'', ''ru'')]),
     (''scope'', [(''admin'', ''{resource}:*'', ''cdru''), (''*'', ''{resource}:*'', ''r'')]),
     (''settings'', [(''admin'', ''{resource}:*'', ''cdru'')])]"

definition example_levels :: "string list" where
  "example_levels = [''public'', ''invitee'', ''member'', ''manager'', ''secret'']"

definition example_private :: "(string \<times> string) list" where
  "example_private = [(''list'', ''list_id'')]"

section \<open>The caller\<close>

record access =
  ac_model :: "string option"
  ac_auth :: "string list option"
  ac_uid :: pyval
  ac_account_id :: pyval
  ac_method :: pyval
  ac_identity :: pyval
  ac_apikey_id :: "string option"
  ac_primary :: string
  ac_auth_ids :: "string list"

definition ac_resource :: "access \<Rightarrow> string" where
  "ac_resource a = (case ac_model a of None \<Rightarrow> ''None'' | Some m \<Rightarrow> str_lower m)"

text \<open>\<open>if self.auth\<close>: None and the empty list are false; \<open>''.split(':')\<close> is not empty.\<close>

definition roles_of :: "access \<Rightarrow> string list" where
  "roles_of a = (case ac_auth a of None \<Rightarrow> [] | Some rs \<Rightarrow> rs)"

definition apikey_hash :: "('d, 'r, 'c) env \<Rightarrow> string \<Rightarrow> string" where
  "apikey_hash E secret = b64encode (cr_sha256 (e_crypt E) (utf8_encode secret))"

text \<open>\<open>_parse_id\<close>: the id in a role \<open><resource>-<id>-<level>\<close> of the given resource.\<close>

definition parse_id :: "string \<Rightarrow> string \<Rightarrow> string option" where
  "parse_id role resource =
     (let x = py_split (CHR ''-'') role
      in if hd x = resource then Some (py_join ''-'' (butlast (tl x))) else None)"

text \<open>
  The credentials of the request: \<open>(uid, secret, auth, key id)\<close>. An API key opens the session kept
  under its key id; Basic credentials open the session of the user.
\<close>

definition credentials ::
    "('d, 'r, 'c) env \<Rightarrow> (('d, 'r, 'c) world, (pyval \<times> string \<times> string list option \<times> string option)) py" where
  "credentials E =
     (case map_of (rq_headers (e_req E)) (cf_HEADER_AUTH_APIKEY (e_cfg E)) of
        Some header \<Rightarrow>
          (case py_split (CHR ''.'') header of
             [prefix, secret] \<Rightarrow>
               bnd (session_get E PNone (take 8 (apikey_hash E secret)) (Some prefix)) (\<lambda>item.
               case item of
                 None \<Rightarrow> ret (PNone, secret, None, None)
               | Some d \<Rightarrow>
                   if d = [] then ret (PNone, secret, None, None)
                   else (case dget d ''auth'' of
                      PStr s \<Rightarrow> ret (dget d ''sub'', secret, Some (py_split (CHR '':'') s), Some prefix)
                    | _ \<Rightarrow> raise_exc (Exc EAttributeError ''object has no attribute split'')))
           | _ \<Rightarrow> ret (PNone, [], None, None))
      | None \<Rightarrow>
          (case rq_authorization (e_req E) of
             Some (username, password) \<Rightarrow>
               bnd (session_get_arg E (PStr username) password ''auth'' None) (\<lambda>v.
               ret (PStr username, password,
                    (case v of PStr s \<Rightarrow> Some (py_split (CHR '':'') s) | _ \<Rightarrow> None), None))
           | None \<Rightarrow> ret (PNone, [], None, None)))"

text \<open>
  \<open>__init__\<close>, once the policies are loaded and within a request. The account, method and identity
  are looked up with the user id and the secret of the credentials, for an API key as well.
\<close>

definition access_control ::
    "('d, 'r, 'c) env \<Rightarrow> string option \<Rightarrow> (('d, 'r, 'c) world, access) py" where
  "access_control E model =
     bnd (credentials E) (\<lambda>(uid, secret, auth, apikey).
     let primary = fst (hd (e_private E));
         anonymous = \<lparr>ac_model = model, ac_auth = auth, ac_uid = PNone, ac_account_id = PNone, ac_method = PNone,
           ac_identity = PNone, ac_apikey_id = apikey, ac_primary = primary, ac_auth_ids = []\<rparr>
     in case auth of
          None \<Rightarrow> ret anonymous
        | Some roles \<Rightarrow>
            bnd (session_get_arg E uid secret ''acc'' None) (\<lambda>acc.
            bnd (session_get_arg E uid secret ''method'' None) (\<lambda>meth.
            bnd (session_get_arg E uid secret ''identity'' None) (\<lambda>ident.
            ret (anonymous\<lparr>ac_uid := uid, ac_account_id := acc, ac_method := meth, ac_identity := ident,
              ac_auth_ids := filter (\<lambda>i. i \<noteq> []) (List.map_filter (\<lambda>r. parse_id r primary) roles)\<rparr>)))))"

section \<open>Permissions\<close>

text \<open>A role as a policy's principal is compared with it: its own user id is filled in.\<close>

definition role_pattern :: "string \<Rightarrow> string" where
  "role_pattern role = (if role \<in> {''person'', ''user''} then role @ ''/{uid}'' else role)"

definition format_args :: "pyval \<Rightarrow> pyval \<Rightarrow> (string \<times> string) list" where
  "format_args ident uid = [(''eid'', py_str ident), (''list_id'', py_str ident), (''uid'', py_str uid)]"

text \<open>
  Whether a policy applies to one of the caller's roles: the principals agree once formatted, or
  the policy is for any member of the resource that defines membership, and the policy's resource
  matches. The comparison raises where a format or a pattern does.
\<close>

definition resource_matches :: "access \<Rightarrow> pyval \<Rightarrow> pyval \<Rightarrow> policy \<Rightarrow> exc + bool" where
  "resource_matches a ident owner p =
     (let match_id = (if occurs ''uid'' (pol_resource p) then ac_uid a
                      else if occurs ''eid'' (pol_resource p) then ident else PNone)
      in case py_format (format_args ident owner) (pol_resource p) of
           Inl e \<Rightarrow> Inl e
         | Inr r \<Rightarrow> re_match True r (ac_resource a @ '':'' @ py_str match_id))"

definition role_grants ::
    "access \<Rightarrow> pyval \<Rightarrow> pyval \<Rightarrow> pyval \<Rightarrow> policy \<Rightarrow> string \<Rightarrow> exc + bool" where
  "role_grants a ident owner membership p role =
     (case py_format (format_args ident owner) (pol_principal p) of
        Inl e \<Rightarrow> Inl e
      | Inr who \<Rightarrow> (case py_format (format_args ident (ac_uid a)) (role_pattern role) of
          Inl e \<Rightarrow> Inl e
        | Inr me \<Rightarrow> (case (if who = me then resource_matches a ident owner p else Inr False) of
            Inl e \<Rightarrow> Inl e
          | Inr True \<Rightarrow> Inr True
          | Inr False \<Rightarrow>
              if pol_principal p = py_str membership @ ''-*'' \<and>
                 hd (py_split (CHR ''-'') (role_pattern role)) = py_str membership \<and> membership \<noteq> PNone
              then resource_matches a ident owner p else Inr False)))"

fun any_role :: "(string \<Rightarrow> exc + bool) \<Rightarrow> string list \<Rightarrow> exc + bool" where
  "any_role g [] = Inr False"
| "any_role g (r # rs) = (case g r of
       Inl e \<Rightarrow> Inl e
     | Inr b \<Rightarrow> (case any_role g rs of Inl e \<Rightarrow> Inl e | Inr b' \<Rightarrow> Inr (b \<or> b')))"

text \<open>The loop over the policies of the resource, with the actions and defaults collected so far.\<close>

fun eval_policies ::
    "access \<Rightarrow> pyval \<Rightarrow> pyval \<Rightarrow> pyval \<Rightarrow> policy list \<Rightarrow> char set \<Rightarrow> char set \<Rightarrow> exc + (char set \<times> char set)" where
  "eval_policies a ident owner membership [] actions defaults = Inr (actions, defaults)"
| "eval_policies a ident owner membership (p # ps) actions defaults =
     (if pol_principal p = ''.*'' then eval_policies a ident owner membership ps actions (pol_actions p)
      else (case any_role (role_grants a ident owner membership p) (roles_of a) of
          Inl e \<Rightarrow> Inl e
        | Inr b \<Rightarrow> eval_policies a ident owner membership ps (if b then actions \<union> pol_actions p else actions) defaults))"

text \<open>What \<open>rbac_permissions\<close> learns from the record its query finds.\<close>

record target =
  tg_owner :: pyval
  tg_membership :: pyval
  tg_id :: pyval
  tg_privacy :: pyval

definition read_target :: "('d, 'r, 'c) env \<Rightarrow> string \<Rightarrow> dict \<Rightarrow> target \<Rightarrow> target" where
  "read_target E m row t =
     (let owner = (if e_attrs E m ''uid'' then dget row ''uid''
                   else if e_attrs E m ''referrer_id''
                   then (if truthy (dget row ''referrer_id'') then dget row ''referrer_id'' else dget row ''id'')
                   else tg_owner t);
          privacy = (if e_attrs E m ''privacy'' then dget row ''privacy'' else tg_privacy t);
          (res, attr) = hd (e_private E)
      in if e_attrs E m attr
         then \<lparr>tg_owner = owner, tg_membership = PStr res, tg_id = dget row attr, tg_privacy = privacy\<rparr>
         else t\<lparr>tg_owner := owner, tg_privacy := privacy\<rparr>)"

text \<open>Special cases for contacts: the owner's referrer, and no deletion of a person's identity.\<close>

definition contact_owner ::
    "('d, 'r, 'c) env \<Rightarrow> access \<Rightarrow> query \<Rightarrow> pyval \<Rightarrow> (('d, 'r, 'c) world, pyval) py" where
  "contact_owner E a q owner =
     (if truthy (ac_uid a) \<and> ac_uid a \<noteq> owner then
        bnd (run_one E q) (\<lambda>row.
        bnd (reads (\<lambda>w. db_related (e_db E) (q_model q) (dget row ''id'') ''owner'' (w_db w))) (\<lambda>os.
        case os of
          [] \<Rightarrow> raise_exc (Exc EAttributeError ''NoneType object has no attribute referrer_id'')
        | p # _ \<Rightarrow> ret (if truthy (dget p ''referrer_id'') then dget p ''referrer_id'' else owner)))
      else ret owner)"

definition contact_deny :: "('d, 'r, 'c) env \<Rightarrow> query \<Rightarrow> (('d, 'r, 'c) world, char set) py" where
  "contact_deny E q =
     try_catch
       (bnd (run_one E q) (\<lambda>row.
        bnd (run_one E (filter_by [(''identity'', dget row ''info'')] (query_of ''Person''))) (\<lambda>_.
        ret {CHR ''d''})))
       (\<lambda>ex. if exc_kind ex = ENoResultFound then ret {} else raise_exc ex)"

text \<open>A member role \<open><resource>-<id>-<privacy>\<close> opens the record for reading.\<close>

definition member_of :: "access \<Rightarrow> target \<Rightarrow> bool" where
  "member_of a t \<longleftrightarrow> roles_of a \<noteq> [] \<and> truthy (tg_id t) \<and>
     py_str (tg_membership t) @ ''-'' @ py_str (tg_id t) @ ''-'' @ py_str (tg_privacy t) \<in> set (roles_of a)"

definition open_actions :: "access \<Rightarrow> target \<Rightarrow> char set" where
  "open_actions a t = (if tg_privacy t = PStr ''public'' \<or> member_of a t then {CHR ''r''} else {})"

definition rbac_result ::
    "('d, 'r, 'c) env \<Rightarrow> access \<Rightarrow> target \<Rightarrow> char set \<Rightarrow> exc + char set" where
  "rbac_result E a t deny =
     (case map_of (e_policies E) (ac_resource a) of
        None \<Rightarrow> Inl (Exc EKeyError (ac_resource a))
      | Some ps \<Rightarrow> (case eval_policies a (tg_id t) (tg_owner t) (tg_membership t) ps {} (open_actions a t) of
          Inl e \<Rightarrow> Inl e
        | Inr (actions, defaults) \<Rightarrow> Inr (if actions - deny \<noteq> {} then actions - deny else defaults)))"

definition rbac_permissions ::
    "('d, 'r, 'c) env \<Rightarrow> access \<Rightarrow> query option \<Rightarrow> target \<Rightarrow> (('d, 'r, 'c) world, char set) py" where
  "rbac_permissions E a query t0 =
     bnd (case query of
            None \<Rightarrow> ret t0
          | Some q \<Rightarrow> try_catch (bnd (run_one E q) (\<lambda>row. ret (read_target E (q_model q) row t0)))
              (\<lambda>ex. if exc_kind ex = ENoResultFound then ret t0 else raise_exc ex)) (\<lambda>t1.
     let t2 = (if truthy (tg_id t1) then t1 else t1\<lparr>tg_membership := PNone\<rparr>)
     in bnd (case query of
               Some q \<Rightarrow>
                 if ac_resource a = ''contact'' then
                   bnd (contact_owner E a q (tg_owner t2)) (\<lambda>owner.
                   bnd (contact_deny E q) (\<lambda>deny. ret (t2\<lparr>tg_owner := owner\<rparr>, deny)))
                 else ret (t2, {})
             | None \<Rightarrow> ret (t2, {})) (\<lambda>(t, deny).
        of_result (rbac_result E a t deny)))"

definition no_target :: target where
  "no_target = \<lparr>tg_owner = PNone, tg_membership = PNone, tg_id = PNone, tg_privacy = PNone\<rparr>"

text \<open>The actions as \<open>''.join(sorted(list(actions)))\<close>.\<close>

definition rbac_string :: "char set \<Rightarrow> string" where
  "rbac_string s = sorted_list_of_set s"

definition with_permission ::
    "('d, 'r, 'c) env \<Rightarrow> access \<Rightarrow> char \<Rightarrow> query option \<Rightarrow> pyval \<Rightarrow> pyval \<Rightarrow> pyval \<Rightarrow> (('d, 'r, 'c) world, bool) py" where
  "with_permission E a act query new_uid membership ident =
     bnd (rbac_permissions E a query
            \<lparr>tg_owner = new_uid, tg_membership = membership, tg_id = ident, tg_privacy = PNone\<rparr>) (\<lambda>rbac.
     ret (act \<in> rbac))"

section \<open>Filters\<close>

text \<open>
  The loop of \<open>with_filter\<close>: it ends early, with no restriction, at a policy that opens the whole
  resource; otherwise the conditions collected are joined by OR.
\<close>

fun filter_policies ::
    "access \<Rightarrow> string \<Rightarrow> char \<Rightarrow> policy list \<Rightarrow> cond list \<Rightarrow> query \<Rightarrow> exc + query" where
  "filter_policies a m act [] conds q = Inr (where_cond (COr conds) q)"
| "filter_policies a m act (p # ps) conds q =
     (let res = ac_resource a;
          head = hd (py_split (CHR ''/'') (pol_principal p));
          mine = CEq (m, ''uid'') (ac_uid a)
      in if pol_principal p = ''.*'' \<and> act \<in> pol_actions p then Inr q
         else if roles_of a = [] then filter_policies a m act ps conds q
         else if pol_resource p = res @ '':.*'' \<and> pol_principal p \<in> set (roles_of a) \<and> act \<in> pol_actions p
         then Inr q
         else if pol_resource p = res @ '':{uid}'' \<and> head \<in> {''person'', ''user''} \<and>
                 head \<in> set (roles_of a) \<and> act \<in> pol_actions p
         then (if res = ''contact''
               then filter_policies a m act ps (conds @ [mine, CEq (''Person'', ''referrer_id'') (ac_uid a)])
                      (join_model ''Person'' q)
               else filter_policies a m act ps (conds @ [mine]) q)
         else if pol_resource p = res @ '':{uid}'' \<and> act \<in> pol_actions p
         then (case any_role (re_match False (pol_principal p)) (roles_of a) of
             Inl e \<Rightarrow> Inl e
           | Inr b \<Rightarrow> filter_policies a m act ps (if b then conds @ [mine] else conds) q)
         else filter_policies a m act ps conds q)"

definition with_filter :: "('d, 'r, 'c) env \<Rightarrow> access \<Rightarrow> query \<Rightarrow> char \<Rightarrow> exc + query" where
  "with_filter E a q act =
     (let m = (case ac_model a of None \<Rightarrow> [] | Some m \<Rightarrow> m);
          conds = (if e_attrs E m ''privacy'' then [CEq (m, ''privacy'') (PStr ''public'')] else [])
      in case map_of (e_policies E) (ac_resource a) of
           None \<Rightarrow> Inl (Exc EKeyError (ac_resource a))
         | Some ps \<Rightarrow> filter_policies a m act ps conds q)"

section \<open>API keys\<close>

definition apikey_create :: "('d, 'r, 'c) env \<Rightarrow> (('d, 'r, 'c) world, string \<times> string \<times> string) py" where
  "apikey_create E =
     bnd (gen_id 35 [] id_chars) (\<lambda>long.
     bnd (gen_id 8 [] id_chars) (\<lambda>key_id.
     let secret = last_n 32 long in ret (key_id, secret, apikey_hash E secret)))"

definition six_hours :: int where
  "six_hours = 21600000000"

definition before :: "pyval \<Rightarrow> int \<Rightarrow> bool" where
  "before v t = (case v of PTime x \<Rightarrow> x < t | _ \<Rightarrow> False)"

text \<open>
  \<open>apikey_verify\<close>: the user id and the scope records of an active key with this prefix and hash.
  The time of last use is written at most every six hours.
\<close>

definition apikey_verify ::
    "('d, 'r, 'c) env \<Rightarrow> string \<Rightarrow> string \<Rightarrow> (('d, 'r, 'c) world, (pyval \<times> dict list) option) py" where
  "apikey_verify E key_id secret =
     bnd (try_catch
       (bnd (run_one E (filter_by [(''prefix'', PStr key_id), (''hashvalue'', PStr (apikey_hash E secret)),
                                   (''status'', PStr ''active'')] (query_of ''APIkey''))) (\<lambda>rec.
        bnd (gets w_now) (\<lambda>now.
        if \<not> truthy (dget rec ''last_used'') \<or>
           (before (dget rec ''last_used'') (now - six_hours) \<and>
            (\<not> truthy (dget rec ''expires'') \<or> before (dget rec ''expires'') now))
        then bnd (set_attr E ''APIkey'' (dget rec ''id'') ''last_used'' (PTime now)) (\<lambda>_.
             bnd (commit E) (\<lambda>_. ret (Some rec)))
        else ret (Some rec))))
       (\<lambda>ex. ret None)) (\<lambda>r. case r of
       None \<Rightarrow> ret None
     | Some rec \<Rightarrow>
         bnd (gets w_now) (\<lambda>now.
         if truthy (dget rec ''expires'') \<and> before (dget rec ''expires'') now then ret None
         else bnd (reads (\<lambda>w. db_related (e_db E) ''APIkey'' (dget rec ''id'') ''scopes'' (w_db w))) (\<lambda>scopes.
              ret (Some (dget rec ''uid'', scopes)))))"

section \<open>What the base policy grants\<close>

text \<open>Identifiers and roles without characters that formats and patterns treat specially.\<close>

definition clean :: "string \<Rightarrow> bool" where
  "clean s \<longleftrightarrow> list_all (\<lambda>c. rx_plain c \<and> c \<noteq> CHR ''}'' \<and> c \<noteq> newline) s"

definition clean_role :: "string \<Rightarrow> bool" where
  "clean_role s \<longleftrightarrow> CHR ''{'' \<notin> set s \<and> CHR ''}'' \<notin> set s \<and> CHR ''/'' \<notin> set s"

definition base_of :: "string \<Rightarrow> policy list" where
  "base_of res = [
     \<lparr>pol_principal = ''admin'', pol_resource = res @ '':.*'', pol_actions = set ''cdru''\<rparr>,
     \<lparr>pol_principal = ''user/{uid}'', pol_resource = res @ '':{uid}'', pol_actions = set ''cdru''\<rparr>]"

lemma cleanD:
  assumes "clean s"
  shows "list_all rx_plain s" "CHR ''{'' \<notin> set s" "CHR ''}'' \<notin> set s" "newline \<notin> set s" "CHR ''*'' \<notin> set s"
  using assms by (auto simp: clean_def list_all_iff rx_plain_def)

lemma star_to_rx_plain: "CHR ''*'' \<notin> set s \<Longrightarrow> star_to_rx s = s"
  by (induction s) (auto simp: star_to_rx_def)

lemma star_to_rx_append: "star_to_rx (s @ t) = star_to_rx s @ star_to_rx t"
  by (simp add: star_to_rx_def)

lemma prepend_Inr [simp]: "prepend p (Inr s) = Inr (p @ s)" "prepend p (Inl e) = Inl e"
  by (simp_all add: prepend_def)

lemma load_base_policy: "clean res \<Longrightarrow> load_each res base_policy = Inr (base_of res)"
  by (simp add: base_policy_def load_policy_def py_format.simps base_of_def star_to_rx_append
      star_to_rx_plain cleanD(5)) (simp add: star_to_rx_def)

lemma py_format_uid: "py_format (format_args ident uid) ''{uid}'' = Inr (py_str uid)"
  by (simp add: py_format.simps format_args_def)

lemma py_format_user: "py_format (format_args ident uid) ''user/{uid}'' = Inr (''user/'' @ py_str uid)"
  using py_format_prefix [of "''user/''" "format_args ident uid" "''{uid}''"] by (simp add: py_format_uid)

lemma py_format_person: "py_format (format_args ident uid) ''person/{uid}'' = Inr (''person/'' @ py_str uid)"
  using py_format_prefix [of "''person/''" "format_args ident uid" "''{uid}''"] by (simp add: py_format_uid)

text \<open>What a role looks like once formatted.\<close>

definition role_name :: "access \<Rightarrow> string \<Rightarrow> string" where
  "role_name a role = (if role \<in> {''person'', ''user''} then role @ ''/'' @ py_str (ac_uid a) else role)"

lemma format_role:
  "clean_role role \<Longrightarrow> py_format (format_args ident (ac_uid a)) (role_pattern role) = Inr (role_name a role)"
  by (auto simp: role_pattern_def role_name_def clean_role_def py_format_plain py_format_user py_format_person)

lemma any_role_all: "\<forall>r \<in> set rs. g r = Inr (f r) \<Longrightarrow> any_role g rs = Inr (\<exists>r \<in> set rs. f r)"
  by (induction rs) auto

lemma not_member_star: "p \<noteq> [] \<Longrightarrow> last p \<noteq> CHR ''*'' \<Longrightarrow> p \<noteq> m @ ''-*''"
  by auto

lemma grants_admin:
  assumes "clean (ac_resource a)" and "clean (py_str (ac_uid a))" and "clean (py_str ident)" and "clean_role role"
  shows "role_grants a ident owner membership
     \<lparr>pol_principal = ''admin'', pol_resource = ac_resource a @ '':.*'', pol_actions = acts\<rparr> role = Inr (role = ''admin'')"
proof -
  have "py_format (format_args ident owner) (ac_resource a @ '':.*'') = Inr (ac_resource a @ '':.*'')"
    using cleanD [OF assms(1)] by (intro py_format_plain) auto
  moreover have "re_match True ((ac_resource a @ '':'') @ ''.*'') (ac_resource a @ '':'' @ py_str x) = Inr True"
    if "clean (py_str x)" for x
    using cleanD [OF assms(1)] cleanD [OF that] by (subst re_match_prefix_star) (auto simp: rx_plain_def)
  ultimately have "resource_matches a ident owner
      \<lparr>pol_principal = ''admin'', pol_resource = ac_resource a @ '':.*'', pol_actions = acts\<rparr> = Inr True"
    using assms(2,3) by (auto simp: resource_matches_def Let_def clean_def rx_plain_def)
  moreover have "py_format (format_args ident owner) ''admin'' = Inr ''admin''" by (simp add: py_format_plain)
  moreover have "''admin'' \<noteq> py_str membership @ ''-*''" by (rule not_member_star) simp_all
  ultimately show ?thesis
    using assms(4) by (auto simp: role_grants_def format_role role_name_def)
qed

lemma grants_user:
  assumes "clean (ac_resource a)" and "clean (py_str owner)" and "clean_role role"
  shows "role_grants a ident owner membership
     \<lparr>pol_principal = ''user/{uid}'', pol_resource = ac_resource a @ '':{uid}'', pol_actions = acts\<rparr> role =
     Inr (role = ''user'' \<and> py_str owner = py_str (ac_uid a))"
proof -
  have f: "py_format (format_args ident owner) (ac_resource a @ '':{uid}'') = Inr (ac_resource a @ '':'' @ py_str owner)"
    using cleanD [OF assms(1)] py_format_prefix [of "ac_resource a @ '':''" "format_args ident owner" "''{uid}''"]
    by (simp add: py_format_uid)
  have occ: "occurs ''uid'' (x @ '':{uid}'')" for x
    by (induction x) auto
  have "re_match True (ac_resource a @ '':'' @ py_str owner) (ac_resource a @ '':'' @ py_str owner) = Inr True"
    using cleanD [OF assms(1)] cleanD [OF assms(2)] by (subst re_match_plain) (auto simp: rx_plain_def)
  then have "py_str owner = py_str (ac_uid a) \<Longrightarrow> resource_matches a ident owner
      \<lparr>pol_principal = ''user/{uid}'', pol_resource = ac_resource a @ '':{uid}'', pol_actions = acts\<rparr> = Inr True"
    by (simp add: resource_matches_def Let_def f occ)
  moreover have "''user/{uid}'' \<noteq> py_str membership @ ''-*''" by (rule not_member_star) simp_all
  moreover have "role_name a role = ''user/'' @ py_str owner \<longleftrightarrow> role = ''user'' \<and> py_str owner = py_str (ac_uid a)"
    using assms(3) by (auto simp: role_name_def clean_role_def)
  ultimately show ?thesis
    using assms(3) by (auto simp: role_grants_def format_role py_format_user)
qed

lemma eval_base:
  assumes "clean (ac_resource a)" and "clean (py_str (ac_uid a))" and "clean (py_str ident)" and "clean (py_str owner)"
    and "\<forall>r \<in> set (roles_of a). clean_role r"
  shows "eval_policies a ident owner membership (base_of (ac_resource a)) {} dflt =
    Inr (if ''admin'' \<in> set (roles_of a) \<or> (''user'' \<in> set (roles_of a) \<and> py_str owner = py_str (ac_uid a))
         then set ''cdru'' else {}, dflt)"
proof -
  have "any_role (role_grants a ident owner membership
      \<lparr>pol_principal = ''admin'', pol_resource = ac_resource a @ '':.*'', pol_actions = set ''cdru''\<rparr>) (roles_of a)
    = Inr (\<exists>r \<in> set (roles_of a). r = ''admin'')"
    using assms by (intro any_role_all) (simp add: grants_admin)
  moreover have "any_role (role_grants a ident owner membership
      \<lparr>pol_principal = ''user/{uid}'', pol_resource = ac_resource a @ '':{uid}'', pol_actions = set ''cdru''\<rparr>) (roles_of a)
    = Inr (\<exists>r \<in> set (roles_of a). r = ''user'' \<and> py_str owner = py_str (ac_uid a))"
    using assms by (intro any_role_all) (simp add: grants_user)
  ultimately show ?thesis by (auto simp: base_of_def)
qed

text \<open>
  The decision under the base policy: an administrator and the owner may do everything (less what is
  denied), everyone else what the record's privacy opens.
\<close>

lemma rbac_base:
  assumes "map_of (e_policies E) (ac_resource a) = Some (base_of (ac_resource a))"
    and "clean (ac_resource a)" and "clean (py_str (ac_uid a))" and "clean (py_str (tg_id t))"
    and "clean (py_str (tg_owner t))" and "\<forall>r \<in> set (roles_of a). clean_role r" and "deny \<subseteq> {CHR ''d''}"
  shows "rbac_result E a t deny = Inr
    (if ''admin'' \<in> set (roles_of a) \<or> (''user'' \<in> set (roles_of a) \<and> py_str (tg_owner t) = py_str (ac_uid a))
     then set ''cdru'' - deny else open_actions a t)"
proof -
  have "set ''cdru'' - deny \<noteq> {}" using assms(7) by auto
  then show ?thesis using assms by (simp add: rbac_result_def eval_base)
qed

text \<open>Without a session only the last wildcard policy counts, or what the privacy opens.\<close>

lemma eval_anonymous:
  "roles_of a = [] \<Longrightarrow> eval_policies a ident owner membership ps acts dflt =
     Inr (acts, foldl (\<lambda>d p. if pol_principal p = ''.*'' then pol_actions p else d) dflt ps)"
  by (induction ps arbitrary: dflt) auto

lemma rbac_anonymous:
  assumes "roles_of a = []" and "map_of (e_policies E) (ac_resource a) = Some ps"
  shows "rbac_result E a t deny =
    Inr (foldl (\<lambda>d p. if pol_principal p = ''.*'' then pol_actions p else d) (open_actions a t) ps)"
  using assms by (simp add: rbac_result_def eval_anonymous)

subsection \<open>The loaded example policies\<close>

definition example_policies :: "(string \<times> policy list) list" where
  "example_policies = (case load_rbac example_rbac of Inl _ \<Rightarrow> [] | Inr ps \<Rightarrow> ps)"

definition pol :: "string \<Rightarrow> string \<Rightarrow> string \<Rightarrow> policy" where
  "pol p r acts = \<lparr>pol_principal = p, pol_resource = r, pol_actions = set acts\<rparr>"

lemma load_each_simps:
  "load_each res [] = Inr []"
  "load_each res ((p, r, acts) # ps) = (case load_policy res (p, r, acts) of
       Inl e \<Rightarrow> Inl e | Inr q \<Rightarrow> (case load_each res ps of Inl e \<Rightarrow> Inl e | Inr qs \<Rightarrow> Inr (q # qs)))"
  by simp_all

lemma example_loads:
  "load_rbac example_rbac = Inr [
     (''apikey'', base_of ''apikey''), (''category'', base_of ''category''), (''credential'', base_of ''credential''),
     (''location'', base_of ''location''), (''profile'', base_of ''profile''), (''trashcan'', base_of ''trashcan''),
     (''tz'', base_of ''tz''),
     (''account'', [pol ''.*'' ''account:.*'' ''c'', pol ''admin'' ''account:.*'' ''cdru'',
        pol ''user/{uid}'' ''account:{uid}'' ''cdru'', pol ''mfarequired:{uid}'' ''account:{uid}'' ''ru'']),
     (''contact'', [pol ''admin'' ''contact:.*'' ''cdru'', pol ''user/{uid}'' ''contact:{uid}'' ''cdru'',
        pol ''pending'' ''contact:{uid}'' ''ru'', pol ''person/{uid}'' ''contact:{uid}'' ''ru'',
        pol ''list-.*'' ''contact:{uid}'' ''cru'', pol ''list-{list_id}-member'' ''contact:{list_id}'' ''r'']),
     (''grant'', [pol ''admin'' ''grant:.*'' ''cdru'', pol ''user/{uid}'' ''grant:{uid}'' ''r'']),
     (''list'', [pol ''admin'' ''list:.*'' ''cdiru'', pol ''user/{uid}'' ''list:{uid}'' ''cdghjiru'',
        pol ''list-{eid}-manager'' ''list:{list_id}'' ''cdghijru'', pol ''list-{list_id}-member'' ''list:{list_id}'' ''gijr'',
        pol ''list-{list_id}-invitee'' ''list:{list_id}'' ''r'']),
     (''message'', [pol ''admin'' ''message:.*'' ''cdru'', pol ''user/{uid}'' ''message:{uid}'' ''cdru'',
        pol ''list-{list_id}-manager'' ''message:{list_id}'' ''cdhr'', pol ''list-{list_id}-invitee'' ''message:{list_id}'' ''cr'']),
     (''metric'', [pol ''admin'' ''metric:.*'' ''r'', pol ''user/{uid}'' ''metric:{uid}'' ''r'']),
     (''person'', [pol ''.*'' ''person:.*'' ''cr'', pol ''admin'' ''person:.*'' ''cdru'',
        pol ''user/{uid}'' ''person:{uid}'' ''cdru'', pol ''list-.*'' ''person:{uid}'' ''ru'']),
     (''scope'', [pol ''admin'' ''scope:.*'' ''cdru'', pol ''.*'' ''scope:.*'' ''r'']),
     (''settings'', [pol ''admin'' ''settings:.*'' ''cdru''])]"
  by (simp add: example_rbac_def load_base_policy clean_def rx_plain_def load_policy_def py_format.simps
      star_to_rx_def pol_def insert_commute)

lemmas example_policies_code [code] = example_policies_def [unfolded example_loads sum.case]

lemma example_policies_eq: "load_rbac example_rbac = Inr example_policies"
  by (simp add: example_policies_def example_loads)

text \<open>
  The policies for any member of a list (\<open>list-*\<close>) never apply: loading rewrote their principal to
  \<open>list-.*\<close>, which neither equals a role nor the text \<open>list-*\<close> that \<open>rbac_permissions\<close> looks for.
\<close>

lemma list_star_dead:
  assumes "CHR ''*'' \<notin> set (py_str membership)" and "CHR ''*'' \<notin> set role" and "CHR ''*'' \<notin> set (py_str (ac_uid a))"
    and "clean_role role"
  shows "role_grants a ident owner membership (pol ''list-.*'' r acts) role = Inr False"
proof -
  have "CHR ''*'' \<notin> set (role_name a role)" using assms by (auto simp: role_name_def)
  moreover have "CHR ''*'' \<in> set ''list-.*''" by simp
  ultimately have "''list-.*'' \<noteq> role_name a role" by metis
  moreover have "''list-.*'' \<noteq> py_str membership @ ''-*''"
  proof
    assume e: "''list-.*'' = py_str membership @ ''-*''"
    then have "rev ''list-.*'' = rev (py_str membership @ ''-*'')" by (rule arg_cong)
    then show False by simp
  qed
  ultimately show ?thesis using assms(4)
    by (auto simp: role_grants_def format_role pol_def py_format_plain)
qed

subsection \<open>Filters under the base policy\<close>

lemma role_not_pattern: "clean_role role \<Longrightarrow> re_match False ''user/{uid}'' role = Inr False"
proof -
  assume c: "clean_role role"
  have "rx_compile ''user/{uid}'' = Some (map RLit ''user/{uid}'')" by (simp add: digit_char_def)
  moreover have "\<not> rx_match (map RLit ''user/{uid}'' @ []) False role"
    unfolding rx_match_literal using c by (auto simp: clean_role_def)
  ultimately show ?thesis by (simp only: re_match_def option.case append_Nil2)
qed

lemma filter_base:
  assumes "act \<in> set ''cdru''" and "\<forall>r \<in> set (roles_of a). clean_role r"
  shows "filter_policies a m act (base_of (ac_resource a)) conds q = Inr
    (if ''admin'' \<in> set (roles_of a) then q
     else if ''user'' \<in> set (roles_of a)
     then (if ac_resource a = ''contact''
           then where_cond (COr (conds @ [CEq (m, ''uid'') (ac_uid a), CEq (''Person'', ''referrer_id'') (ac_uid a)]))
                  (join_model ''Person'' q)
           else where_cond (COr (conds @ [CEq (m, ''uid'') (ac_uid a)])) q)
     else where_cond (COr conds) q)"
proof -
  have "any_role (re_match False ''user/{uid}'') (roles_of a) = Inr (\<exists>r \<in> set (roles_of a). False)"
    using assms(2) by (intro any_role_all) (simp add: role_not_pattern)
  then show ?thesis using assms(1) by (cases "roles_of a = []") (auto simp: base_of_def Let_def)
qed

subsection \<open>Effects\<close>

lemma keeps_credentials [keeps_intros]: "keeps v (credentials E)"
  by (auto simp: credentials_def intro!: keeps_intros split: list.splits pyval.splits)

lemma keeps_access_control [keeps_intros]: "keeps v (access_control E m)"
  by (auto simp: access_control_def Let_def intro!: keeps_intros)

lemma keeps_rbac_permissions [keeps_intros]: "keeps v (rbac_permissions E a q t)"
  by (auto simp: rbac_permissions_def contact_owner_def contact_deny_def Let_def intro!: keeps_intros)

lemma keeps_with_permission [keeps_intros]: "keeps v (with_permission E a act q u m i)"
  by (auto simp: with_permission_def intro!: keeps_intros)

lemma unchanged_if_keeps: "keeps (\<lambda>w. w) m \<Longrightarrow> snd (m w) = w"
  by (simp add: keeps_def)

text \<open>Evaluating permissions and constructing the access object read the world and do not change it.\<close>

lemma access_control_state: "snd (access_control E m w) = w"
  by (rule unchanged_if_keeps) (rule keeps_access_control)

lemma with_permission_state: "snd (with_permission E a act q u m i w) = w"
  by (rule unchanged_if_keeps) (rule keeps_with_permission)

lemma rbac_permissions_state: "snd (rbac_permissions E a q t w) = w"
  by (rule unchanged_if_keeps) (rule keeps_rbac_permissions)

section \<open>Properties\<close>

definition demo_access :: "string list \<Rightarrow> string \<Rightarrow> access" where
  "demo_access roles m = \<lparr>ac_model = Some m, ac_auth = Some roles, ac_uid = PStr ''u-1'', ac_account_id = PStr ''a-1'',
     ac_method = PStr ''local'', ac_identity = PStr ''me@example.com'', ac_apikey_id = None, ac_primary = ''list'', ac_auth_ids = []\<rparr>"

definition example_env :: "string \<Rightarrow> (mdb, mredis, mcache) env" where
  "example_env rule = mem_env\<lparr>e_policies := example_policies, e_levels := example_levels, e_private := example_private,
     e_controllers := [(''account'', ''Account''), (''apikey'', ''APIkey''), (''contact'', ''Contact''),
       (''grant'', ''Grant''), (''list'', ''List''), (''location'', ''Location''), (''person'', ''Person''),
       (''profile'', ''Profile''), (''trashcan'', ''Trashcan'')],
     e_req := mem_request\<lparr>rq_rule := rule\<rparr>\<rparr>"

lemma example_env_simps [simp]: "e_policies (example_env r) = example_policies" "e_private (example_env r) = [(''list'', ''list_id'')]"
  "e_db (example_env r) = mem_db" "e_redis (example_env r) = mem_redis" "e_crypt (example_env r) = mem_crypt"
  "e_cache (example_env r) = mem_cache" "e_cfg (example_env r) = mem_config"
  "rq_rule (e_req (example_env r)) = r" "rq_headers (e_req (example_env r)) = []" "rq_authorization (e_req (example_env r)) = None"
  "e_attrs (example_env r) = has_attr example_models"
  by (simp_all add: example_env_def mem_env_def example_private_def mem_request_def)

text \<open>C11: For a resource under the base policies, the policy interpreter (regular expressions over roles
  and formatted resource patterns) grants exactly this: all of create, delete, read and update but the
  denied ones to an admin and to the user who owns the target, and to anyone else only what the
  privacy of the target opens.\<close>

lemma rbac_owner_or_admin:
  assumes "map_of (e_policies E) (ac_resource a) = Some (base_of (ac_resource a))"
    and "clean (ac_resource a)" and "clean (py_str (ac_uid a))" and "clean (py_str (tg_id t))"
    and "clean (py_str (tg_owner t))" and "\<forall>r \<in> set (roles_of a). clean_role r" and "deny \<subseteq> {CHR ''d''}"
  shows "rbac_result E a t deny = Inr
    (if ''admin'' \<in> set (roles_of a) \<or> (''user'' \<in> set (roles_of a) \<and> py_str (tg_owner t) = py_str (ac_uid a))
     then set ''cdru'' - deny else open_actions a t)"
  using rbac_base [OF assms] .

lemma example_policy_profile: "map_of example_policies ''profile'' = Some (base_of ''profile'')"
  by (simp add: example_policies_def example_loads)

lemma rbac_owner_or_admin_witness:
  "rbac_result (example_env ''/api/v1/profile'') (demo_access [''user''] ''Profile'') (no_target\<lparr>tg_owner := PStr ''u-1''\<rparr>) {} = Inr (set ''cdru'') \<and>
   rbac_result (example_env ''/api/v1/profile'') (demo_access [''user''] ''Profile'') (no_target\<lparr>tg_owner := PStr ''u-2''\<rparr>) {} = Inr {}"
proof -
  have r: "ac_resource (demo_access [''user''] ''Profile'') = ''profile''"
    by code_simp
  show ?thesis
    using rbac_owner_or_admin [of "example_env ''/api/v1/profile''" "demo_access [''user''] ''Profile''" "no_target\<lparr>tg_owner := PStr ''u-1''\<rparr>" "{}"]
      rbac_owner_or_admin [of "example_env ''/api/v1/profile''" "demo_access [''user''] ''Profile''" "no_target\<lparr>tg_owner := PStr ''u-2''\<rparr>" "{}"]
    by (simp add: r example_policy_profile) (simp add: demo_access_def roles_of_def no_target_def clean_def clean_role_def rx_plain_def open_actions_def member_of_def)
qed

lemma rbac_without_session:
  assumes "roles_of a = []" and "map_of (e_policies E) (ac_resource a) = Some ps"
  shows "rbac_result E a t deny =
    Inr (foldl (\<lambda>d p. if pol_principal p = ''.*'' then pol_actions p else d) (open_actions a t) ps)"
  using rbac_anonymous [OF assms] .

lemma rbac_without_session_witness:
  "rbac_result (example_env ''/api/v1/person'') ((demo_access [] ''Person'')\<lparr>ac_auth := None\<rparr>) no_target {} = Inr (set ''cr'')"
proof -
  have "ac_resource ((demo_access [] ''Person'')\<lparr>ac_auth := None\<rparr>) = ''person''" "roles_of ((demo_access [] ''Person'')\<lparr>ac_auth := None\<rparr>) = []"
    by code_simp+
  then show ?thesis
    using rbac_without_session [of "(demo_access [] ''Person'')\<lparr>ac_auth := None\<rparr>" "example_env ''/api/v1/person''"]
    by (simp add: example_policies_def example_loads pol_def)
qed

lemma list_wildcard_dead:
  assumes "CHR ''*'' \<notin> set (py_str membership)" and "CHR ''*'' \<notin> set role" and "CHR ''*'' \<notin> set (py_str (ac_uid a))"
    and "clean_role role"
  shows "role_grants a ident owner membership (pol ''list-.*'' r acts) role = Inr False"
  using list_star_dead [OF assms] .

lemma list_wildcard_dead_witness:
  "role_grants (demo_access [''list-x-1-member''] ''Contact'') (PStr ''x-1'') (PStr ''u-1'') (PStr ''list'')
     (pol ''list-.*'' ''contact:{uid}'' ''cru'') ''list-x-1-member'' = Inr False"
  using list_wildcard_dead [of "PStr ''list''" "''list-x-1-member''" "demo_access [''list-x-1-member''] ''Contact''" "PStr ''x-1''" "PStr ''u-1''"
      "''contact:{uid}''" "''cru''"]
  by (simp add: demo_access_def clean_role_def)



section \<open>A user's session\<close>

text \<open>Scenario for the witnesses of later theories: the user \<open>u-1\<close> has logged in.\<close>

definition user_env :: "string \<Rightarrow> (mdb, mredis, mcache) env" where
  "user_env rule = (example_env rule)\<lparr>e_req := mem_request\<lparr>rq_rule := rule, rq_authorization := Some (''u-1'', ''abcdef'')\<rparr>\<rparr>"

lemma user_env_simps [simp]: "e_policies (user_env r) = example_policies" "e_private (user_env r) = [(''list'', ''list_id'')]"
  "e_db (user_env r) = mem_db" "e_redis (user_env r) = mem_redis" "e_crypt (user_env r) = mem_crypt"
  "e_cache (user_env r) = mem_cache" "e_cfg (user_env r) = mem_config"
  "rq_rule (e_req (user_env r)) = r" "rq_headers (e_req (user_env r)) = []"
  "rq_authorization (e_req (user_env r)) = Some (''u-1'', ''abcdef'')"
  "e_attrs (user_env r) = has_attr example_models" "e_controllers (user_env r) = e_controllers (example_env r)"
  by (simp_all add: user_env_def mem_request_def)

definition session_as :: "string list \<Rightarrow> dict" where
  "session_as roles = session_content mem_env (PStr ''u-1'') roles ''abcdef'' 3600 [(''acc'', PStr ''a-1'')] 1640995200000000"

definition logged_in_as :: "string list \<Rightarrow> (string \<times> dict list) list \<Rightarrow> (mdb, mredis, mcache) world" where
  "logged_in_as roles ts = snd (session_create mem_env (PStr ''u-1'') roles None (Some ''abcdef'') (Some 3600) [(''acc'', PStr ''a-1'')] (mem_world ts))"

definition user_session :: dict where
  "user_session = session_as [''user'']"

definition logged_in :: "(string \<times> dict list) list \<Rightarrow> (mdb, mredis, mcache) world" where
  "logged_in = logged_in_as [''user'']"

lemma session_create_effect:
  assumes "session_create E uid roles kid nonce ttl kw w = (r, w')"
  shows "w_now w' = w_now w \<and> w_db w' = w_db w \<and> w_grants w' = w_grants w \<and> w_settings w' = w_settings w"
proof -
  have "keeps (\<lambda>w. (w_now w, w_db w, w_grants w, w_settings w)) (session_create E uid roles kid nonce ttl kw)"
    by (auto simp: keeps_def session_create_def py_simps gen_id_run encrypt_json_def Let_def draws_run random_bytes_run split: sum.splits)
  then show ?thesis using assms unfolding keeps_def by (metis Pair_inject snd_conv)
qed

lemma logged_in_as_world: "w_now (logged_in_as rs ts) = 1640995200000000" "w_db (logged_in_as rs ts) = \<lparr>md_durable = ts, md_current = ts\<rparr>"
  "w_grants (logged_in_as rs ts) = []" "w_settings (logged_in_as rs ts) = []"
  using session_create_effect [of mem_env "PStr ''u-1''" rs None "Some ''abcdef''" "Some 3600" "[(''acc'', PStr ''a-1'')]" "mem_world ts"]
  unfolding logged_in_as_def by (metis mem_world_def prod.collapse world.select_convs)+

lemmas logged_in_world = logged_in_as_world [of "[''user'']", folded logged_in_def]

text \<open>The session is open in every world that has its redis and its time.\<close>

lemma session_as_get:
  assumes "w_redis w = w_redis (logged_in_as rs ts)" and "w_now w = 1640995200000000"
  shows "session_get (user_env r) (PStr ''u-1'') ''abcdef'' None w = (Inr (Some (session_as rs)), w)"
proof -
  obtain res w1 where c: "session_create mem_env (PStr ''u-1'') rs None (Some ''abcdef'') (Some 3600)
      [(''acc'', PStr ''a-1'')] (mem_world ts) = (res, w1)" by fastforce
  then have w: "logged_in_as rs ts = w1" by (simp add: logged_in_as_def)
  have "mr_view (w_now (mem_world ts)) (w_redis (mem_world ts)) k = None" for k by (simp add: mem_world_def mr_view_def)
  moreover have "storable (session_content mem_env (PStr ''u-1'') rs ''abcdef'' 3600 [(''acc'', PStr ''a-1'')] (w_now (mem_world ts)))"
    by (rule storable_content) simp_all
  ultimately have "session_get mem_env (PStr ''u-1'') ''abcdef'' None w1 = (Inr (Some (session_as rs)), w1)"
    using assms memory_sessions.session_window [OF _ _ _ c, of w1 "''abcdef''"] logged_in_as_world(1) [of rs ts]
    by (simp add: w session_as_def mem_world_def)
  moreover have d: "decrypt_json (user_env r) = decrypt_json mem_env" by (simp add: decrypt_json_def fun_eq_iff)
  have e: "session_get (user_env r) = session_get mem_env"
    unfolding session_get_def session_data_def d user_env_simps mem_env_simps ..
  have "w_now w1 = 1640995200000000" using logged_in_as_world(1) [of rs ts] by (simp add: w)
  then have "session_get mem_env (PStr ''u-1'') ''abcdef'' None w1 = (Inr (Some (session_as rs)), w1) \<Longrightarrow>
      session_get mem_env (PStr ''u-1'') ''abcdef'' None w = (Inr (Some (session_as rs)), w)"
    using assms by (simp add: session_get_def py_simps w)
  ultimately show ?thesis by (simp add: e)
qed

lemmas user_session_get = session_as_get [of _ "[''user'']", folded logged_in_def user_session_def]

lemma session_as_args: "dget (session_as rs) ''auth'' = PStr (py_join '':'' rs)" "dget (session_as rs) ''acc'' = PStr ''a-1''"
  "dget (session_as rs) ''method'' = PNone" "dget (session_as rs) ''identity'' = PNone"
  by (simp_all add: session_as_def session_content_def dict_simps mem_env_def mem_config_def)

lemma user_session_args: "dget user_session ''auth'' = PStr ''user''" "dget user_session ''acc'' = PStr ''a-1''"
  "dget user_session ''method'' = PNone" "dget user_session ''identity'' = PNone"
  by (simp_all add: user_session_def session_as_args)

definition user_access :: "string option \<Rightarrow> access" where
  "user_access m = \<lparr>ac_model = m, ac_auth = Some [''user''], ac_uid = PStr ''u-1'', ac_account_id = PStr ''a-1'',
     ac_method = PNone, ac_identity = PNone, ac_apikey_id = None, ac_primary = ''list'', ac_auth_ids = []\<rparr>"

text \<open>It is enough that the session's own key is as the login left it.\<close>

abbreviation user_key :: string where
  "user_key \<equiv> ses_key None (PStr ''u-1'') ''abcdef''"

lemma user_access_control_view:
  assumes "mr_view (w_now w) (w_redis w) user_key = mr_view 1640995200000000 (w_redis (logged_in ts)) user_key"
  shows "access_control (user_env r) m w = (Inr (user_access m), w)"
proof -
  let ?v = "w\<lparr>w_redis := w_redis (logged_in ts), w_now := 1640995200000000\<rparr>"
  have "fst (session_get (user_env r) (PStr ''u-1'') ''abcdef'' None ?v) = Inr (Some user_session)"
    using user_session_get [of ?v ts r] by simp
  then have "session_get (user_env r) (PStr ''u-1'') ''abcdef'' None w = (Inr (Some user_session), w)"
    using assms by (simp add: session_get_def py_simps memory.get_view)
  then show ?thesis
    by (simp add: access_control_def credentials_def py_simps session_get_arg_def user_session_args
        user_access_def parse_id_def List.map_filter_def mem_config_def Let_def)
qed

text \<open>An administrator's session.\<close>

definition admin_access :: "string option \<Rightarrow> access" where
  "admin_access m = (user_access m)\<lparr>ac_auth := Some [''admin'']\<rparr>"

lemma admin_access_control:
  "access_control (user_env r) m (logged_in_as [''admin''] ts) = (Inr (admin_access m), logged_in_as [''admin''] ts)"
proof -
  have "session_get (user_env r) (PStr ''u-1'') ''abcdef'' None (logged_in_as [''admin''] ts) =
      (Inr (Some (session_as [''admin''])), logged_in_as [''admin''] ts)"
    by (rule session_as_get) (simp_all add: logged_in_as_world)
  then show ?thesis
    by (simp add: access_control_def credentials_def py_simps session_get_arg_def session_as_args
        admin_access_def user_access_def parse_id_def List.map_filter_def mem_config_def Let_def)
qed

lemma user_access_control:
  assumes "w_redis w = w_redis (logged_in ts)" and "w_now w = 1640995200000000"
  shows "access_control (user_env r) m w = (Inr (user_access m), w)"
  using user_access_control_view [of w ts] assms by simp

text \<open>The user's permission on a secret profile.\<close>

lemma profile_permission:
  assumes "db_all mem_db q (w_db w) = Inr [row]" and "dget row ''uid'' = PStr u" and "clean u"
    and "dget row ''privacy'' = PStr ''secret''" and "q_model q = ''Profile''" and "act \<in> set ''cdru''"
  shows "with_permission (user_env r) (user_access (Some ''Profile'')) act (Some q) PNone PNone PNone w = (Inr (u = ''u-1''), w)"
proof -
  let ?a = "user_access (Some ''Profile'')"
  have r: "ac_resource ?a = ''profile''" by code_simp
  have t: "has_attr example_models ''Profile'' ''uid''" "has_attr example_models ''Profile'' ''privacy''"
    "\<not> has_attr example_models ''Profile'' ''list_id''" by code_simp+
  have "rbac_result (user_env r) ?a (no_target\<lparr>tg_owner := PStr u, tg_privacy := PStr ''secret''\<rparr>) {} =
      Inr (if u = ''u-1'' then set ''cdru'' else {})"
  proof -
    have f: "ac_uid ?a = PStr ''u-1''" "roles_of ?a = [''user'']" by code_simp+
    have c: "clean ''profile''" "clean ''u-1''" "clean ''None''" "clean_role ''user''"
      by (simp_all add: clean_def rx_plain_def clean_role_def)
    show ?thesis using assms(3)
      by (subst rbac_base) (auto simp: r example_policy_profile f c no_target_def open_actions_def member_of_def)
  qed
  then show ?thesis using assms(6)
    by (auto simp: with_permission_def rbac_permissions_def py_simps assms(1,2,4,5) read_target_def t r no_target_def)
qed

end
