(* ===== verification/Grants.thy ===== *)
theory Grants imports Access begin

text \<open>
  apicrud/grants.py: the usage limits of a user. Active, unexpired records of the grants table
  override the defaults of the configuration; a user's grants are cached for a while.
\<close>

type_synonym resp = "dict \<times> nat"

definition msg_resp :: "string \<Rightarrow> nat \<Rightarrow> resp" where
  "msg_resp m status = ([(''message'', PStr m)], status)"

section \<open>The cache\<close>

text \<open>
  A TTL cache returns what was just put, forgets what was removed, and may drop any other entry at
  any time (it is bounded and entries expire), but never changes one.
\<close>

locale cache_contract =
  fixes C :: "'c cacheops"
  assumes put_get: "tc_get C k t (tc_put C k v t c) = Some v"
    and put_other: "k' \<noteq> k \<Longrightarrow> tc_get C k' t' (tc_put C k v t c) \<in> {None, tc_get C k' t' c}"
    and pop_get: "tc_get C k t (tc_pop C k c) = None"
    and pop_other: "k' \<noteq> k \<Longrightarrow> tc_get C k' t (tc_pop C k c) = tc_get C k' t c"
begin

lemma put_same_twice: "tc_get C k t (tc_put C k v' t (tc_put C k v t c)) = Some v'"
  by (rule put_get)

lemma pop_forgets: "tc_get C k t (tc_pop C k (tc_put C k v t c)) = None"
  by (rule pop_get)

end

interpretation memory_cache: cache_contract mem_cache
  by unfold_locales (auto simp: mem_cache_def update_conv delete_conv)

abbreviation cache_get :: "('d, 'r, 'c) env \<Rightarrow> pyval \<Rightarrow> (('d, 'r, 'c) world, pyval option) py" where
  "cache_get E k \<equiv> gets (\<lambda>w. tc_get (e_cache E) k (w_now w) (w_grants w))"

definition cache_put :: "('d, 'r, 'c) env \<Rightarrow> pyval \<Rightarrow> pyval \<Rightarrow> (('d, 'r, 'c) world, unit) py" where
  "cache_put E k v = modify (\<lambda>w. w\<lparr>w_grants := tc_put (e_cache E) k v (w_now w) (w_grants w)\<rparr>)"

lemma cache_put_run [py_simps]:
  "cache_put E k v w = (Inr (), w\<lparr>w_grants := tc_put (e_cache E) k v (w_now w) (w_grants w)\<rparr>)"
  by (simp add: cache_put_def py_simps)

lemma keeps_cache_put [keeps_intros]: "keeps w_db (cache_put E k v)"
  by (simp add: keeps_def py_simps)

text \<open>A subscript of the cache: KeyError for a missing key.\<close>

definition cache_sub :: "('d, 'r, 'c) env \<Rightarrow> pyval \<Rightarrow> (('d, 'r, 'c) world, dict) py" where
  "cache_sub E k = bnd (cache_get E k) (\<lambda>r. case r of
       Some (PDict d) \<Rightarrow> ret d
     | Some _ \<Rightarrow> raise_exc (Exc ETypeError ''not a dict'')
     | None \<Rightarrow> raise_exc (Exc EKeyError (py_str k)))"

lemma keeps_cache_sub [keeps_intros]: "keeps v (cache_sub E k)"
  by (auto simp: cache_sub_def intro!: keeps_intros split: pyval.splits)

section \<open>Looking up a grant\<close>

text \<open>The part of \<open>__init__\<close> that puts the defaults into the cache.\<close>

definition grants_init :: "('d, 'r, 'c) env \<Rightarrow> (('d, 'r, 'c) world, unit) py" where
  "grants_init E = bnd (cache_get E (PStr ''defaults'')) (\<lambda>r. case r of
       None \<Rightarrow> cache_put E (PStr ''defaults'') (PDict (cf_DEFAULT_GRANTS (e_cfg E)))
     | Some _ \<Rightarrow> ret ())"

definition after :: "pyval \<Rightarrow> int \<Rightarrow> bool" where
  "after v t = (case v of PTime x \<Rightarrow> t < x | _ \<Rightarrow> False)"

fun collect_grants :: "int \<Rightarrow> dict list \<Rightarrow> dict \<Rightarrow> dict" where
  "collect_grants now [] g = g"
| "collect_grants now (r # rs) g =
     collect_grants now rs
       (if \<not> truthy (dget r ''expires'') \<or> after (dget r ''expires'') now
        then dset g (py_str (dget r ''name'')) (dget r ''value'') else g)"

text \<open>\<open>int(v, 0)\<close>, or the value as it is where that raises TypeError or ValueError.\<close>

definition grant_value :: "pyval \<Rightarrow> pyval" where
  "grant_value v = (case v of
       PStr s \<Rightarrow> (case py_int0 s of Some i \<Rightarrow> PInt i | None \<Rightarrow> v)
     | _ \<Rightarrow> v)"

definition grant_records :: "pyval \<Rightarrow> query" where
  "grant_records uid = filter_by [(''uid'', uid), (''status'', PStr ''active'')] (query_of ''Grant'')"

definition grants_get ::
    "('d, 'r, 'c) env \<Rightarrow> string \<Rightarrow> pyval \<Rightarrow> (('d, 'r, 'c) world, pyval) py" where
  "grants_get E name uid0 =
     bnd (grants_init E) (\<lambda>_.
     bnd (if truthy uid0 then ret uid0 else bnd (access_control E None) (\<lambda>a. ret (ac_uid a))) (\<lambda>uid.
     bnd (cache_get E uid) (\<lambda>cached.
     bnd (case cached of
            Some _ \<Rightarrow> ret ()
          | None \<Rightarrow>
              bnd (run_all E (grant_records uid)) (\<lambda>records.
              bnd (gets w_now) (\<lambda>now.
              cache_put E uid (PDict (collect_grants now records []))))) (\<lambda>_.
     bnd (cache_sub E uid) (\<lambda>mine.
     if dhas mine name then ret (grant_value (dget mine name))
     else bnd (cache_sub E (PStr ''defaults'')) (\<lambda>dflt.
          ret (grant_value (dget dflt name))))))))"

definition grants_uncache :: "('d, 'r, 'c) env \<Rightarrow> pyval \<Rightarrow> (('d, 'r, 'c) world, unit) py" where
  "grants_uncache E uid =
     bnd (grants_init E) (\<lambda>_. modify (\<lambda>w. w\<lparr>w_grants := tc_pop (e_cache E) uid (w_grants w)\<rparr>))"

definition grants_load_defaults :: "('d, 'r, 'c) env \<Rightarrow> dict \<Rightarrow> (('d, 'r, 'c) world, unit) py" where
  "grants_load_defaults E d = bnd (grants_init E) (\<lambda>_. cache_put E (PStr ''defaults'') (PDict d))"

lemma keeps_grants_init [keeps_intros]: "keeps w_db (grants_init E)"
  by (auto simp: grants_init_def intro!: keeps_intros)

lemma keeps_grants_get [keeps_intros]: "keeps w_db (grants_get E name uid)"
  by (auto simp: grants_get_def intro!: keeps_intros)

lemma keeps_grants_uncache [keeps_intros]: "keeps w_db (grants_uncache E uid)"
  by (auto simp: grants_uncache_def intro!: keeps_intros keeps_modify)

section \<open>The grants endpoint\<close>

text \<open>
  The search filter of a request: a JSON text, \<open>{}\<close> by default. (A filter that is JSON but no object
  has no \<open>get\<close>.)
\<close>

definition load_filter :: "dict \<Rightarrow> exc + dict" where
  "load_filter kwargs = (case dget_or kwargs ''filter'' (PStr ''{}'') of
       PStr s \<Rightarrow> (case json_loads s of
           Inl e \<Rightarrow> Inl e
         | Inr (PDict d) \<Rightarrow> Inr d
         | Inr _ \<Rightarrow> Inl (Exc EAttributeError ''object has no attribute get''))
     | _ \<Rightarrow> Inl (Exc ETypeError ''the JSON object must be str''))"

definition with_json_filter ::
    "dict \<Rightarrow> (dict \<Rightarrow> (('d, 'r, 'c) world, resp) py) \<Rightarrow> (('d, 'r, 'c) world, resp) py" where
  "with_json_filter kwargs f = (case load_filter kwargs of
       Inr d \<Rightarrow> f d
     | Inl e \<Rightarrow> if exc_kind e = EJSONDecodeError
               then ret (msg_resp (''invalid filter specified='' @ exc_msg e) 405) else raise_exc e)"

lemma keeps_with_json_filter [keeps_intros]: "(\<And>d. keeps v (f d)) \<Longrightarrow> keeps v (with_json_filter kwargs f)"
  by (auto simp: with_json_filter_def intro!: keeps_intros)

text \<open>
  \<open>crud_get\<close>: a grant that is not in the database is looked up by its hybrid id \<open><uid>:<name>\<close>.
  The refusal is written \<open>dict('access denied')\<close>, which raises ValueError.
\<close>

definition crud_get :: "('d, 'r, 'c) env \<Rightarrow> resp \<Rightarrow> string \<Rightarrow> (('d, 'r, 'c) world, resp) py" where
  "crud_get E res ident =
     (if snd res = 200 \<or> CHR '':'' \<notin> set ident then ret res
      else bnd (access_control E (Some ''Grant'')) (\<lambda>acc.
        case py_split (CHR '':'') ident of
          [uid, name] \<Rightarrow>
            bnd (rbac_permissions E acc None (no_target\<lparr>tg_owner := PStr uid\<rparr>)) (\<lambda>rbac.
            if CHR ''r'' \<notin> rbac
            then raise_exc (Exc EValueError ''dictionary update sequence element #0 has length 1; 2 is required'')
            else bnd (grants_get E name (PStr uid)) (\<lambda>v.
              ret ([(''id'', PStr ident), (''uid'', PStr uid), (''name'', PStr name), (''value'', PStr (py_str v)),
                    (''rbac'', PStr (rbac_string rbac)), (''status'', PStr ''active'')], 200)))
        | _ \<Rightarrow> raise_exc (Exc EValueError ''too many values to unpack'')))"

fun find_row :: "string \<Rightarrow> dict list \<Rightarrow> exc + dict option" where
  "find_row key [] = Inr None"
| "find_row key (r # rs) = (case dsub r ''name'' of
       Inl e \<Rightarrow> Inl e
     | Inr v \<Rightarrow> if v = PStr key then Inr (Some r) else find_row key rs)"

definition default_row :: "pyval \<Rightarrow> string \<Rightarrow> pyval \<Rightarrow> char set \<Rightarrow> dict" where
  "default_row uid key val rbac =
     [(''id'', PStr (py_str uid @ '':'' @ key)), (''uid'', uid), (''name'', PStr key),
      (''value'', PStr (py_str val)), (''rbac'', PStr (rbac_string rbac)), (''status'', PStr ''active'')]"

fun merge_defaults :: "pyval \<Rightarrow> pyval \<Rightarrow> char set \<Rightarrow> dict list \<Rightarrow> dict \<Rightarrow> exc + dict list" where
  "merge_defaults name uid rbac items [] = Inr []"
| "merge_defaults name uid rbac items ((key, val) # ds) =
     (if truthy name \<and> PStr key \<noteq> name then merge_defaults name uid rbac items ds
      else case find_row key items of
        Inl e \<Rightarrow> Inl e
      | Inr found \<Rightarrow> (case merge_defaults name uid rbac items ds of
          Inl e \<Rightarrow> Inl e
        | Inr rows \<Rightarrow> Inr ((case found of Some r \<Rightarrow> r | None \<Rightarrow> default_row uid key val rbac) # rows)))"

definition dict_items :: "pyval \<Rightarrow> dict list" where
  "dict_items v = (case v of PList xs \<Rightarrow> concat (map (\<lambda>x. case x of PDict d \<Rightarrow> [d] | _ \<Rightarrow> []) xs) | _ \<Rightarrow> [])"

definition grants_find :: "('d, 'r, 'c) env \<Rightarrow> resp \<Rightarrow> dict \<Rightarrow> (('d, 'r, 'c) world, resp) py" where
  "grants_find E res kwargs = with_json_filter kwargs (\<lambda>flt.
     let name = (if truthy (dget kwargs ''name'') then dget kwargs ''name'' else dget flt ''name'')
     in bnd (grants_init E) (\<lambda>_.
        bnd (access_control E (Some ''Grant'')) (\<lambda>acc.
        bnd (if dhas flt ''account_id'' then
               try_catch
                 (bnd (run_one E (filter_by [(''id'', dget flt ''account_id'')] (query_of ''Account''))) (\<lambda>row.
                  ret (Some (dget row ''uid''))))
                 (\<lambda>ex. if exc_kind ex = ENoResultFound then ret None else raise_exc ex)
             else ret (Some (if truthy (dget flt ''uid'') then dget flt ''uid'' else ac_uid acc))) (\<lambda>who.
        case who of
          None \<Rightarrow> ret ([(''count'', PInt 0), (''items'', PList []), (''message'', PStr ''not found'')], 404)
        | Some uid \<Rightarrow>
            bnd (rbac_permissions E acc None (no_target\<lparr>tg_owner := uid\<rparr>)) (\<lambda>rbac.
            bnd (cache_sub E (PStr ''defaults'')) (\<lambda>defaults.
            bnd (of_result (dsub (fst res) ''items'')) (\<lambda>items.
            bnd (of_result (merge_defaults name uid rbac (dict_items items) defaults)) (\<lambda>rows.
            ret ([(''items'', PList (map PDict rows)), (''count'', PInt (int (length rows)))], snd res)))))))))"

section \<open>What a lookup returns\<close>

text \<open>The grant in force: the last active record of that name that has not expired.\<close>

definition in_force :: "int \<Rightarrow> string \<Rightarrow> dict \<Rightarrow> bool" where
  "in_force now name r \<longleftrightarrow> py_str (dget r ''name'') = name \<and>
     (\<not> truthy (dget r ''expires'') \<or> after (dget r ''expires'') now)"

lemma collect_grants_get:
  "map_of (collect_grants now rs g) name =
     (case filter (in_force now name) rs of [] \<Rightarrow> map_of g name | xs \<Rightarrow> Some (dget (last xs) ''value''))"
proof (induction rs arbitrary: g)
  case (Cons r rs)
  show ?case
    using Cons.IH [of "dset g (py_str (dget r ''name'')) (dget r ''value'')"] Cons.IH [of g]
    by (auto simp: in_force_def update_conv split: list.splits)
qed simp

text \<open>The value of a grant, as records and defaults determine it.\<close>

definition grant_spec :: "dict \<Rightarrow> int \<Rightarrow> dict list \<Rightarrow> string \<Rightarrow> pyval" where
  "grant_spec defaults now records name =
     (case filter (in_force now name) records of
        [] \<Rightarrow> grant_value (dget defaults name)
      | xs \<Rightarrow> grant_value (dget (last xs) ''value''))"

context cache_contract
begin

lemma grants_get_fresh:
  assumes C: "e_cache E = C" and uid: "truthy uid" "uid \<noteq> PStr ''defaults''"
    and dflt: "tc_get C (PStr ''defaults'') (w_now w) (w_grants w) = Some (PDict defaults)"
    and keep: "tc_get C (PStr ''defaults'') (w_now w) (tc_put C uid v (w_now w) (w_grants w)) = Some (PDict defaults)"
    and v: "v = PDict (collect_grants (w_now w) records [])"
    and miss: "tc_get C uid (w_now w) (w_grants w) = None"
    and db: "db_all (e_db E) (grant_records uid) (w_db w) = Inr records"
  shows "fst (grants_get E name uid w) = Inr (grant_spec defaults (w_now w) records name)"
proof -
  have m: "map_of (collect_grants (w_now w) records []) name =
    (case filter (in_force (w_now w) name) records of [] \<Rightarrow> None | xs \<Rightarrow> Some (dget (last xs) ''value''))"
    by (simp add: collect_grants_get split: list.splits)
  show ?thesis using assms m
    by (auto simp: grants_get_def grants_init_def py_simps cache_sub_def put_get dhas_def dget_def grant_spec_def
        split: list.splits option.splits)
qed

end

section \<open>Properties\<close>

text \<open>C30: On a cold cache, Grants.get implements the abstract precedence of grants: the last unexpired
  active grant of the user wins over the default of the service.\<close>

lemma grant_precedence:
  assumes "cache_contract (e_cache E)" and "truthy uid" "uid \<noteq> PStr ''defaults''"
    and "tc_get (e_cache E) (PStr ''defaults'') (w_now w) (w_grants w) = Some (PDict defaults)"
    and "tc_get (e_cache E) (PStr ''defaults'') (w_now w)
      (tc_put (e_cache E) uid (PDict (collect_grants (w_now w) records [])) (w_now w) (w_grants w)) = Some (PDict defaults)"
    and "tc_get (e_cache E) uid (w_now w) (w_grants w) = None"
    and "db_all (e_db E) (grant_records uid) (w_db w) = Inr records"
  shows "fst (grants_get E name uid w) = Inr (grant_spec defaults (w_now w) records name)"
  using cache_contract.grants_get_fresh [OF assms(1) refl assms(2-5) refl assms(6,7)] .

definition granting_world :: "(mdb, mredis, mcache) world" where
  "granting_world = (mem_world [(''Grant'',
     [[(''name'', PStr ''contacts''), (''value'', PStr ''20''), (''uid'', PStr ''u-1''), (''status'', PStr ''active''), (''expires'', PNone)],
      [(''name'', PStr ''contacts''), (''value'', PStr ''99''), (''uid'', PStr ''u-1''), (''status'', PStr ''active''), (''expires'', PTime 5)]])])
     \<lparr>w_grants := [(PStr ''defaults'', PDict [(''contacts'', PInt 8)])]\<rparr>"

lemma grant_precedence_witness:
  "fst (grants_get mem_env ''contacts'' (PStr ''u-1'') granting_world) = Inr (PInt 20)"
proof -
  have c: "cache_contract (e_cache mem_env)" using memory_cache.cache_contract_axioms by simp
  obtain records where r: "db_all (e_db mem_env) (grant_records (PStr ''u-1'')) (w_db granting_world) = Inr records"
    and s: "grant_spec [(''contacts'', PInt 8)] (w_now granting_world) records ''contacts'' = PInt 20"
  proof
    show "db_all (e_db mem_env) (grant_records (PStr ''u-1'')) (w_db granting_world) =
        Inr (mem_select (grant_records (PStr ''u-1'')) (w_db granting_world))" by (simp add: mem_db_def)
    show "grant_spec [(''contacts'', PInt 8)] (w_now granting_world)
        (mem_select (grant_records (PStr ''u-1'')) (w_db granting_world)) ''contacts'' = PInt 20" by code_simp
  qed
  show ?thesis
    using grant_precedence [OF c _ _ _ _ _ r, of "[(''contacts'', PInt 8)]" "''contacts''"] s
    by (simp add: granting_world_def mem_world_def mem_cache_def)
qed

end
