(* ===== verification/Rate_Limit.thy ===== *)
theory Rate_Limit imports Grants begin

text \<open>
  apicrud/ratelimit.py: calls of a service by a user are counted in one of two redis keys, for even
  and odd intervals of the epoch time.
\<close>

section \<open>The limiter\<close>

record rate_limit =
  rl_enable :: bool
  rl_interval :: int

definition rate_limit_init :: "('d, 'r, 'c) env \<Rightarrow> bool \<Rightarrow> int option \<Rightarrow> rate_limit" where
  "rate_limit_init E enable interval =
     \<lparr>rl_enable = (enable \<or> cf_RATELIMIT_ENABLE (e_cfg E)),
      rl_interval = (case interval of
          Some i \<Rightarrow> (if i = 0 then cf_RATELIMIT_INTERVAL (e_cfg E) else i)
        | None \<Rightarrow> cf_RATELIMIT_INTERVAL (e_cfg E))\<rparr>"

text \<open>\<open>round(time.time())\<close> of a time in microseconds: half to even.\<close>

definition round_secs :: "int \<Rightarrow> int" where
  "round_secs t = (let q = t div 1000000; r = t mod 1000000 in
     if r < 500000 then q else if 500000 < r then q + 1 else if even q then q else q + 1)"

definition rate_slot :: "int \<Rightarrow> int \<Rightarrow> int" where
  "rate_slot interval t = round_secs t mod (interval * 2) div interval"

definition rate_key :: "string \<Rightarrow> pyval \<Rightarrow> int \<Rightarrow> string" where
  "rate_key service uid slot = ''rate:'' @ service @ '':'' @ py_str uid @ '':'' @ show_int slot"

text \<open>
  \<open>_get_request_uid\<close>: for an API key the session is looked up under a SHA-1 token (sessions of API
  keys are created under a SHA-256 one).
\<close>

definition request_uid :: "('d, 'r, 'c) env \<Rightarrow> (('d, 'r, 'c) world, pyval) py" where
  "request_uid E =
     (case map_of (rq_headers (e_req E)) (cf_HEADER_AUTH_APIKEY (e_cfg E)) of
        Some header \<Rightarrow>
          (case py_split (CHR ''.'') header of
             [prefix, secret] \<Rightarrow>
               session_get_arg E PNone (take 8 (b64encode (cr_sha1 (e_crypt E) (utf8_encode secret)))) ''sub'' (Some prefix)
           | _ \<Rightarrow> ret PNone)
      | None \<Rightarrow> ret (case rq_authorization (e_req E) of Some (username, _) \<Rightarrow> PStr username | None \<Rightarrow> PNone))"

text \<open>\<open>limit and not calls or int(calls.decode()) < limit\<close>.\<close>

definition below_limit :: "pyval \<Rightarrow> string option \<Rightarrow> exc + bool" where
  "below_limit limit calls =
     (if truthy limit \<and> (calls = None \<or> calls = Some []) then Inr True
      else case calls of
        None \<Rightarrow> Inl (Exc EAttributeError ''NoneType object has no attribute decode'')
      | Some s \<Rightarrow> (case py_int s of
          None \<Rightarrow> Inl (Exc EValueError ''invalid literal for int()'')
        | Some n \<Rightarrow> (case py_num limit of
            None \<Rightarrow> Inl (Exc ETypeError ''not supported between instances'')
          | Some l \<Rightarrow> Inr (of_int n < l))))"

definition rate_call ::
    "('d, 'r, 'c) env \<Rightarrow> rate_limit \<Rightarrow> pyval \<Rightarrow> string \<Rightarrow> pyval \<Rightarrow> (('d, 'r, 'c) world, bool) py" where
  "rate_call E rl limit0 service uid0 =
     (if \<not> rl_enable rl then ret False
      else bnd (if truthy uid0 then ret uid0 else request_uid E) (\<lambda>uid.
        if \<not> truthy uid then ret False
        else bnd (if truthy limit0 then ret limit0 else grants_get E ''ratelimit'' uid) (\<lambda>limit.
          bnd (gets w_now) (\<lambda>now.
          let curr = rate_slot (rl_interval rl) now;
              key = rate_key service uid curr;
              altkey = rate_key service uid (if curr \<noteq> 0 then 0 else 1)
          in bnd (try_catch (bnd (redis_get E key) (\<lambda>c. ret (Some c)))
                   (\<lambda>ex. if exc_kind ex = ERedisConnectionError then ret None else raise_exc ex)) (\<lambda>r.
             case r of
               None \<Rightarrow> ret False
             | Some calls \<Rightarrow>
                 bnd (of_result (below_limit limit calls)) (\<lambda>ok.
                 if ok then
                   try_catch
                     (bnd (on_redis (rd_pipe (e_redis E)
                        [RIncr key, RExpire key (rl_interval rl - 1), RDelete altkey])) (\<lambda>_. ret False))
                     (\<lambda>ex. ret False)
                 else ret True))))))"

definition rate_reset :: "('d, 'r, 'c) env \<Rightarrow> string \<Rightarrow> pyval \<Rightarrow> (('d, 'r, 'c) world, unit) py" where
  "rate_reset E service uid =
     bnd (redis_delete E (rate_key service uid 0)) (\<lambda>_.
     bnd (redis_delete E (rate_key service uid 1)) (\<lambda>_. ret ()))"

lemma keeps_rate_call [keeps_intros]: "keeps w_db (rate_call E rl limit service uid)"
  by (auto simp: rate_call_def request_uid_def Let_def intro!: keeps_intros split: list.splits)

lemma keeps_rate_reset [keeps_intros]: "keeps w_db (rate_reset E service uid)"
  by (auto simp: rate_reset_def intro!: keeps_intros)

section \<open>Counting\<close>

text \<open>
  INCR, EXPIRE and DEL in one transaction: the counter grows by one, lives for the given seconds from
  now, and the other key is gone. INCRBY changes a stored number and keeps its time to live.
\<close>

definition count_of :: "string option \<Rightarrow> int option" where
  "count_of v = (case v of None \<Rightarrow> Some 0 | Some s \<Rightarrow> py_int s)"

locale redis_counters = redis_contract R view
  for R :: "'r redisops" and view :: "int \<Rightarrow> 'r \<Rightarrow> string \<Rightarrow> string option" +
  assumes pipe_result: "count_of (view t s k) = Some c \<Longrightarrow>
      fst (rd_pipe R [RIncr k, RExpire k n, RDelete k'] t s) = Inr ()"
    and pipe_count: "count_of (view t s k) = Some c \<Longrightarrow> k' \<noteq> k \<Longrightarrow> t \<le> t' \<Longrightarrow>
      view t' (snd (rd_pipe R [RIncr k, RExpire k n, RDelete k'] t s)) k =
        (if t' < t + n * 1000000 then Some (show_int (c + 1)) else None)"
    and pipe_gone: "count_of (view t s k) = Some c \<Longrightarrow> k' \<noteq> k \<Longrightarrow> t \<le> t' \<Longrightarrow>
      view t' (snd (rd_pipe R [RIncr k, RExpire k n, RDelete k'] t s)) k' = None"
    and incrby_result: "count_of (view t s k) = Some c \<Longrightarrow> fst (rd_incrby R k n t s) = Inr ()"
    and incrby_view: "view t s k = Some v \<Longrightarrow> py_int v = Some c \<Longrightarrow> t \<le> t' \<Longrightarrow>
      view t' (snd (rd_incrby R k n t s)) k = (if view t' s k = None then None else Some (show_int (c + n)))"

text \<open>Calls at the given times, one after another; \<open>True\<close> means that the limit was exceeded.\<close>

fun rate_run ::
    "('d, 'r, 'c) env \<Rightarrow> rate_limit \<Rightarrow> pyval \<Rightarrow> string \<Rightarrow> pyval \<Rightarrow> int list \<Rightarrow> ('d, 'r, 'c) world \<Rightarrow> (exc + bool) list" where
  "rate_run E rl limit service uid [] w = []"
| "rate_run E rl limit service uid (t # ts) w =
     (case rate_call E rl limit service uid (w\<lparr>w_now := t\<rparr>) of
        (r, w') \<Rightarrow> r # rate_run E rl limit service uid ts w')"

lemma py_int_show_int: "0 \<le> c \<Longrightarrow> py_int (show_int c) = Some c"
  using py_int_show_nat [of "nat c"] by (simp add: show_int_def)

lemma show_int_nonempty: "0 \<le> c \<Longrightarrow> show_int c \<noteq> []"
  by (simp add: show_int_def show_nat_nonempty)

lemma rate_key_inj:
  assumes "0 \<le> a" and "0 \<le> b" and "rate_key s u a = rate_key s u b"
  shows "a = b"
proof -
  have "show_int a = show_int b" using assms(3) by (simp add: rate_key_def)
  then have "Some a = Some b" using py_int_show_int [OF assms(1)] py_int_show_int [OF assms(2)] by metis
  then show ?thesis by simp
qed

lemma rate_slot_range:
  assumes "0 < i"
  shows "0 \<le> rate_slot i t" "rate_slot i t \<le> 1"
proof -
  let ?x = "round_secs t mod (i * 2)"
  have x: "0 \<le> ?x" "?x < i * 2" using assms by simp_all
  show "0 \<le> rate_slot i t" using assms x by (simp add: rate_slot_def pos_imp_zdiv_nonneg_iff)
  show "rate_slot i t \<le> 1"
  proof (rule ccontr)
    assume "\<not> rate_slot i t \<le> 1"
    then have "i * 2 \<le> i * (?x div i)" using assms by (intro mult_left_mono) (simp_all add: rate_slot_def)
    moreover have "i * (?x div i) \<le> ?x"
      using mult_div_mod_eq [of i ?x] pos_mod_sign [OF assms, of ?x] by linarith
    ultimately show False using x by linarith
  qed
qed

context redis_counters
begin

text \<open>The state of the counter while \<open>c\<close> calls were admitted and the current key lives until \<open>d\<close>.\<close>

definition counted :: "string \<Rightarrow> int \<Rightarrow> int \<Rightarrow> int \<Rightarrow> 'r \<Rightarrow> bool" where
  "counted key now d c s \<longleftrightarrow> (\<forall>t. now \<le> t \<and> t < d \<longrightarrow> view t s key = (if c = 0 then None else Some (show_int c)))"

lemma rate_call_counted:
  assumes R: "e_redis E = R" and en: "rl_enable rl" and i: "1 < rl_interval rl" and L: "0 < L"
    and uid: "truthy uid" and now: "w_now w < d" "d \<le> w_now w + (rl_interval rl - 1) * 1000000"
    and cnt: "counted (rate_key service uid (rate_slot (rl_interval rl) (w_now w))) (w_now w) d c (w_redis w)"
    and c: "0 \<le> c"
  shows "\<exists>w'. rate_call E rl (PInt L) service uid w = (Inr (L \<le> c), w') \<and> w_now w' = w_now w \<and>
    counted (rate_key service uid (rate_slot (rl_interval rl) (w_now w))) (w_now w) d (if c < L then c + 1 else c) (w_redis w')"
proof -
  let ?slot = "rate_slot (rl_interval rl) (w_now w)"
  let ?key = "rate_key service uid ?slot" and ?alt = "rate_key service uid (if ?slot \<noteq> 0 then 0 else 1)"
  have v: "view (w_now w) (w_redis w) ?key = (if c = 0 then None else Some (show_int c))"
    using cnt now by (simp add: counted_def)
  have ok: "below_limit (PInt L) (view (w_now w) (w_redis w) ?key) = Inr (c < L)"
    using v L c by (simp add: below_limit_def show_int_nonempty py_int_show_int)
  have ne: "?alt \<noteq> ?key"
    using rate_key_inj [of "if ?slot \<noteq> 0 then 0 else 1" ?slot service uid] rate_slot_range [of "rl_interval rl" "w_now w"] i
    by (auto split: if_splits)
  have co: "count_of (view (w_now w) (w_redis w) ?key) = Some c"
    using v c by (simp add: count_of_def py_int_show_int)
  show ?thesis
  proof (cases "c < L")
    case True
    let ?s = "snd (rd_pipe R [RIncr ?key, RExpire ?key (rl_interval rl - 1), RDelete ?alt] (w_now w) (w_redis w))"
    have "counted ?key (w_now w) d (c + 1) ?s"
      using pipe_count [OF co ne] now c by (simp add: counted_def)
    moreover have "rate_call E rl (PInt L) service uid w = (Inr False, w\<lparr>w_redis := ?s\<rparr>)"
      using R en uid L True ok pipe_result [OF co]
      by (simp add: rate_call_def py_simps Let_def get_view)
    ultimately show ?thesis using True by simp
  next
    case False
    then show ?thesis using R en uid L ok cnt
      by (simp add: rate_call_def py_simps Let_def get_view)
  qed
qed

lemma rate_run_counted:
  assumes R: "e_redis E = R" and en: "rl_enable rl" and i: "1 < rl_interval rl" and L: "0 < L" and uid: "truthy uid"
    and d: "\<forall>t \<in> set ts. t < d \<and> d \<le> t + (rl_interval rl - 1) * 1000000 \<and> now \<le> t \<and> rate_slot (rl_interval rl) t = slot"
    and "sorted ts" and "counted (rate_key service uid slot) now d c (w_redis w)" and "0 \<le> c"
  shows "rate_run E rl (PInt L) service uid ts w =
    map (\<lambda>j. Inr (L \<le> c + int j)) [0..<length ts]"
  using assms(6-9)
proof (induction ts arbitrary: w c now)
  case (Cons t ts)
  let ?w = "w\<lparr>w_now := t\<rparr>"
  have cnt: "counted (rate_key service uid (rate_slot (rl_interval rl) (w_now ?w))) (w_now ?w) d c (w_redis ?w)"
    using Cons.prems by (auto simp: counted_def)
  obtain w' where w': "rate_call E rl (PInt L) service uid ?w = (Inr (L \<le> c), w')"
    "counted (rate_key service uid slot) t d (if c < L then c + 1 else c) (w_redis w')"
    using rate_call_counted [OF R en i L uid _ _ cnt Cons.prems(4)] Cons.prems(1) by auto
  have "rate_run E rl (PInt L) service uid ts w' =
      map (\<lambda>j. Inr (L \<le> (if c < L then c + 1 else c) + int j)) [0..<length ts]"
    using Cons.prems w'(2) by (intro Cons.IH [where now = t]) auto
  also have "\<dots> = map (\<lambda>j. Inr (L \<le> c + int (Suc j))) [0..<length ts]"
    by (rule map_cong) auto
  finally show ?case using w'(1)
    by (simp add: upt_conv_Cons map_Suc_upt [symmetric] comp_def del: upt_Suc)
qed simp

text \<open>
  As long as the calls fall into one slot and span less than the interval less a second, exactly
  the first \<open>L\<close> are admitted.
\<close>

lemma rate_run_exact:
  assumes "e_redis E = R" and "rl_enable rl" and "1 < rl_interval rl" and "0 < L" and "truthy uid"
    and "\<forall>t \<in> set ts. t0 \<le> t \<and> t < t0 + (rl_interval rl - 1) * 1000000 \<and> rate_slot (rl_interval rl) t = slot"
    and "sorted ts" and "view t0 (w_redis w) (rate_key service uid slot) = None"
  shows "rate_run E rl (PInt L) service uid ts w = map (\<lambda>j. Inr (L \<le> int j)) [0..<length ts]"
proof -
  have "counted (rate_key service uid slot) t0 (t0 + (rl_interval rl - 1) * 1000000) 0 (w_redis w)"
    using assms(8) expiry by (auto simp: counted_def)
  then show ?thesis using rate_run_counted [OF assms(1-5) _ assms(7), where c = 0 and now = t0 and slot = slot and
        d = "t0 + (rl_interval rl - 1) * 1000000" and service = service and w = w] assms(6) by simp
qed

end

lemma mr_incrby_view:
  assumes "mr_view t s k = Some v" and "py_int v = Some c" and "t \<le> t'"
  shows "mr_view t' (snd (mr_incrby k n t s)) k = (if mr_view t' s k = None then None else Some (show_int (c + n)))"
proof -
  have "mr_view t' (AList.update k (show_int (c + n), mr_deadline t s k) s) k =
      (if mr_view t' s k = None then None else Some (show_int (c + n)))"
    using assms(1,3) unfolding mr_view_update
    by (auto simp: mr_deadline_def mr_view_def split: option.splits if_splits prod.splits)
  then show ?thesis using assms by (simp add: mr_incrby_def)
qed

interpretation memory_counters: redis_counters mem_redis mr_view
proof
  fix t k s c n k' t' assume "count_of (mr_view t s k) = Some c"
  then show "fst (rd_pipe mem_redis [RIncr k, RExpire k n, RDelete k'] t s) = Inr ()"
    and "k' \<noteq> k \<Longrightarrow> t \<le> t' \<Longrightarrow> mr_view t' (snd (rd_pipe mem_redis [RIncr k, RExpire k n, RDelete k'] t s)) k =
        (if t' < t + n * 1000000 then Some (show_int (c + 1)) else None)"
    and "k' \<noteq> k \<Longrightarrow> t \<le> t' \<Longrightarrow> mr_view t' (snd (rd_pipe mem_redis [RIncr k, RExpire k n, RDelete k'] t s)) k' = None"
    and "fst (rd_incrby mem_redis k n t s) = Inr ()"
    by (auto simp: mem_redis_def mr_incrby_def count_of_def mr_view_update mr_view_delete mr_deadline_def
        split: option.splits if_splits)
next
  fix t s k v c t' n assume "mr_view t s k = Some v" "py_int v = Some c" "t \<le> t'"
  then show "mr_view t' (snd (rd_incrby mem_redis k n t s)) k = (if mr_view t' s k = None then None else Some (show_int (c + n)))"
    using mr_incrby_view by (simp add: mem_redis_def)
qed

section \<open>Properties\<close>

definition demo_limit :: rate_limit where
  "demo_limit = \<lparr>rl_enable = True, rl_interval = 10\<rparr>"



lemma rate_limit_burst:
  "rate_run mem_env demo_limit (PInt 2) ''*'' (PStr ''u-1'')
     [1640995200000000, 1640995200000000, 1640995200000000, 1640995209200000, 1640995209200000] (mem_world [])
   = [Inr False, Inr False, Inr True, Inr False, Inr False] \<and>
   rate_slot 10 1640995200000000 = rate_slot 10 1640995209200000"
  by code_simp

end
