(* ===== verification/Account_Settings.thy ===== *)
theory Account_Settings imports Grants begin

text \<open>
  apicrud/account_settings.py: the settings of an account, cached per account. The class is a
  singleton: the attributes \<open>get\<close>, \<open>account_id\<close> and \<open>uid\<close> are those of the last initialisation that
  succeeded (\<open>w_account\<close>), the id of the global administrator is remembered in \<open>w_admin\<close>.
\<close>

definition settings_cached :: "('d, 'r, 'c) env \<Rightarrow> pyval \<Rightarrow> (('d, 'r, 'c) world, pyval option) py" where
  "settings_cached E k = gets (\<lambda>w. tc_get (e_cache E) k (w_now w) (w_settings w))"

definition settings_put :: "('d, 'r, 'c) env \<Rightarrow> pyval \<Rightarrow> pyval \<Rightarrow> (('d, 'r, 'c) world, unit) py" where
  "settings_put E k v = modify (\<lambda>w. w\<lparr>w_settings := tc_put (e_cache E) k v (w_now w) (w_settings w)\<rparr>)"

text \<open>A relationship that refers to one record: None has no attributes.\<close>

definition related_one ::
    "('d, 'r, 'c) env \<Rightarrow> string \<Rightarrow> dict \<Rightarrow> string \<Rightarrow> (('d, 'r, 'c) world, dict) py" where
  "related_one E m row a =
     bnd (reads (\<lambda>w. db_related (e_db E) m (dget row ''id'') a (w_db w))) (\<lambda>rs. case rs of
       [] \<Rightarrow> raise_exc (Exc EAttributeError ''NoneType object has no attribute'')
     | r # _ \<Rightarrow> ret r)"

lemma keeps_related_one [keeps_intros]: "keeps v (related_one E m row a)"
  by (auto simp: related_one_def intro!: keeps_intros)

lemma keeps_settings_put [keeps_intros]: "keeps w_db (settings_put E k v)"
  by (simp add: keeps_def settings_put_def py_simps)

lemma keeps_settings_cached [keeps_intros]: "keeps v (settings_cached E k)"
  by (simp add: settings_cached_def keeps_intros)

text \<open>The account and its settings record, by account id or else by user id.\<close>

definition settings_owner ::
    "('d, 'r, 'c) env \<Rightarrow> pyval \<Rightarrow> pyval \<Rightarrow> (('d, 'r, 'c) world, pyval \<times> pyval \<times> dict) py" where
  "settings_owner E account_id uid =
     (if truthy account_id then
        bnd (run_one E (filter_by [(''id'', account_id)] (query_of ''Account''))) (\<lambda>account.
        bnd (related_one E ''Account'' account ''settings'') (\<lambda>record.
        ret (account_id, dget account ''uid'', record)))
      else
        bnd (run_one E (filter_by [(''uid'', uid)] (query_of ''Account''))) (\<lambda>account.
        bnd (related_one E ''Account'' account ''settings'') (\<lambda>record.
        ret (dget account ''id'', uid, record))))"

text \<open>The global settings and the account of their administrator; \<open>None\<close> if the lookup fails.\<close>

definition settings_global ::
    "('d, 'r, 'c) env \<Rightarrow> (('d, 'r, 'c) world, (pyval \<times> pyval \<times> dict) option) py" where
  "settings_global E =
     bnd (try_catch
       (bnd (run_one E (filter_by [(''name'', PStr ''global'')] (query_of ''Settings''))) (\<lambda>record.
        bnd (run_one E (filter_by [(''uid'', dget record ''administrator_id'')] (query_of ''Account''))) (\<lambda>account.
        ret (Some (dget account ''id'', dget record ''administrator_id'', record)))))
       (\<lambda>ex. ret None)) (\<lambda>r. case r of
       None \<Rightarrow> ret None
     | Some (account_id, uid, record) \<Rightarrow>
         bnd (modify (\<lambda>w. w\<lparr>w_admin := account_id\<rparr>)) (\<lambda>_. ret (Some (account_id, uid, record))))"

definition settings_load ::
    "('d, 'r, 'c) env \<Rightarrow> string \<Rightarrow> pyval \<Rightarrow> pyval \<Rightarrow> dict \<Rightarrow> (('d, 'r, 'c) world, unit) py" where
  "settings_load E approved account_id uid record =
     bnd (try_catch
       (bnd (run_one E (filter_by [(''uid'', uid), (''name'', PStr ''default'')] (query_of ''Category''))) (\<lambda>c.
        ret (dget c ''id'')))
       (\<lambda>ex. if exc_kind ex = ENoResultFound then ret (dget record ''default_cat_id'') else raise_exc ex)) (\<lambda>category.
     bnd (row_as_dict E ''Settings'' record) (\<lambda>d.
     bnd (related_one E ''Settings'' record ''administrator'') (\<lambda>admin.
     bnd (related_one E ''Settings'' record ''tz'') (\<lambda>tz.
     let settings = dmerge d [(''category_id'', category), (''sender_name'', dget admin ''name''),
           (''sender_email'', dget admin ''identity''), (''tz'', dget tz ''name'')]
     in bnd (try_catch
          (bnd (run_one E (filter_by [(''name'', PStr approved), (''uid'', dget record ''administrator_id'')]
              (query_of ''List''))) (\<lambda>l.
           bnd (reads (\<lambda>w. db_related (e_db E) ''List'' (dget l ''id'') ''members'' (w_db w))) (\<lambda>ms.
           ret (PList (map (\<lambda>m. dget m ''identity'') ms)))))
          (\<lambda>ex. if exc_kind ex = ENoResultFound then ret (PList []) else raise_exc ex)) (\<lambda>senders.
        settings_put E account_id (PDict [(''uid'', uid),
          (''settings'', PDict (dset settings ''approved_senders'' senders))]))))))"

text \<open>The last lines of \<open>__init__\<close>: the singleton's attributes come from the cache.\<close>

definition settings_attach :: "('d, 'r, 'c) env \<Rightarrow> pyval \<Rightarrow> (('d, 'r, 'c) world, unit) py" where
  "settings_attach E account_id =
     bnd (settings_cached E account_id) (\<lambda>r. case r of
       Some (PDict d) \<Rightarrow>
         (case dget d ''settings'' of
            PDict s \<Rightarrow> modify (\<lambda>w. w\<lparr>w_account := Some (s, account_id, dget d ''uid'')\<rparr>)
          | _ \<Rightarrow> raise_exc (Exc EKeyError ''settings''))
     | _ \<Rightarrow> raise_exc (Exc EKeyError (py_str account_id)))"

text \<open>
  \<open>__init__\<close>. An account that is not found stands for the administrator's; where that is not found
  either, the constructor calls itself with the same argument until the recursion limit.
\<close>

definition settings_fill ::
    "('d, 'r, 'c) env \<Rightarrow> string \<Rightarrow> (pyval \<times> pyval \<times> dict) option \<Rightarrow> (('d, 'r, 'c) world, unit) py" where
  "settings_fill E approved r = (case r of
       None \<Rightarrow> ret ()
     | Some (account_id, uid, record) \<Rightarrow>
         bnd (settings_load E approved account_id uid record) (\<lambda>_. settings_attach E account_id))"

definition settings_admin :: "('d, 'r, 'c) env \<Rightarrow> string \<Rightarrow> pyval \<Rightarrow> (('d, 'r, 'c) world, unit) py" where
  "settings_admin E approved admin =
     bnd (settings_cached E admin) (\<lambda>cached. case cached of
       Some _ \<Rightarrow> settings_attach E admin
     | None \<Rightarrow>
         bnd (try_catch (bnd (settings_owner E admin PNone) (\<lambda>ow. ret (Some ow)))
           (\<lambda>ex. if exc_kind ex = ENoResultFound then raise_exc (Exc EOther ''maximum recursion depth exceeded'')
                 else if exc_kind ex = EInvalidPaddingError then ret None else raise_exc ex)) (\<lambda>r.
         settings_fill E approved r))"

definition account_settings ::
    "('d, 'r, 'c) env \<Rightarrow> string \<Rightarrow> pyval \<Rightarrow> pyval \<Rightarrow> (('d, 'r, 'c) world, unit) py" where
  "account_settings E approved account_id uid =
     bnd (settings_cached E account_id) (\<lambda>cached. case cached of
       Some _ \<Rightarrow> settings_attach E account_id
     | None \<Rightarrow>
         bnd (try_catch (bnd (settings_owner E account_id uid) (\<lambda>ow. ret (Inr (Some ow))))
           (\<lambda>ex. if exc_kind ex = ENoResultFound then
                   bnd (gets w_admin) (\<lambda>admin.
                   if truthy admin then ret (Inl admin)
                   else bnd (settings_global E) (\<lambda>r. ret (Inr r)))
                 else if exc_kind ex = EInvalidPaddingError then ret (Inr None) else raise_exc ex)) (\<lambda>r. case r of
         Inl admin \<Rightarrow> settings_admin E approved admin
       | Inr found \<Rightarrow> settings_fill E approved found))"

text \<open>\<open>AccountSettings(...).get\<close>: the attribute may be that of an earlier account.\<close>

definition settings_of ::
    "('d, 'r, 'c) env \<Rightarrow> string \<Rightarrow> pyval \<Rightarrow> pyval \<Rightarrow> (('d, 'r, 'c) world, dict) py" where
  "settings_of E approved account_id uid =
     bnd (account_settings E approved account_id uid) (\<lambda>_.
     bnd (gets w_account) (\<lambda>a. case a of
       Some (s, _, _) \<Rightarrow> ret s
     | None \<Rightarrow> raise_exc (Exc EAttributeError ''AccountSettings object has no attribute get'')))"

definition settings_uncache ::
    "('d, 'r, 'c) env \<Rightarrow> string \<Rightarrow> pyval \<Rightarrow> (('d, 'r, 'c) world, unit) py" where
  "settings_uncache E approved account_id =
     bnd (account_settings E approved account_id PNone) (\<lambda>_.
     bnd (gets w_account) (\<lambda>a. case a of
       Some (_, k, _) \<Rightarrow> modify (\<lambda>w. w\<lparr>w_settings := tc_pop (e_cache E) k (w_settings w)\<rparr>)
     | None \<Rightarrow> raise_exc (Exc EAttributeError ''AccountSettings object has no attribute account_id'')))"

text \<open>The language of the user's profile, the property \<open>locale\<close>.\<close>

definition settings_locale :: "('d, 'r, 'c) env \<Rightarrow> (('d, 'r, 'c) world, pyval) py" where
  "settings_locale E = try_catch
     (bnd (gets w_account) (\<lambda>a. case a of
        None \<Rightarrow> raise_exc (Exc EAttributeError ''AccountSettings object has no attribute uid'')
      | Some (_, _, uid) \<Rightarrow>
          bnd (run_one E (where_cond (CEq (''Profile'', ''item'') (PStr ''lang''))
                (where_cond (CEq (''Profile'', ''uid'') uid) (query_of ''Profile'')))) (\<lambda>p.
          ret (dget p ''value''))))
     (\<lambda>ex. if exc_kind ex \<in> {ENoResultFound, EAttributeError} then ret PNone else raise_exc ex)"

lemma keeps_account_settings [keeps_intros]: "keeps w_db (account_settings E approved a u)"
  by (auto simp: account_settings_def settings_admin_def settings_fill_def settings_load_def settings_attach_def
      settings_owner_def settings_global_def Let_def intro!: keeps_intros keeps_modify split: pyval.splits)

lemma keeps_settings_of [keeps_intros]: "keeps w_db (settings_of E approved a u)"
  by (auto simp: settings_of_def intro!: keeps_intros)

text \<open>
  When neither the account nor the global settings can be read, the settings of whichever account
  was asked for before are returned.
\<close>

lemma settings_stale:
  assumes "tc_get (e_cache E) account_id (w_now w) (w_settings w) = None"
    and "truthy account_id" and "\<not> truthy (w_admin w)" and "w_account w = Some (s, k, u)"
    and "db_all (e_db E) (filter_by [(''id'', account_id)] (query_of ''Account'')) (w_db w) = Inr []"
    and "db_all (e_db E) (filter_by [(''name'', PStr ''global'')] (query_of ''Settings'')) (w_db w) = Inr []"
  shows "settings_of E approved account_id uid w = (Inr s, w)"
  using assms by (simp add: settings_of_def account_settings_def settings_cached_def settings_owner_def
      settings_global_def settings_fill_def py_simps)

section \<open>Properties\<close>

lemma settings_of_other_account:
  assumes "tc_get (e_cache E) account_id (w_now w) (w_settings w) = None"
    and "truthy account_id" and "\<not> truthy (w_admin w)" and "w_account w = Some (s, k, u)"
    and "db_all (e_db E) (filter_by [(''id'', account_id)] (query_of ''Account'')) (w_db w) = Inr []"
    and "db_all (e_db E) (filter_by [(''name'', PStr ''global'')] (query_of ''Settings'')) (w_db w) = Inr []"
  shows "settings_of E approved account_id uid w = (Inr s, w)"
  using settings_stale [OF assms] .

lemma settings_of_other_account_witness:
  "\<exists>w. settings_of mem_env ''local-senders'' (PStr ''a-9'') PNone w = (Inr [(''tz'', PStr ''UTC'')], w)"
proof -
  let ?w = "(mem_world [])\<lparr>w_account := Some ([(''tz'', PStr ''UTC'')], PStr ''a-1'', PStr ''u-1'')\<rparr>"
  have "settings_of mem_env ''local-senders'' (PStr ''a-9'') PNone ?w = (Inr [(''tz'', PStr ''UTC'')], ?w)"
    by (rule settings_of_other_account) (simp_all add: mem_world_def mem_cache_def mem_db_def mem_select_def table_of_def
        filter_by_def query_of_def Let_def)
  then show ?thesis by blast
qed

end
