(* ===== verification/Dates.thy ===== *)
theory Dates imports Utils begin

text \<open>
  \<open>BasicCRUD._fromdate\<close>: a serialised ISO 8601 date to a datetime, here the microseconds since the
  epoch. The fields are those of Python's \<open>strptime\<close>, which accepts one digit where two are usual;
  a field's readings are tried longest first.
\<close>

section \<open>The calendar\<close>

definition leap :: "int \<Rightarrow> bool" where
  "leap y \<longleftrightarrow> y mod 4 = 0 \<and> (y mod 100 \<noteq> 0 \<or> y mod 400 = 0)"

definition month_days :: "int \<Rightarrow> int \<Rightarrow> int" where
  "month_days y m = (if m = 2 then (if leap y then 29 else 28) else if m \<in> {4, 6, 9, 11} then 30 else 31)"

definition valid_date :: "int \<Rightarrow> int \<Rightarrow> int \<Rightarrow> bool" where
  "valid_date y m d \<longleftrightarrow> 1 \<le> y \<and> y \<le> 9999 \<and> 1 \<le> m \<and> m \<le> 12 \<and> 1 \<le> d \<and> d \<le> month_days y m"

text \<open>Days from 1970-01-01, counting years from March.\<close>

definition days_from_civil :: "int \<Rightarrow> int \<Rightarrow> int \<Rightarrow> int" where
  "days_from_civil y m d =
     (let y' = (if m \<le> 2 then y - 1 else y); m' = (m + 9) mod 12
      in 365 * y' + y' div 4 - y' div 100 + y' div 400 + (153 * m' + 2) div 5 + d - 1 - 719468)"

definition civil_time :: "int \<Rightarrow> int \<Rightarrow> int \<Rightarrow> int \<Rightarrow> int \<Rightarrow> int \<Rightarrow> int \<Rightarrow> int" where
  "civil_time y m d h mi s us =
     (((days_from_civil y m d * 24 + h) * 60 + mi) * 60 + s) * 1000000 + us"

section \<open>strptime\<close>

type_synonym 'a reading = "('a \<times> string) list"

definition two_digits :: "(int \<Rightarrow> bool) \<Rightarrow> string \<Rightarrow> int reading" where
  "two_digits p s = (case s of
       a # b # r \<Rightarrow> (case (digit_val a, digit_val b) of
           (Some x, Some y) \<Rightarrow>
             (if x < 10 \<and> y < 10 \<and> p (int (10 * x + y)) then [(int (10 * x + y), r)] else [])
         | _ \<Rightarrow> [])
     | _ \<Rightarrow> [])"

definition one_digit :: "(int \<Rightarrow> bool) \<Rightarrow> string \<Rightarrow> int reading" where
  "one_digit p s = (case s of
       a # r \<Rightarrow> (case digit_val a of
           Some x \<Rightarrow> (if x < 10 \<and> p (int x) then [(int x, r)] else []) | None \<Rightarrow> [])
     | [] \<Rightarrow> [])"

definition field :: "(int \<Rightarrow> bool) \<Rightarrow> (int \<Rightarrow> bool) \<Rightarrow> string \<Rightarrow> int reading" where
  "field p q s = two_digits p s @ one_digit q s"

text \<open>\<open>%d\<close> also reads a blank and a digit.\<close>

definition blank_digit :: "string \<Rightarrow> int reading" where
  "blank_digit s = (case s of c # r \<Rightarrow> if c = CHR '' '' then one_digit (\<lambda>v. 1 \<le> v) r else [] | [] \<Rightarrow> [])"

definition day_field :: "string \<Rightarrow> int reading" where
  "day_field s = field (\<lambda>v. 1 \<le> v \<and> v \<le> 31) (\<lambda>v. 1 \<le> v) s @ blank_digit s"

definition four_digits :: "string \<Rightarrow> int reading" where
  "four_digits s = concat (map (\<lambda>(a, r). map (\<lambda>(b, r'). (100 * a + b, r')) (two_digits (\<lambda>_. True) r)) (two_digits (\<lambda>_. True) s))"

definition literal :: "string \<Rightarrow> string \<Rightarrow> unit reading" where
  "literal l s = (if take (length l) s = l then [((), drop (length l) s)] else [])"

text \<open>Up to six digits of a fraction, longest first, in microseconds.\<close>

definition fraction :: "string \<Rightarrow> int reading" where
  "fraction s =
     concat (map (\<lambda>n. if n \<le> length s \<and> list_all digit_char (take n s)
        then [(int (case read_digits 10 0 False (take n s) of Some v \<Rightarrow> v | None \<Rightarrow> 0) * 10 ^ (6 - n), drop n s)] else [])
       [6, 5, 4, 3, 2, 1])"

definition andthen :: "'a reading \<Rightarrow> ('a \<Rightarrow> string \<Rightarrow> 'b reading) \<Rightarrow> 'b reading" where
  "andthen rs f = concat (map (\<lambda>(x, r). f x r) rs)"

text \<open>The directives of \<open>%Y-%m-%dT%H:%M:%S\<close>, then \<open>.%fZ\<close> or \<open>Z\<close>; the whole text must be read.\<close>

definition civil_readings :: "bool \<Rightarrow> string \<Rightarrow> (int \<times> int \<times> int \<times> int \<times> int \<times> int \<times> int) reading" where
  "civil_readings fr s =
     andthen (four_digits s) (\<lambda>y s. andthen (literal ''-'' s) (\<lambda>_ s.
     andthen (field (\<lambda>v. 1 \<le> v \<and> v \<le> 12) (\<lambda>v. 1 \<le> v) s) (\<lambda>m s. andthen (literal ''-'' s) (\<lambda>_ s.
     andthen (day_field s) (\<lambda>d s. andthen (literal ''T'' s) (\<lambda>_ s.
     andthen (field (\<lambda>v. v \<le> 23) (\<lambda>_. True) s) (\<lambda>h s. andthen (literal '':'' s) (\<lambda>_ s.
     andthen (field (\<lambda>v. v \<le> 59) (\<lambda>_. True) s) (\<lambda>mi s. andthen (literal '':'' s) (\<lambda>_ s.
     andthen (field (\<lambda>v. v \<le> 61) (\<lambda>_. True) s) (\<lambda>se s.
     andthen (if fr then andthen (literal ''.'' s) (\<lambda>_ s. fraction s) else [(0, s)]) (\<lambda>us s.
     andthen (literal ''Z'' s) (\<lambda>_ s. [((y, m, d, h, mi, se, us), s)])))))))))))))"

definition strptime :: "bool \<Rightarrow> string \<Rightarrow> int option" where
  "strptime fr s = (case civil_readings fr s of
       [] \<Rightarrow> None
     | ((y, m, d, h, mi, se, us), r) # _ \<Rightarrow>
         if r = [] \<and> valid_date y m d \<and> se \<le> 59 then Some (civil_time y m d h mi se us) else None)"

section \<open>\<open>_fromdate\<close>\<close>

text \<open>
  The pattern for a date without a time, \<open>^2[0-9]{3}-((0[1-9])|(1[0-2]))-([0-2][1-9]|3[0-1])$\<close>.
\<close>

definition date_only :: "string \<Rightarrow> bool" where
  "date_only s =
     (case s of
        [y1, y2, y3, y4, h1, m1, m2, h2, d1, d2] \<Rightarrow>
          y1 = CHR ''2'' \<and> digit_char y2 \<and> digit_char y3 \<and> digit_char y4 \<and> h1 = CHR ''-'' \<and>
          ((m1 = CHR ''0'' \<and> digit_char m2 \<and> m2 \<noteq> CHR ''0'') \<or> (m1 = CHR ''1'' \<and> m2 \<in> set ''012'')) \<and>
          h2 = CHR ''-'' \<and>
          ((d1 \<in> set ''012'' \<and> digit_char d2 \<and> d2 \<noteq> CHR ''0'') \<or> (d1 = CHR ''3'' \<and> d2 \<in> set ''01''))
      | _ \<Rightarrow> False)"

definition fromdate :: "string \<Rightarrow> exc + int" where
  "fromdate s =
     (let s' = (if date_only s \<or> (s \<noteq> [] \<and> last s = newline \<and> date_only (butlast s)) then s @ ''T23:59:59Z'' else s)
      in case strptime True s' of
           Some t \<Rightarrow> Inr t
         | None \<Rightarrow> (case strptime False s' of
             Some t \<Rightarrow> Inr t
           | None \<Rightarrow> Inl (Exc EValueError ''time data does not match format'')))"

text \<open>Two-digit fields of a time.\<close>

definition show2 :: "nat \<Rightarrow> string" where
  "show2 n = [digit_chr (n div 10), digit_chr (n mod 10)]"

definition show4 :: "nat \<Rightarrow> string" where
  "show4 n = show2 (n div 100) @ show2 (n mod 100)"

lemma two_digits_show2: "n < 100 \<Longrightarrow> two_digits p (show2 n @ r) = (if p (int n) then [(int n, r)] else [])"
proof -
  assume "n < 100"
  then have "n div 10 < 10" by (simp add: div_less_iff_less_mult)
  moreover have "10 * (n div 10) + n mod 10 = n" by simp
  ultimately show ?thesis by (simp add: two_digits_def show2_def digit_val_chr del: mult_div_mod_eq)
qed

lemma four_digits_show4: "n < 10000 \<Longrightarrow> four_digits (show4 n @ r) = [(int n, r)]"
proof -
  assume "n < 10000"
  then have "n div 100 < 100" "n mod 100 < 100" by (simp_all add: div_less_iff_less_mult)
  moreover have "100 * int (n div 100) + int (n mod 100) = int n"
    using mult_div_mod_eq [of 100 n] by (metis of_nat_add of_nat_mult of_nat_numeral)
  ultimately show ?thesis by (simp add: four_digits_def show4_def two_digits_show2)
qed

lemma field_show2:
  "n < 100 \<Longrightarrow> p (int n) \<Longrightarrow> field p q (show2 n @ r) = (int n, r) # one_digit q (show2 n @ r)"
  by (simp add: field_def two_digits_show2)

lemma literal_same [simp]: "literal l (l @ r) = [((), r)]"
  by (simp add: literal_def)

lemma andthen_Cons: "andthen ((x, r) # rs) f = f x r @ andthen rs f"
  by (simp add: andthen_def)

lemma andthen_single [simp]: "andthen [(x, r)] f = f x r"
  by (simp add: andthen_def)

lemma andthen_Nil [simp]: "andthen [] f = []"
  by (simp add: andthen_def)

lemma andthen_append: "andthen (xs @ ys) f = andthen xs f @ andthen ys f"
  by (simp add: andthen_def)

lemma literal_other: "c \<noteq> x \<Longrightarrow> literal (c # l) (x # r) = []"
  by (auto simp: literal_def)

lemma one_digit_show2:
  "n < 100 \<Longrightarrow> one_digit q (show2 n @ r) =
     (if q (int (n div 10)) then [(int (n div 10), digit_chr (n mod 10) # r)] else [])"
proof -
  assume "n < 100"
  then have "n div 10 < 10" by (simp add: div_less_iff_less_mult)
  then show ?thesis by (simp add: one_digit_def show2_def digit_val_chr del: of_nat_div)
qed

text \<open>A field printed with two digits before a separator is read in one way only.\<close>

lemma field_literal:
  assumes "n < 100" and "p (int n)" and "\<forall>d < 10. c \<noteq> digit_chr d"
  shows "andthen (field p q (show2 n @ c # l @ r)) (\<lambda>x s. andthen (literal (c # l) s) (g x)) = g (int n) () r"
proof -
  have "literal (c # l) (c # l @ r) = [((), r)]" using literal_same [of "c # l" r] by simp
  then show ?thesis using assms
    by (simp add: field_def two_digits_show2 one_digit_show2 andthen_append andthen_Cons literal_other)
qed

lemma four_literal:
  "n < 10000 \<Longrightarrow> andthen (four_digits (show4 n @ c # r)) (\<lambda>x s. andthen (literal [c] s) (g x)) = g (int n) () r"
proof -
  have "literal [c] (c # r) = [((), r)]" using literal_same [of "[c]" r] by simp
  then show "n < 10000 \<Longrightarrow> ?thesis" by (simp add: four_digits_show4)
qed

lemma separator_not_digit: "c \<in> set ''-T:Z. '' \<Longrightarrow> \<forall>d < 10. c \<noteq> digit_chr d"
proof (intro allI impI notI)
  fix d :: nat assume c: "c \<in> set ''-T:Z. ''" and d: "d < 10" and e: "c = digit_chr d"
  then have "(of_char c :: nat) = 48 + d" by (simp add: digit_chr_def)
  with c d show False by auto
qed

definition canonical :: "nat \<Rightarrow> nat \<Rightarrow> nat \<Rightarrow> nat \<Rightarrow> nat \<Rightarrow> nat \<Rightarrow> string" where
  "canonical y m d h mi se =
     show4 y @ CHR ''-'' # show2 m @ CHR ''-'' # show2 d @ CHR ''T'' # show2 h @ CHR '':'' # show2 mi @ CHR '':'' #
     show2 se @ ''Z''"

lemma field_sep:
  assumes "n < 100" and "p (int n)" and "c \<in> set ''-T:''"
  shows "andthen (field p q (show2 n @ c # r)) (\<lambda>x s. andthen (literal [c] s) (g x)) = g (int n) () r"
  using field_literal [of n p c q "[]" r g] assms separator_not_digit [of c] by auto

lemma valid_dateD:
  assumes "valid_date (int y) (int m) (int d)"
  shows "y < 10000" "m < 100" "d < 100" "1 \<le> int m" "int m \<le> 12" "1 \<le> int d" "int d \<le> 31"
  using assms by (auto simp: valid_date_def month_days_def split: if_splits)

lemma day_field_show2 [simp]:
  assumes "d < 100"
  shows "day_field (show2 d @ r) = field (\<lambda>v. 1 \<le> v \<and> v \<le> 31) (\<lambda>v. 1 \<le> v) (show2 d @ r)"
    and "day_field (show2 d) = field (\<lambda>v. 1 \<le> v \<and> v \<le> 31) (\<lambda>v. 1 \<le> v) (show2 d)"
proof -
  have "digit_chr (d div 10) \<noteq> CHR '' ''"
    using separator_not_digit [of "CHR '' ''"] assms by (simp add: div_less_iff_less_mult eq_commute [of "CHR '' ''"])
  then show "day_field (show2 d @ r) = field (\<lambda>v. 1 \<le> v \<and> v \<le> 31) (\<lambda>v. 1 \<le> v) (show2 d @ r)"
    "day_field (show2 d) = field (\<lambda>v. 1 \<le> v \<and> v \<le> 31) (\<lambda>v. 1 \<le> v) (show2 d)"
    by (simp_all add: day_field_def blank_digit_def show2_def)
qed

lemma canonical_readings:
  assumes "valid_date (int y) (int m) (int d)" and "h < 24" and "mi < 60" and "se < 60"
  shows "civil_readings False (canonical y m d h mi se) =
      [((int y, int m, int d, int h, int mi, int se, 0), [])]"
    and "civil_readings True (canonical y m d h mi se) = []"
proof -
  note v = valid_dateD [OF assms(1)]
  have z: "andthen (field (\<lambda>v. v \<le> 61) (\<lambda>_. True) (show2 se @ ''Z'')) (\<lambda>x s. andthen (literal ''Z'' s) (g x)) = g (int se) () []" for g :: "int \<Rightarrow> unit \<Rightarrow> string \<Rightarrow> 'a reading"
    using field_literal [of se "\<lambda>v. v \<le> 61" "CHR ''Z''" "\<lambda>_. True" "[]" "[]" g] assms(4) separator_not_digit [of "CHR ''Z''"] by simp
  have dot: "andthen (field (\<lambda>v. v \<le> 61) (\<lambda>_. True) (show2 se @ ''Z'')) (\<lambda>x s. andthen (andthen (literal ''.'' s) k) (g x)) = []"
    for g :: "int \<Rightarrow> int \<Rightarrow> string \<Rightarrow> 'a reading" and k
    using assms(4) separator_not_digit [of "CHR ''.''"]
    by (simp add: field_def two_digits_show2 one_digit_show2 andthen_append andthen_Cons literal_other)
  show "civil_readings False (canonical y m d h mi se) = [((int y, int m, int d, int h, int mi, int se, 0), [])]"
    using v assms(2-) by (simp add: civil_readings_def canonical_def four_literal field_sep z)
  show "civil_readings True (canonical y m d h mi se) = []"
    using v assms(2-) by (simp add: civil_readings_def canonical_def four_literal field_sep dot)
qed

lemma canonical_not_date: "\<not> date_only (canonical y m d h mi se)"
  "last (canonical y m d h mi se) \<noteq> newline"
  by (simp_all add: canonical_def show4_def show2_def date_only_def)

text \<open>A complete timestamp is read as the time it denotes.\<close>

lemma fromdate_canonical:
  assumes "valid_date (int y) (int m) (int d)" and "h < 24" and "mi < 60" and "se < 60"
  shows "fromdate (canonical y m d h mi se) = Inr (civil_time (int y) (int m) (int d) (int h) (int mi) (int se) 0)"
  using assms by (simp add: fromdate_def strptime_def canonical_readings canonical_not_date)

definition day_text :: "nat \<Rightarrow> nat \<Rightarrow> nat \<Rightarrow> string" where
  "day_text y m d = show4 y @ CHR ''-'' # show2 m @ CHR ''-'' # show2 d"

lemma digit_chr_digit: "d < 10 \<Longrightarrow> digit_char (digit_chr d)"
  by (simp add: digit_char_def digit_chr_def)

lemma digit_chr_eq: "d < 10 \<Longrightarrow> e < 10 \<Longrightarrow> digit_chr d = digit_chr e \<longleftrightarrow> d = e"
  by (metis digit_val_chr option.inject)

lemma digit_chr_literals:
  assumes "d < 10"
  shows "digit_chr d = CHR ''0'' \<longleftrightarrow> d = 0" "digit_chr d = CHR ''1'' \<longleftrightarrow> d = 1"
    "digit_chr d = CHR ''2'' \<longleftrightarrow> d = 2" "digit_chr d = CHR ''3'' \<longleftrightarrow> d = 3"
proof -
  have "digit_chr 0 = CHR ''0''" "digit_chr 1 = CHR ''1''" "digit_chr 2 = CHR ''2''" "digit_chr 3 = CHR ''3''"
    by (simp_all add: digit_chr_def char_of_def bit_simps bit_0)
  then show "digit_chr d = CHR ''0'' \<longleftrightarrow> d = 0" "digit_chr d = CHR ''1'' \<longleftrightarrow> d = 1"
    "digit_chr d = CHR ''2'' \<longleftrightarrow> d = 2" "digit_chr d = CHR ''3'' \<longleftrightarrow> d = 3"
    using digit_chr_eq [OF assms, of 0] digit_chr_eq [OF assms, of 1] digit_chr_eq [OF assms, of 2]
      digit_chr_eq [OF assms, of 3] by simp_all
qed

lemma show2_literals: "show2 23 = ''23''" "show2 59 = ''59''"
  by (simp_all add: show2_def digit_chr_def char_of_def bit_simps bit_0)

lemma day_text_end: "day_text y m d @ ''T23:59:59Z'' = canonical y m d 23 59 59"
  by (simp add: day_text_def canonical_def show2_literals)

lemma date_only_day_text:
  assumes "2000 \<le> y" and "y < 3000" and "1 \<le> m" and "m \<le> 12" and "1 \<le> d" and "d \<le> 31"
  shows "date_only (day_text y m d) \<longleftrightarrow> d \<noteq> 10 \<and> d \<noteq> 20"
proof -
  have y: "y div 100 div 10 = 2" using assms(1,2) by (simp flip: div_mult2_eq)
  have r: "m div 10 < 10" "d div 10 < 10" "y mod 100 div 10 < 10"
    using assms by (simp_all add: div_less_iff_less_mult)
  have m: "(m div 10 = 0 \<and> m mod 10 \<noteq> 0) \<or> (m div 10 = 1 \<and> m mod 10 \<in> {0, 1, 2})"
  proof -
    have "\<forall>m \<in> set [1..<13]. (m div 10 = 0 \<and> m mod 10 \<noteq> 0) \<or> (m div 10 = 1 \<and> (m mod 10 = 0 \<or> m mod 10 = 1 \<or> m mod 10 = (2 :: nat)))"
      by code_simp
    then show ?thesis using assms(3,4) by auto
  qed
  have d: "(d div 10 \<in> {0, 1, 2} \<and> d mod 10 \<noteq> 0) \<or> (d div 10 = 3 \<and> d mod 10 \<in> {0, 1}) \<longleftrightarrow> d \<noteq> 10 \<and> d \<noteq> 20"
  proof -
    have "\<forall>d \<in> set [1..<32]. ((d div 10 = 0 \<or> d div 10 = 1 \<or> d div 10 = 2) \<and> d mod 10 \<noteq> 0) \<or>
        (d div 10 = 3 \<and> (d mod 10 = 0 \<or> d mod 10 = 1)) \<longleftrightarrow> d \<noteq> 10 \<and> d \<noteq> (20 :: nat)"
      by code_simp
    then show ?thesis using assms(5,6) by simp
  qed
  have "date_only (day_text y m d) \<longleftrightarrow>
      ((m div 10 = 0 \<and> m mod 10 \<noteq> 0) \<or> (m div 10 = 1 \<and> m mod 10 \<in> {0, 1, 2})) \<and>
      ((d div 10 \<in> {0, 1, 2} \<and> d mod 10 \<noteq> 0) \<or> (d div 10 = 3 \<and> d mod 10 \<in> {0, 1}))"
    using r y by (simp add: date_only_def day_text_def show4_def show2_def digit_chr_digit digit_chr_literals)
  then show ?thesis by (simp only: m d simp_thms)
qed

lemma fromdate_day:
  assumes "valid_date (int y) (int m) (int d)" and "2000 \<le> y" and "y < 3000"
  shows "fromdate (day_text y m d) =
    (if d = 10 \<or> d = 20 then Inl (Exc EValueError ''time data does not match format'')
     else Inr (civil_time (int y) (int m) (int d) 23 59 59 0))"
proof (cases "d = 10 \<or> d = 20")
  case False
  then have "date_only (day_text y m d)"
    using date_only_day_text [OF assms(2,3)] valid_dateD [OF assms(1)] by auto
  then show ?thesis using assms False
    by (simp add: fromdate_def day_text_end strptime_def canonical_readings)
next
  case True
  note v = valid_dateD [OF assms(1)]
  have nd: "\<not> date_only (day_text y m d)"
    using True date_only_day_text [OF assms(2,3)] v by auto
  have nl: "last (day_text y m d) \<noteq> newline"
  proof -
    have "(of_char (digit_chr (d mod 10)) :: nat) = 48 + d mod 10"
      using mod_less_divisor [of 10 d] by (simp add: digit_chr_def)
    then show ?thesis by (auto simp: day_text_def show2_def)
  qed
  have end_day: "andthen (field (\<lambda>v. 1 \<le> v \<and> v \<le> 31) (\<lambda>v. 1 \<le> v) (show2 d)) (\<lambda>x s. andthen (literal ''T'' s) (g x)) = []"
    for g :: "int \<Rightarrow> unit \<Rightarrow> string \<Rightarrow> 'a reading"
  proof -
    have "literal ''T'' [] = []" "literal ''T'' [digit_chr (d mod 10)] = []"
      using separator_not_digit [of "CHR ''T''"] by (auto simp: literal_def) (metis mod_less_divisor zero_less_numeral)
    then show ?thesis using v two_digits_show2 [of d _ "[]"] one_digit_show2 [of d _ "[]"]
      by (simp add: field_def andthen_append andthen_Cons)
  qed
  have "civil_readings fr (day_text y m d) = []" for fr
    using v by (simp add: civil_readings_def day_text_def four_literal field_sep end_day)
  then show ?thesis using nd nl True by (simp add: fromdate_def strptime_def)
qed

section \<open>Properties\<close>

lemma fromdate_end_of_day:
  assumes "valid_date (int y) (int m) (int d)" and "2000 \<le> y" and "y < 3000"
  shows "fromdate (day_text y m d) =
    (if d = 10 \<or> d = 20 then Inl (Exc EValueError ''time data does not match format'')
     else Inr (civil_time (int y) (int m) (int d) 23 59 59 0))"
  using fromdate_day [OF assms] .

lemma fromdate_end_of_day_witness:
  "fromdate (day_text 2021 6 2) = Inr 1622678399000000 \<and> (\<exists>e. fromdate (day_text 2021 6 20) = Inl e)"
proof -
  have "valid_date 2021 6 2" "valid_date 2021 6 20" "civil_time 2021 6 2 23 59 59 0 = 1622678399000000"
    by code_simp+
  then show ?thesis using fromdate_end_of_day [of 2021 6 2] fromdate_end_of_day [of 2021 6 20] by simp
qed

lemma fromdate_timestamp:
  assumes "valid_date (int y) (int m) (int d)" and "h < 24" and "mi < 60" and "se < 60"
  shows "fromdate (canonical y m d h mi se) = Inr (civil_time (int y) (int m) (int d) (int h) (int mi) (int se) 0)"
  using fromdate_canonical [OF assms] .

lemma fromdate_timestamp_witness: "fromdate (canonical 2021 6 20 22 15 0) = Inr 1624227300000000"
proof -
  have "valid_date 2021 6 20" "civil_time 2021 6 20 22 15 0 0 = 1624227300000000" by code_simp+
  then show ?thesis using fromdate_timestamp [of 2021 6 20 22 15 0] by simp
qed

end
