(* ===== verification/Crud.thy ===== *)
theory Crud imports Account_Settings Dates begin

text \<open>
  apicrud/basic_crud.py and the part of apicrud/geocode.py it calls: the create, get, update, delete
  and find controllers that every resource inherits. A handler yields its response, a body and an
  HTTP status; \<open>create\<close> also yields the request body as it leaves it, which callers read.
\<close>

section \<open>Helpers\<close>

definition bad_id :: resp where
  "bad_id = ([(''message'', PStr ''id is a read-only property''), (''title'', PStr ''Bad Request'')], 405)"

definition denied_id :: "pyval \<Rightarrow> resp" where
  "denied_id ident = ([(''message'', PStr ''access denied''), (''id'', ident)], 403)"

text \<open>\<open>database.db_abort\<close>: it rolls back whether or not its argument asks for it.\<close>

definition db_abort :: "('d, 'r, 'c) env \<Rightarrow> (('d, 'r, 'c) world, resp) py" where
  "db_abort E = bnd (rollback E) (\<lambda>_. ret (msg_resp ''DB operational error'' 500))"

text \<open>\<open>state.controllers[request.url_rule.rule.split('/')[3]]\<close>: the resource and its model.\<close>

definition controller :: "('d, 'r, 'c) env \<Rightarrow> exc + (string \<times> string)" where
  "controller E = (case py_split (CHR ''/'') (rq_rule (e_req E)) of
       _ # _ # _ # res # _ \<Rightarrow>
         (case map_of (e_controllers E) res of
            Some m \<Rightarrow> Inr (res, m)
          | None \<Rightarrow> Inl (Exc EKeyError res))
     | _ \<Rightarrow> Inl (Exc EIndexError ''list index out of range''))"

definition model_attr :: "('d, 'r, 'c) env \<Rightarrow> string \<Rightarrow> exc + string" where
  "model_attr E m = (if m \<in> set (e_models E) then Inr m
     else Inl (Exc EAttributeError (''module has no attribute '' @ m)))"

definition column_of :: "('d, 'r, 'c) env \<Rightarrow> string \<Rightarrow> string \<Rightarrow> exc + colref" where
  "column_of E m a = (if e_attrs E m a then Inr (m, a)
     else Inl (Exc EAttributeError (''type object has no attribute '' @ a)))"

text \<open>\<open>_tob64\<close>, \<open>_fromb64\<close>.\<close>

definition tob64 :: "string \<Rightarrow> string" where
  "tob64 s = b64encode (utf8_encode s)"

definition fromb64 :: "string \<Rightarrow> exc + string" where
  "fromb64 s = (case b64decode (utf8_encode s) of
       Inl e \<Rightarrow> Inl e
     | Inr t \<Rightarrow> if ascii t then Inr t else Inl (Exc EValueError ''ascii codec can't decode byte''))"

text \<open>\<open>if body.get('expires'): body['expires'] = self._fromdate(body['expires'])\<close>.\<close>

definition convert_expires :: "dict \<Rightarrow> exc + dict" where
  "convert_expires body =
     (if truthy (dget body ''expires'')
      then (case dget body ''expires'' of
          PStr s \<Rightarrow> (case fromdate s of Inl e \<Rightarrow> Inl e | Inr t \<Rightarrow> Inr (dset body ''expires'' (PTime t)))
        | _ \<Rightarrow> Inl (Exc ETypeError ''expected string''))
      else Inr body)"

text \<open>The elements that iterating over a value yields; \<open>len\<close> and \<open>set\<close> take the same values.\<close>

definition elements :: "pyval \<Rightarrow> exc + pyval list" where
  "elements v = (case v of
       PList xs \<Rightarrow> Inr xs
     | PStr s \<Rightarrow> Inr (map (\<lambda>c. PStr [c]) s)
     | PDict d \<Rightarrow> Inr (map (\<lambda>e. PStr (fst e)) d)
     | _ \<Rightarrow> Inl (Exc ETypeError ''object is not iterable''))"

text \<open>The constructor of a model: TypeError for a keyword that is no attribute of it.\<close>

definition build_record :: "('d, 'r, 'c) env \<Rightarrow> string \<Rightarrow> dict \<Rightarrow> exc + dict" where
  "build_record E m body =
     (case find (\<lambda>e. \<not> e_attrs E m (fst e)) body of
        Some (k, _) \<Rightarrow> Inl (Exc ETypeError (k @ '' is an invalid keyword argument for '' @ m))
      | None \<Rightarrow> (case find (\<lambda>e. fst e \<in> set (e_hybrid E m)) body of
            Some _ \<Rightarrow> Inl (Exc EAttributeError ''can't set attribute'')
          | None \<Rightarrow> Inr body))"

section \<open>Contacts: checks before a create or an update\<close>

text \<open>
  The address of a contact: mobile numbers lose their punctuation, email addresses are normalized.
  \<open>Inl\<close> is a response, a missing or non-string \<open>info\<close> raises.
\<close>

definition string_info :: "ekind \<Rightarrow> dict \<Rightarrow> exc + string" where
  "string_info kind body = (case dsub body ''info'' of
       Inl e \<Rightarrow> Inl e
     | Inr (PStr s) \<Rightarrow> Inr s
     | Inr _ \<Rightarrow> Inl (Exc kind ''expected string''))"

definition contact_info :: "dict \<Rightarrow> exc + (resp + dict)" where
  "contact_info body =
     (if dget body ''type'' = PStr ''sms'' then
        (if dget body ''carrier'' = PNone then Inr (Inl (msg_resp ''carrier required for sms'' 405))
         else (case string_info ETypeError body of
             Inl e \<Rightarrow> Inl e
           | Inr s \<Rightarrow> if \<not> phone_match s then Inr (Inl (msg_resp ''invalid mobile number'' 405))
                     else Inr (Inr (dset body ''info'' (PStr (phone_strip s))))))
      else if dget body ''type'' = PStr ''email'' then
        (case string_info EAttributeError body of
           Inl e \<Rightarrow> Inl e
         | Inr s \<Rightarrow> (case identity_normalize (str_strip s) of
             None \<Rightarrow> Inl (Exc ETypeError ''expected string'')
           | Some t \<Rightarrow> if \<not> email_match t then Inr (Inl (msg_resp ''invalid email address'' 405))
                      else Inr (Inr (dset body ''info'' (PStr t)))))
      else Inr (Inr body))"

text \<open>\<open>_create_contact\<close>: a response and the body it leaves; 201 means that the create goes on.\<close>

definition create_contact :: "('d, 'r, 'c) env \<Rightarrow> dict \<Rightarrow> (('d, 'r, 'c) world, resp \<times> dict) py" where
  "create_contact E body0 =
     bnd (access_control E None) (\<lambda>acc.
     bnd (of_result (contact_info body0)) (\<lambda>checked. case checked of
       Inl response \<Rightarrow> ret (response, body0)
     | Inr body \<Rightarrow>
         if dhas body ''type'' \<and> dget body ''type'' \<notin> {PStr ''sms'', PStr ''email''}
         then ret (msg_resp ''contact type not yet supported'' 405, body)
         else bnd (if truthy (dget body ''rank'') then ret (Inr body)
                   else try_catch
                     (bnd (run_count E (filter_by [(''uid'', dget body ''uid''), (''type'', dget body ''type'')]
                         (query_of ''Contact''))) (\<lambda>n.
                      ret (Inr (dset body ''rank'' (PInt (int n + 1))))))
                     (\<lambda>ex. bnd (db_abort E) (\<lambda>response. ret (Inl response)))) (\<lambda>ranked. case ranked of
           Inl response \<Rightarrow> ret (response, body)
         | Inr body \<Rightarrow>
             bnd (if dget_or body ''uid'' (ac_uid acc) = ac_uid acc then ret True
                  else case ac_auth acc of
                    None \<Rightarrow> raise_exc (Exc ETypeError ''argument of type NoneType is not iterable'')
                  | Some roles \<Rightarrow> ret (''admin'' \<in> set roles)) (\<lambda>allowed.
             if \<not> allowed then ret (msg_resp ''access denied'' 403, body)
             else ret (([(''status'', PStr ''ok'')], 201),
               if truthy (dget body ''status'') then body else dset body ''status'' (PStr ''unconfirmed''))))))"

section \<open>Related records\<close>

definition related_model :: "string \<Rightarrow> string" where
  "related_model a = (if a = ''members'' then ''Person'' else strip_char (CHR ''s'') (capitalize a))"

definition link_related ::
    "('d, 'r, 'c) env \<Rightarrow> string \<Rightarrow> string \<Rightarrow> pyval \<Rightarrow> string \<Rightarrow> pyval \<Rightarrow> (('d, 'r, 'c) world, unit) py" where
  "link_related E m model ident a rel_id =
     bnd (run_one E (filter_by [(''id'', rel_id)] (query_of model))) (\<lambda>row.
     on_db (db_append (e_db E) m ident a (dget row ''id'')))"

definition unlink_related ::
    "('d, 'r, 'c) env \<Rightarrow> string \<Rightarrow> string \<Rightarrow> pyval \<Rightarrow> string \<Rightarrow> pyval \<Rightarrow> (('d, 'r, 'c) world, unit) py" where
  "unlink_related E m model ident a rel_id =
     bnd (run_one E (filter_by [(''id'', rel_id)] (query_of model))) (\<lambda>row.
     on_db (db_remove (e_db E) m ident a (dget row ''id'')))"

text \<open>\<open>len(xs) > limit\<close>: TypeError for a limit that is no number.\<close>

definition longer :: "pyval list \<Rightarrow> pyval \<Rightarrow> exc + bool" where
  "longer xs limit = map_sum id Not (py_ge limit (PInt (int (length xs))))"

text \<open>
  \<open>_update_related\<close>: links what is missing, unlinks what is not listed, commits. The order in which
  a Python set is walked is not specified; the model takes that of the list.
\<close>

definition update_related ::
    "('d, 'r, 'c) env \<Rightarrow> string \<Rightarrow> pyval \<Rightarrow> string \<Rightarrow> pyval \<Rightarrow> pyval option \<Rightarrow> (('d, 'r, 'c) world, resp) py" where
  "update_related E m ident a ids limit =
     bnd (case limit of
            None \<Rightarrow> ret False
          | Some v \<Rightarrow> if \<not> truthy v then ret False
                     else bnd (of_result (elements ids)) (\<lambda>xs. of_result (longer xs v))) (\<lambda>over.
     if over then ret ([(''message'', PStr ''Limit exceeded''), (''allowed'', the limit)], 405)
     else bnd (of_result (model_attr E (related_model a))) (\<lambda>model.
     bnd (run_one E (filter_by [(''id'', ident)] (query_of m))) (\<lambda>row.
     bnd (reads (\<lambda>w. db_related (e_db E) m (dget row ''id'') a (w_db w))) (\<lambda>rs.
     bnd (of_result (elements ids)) (\<lambda>xs.
     let current = map (\<lambda>r. dget r ''id'') rs
     in bnd (for_each (link_related E m model ident a) (filter (\<lambda>x. x \<notin> set current) (remdups xs))) (\<lambda>_.
        bnd (on_db (db_flush (e_db E))) (\<lambda>_.
        bnd (for_each (unlink_related E m model ident a) (filter (\<lambda>x. x \<notin> set xs) (remdups current))) (\<lambda>_.
        bnd (commit E) (\<lambda>_.
        ret ([(''id'', ident), (''status'', PStr ''ok''), (''items'', PInt (int (length xs)))], 200))))))))))"

text \<open>
  The related records named in a body, and the body without them; a limit that is exceeded ends the
  loop with what has been removed so far.
\<close>

fun take_related ::
    "(string \<times> pyval) list \<Rightarrow> string list \<Rightarrow> dict \<Rightarrow> exc + (bool \<times> dict)" where
  "take_related limits [] body = Inr (True, body)"
| "take_related limits (a # as) body =
     (case (if dhas body a then map_of limits a else None) of
        None \<Rightarrow> take_related limits as (ddel body a)
      | Some v \<Rightarrow> (case elements (dget body a) of
          Inl e \<Rightarrow> Inl e
        | Inr xs \<Rightarrow> (case longer xs v of
            Inl e \<Rightarrow> Inl e
          | Inr over \<Rightarrow> if over then Inr (False, body) else take_related limits as (ddel body a))))"

definition related_items :: "string list \<Rightarrow> dict \<Rightarrow> dict" where
  "related_items as body = map (\<lambda>a. (a, dget body a)) (filter (dhas body) as)"

section \<open>Create\<close>

text \<open>
  The category a new record gets where it has none: that of the account's settings, else that of the
  event it belongs to. \<open>None\<close> stands for a caller without credentials.
\<close>

definition new_category ::
    "('d, 'r, 'c) env \<Rightarrow> string \<Rightarrow> access \<Rightarrow> dict \<Rightarrow> (('d, 'r, 'c) world, dict option) py" where
  "new_category E m acc body =
     (if \<not> truthy (dget body ''category_id'') \<and> e_attrs E m ''category_id'' then
        (if truthy (ac_account_id acc) then
           bnd (settings_of E (cf_APPROVED_SENDERS (e_cfg E)) (ac_account_id acc) PNone) (\<lambda>s.
           ret (Some (dset body ''category_id'' (dget s ''category_id''))))
         else if truthy (dget body ''event_id'') then
           bnd (of_result (model_attr E ''Event'')) (\<lambda>event.
           bnd (run_one E (filter_by [(''id'', dget body ''event_id'')] (query_of event))) (\<lambda>row.
           ret (Some (dset body ''category_id'' (dget row ''category_id'')))))
         else ret None)
      else ret (Some body))"

definition grant_name :: "string \<Rightarrow> string" where
  "grant_name resource = (if ends_with ''s'' resource then resource else resource @ ''s'')"

text \<open>Whether the user already has as many records as the grant allows.\<close>

definition over_limit ::
    "('d, 'r, 'c) env \<Rightarrow> string \<Rightarrow> string \<Rightarrow> pyval \<Rightarrow> pyval \<Rightarrow> (('d, 'r, 'c) world, bool) py" where
  "over_limit E m grant uid limit =
     (if dhas (cf_DEFAULT_GRANTS (e_cfg E)) grant then
        bnd (run_count E (filter_by [(''uid'', uid)] (query_of m))) (\<lambda>n.
        of_result (py_ge (PInt (int n)) limit))
      else ret False)"

text \<open>A new API key's prefix and hash go into the body; its secret is returned once.\<close>

definition new_secret ::
    "('d, 'r, 'c) env \<Rightarrow> string \<Rightarrow> dict \<Rightarrow> (('d, 'r, 'c) world, dict \<times> dict) py" where
  "new_secret E resource body =
     (if resource = ''apikey'' then
        bnd (apikey_create E) (\<lambda>(prefix, secret, hashvalue).
        bnd (of_result (dsub body ''name'')) (\<lambda>name.
        ret (dset (dset body ''prefix'' (PStr prefix)) ''hashvalue'' (PStr hashvalue),
             [(''apikey'', PStr (prefix @ ''.'' @ secret)), (''name'', name)])))
      else ret (body, []))"

text \<open>
  The insertion. A conflict is reported with the body that caused it (the code prints the dict, the
  model keeps it).
\<close>

definition insert_record ::
    "('d, 'r, 'c) env \<Rightarrow> string \<Rightarrow> string \<Rightarrow> dict \<Rightarrow> dict \<Rightarrow> dict \<Rightarrow> (('d, 'r, 'c) world, resp) py" where
  "insert_record E m ident record related info =
     bnd (session_add E m record) (\<lambda>_.
     try_catch
       (bnd (if related = [] then ret ()
             else bnd (commit E) (\<lambda>_.
                  for_each (\<lambda>(a, ids). bnd (update_related E m (PStr ident) a ids None) (\<lambda>_. ret ())) related)) (\<lambda>_.
        bnd (commit E) (\<lambda>_.
        ret ((''id'', PStr ident) # info, 201))))
       (\<lambda>ex. if exc_kind ex = EIntegrityError
             then ret ([(''message'', PStr ''duplicate or other conflict''), (''data'', PDict record)], 405)
             else db_abort E))"

definition create_row ::
    "('d, 'r, 'c) env \<Rightarrow> string \<Rightarrow> string \<Rightarrow> string \<Rightarrow> (string \<times> pyval) list \<Rightarrow> dict \<Rightarrow>
     (('d, 'r, 'c) world, resp \<times> dict) py" where
  "create_row E resource m ident limits body0 =
     (let related = (case e_related E m of None \<Rightarrow> [] | Some as \<Rightarrow> as)
      in bnd (of_result (take_related limits related body0)) (\<lambda>(fits, body1).
         if \<not> fits then ret (msg_resp ''limit exceeded'' 405, body1)
         else bnd (new_secret E resource body1) (\<lambda>(body, info).
         case build_record E m body of
           Inl ex \<Rightarrow> ret (msg_resp (exc_msg ex) 405, body)
         | Inr record \<Rightarrow>
             bnd (insert_record E m ident record (related_items related body0) info) (\<lambda>response.
             ret (response, body)))))"

text \<open>The steps of \<open>create\<close> once the caller's permission is established.\<close>

definition create_allowed ::
    "('d, 'r, 'c) env \<Rightarrow> string \<Rightarrow> string \<Rightarrow> access \<Rightarrow> string \<Rightarrow> (string \<times> pyval) list \<Rightarrow> dict \<Rightarrow>
     (('d, 'r, 'c) world, resp \<times> dict) py" where
  "create_allowed E resource m acc ident limits body0 =
     (let uid = dget body0 ''uid''; grant = grant_name resource
      in bnd (new_category E m acc body0) (\<lambda>categorized. case categorized of
           None \<Rightarrow> ret (msg_resp ''access denied'' 403, body0)
         | Some body1 \<Rightarrow>
             let body = (if e_attrs E m ''status'' then dset body1 ''status'' (dget_or body1 ''status'' (PStr ''active''))
                         else body1)
             in bnd (grants_get E grant uid) (\<lambda>limit.
                bnd (over_limit E m grant uid limit) (\<lambda>over.
                if over then ret (([(''message'', PStr ''user limit exceeded''), (''allowed'', limit)], 405), body)
                else create_row E resource m ident limits body))))"

definition crud_create ::
    "('d, 'r, 'c) env \<Rightarrow> dict \<Rightarrow> string \<Rightarrow> (string \<times> pyval) list \<Rightarrow> (('d, 'r, 'c) world, resp \<times> dict) py" where
  "crud_create E body0 id_prefix limits =
     bnd (of_result (controller E)) (\<lambda>(resource, m).
     bnd (if resource = ''contact'' then create_contact E body0 else ret (([], 201), body0)) (\<lambda>(checked, body1).
     if snd checked \<noteq> 201 then ret (checked, body1)
     else bnd (access_control E (Some m)) (\<lambda>acc.
     if dhas body1 ''id'' then ret (bad_id, body1)
     else bnd (gen_id 8 id_prefix id_chars) (\<lambda>ident.
     bnd (gets w_now) (\<lambda>now.
     let body2 = dset (dset body1 ''id'' (PStr ident)) ''created'' (PTime now)
     in case convert_expires body2 of
          Inl _ \<Rightarrow> ret (msg_resp ''invalid date'' 405, body2)
        | Inr body3 \<Rightarrow>
            let body = (if e_attrs E m ''uid'' \<and> \<not> truthy (dget body3 ''uid'')
                        then dset body3 ''uid'' (ac_uid acc) else body3)
            in bnd (with_permission E acc (CHR ''c'') None (dget body ''uid'') (PStr (ac_primary acc))
                 (dget body ''event_id'')) (\<lambda>allowed.
               if \<not> allowed then ret (msg_resp ''access denied'' 403, body)
               else create_allowed E resource m acc ident limits body))))))"

section \<open>Get\<close>

text \<open>
  \<open>geocode.with_privacy\<close>: coordinates are stored with seven decimals; only those who may read the
  record, and its owner, get them at full precision, others get four decimals and no street address.
\<close>

definition degrees :: "pyval \<Rightarrow> rat" where
  "degrees v = (case v of PInt i \<Rightarrow> of_int i / 10000000 | _ \<Rightarrow> 0)"

text \<open>\<open>round(x, 4)\<close>: to even where two are equally close.\<close>

definition round_even :: "rat \<Rightarrow> int" where
  "round_even x = (let f = \<lfloor>x\<rfloor>; d = x - of_int f
     in if d < 1/2 then f else if d > 1/2 then f + 1 else if even f then f else f + 1)"

definition round4 :: "rat \<Rightarrow> rat" where
  "round4 x = of_int (round_even (x * 10000)) / 10000"

definition with_privacy ::
    "('d, 'r, 'c) env \<Rightarrow> dict \<Rightarrow> bool \<Rightarrow> (('d, 'r, 'c) world, dict) py" where
  "with_privacy E record readable =
     bnd (if readable then ret True
          else bnd (of_result (dsub record ''uid'')) (\<lambda>owner.
               bnd (access_control E None) (\<lambda>acc. ret (owner = ac_uid acc)))) (\<lambda>full.
     let located = truthy (dget record ''geolat'') \<and> truthy (dget record ''geolong'');
         long = degrees (dget record ''geolong''); lat = degrees (dget record ''geolat'');
         record' =
           (if \<not> located then record
            else if full then dset record ''geo'' (PList [PFloat long, PFloat lat])
            else (let r = dset record ''geo'' (PList [PFloat (round4 long), PFloat (round4 lat)])
                  in if dhas r ''address'' then dset r ''address'' (PStr []) else r))
     in ret (ddel (ddel record' ''geolong'') ''geolat''))"

text \<open>The names of a record's owner and category, looked up for the response.\<close>

definition add_owner ::
    "('d, 'r, 'c) env \<Rightarrow> string \<Rightarrow> dict \<Rightarrow> bool \<Rightarrow> dict \<Rightarrow> (('d, 'r, 'c) world, dict) py" where
  "add_owner E m row wanted d =
     (if wanted then bnd (related_one E m row ''owner'') (\<lambda>p. ret (dset d ''owner'' (dget p ''name''))) else ret d)"

definition add_category ::
    "('d, 'r, 'c) env \<Rightarrow> string \<Rightarrow> dict \<Rightarrow> bool \<Rightarrow> dict \<Rightarrow> (('d, 'r, 'c) world, dict) py" where
  "add_category E m row wanted d =
     (if wanted then bnd (related_one E m row ''category'') (\<lambda>c. ret (dset d ''category'' (dget c ''name''))) else ret d)"

definition drop_modified :: "dict \<Rightarrow> dict" where
  "drop_modified d = (if dhas d ''modified'' \<and> \<not> truthy (dget d ''modified'') then ddel d ''modified'' else d)"

text \<open>The first of the caller's memberships, unless the model belongs to an event.\<close>

definition member_id :: "('d, 'r, 'c) env \<Rightarrow> string \<Rightarrow> access \<Rightarrow> pyval" where
  "member_id E m acc = (if e_attrs E m ''event_id'' then PNone
     else case ac_auth_ids acc of [] \<Rightarrow> PNone | i # _ \<Rightarrow> PStr i)"

definition not_found_message :: "exc \<Rightarrow> string" where
  "not_found_message ex = (if occurs ''No row was found'' (exc_msg ex) then ''not found'' else exc_msg ex)"

definition crud_get_row ::
    "('d, 'r, 'c) env \<Rightarrow> string \<Rightarrow> access \<Rightarrow> query \<Rightarrow> pyval \<Rightarrow> dict \<Rightarrow> (('d, 'r, 'c) world, resp) py" where
  "crud_get_row E m acc q ident row =
     bnd (row_as_dict E m row) (\<lambda>d0.
     bnd (add_owner E m row (e_attrs E m ''uid'' \<and> e_attrs E m ''owner'') d0) (\<lambda>d1.
     bnd (if e_attrs E m ''category_id'' then of_result (dsub d1 ''category_id'') else ret PNone) (\<lambda>cat.
     bnd (add_category E m row (truthy cat) d1) (\<lambda>d2.
     bnd (rbac_permissions E acc (Some q)
            (no_target\<lparr>tg_membership := PStr (ac_primary acc), tg_id := member_id E m acc\<rparr>)) (\<lambda>actions.
     let rbac = actions - {CHR ''c''};
         d = dset (drop_modified d2) ''rbac'' (PStr (rbac_string rbac));
         readable = CHR ''r'' \<in> rbac
     in if dhas d ''geolat'' then
          bnd (of_result (dsub d ''privacy'')) (\<lambda>privacy.
          if privacy = PStr ''secret'' \<and> \<not> readable then ret (msg_resp ''access denied'' 403)
          else bnd (with_privacy E d readable) (\<lambda>d'. ret (d', 200)))
        else if readable then ret (d, 200)
        else ret (fst (denied_id ident), if roles_of acc \<noteq> [] then 403 else 401))))))"

definition basic_get :: "('d, 'r, 'c) env \<Rightarrow> pyval \<Rightarrow> (('d, 'r, 'c) world, resp) py" where
  "basic_get E ident =
     bnd (of_result (controller E)) (\<lambda>(resource, m).
     bnd (access_control E (Some m)) (\<lambda>acc.
     let q = filter_by [(''id'', ident)] (query_of m)
     in bnd (try_catch (bnd (run_one E q) (\<lambda>row. ret (Inr row)))
          (\<lambda>ex. if exc_kind ex = ENoResultFound
                then ret (Inl ([(''id'', ident), (''message'', PStr (not_found_message ex))], 404))
                else raise_exc ex)) (\<lambda>r. case r of
          Inl response \<Rightarrow> ret response
        | Inr row \<Rightarrow> crud_get_row E m acc q ident row)))"

section \<open>Update\<close>

text \<open>An update that clears the flag \<open>totp\<close> clears the secret; one that sets it is ignored.\<close>

definition update_totp :: "dict \<Rightarrow> dict" where
  "update_totp body = (if dhas body ''totp''
     then (if truthy (dget body ''totp'') then ddel body ''totp'' else dset (ddel body ''totp'') ''totp_secret'' PNone)
     else body)"

text \<open>The related records of an update are committed one by one before the permission is evaluated.\<close>

fun relate_all ::
    "('d, 'r, 'c) env \<Rightarrow> string \<Rightarrow> pyval \<Rightarrow> (string \<times> pyval) list \<Rightarrow> string list \<Rightarrow> dict \<Rightarrow>
     (('d, 'r, 'c) world, resp + dict) py" where
  "relate_all E m ident limits [] body = ret (Inr body)"
| "relate_all E m ident limits (a # as) body =
     (if dhas body a then
        bnd (update_related E m ident a (dget body a) (map_of limits a)) (\<lambda>response.
        if snd response \<noteq> 200 then ret (Inl response) else relate_all E m ident limits as (ddel body a))
      else relate_all E m ident limits as body)"

text \<open>
  What the log entry of an update names twice: a changed column called like one of the entry's own
  fields makes the call of \<open>dict\<close> raise.
\<close>

definition changed_fields :: "dict \<Rightarrow> dict \<Rightarrow> string list" where
  "changed_fields current body =
     map fst (filter (\<lambda>(k, v). dhas current k \<and> dget current k \<noteq> v \<and> k \<notin> {''name'', ''modified''}) body)"

definition log_update :: "dict \<Rightarrow> dict \<Rightarrow> exc + unit" where
  "log_update current body =
     (if set (changed_fields current body) \<inter> {''action'', ''resource'', ''id'', ''ident'', ''duration''} \<noteq> {}
      then Inl (Exc ETypeError ''dict() got multiple values for keyword argument'') else Inr ())"

definition update_row ::
    "('d, 'r, 'c) env \<Rightarrow> string \<Rightarrow> pyval \<Rightarrow> dict \<Rightarrow> char \<Rightarrow> (('d, 'r, 'c) world, resp) py" where
  "update_row E m ident body act =
     (let q = filter_by [(''id'', ident)] (query_of m)
      in bnd (try_catch
           (bnd (access_control E (Some m)) (\<lambda>acc.
            bnd (with_permission E acc act (Some q) PNone PNone PNone) (\<lambda>allowed.
            if \<not> allowed then ret (Inl (denied_id ident))
            else bnd (run_one E q) (\<lambda>row.
                 bnd (row_as_dict E m row) (\<lambda>current.
                 bnd (on_db (db_update (e_db E) q body)) (\<lambda>_.
                 bnd (commit E) (\<lambda>_.
                 ret (Inr current))))))))
           (\<lambda>ex. if exc_kind ex = EIntegrityError
                 then ret (Inl ([(''message'', PStr ''duplicate or other conflict''), (''data'', PStr (exc_msg ex))], 405))
                 else bnd (db_abort E) (\<lambda>response. ret (Inl response)))) (\<lambda>r. case r of
           Inl response \<Rightarrow> ret response
         | Inr current \<Rightarrow>
             bnd (of_result (log_update current body)) (\<lambda>_.
             ret ([(''id'', ident), (''message'', PStr ''updated'')], 200))))"

definition basic_update ::
    "('d, 'r, 'c) env \<Rightarrow> pyval \<Rightarrow> dict \<Rightarrow> char \<Rightarrow> (string \<times> pyval) list \<Rightarrow> (('d, 'r, 'c) world, resp) py" where
  "basic_update E ident body0 act limits =
     (if dhas body0 ''id'' \<and> dget body0 ''id'' \<noteq> ident then ret bad_id
      else bnd (of_result (controller E)) (\<lambda>(resource, m).
      bnd (gets w_now) (\<lambda>now.
      case convert_expires (dset body0 ''modified'' (PTime now)) of
        Inl _ \<Rightarrow> ret (msg_resp ''invalid date'' 405)
      | Inr body1 \<Rightarrow>
          bnd (relate_all E m ident limits (case e_related E m of None \<Rightarrow> [] | Some as \<Rightarrow> as)
                 (update_totp body1)) (\<lambda>r. case r of
            Inl response \<Rightarrow> ret response
          | Inr body \<Rightarrow>
              bnd (access_control E None) (\<lambda>_. update_row E m ident body act)))))"

section \<open>Delete\<close>

text \<open>One record of a deletion: \<open>Return\<close> ends the request, \<open>Continue\<close> counts the failures.\<close>

definition delete_one ::
    "('d, 'r, 'c) env \<Rightarrow> string \<Rightarrow> bool \<Rightarrow> pyval \<Rightarrow> nat \<Rightarrow> (('d, 'r, 'c) world, (nat, resp) flow) py" where
  "delete_one E m force ident errors =
     (let q = filter_by [(''id'', ident)] (query_of m)
      in try_catch
           (bnd (access_control E (Some m)) (\<lambda>acc.
            bnd (with_permission E acc (CHR ''d'') (Some q) PNone PNone PNone) (\<lambda>allowed.
            if \<not> allowed then ret (Return (denied_id ident))
            else if force then
              bnd (on_db (db_delete (e_db E) q)) (\<lambda>n. ret (Continue (if n = 0 then errors + 1 else errors)))
            else
              bnd (on_db (db_update (e_db E) q [(''status'', PStr ''disabled'')])) (\<lambda>_. ret (Continue errors)))))
           (\<lambda>ex. bnd (db_abort E) (\<lambda>response. ret (Return response))))"

definition finish_delete :: "('d, 'r, 'c) env \<Rightarrow> nat \<Rightarrow> (('d, 'r, 'c) world, resp) py" where
  "finish_delete E errors =
     try_catch (bnd (commit E) (\<lambda>_. ret ([], if errors = 0 then 204 else 404))) (\<lambda>ex. db_abort E)"

definition basic_delete ::
    "('d, 'r, 'c) env \<Rightarrow> pyval list \<Rightarrow> bool \<Rightarrow> (('d, 'r, 'c) world, resp) py" where
  "basic_delete E ids force =
     bnd (of_result (controller E)) (\<lambda>(resource, m).
     bnd (access_control E None) (\<lambda>_.
     bnd (for_loop (delete_one E m force) ids 0) (\<lambda>fl. case fl of
       Return response \<Rightarrow> ret response
     | Continue errors \<Rightarrow> finish_delete E errors)))"

section \<open>Find\<close>

definition PER_PAGE_DEFAULT :: int where
  "PER_PAGE_DEFAULT = 100"

text \<open>\<open>int(v)\<close> of a query parameter.\<close>

definition int_of :: "pyval \<Rightarrow> exc + int" where
  "int_of v = (case v of
       PInt i \<Rightarrow> Inr i
     | PStr s \<Rightarrow> (case py_int s of Some i \<Rightarrow> Inr i | None \<Rightarrow> Inl (Exc EValueError ''invalid literal for int()''))
     | _ \<Rightarrow> Inl (Exc ETypeError ''int() argument must be a string or a number''))"

definition str_of :: "pyval \<Rightarrow> exc + string" where
  "str_of v = (case v of PStr s \<Rightarrow> Inr s | _ \<Rightarrow> Inl (Exc ETypeError ''expected string''))"

text \<open>The pieces of a pagination cursor; \<open>cursor_field n\<close> is \<open>split(':')[n]\<close>.\<close>

definition cursor_field :: "dict \<Rightarrow> nat \<Rightarrow> exc + string" where
  "cursor_field kwargs n =
     (case str_of (dget kwargs ''cursor_next'') of
        Inl e \<Rightarrow> Inl e
      | Inr s \<Rightarrow> (case fromb64 s of
          Inl e \<Rightarrow> Inl e
        | Inr t \<Rightarrow> (let fields = py_split (CHR '':'') t
                   in if n < length fields then Inr (fields ! n)
                      else Inl (Exc EIndexError ''list index out of range''))))"

definition find_offset :: "dict \<Rightarrow> exc + int" where
  "find_offset kwargs =
     (if dhas kwargs ''cursor_next''
      then (case cursor_field kwargs 1 of Inl e \<Rightarrow> Inl e | Inr s \<Rightarrow> int_of (PStr s))
      else if dhas kwargs ''offset'' then int_of (dget kwargs ''offset'') else Inr 0)"

text \<open>The sort column and whether the order is descending.\<close>

definition find_sort :: "dict \<Rightarrow> string \<Rightarrow> exc + (string \<times> bool)" where
  "find_sort kwargs dflt =
     (case str_of (dget_or kwargs ''sort'' (PStr dflt)) of
        Inl e \<Rightarrow> Inl e
      | Inr s \<Rightarrow> (case py_split (CHR '':'') s of
          [a] \<Rightarrow> Inr (a, False)
        | [a, dir] \<Rightarrow> Inr (a, dir = ''desc'')
        | _ \<Rightarrow> Inl (Exc EValueError ''too many values to unpack'')))"

text \<open>
  The search filter: \<open>Inr None\<close> where the answer is known to be empty. An \<open>id\<close> that is null is
  dropped, unless it is the only condition.
\<close>

definition find_filter :: "dict \<Rightarrow> exc + dict option" where
  "find_filter kwargs =
     (case str_of (dget_or kwargs ''filter'' (PStr ''{}'')) of
        Inl e \<Rightarrow> Inl e
      | Inr s \<Rightarrow> (case json_loads s of
          Inl e \<Rightarrow> Inl e
        | Inr (PDict d) \<Rightarrow>
            if dhas d ''id'' then
              (if truthy (dget d ''id'') then Inr (Some d)
               else if length d = 1 then Inr None else Inr (Some (ddel d ''id'')))
            else if dhas kwargs ''filter'' \<and> d = [] then Inr None else Inr (Some d)
        | Inr (PList xs) \<Rightarrow>
            if xs = [] then Inr None else Inl (Exc EAttributeError ''list object has no attribute get'')
        | Inr (PStr t) \<Rightarrow>
            if t = [] then Inr None else Inl (Exc EAttributeError ''str object has no attribute get'')
        | Inr _ \<Rightarrow> Inl (Exc ETypeError ''argument is not iterable'')))"

text \<open>
  The loop over the filter: wildcards are dropped, patterns and lists become conditions of the query,
  what is left is for \<open>filter_by\<close>.
\<close>

definition filter_key ::
    "('d, 'r, 'c) env \<Rightarrow> string \<Rightarrow> string \<Rightarrow> dict \<Rightarrow> query \<Rightarrow> exc + (dict \<times> query)" where
  "filter_key E m k flt q =
     (case dget flt k of
        PStr s \<Rightarrow>
          if s = ''*'' then Inr (ddel flt k, q)
          else if CHR ''%'' \<in> set s
          then (case column_of E m k of Inl e \<Rightarrow> Inl e | Inr c \<Rightarrow> Inr (ddel flt k, where_cond (CLike c s) q))
          else Inr (flt, q)
      | PList [x] \<Rightarrow> Inr (ddel flt k @ [(k, x)], q)
      | PList xs \<Rightarrow> (case column_of E m k of Inl e \<Rightarrow> Inl e | Inr c \<Rightarrow> Inr (ddel flt k, where_cond (CIn c xs) q))
      | _ \<Rightarrow> Inr (flt, q))"

fun filter_keys ::
    "('d, 'r, 'c) env \<Rightarrow> string \<Rightarrow> string list \<Rightarrow> dict \<Rightarrow> query \<Rightarrow> exc + (dict \<times> query)" where
  "filter_keys E m [] flt q = Inr (flt, q)"
| "filter_keys E m (k # ks) flt q = (case filter_key E m k flt q of
       Inl e \<Rightarrow> Inl e | Inr (flt', q') \<Rightarrow> filter_keys E m ks flt' q')"

definition twelve_hours :: int where
  "twelve_hours = 43200000000"

definition filter_starts ::
    "('d, 'r, 'c) env \<Rightarrow> string \<Rightarrow> int \<Rightarrow> dict \<Rightarrow> query \<Rightarrow> dict \<times> query" where
  "filter_starts E m now flt q =
     (if e_attrs E m ''starts'' then
        (ddel flt ''prev'',
         where_cond (if truthy (dget flt ''prev'') then CLt (m, ''starts'') (PTime now)
                     else CGt (m, ''starts'') (PTime (now - twelve_hours))) q)
      else (flt, q))"

text \<open>\<open>filter_by(**filter)\<close>: InvalidRequestError for a key that is no property of the model.\<close>

definition filter_by_checked :: "('d, 'r, 'c) env \<Rightarrow> dict \<Rightarrow> query \<Rightarrow> exc + query" where
  "filter_by_checked E flt q =
     (if list_all (\<lambda>e. e_attrs E (q_model q) (fst e)) flt then Inr (filter_by flt q)
      else Inl (Exc EInvalidRequestError ''Entity has no property''))"

text \<open>The query of a search: \<open>Inl\<close> an exception, \<open>Inr None\<close> an invalid filter.\<close>

definition find_query ::
    "('d, 'r, 'c) env \<Rightarrow> string \<Rightarrow> access \<Rightarrow> int \<Rightarrow> dict \<Rightarrow> string \<times> bool \<Rightarrow> dict \<Rightarrow> exc + query option" where
  "find_query E m acc now conditions srt flt =
     (case filter_keys E m (map fst flt) flt (query_of m) of
        Inl e \<Rightarrow> Inl e
      | Inr (flt1, q1) \<Rightarrow> (case filter_starts E m now flt1 q1 of (flt2, q2) \<Rightarrow>
          (case filter_by_checked E flt2 q2 of
             Inl _ \<Rightarrow> Inr None
           | Inr q3 \<Rightarrow> (case column_of E m (fst srt) of
               Inl e \<Rightarrow> Inl e
             | Inr c \<Rightarrow> (case column_of E m ''status'' of
                 Inl e \<Rightarrow> Inl e
               | Inr st \<Rightarrow>
                   (let q4 = order_by c (snd srt) q3;
                        q5 = where_cond (if dget conditions ''status'' = PStr ''disabled'' then CEq st (PStr ''disabled'')
                                         else CNe st (PStr ''disabled'')) q4
                    in case with_filter E acc q5 (CHR ''r'') of Inl e \<Rightarrow> Inl e | Inr q \<Rightarrow> Inr (Some q)))))))"

text \<open>\<open>xs[:n]\<close>.\<close>

definition py_take :: "int \<Rightarrow> 'a list \<Rightarrow> 'a list" where
  "py_take n xs = (if 0 \<le> n then take (nat n) xs else take (length xs - nat (- n)) xs)"

definition find_item ::
    "('d, 'r, 'c) env \<Rightarrow> string \<Rightarrow> access \<Rightarrow> dict \<Rightarrow> (('d, 'r, 'c) world, dict) py" where
  "find_item E m acc row =
     bnd (row_as_dict E m row) (\<lambda>d0.
     bnd (add_owner E m row (e_attrs E m ''owner'') d0) (\<lambda>d1.
     bnd (add_category E m row (truthy (dget d1 ''category_id'')) d1) (\<lambda>d2.
     bnd (rbac_permissions E acc None
            \<lparr>tg_owner = dget d2 ''uid'', tg_membership = PStr (ac_primary acc), tg_id = dget d2 ''id'',
             tg_privacy = dget d2 ''privacy''\<rparr>) (\<lambda>actions.
     ret (dset d2 ''rbac'' (PStr (rbac_string (actions - {CHR ''c''}))))))))"

fun find_items ::
    "('d, 'r, 'c) env \<Rightarrow> string \<Rightarrow> access \<Rightarrow> dict list \<Rightarrow> (('d, 'r, 'c) world, dict list) py" where
  "find_items E m acc [] = ret []"
| "find_items E m acc (r # rs) =
     bnd (find_item E m acc r) (\<lambda>d. bnd (find_items E m acc rs) (\<lambda>ds. ret (d # ds)))"

definition cursor_text :: "int \<Rightarrow> string" where
  "cursor_text n = tob64 (''cursor:'' @ show_int n)"

text \<open>
  The page: at most \<open>limit\<close> of the records found (one more is fetched to know whether there is a
  next page), the total, and the cursor of the next page.
\<close>

definition find_page ::
    "('d, 'r, 'c) env \<Rightarrow> string \<Rightarrow> access \<Rightarrow> query \<Rightarrow> int \<Rightarrow> int \<Rightarrow> (('d, 'r, 'c) world, resp) py" where
  "find_page E m acc q offset limit =
     bnd (try_catch
       (bnd (run_all E (slice_of offset (offset + limit + 1) q)) (\<lambda>results.
        bnd (run_count E q) (\<lambda>n. ret (Inr (results, n)))))
       (\<lambda>ex. bnd (db_abort E) (\<lambda>response. ret (Inl response)))) (\<lambda>r. case r of
       Inl response \<Rightarrow> ret response
     | Inr (results, n) \<Rightarrow>
         bnd (find_items E m acc (py_take limit results)) (\<lambda>items.
         let page = [(''items'', PList (map PDict items)), (''count'', PInt (int n))]
         in ret (if limit < int (length results) then page @ [(''cursor_next'', PStr (cursor_text (offset + limit)))]
                 else if length items < n \<and> int (length items) < limit \<and> offset = 0
                 then dset page ''count'' (PInt (int (length items)))
                 else page, 200)))"

definition empty_page :: dict where
  "empty_page = [(''count'', PInt 0), (''items'', PList [])]"

text \<open>An \<open>account_id\<close> in the filter of a model without accounts stands for the account's user.\<close>

definition filter_account ::
    "('d, 'r, 'c) env \<Rightarrow> string \<Rightarrow> dict \<Rightarrow> (('d, 'r, 'c) world, dict option) py" where
  "filter_account E m flt =
     (if truthy (dget flt ''account_id'') \<and> \<not> e_attrs E m ''account_id'' then
        try_catch
          (bnd (run_one E (filter_by [(''id'', dget flt ''account_id'')] (query_of ''Account''))) (\<lambda>account.
           ret (Some (ddel (dset flt ''uid'' (dget account ''uid'')) ''account_id''))))
          (\<lambda>ex. if exc_kind ex = ENoResultFound then ret None else raise_exc ex)
      else ret (Some flt))"

text \<open>\<open>item in ('status')\<close> is a substring test: the parentheses make no tuple.\<close>

definition find_conditions :: "dict \<Rightarrow> dict" where
  "find_conditions kwargs = filter (\<lambda>(k, v). occurs k ''status'') kwargs"

definition basic_find :: "('d, 'r, 'c) env \<Rightarrow> dict \<Rightarrow> (('d, 'r, 'c) world, resp) py" where
  "basic_find E kwargs =
     bnd (of_result (controller E)) (\<lambda>(resource, m).
     bnd (access_control E (Some m)) (\<lambda>acc.
     bnd (if resource = ''account'' then ret True
          else with_permission E acc (CHR ''r'') None (ac_uid acc) PNone PNone) (\<lambda>allowed.
     if \<not> allowed then ret (msg_resp ''access denied'' 403)
     else bnd (of_result (find_offset kwargs)) (\<lambda>offset.
     bnd (of_result (find_sort kwargs (if e_attrs E m ''name'' then ''name'' else ''id''))) (\<lambda>srt.
     bnd (of_result (int_of (dget_or kwargs ''limit'' (PInt PER_PAGE_DEFAULT)))) (\<lambda>limit.
     case find_filter kwargs of
       Inl e \<Rightarrow> if exc_kind e = EJSONDecodeError
               then ret (msg_resp (''invalid filter specified='' @ exc_msg e) 405) else raise_exc e
     | Inr None \<Rightarrow> ret (empty_page, 200)
     | Inr (Some flt0) \<Rightarrow>
         bnd (filter_account E m flt0) (\<lambda>accounted. case accounted of
           None \<Rightarrow> ret (empty_page @ [(''message'', PStr ''not found'')], 404)
         | Some flt \<Rightarrow>
             bnd (gets w_now) (\<lambda>now.
             bnd (of_result (find_query E m acc now (find_conditions kwargs) srt flt)) (\<lambda>r. case r of
               None \<Rightarrow> ret (msg_resp ''invalid filter specified'' 405)
             | Some q \<Rightarrow> find_page E m acc q offset limit)))))))))"

section \<open>Updating a contact\<close>

text \<open>
  A contact that changes becomes unconfirmed, and where it was a person's identity the identity
  changes with it. Any failure is rolled back and reported as a conflict.
\<close>

definition contact_row ::
    "('d, 'r, 'c) env \<Rightarrow> string \<Rightarrow> pyval \<Rightarrow> dict \<Rightarrow> (('d, 'r, 'c) world, resp) py" where
  "contact_row E m ident body =
     (let q = filter_by [(''id'', ident)] (query_of m)
      in bnd (access_control E (Some m)) (\<lambda>acc.
         bnd (with_permission E acc (CHR ''u'') (Some q) PNone PNone PNone) (\<lambda>allowed.
         if \<not> allowed then ret (denied_id ident)
         else bnd (run_one E q) (\<lambda>row.
              let body' = (if dget body ''status'' = PStr ''disabled'' then body
                           else dset body ''status'' (PStr ''unconfirmed''))
              in bnd (on_db (db_update (e_db E) q body')) (\<lambda>_.
                 bnd (try_catch
                   (bnd (run_one E (filter_by [(''identity'', dget row ''info'')] (query_of ''Person''))) (\<lambda>p.
                    set_attr E ''Person'' (dget p ''id'') ''identity'' (dget body' ''info'')))
                   (\<lambda>ex. if exc_kind ex = ENoResultFound then ret () else raise_exc ex)) (\<lambda>_.
                 bnd (commit E) (\<lambda>_.
                 ret ([(''id'', ident), (''message'', PStr ''updated'')], 200))))))))"

definition update_contact :: "('d, 'r, 'c) env \<Rightarrow> pyval \<Rightarrow> dict \<Rightarrow> (('d, 'r, 'c) world, resp) py" where
  "update_contact E ident body0 =
     bnd (of_result (contact_info body0)) (\<lambda>checked. case checked of
       Inl response \<Rightarrow> ret response
     | Inr body \<Rightarrow>
         if dhas body ''id'' \<and> dget body ''id'' \<noteq> ident then ret bad_id
         else bnd (of_result (controller E)) (\<lambda>(resource, m).
              bnd (gets w_now) (\<lambda>now.
              try_catch (contact_row E m ident (dset body ''modified'' (PTime now)))
                (\<lambda>ex. bnd (rollback E) (\<lambda>_. ret (msg_resp ''conflict with existing'' 405))))))"

section \<open>What the operations leave alone\<close>

text \<open>Outcomes: a response with one of the given statuses, an exception of a kind, a creation.\<close>

definition answers :: "nat set \<Rightarrow> exc + resp \<Rightarrow> bool" where
  "answers S r = (case r of Inl _ \<Rightarrow> False | Inr (_, s) \<Rightarrow> s \<in> S)"

definition raises :: "ekind \<Rightarrow> exc + 'a \<Rightarrow> bool" where
  "raises k r = (case r of Inl e \<Rightarrow> exc_kind e = k | Inr _ \<Rightarrow> False)"

definition created :: "exc + (resp \<times> dict) \<Rightarrow> bool" where
  "created r = (case r of Inl _ \<Rightarrow> False | Inr ((_, s), _) \<Rightarrow> s = 201)"

lemma answers_simps [simp]: "answers S (Inl e) = False" "answers S (Inr (b, s)) \<longleftrightarrow> s \<in> S"
  by (simp_all add: answers_def)

lemma keeps_link [keeps_intros]: "(\<And>m i a x. keeps v (on_db (db_append (e_db E) m i a x))) \<Longrightarrow> keeps v (link_related E m model ident a x)"
  by (auto simp: link_related_def intro!: keeps_intros)

lemma keeps_add_owner [keeps_intros]: "keeps v (add_owner E m row b d)"
  by (auto simp: add_owner_def intro!: keeps_intros)

lemma keeps_add_category [keeps_intros]: "keeps v (add_category E m row b d)"
  by (auto simp: add_category_def intro!: keeps_intros)

lemma keeps_with_privacy [keeps_intros]: "keeps v (with_privacy E d b)"
  by (auto simp: with_privacy_def intro!: keeps_intros)

lemma keeps_basic_get [keeps_intros]: "keeps v (basic_get E ident)"
  by (auto simp: basic_get_def crud_get_row_def Let_def intro!: keeps_intros)

lemma keeps_find_items [keeps_intros]: "keeps v (find_items E m acc rs)"
  by (induction rs) (auto simp: find_item_def intro!: keeps_intros)

lemma keeps_filter_account [keeps_intros]: "keeps v (filter_account E m flt)"
  by (auto simp: filter_account_def intro!: keeps_intros)

lemma keeps_apikey_create [keeps_intros]: "keeps w_db (apikey_create E)"
  by (auto simp: apikey_create_def Let_def intro!: keeps_intros)

context db_contract
begin

lemmas keeps_durables [keeps_intros] = keeps_gen_id [THEN keeps_durable] keeps_grants_get [THEN keeps_durable]
  keeps_settings_of [THEN keeps_durable] keeps_apikey_create [THEN keeps_durable]

lemma keeps_db_abort [keeps_intros]: "e_db E = D \<Longrightarrow> keeps (\<lambda>w. durable (w_db w)) (db_abort E)"
  by (auto simp: db_abort_def intro!: keeps_intros)

lemma keeps_create_contact [keeps_intros]:
  "e_db E = D \<Longrightarrow> keeps (\<lambda>w. durable (w_db w)) (create_contact E body)"
  by (auto simp: create_contact_def intro!: keeps_intros)

lemma keeps_basic_find: "e_db E = D \<Longrightarrow> keeps (\<lambda>w. durable (w_db w)) (basic_find E kwargs)"
  by (auto simp: basic_find_def find_page_def Let_def intro!: keeps_intros)

lemma keeps_delete_one [keeps_intros]:
  "e_db E = D \<Longrightarrow> keeps (\<lambda>w. durable (w_db w)) (delete_one E m force ident errors)"
  by (auto simp: delete_one_def Let_def intro!: keeps_intros)

lemma unless_db_abort [unless_intros]: "e_db E = D \<Longrightarrow> unless P (\<lambda>w. durable (w_db w)) (db_abort E)"
  by (rule unless_keeps) (rule keeps_db_abort)

text \<open>
  A deletion is all or nothing: whatever ends it before its commit, a refusal for one of the ids or
  an exception, nothing of it is durable.
\<close>

lemma unless_finish_delete [unless_intros]:
  "e_db E = D \<Longrightarrow> unless (answers {204, 404}) (\<lambda>w. durable (w_db w)) (finish_delete E errors)"
  by (auto simp: finish_delete_def answers_def intro!: unless_intros)

lemma basic_delete_atomic:
  "e_db E = D \<Longrightarrow> unless (answers {204, 404}) (\<lambda>w. durable (w_db w)) (basic_delete E ids force)"
  by (auto simp: basic_delete_def intro!: unless_intros keeps_intros)

text \<open>An update that is refused or fails leaves nothing behind, if it names no related records.\<close>

lemma unless_update_row:
  assumes "e_db E = D"
  shows "unless (\<lambda>r. answers {200} r \<or> raises ETypeError r) (\<lambda>w. durable (w_db w)) (update_row E m ident body act)"
proof -
  have "unless (\<lambda>r. \<exists>c. r = Inr (Inr c)) (\<lambda>w. durable (w_db w))
     (try_catch
           (bnd (access_control E (Some m)) (\<lambda>acc.
            bnd (with_permission E acc act (Some q) PNone PNone PNone) (\<lambda>allowed.
            if \<not> allowed then ret (Inl (denied_id ident))
            else bnd (run_one E q) (\<lambda>row.
                 bnd (row_as_dict E m row) (\<lambda>current.
                 bnd (on_db (db_update (e_db E) q body)) (\<lambda>_.
                 bnd (commit E) (\<lambda>_.
                 ret (Inr current))))))))
           (\<lambda>ex. if exc_kind ex = EIntegrityError
                 then ret (Inl ([(''message'', PStr ''duplicate or other conflict''), (''data'', PStr (exc_msg ex))], 405))
                 else bnd (db_abort E) (\<lambda>response. ret (Inl response))))" for q
    using assms by (auto intro!: unless_intros keeps_intros)
  then show ?thesis unfolding update_row_def Let_def
    by (rule unless_then) (auto simp: log_update_def py_simps answers_def raises_def intro!: unless_intros)
qed

lemma relate_all_absent: "\<forall>a \<in> set as. \<not> dhas body a \<Longrightarrow> relate_all E m ident limits as body = ret (Inr body)"
  by (induction as) auto

lemma convert_expires_has: "convert_expires b = Inr b' \<Longrightarrow> a \<noteq> ''expires'' \<Longrightarrow> dhas b' a = dhas b a"
  by (auto simp: convert_expires_def dict_simps split: if_splits pyval.splits sum.splits)

lemma basic_update_atomic:
  assumes D: "e_db E = D" and c: "controller E = Inr (res, m)"
    and rel: "e_related E m = None \<or> (\<exists>as. e_related E m = Some as \<and>
      (\<forall>a \<in> set as. \<not> dhas body a \<and> a \<notin> {''modified'', ''expires'', ''totp_secret''}))"
  shows "unless (\<lambda>r. answers {200} r \<or> raises ETypeError r) (\<lambda>w. durable (w_db w)) (basic_update E ident body act limits)"
proof -
  have same: "relate_all E m ident limits (case e_related E m of None \<Rightarrow> [] | Some as \<Rightarrow> as) (update_totp b) = ret (Inr (update_totp b))"
    if "convert_expires (dset body ''modified'' (PTime now)) = Inr b" for b now
  proof -
    have "\<forall>a \<in> set (case e_related E m of None \<Rightarrow> [] | Some as \<Rightarrow> as). \<not> dhas (update_totp b) a"
    proof
      fix a assume "a \<in> set (case e_related E m of None \<Rightarrow> [] | Some as \<Rightarrow> as)"
      then have a: "\<not> dhas body a" "a \<noteq> ''modified''" "a \<noteq> ''expires''" "a \<noteq> ''totp_secret''"
        using rel by (cases "e_related E m"; simp)+
      then have "\<not> dhas b a" using convert_expires_has [OF that a(3)] by (simp add: dhas_dset)
      then show "\<not> dhas (update_totp b) a" using a(4) by (simp add: update_totp_def dhas_dset dhas_ddel)
    qed
    then show ?thesis by (rule relate_all_absent)
  qed
  show ?thesis unfolding basic_update_def c bnd_of_Inr prod.case
    by (intro unless_intros keeps_intros) (simp_all add: same unless_intros keeps_intros unless_update_row D)
qed

text \<open>A contact is changed with its person's identity or not at all.\<close>

lemma update_contact_atomic:
  assumes D: "e_db E = D"
  shows "unless (answers {200}) (\<lambda>w. durable (w_db w)) (update_contact E ident body)"
proof -
  have "unless (\<lambda>r. answers {200} r \<and> \<not> isl r) (\<lambda>w. durable (w_db w)) (contact_row E m ident b)" for m b
    using D by (auto simp: contact_row_def Let_def answers_def intro!: unless_intros keeps_intros)
  then show ?thesis using D
    by (auto simp: update_contact_def intro!: unless_intros keeps_intros)
qed

text \<open>A creation that does not answer 201 leaves nothing behind, for a model without related lists.\<close>

lemma unless_create_row [unless_intros]:
  assumes D: "e_db E = D" and rel: "e_related E m = None"
  shows "unless created (\<lambda>w. durable (w_db w)) (create_row E resource m ident limits body)"
proof -
  have "unless (answers {201}) (\<lambda>w. durable (w_db w)) (insert_record E m ident row [] info)" for row info
    using D by (auto simp: insert_record_def answers_def intro!: unless_intros keeps_intros)
  then have "unless created (\<lambda>w. durable (w_db w)) (bnd (insert_record E m ident row [] info) (\<lambda>response. ret (response, b)))"
    for row info and b :: dict
    by (rule unless_then) (auto simp: answers_def created_def py_simps intro!: unless_intros split: sum.splits)
  note inserted = this
  show ?thesis
    unfolding create_row_def rel option.case Let_def related_items_def filter.simps list.map
    using D by (auto simp: new_secret_def intro!: inserted unless_intros keeps_intros)
qed

lemma crud_create_atomic:
  assumes D: "e_db E = D" and c: "controller E = Inr (res, m)" and rel: "e_related E m = None"
  shows "unless created (\<lambda>w. durable (w_db w)) (crud_create E body id_prefix limits)"
  using D rel
  by (auto simp: crud_create_def create_allowed_def new_category_def over_limit_def c Let_def
      intro!: unless_intros keeps_intros)

end

section \<open>What a response discloses\<close>

text \<open>
  The keys a handler adds to a record itself; every other key of a response comes from \<open>as_dict\<close>, so
  that a model's excluded columns never leave the server.
\<close>

definition response_keys :: "string set" where
  "response_keys = {''owner'', ''category'', ''rbac'', ''geo'', ''address'', ''message'', ''id''}"

definition hidden :: "('d, 'r, 'c) env \<Rightarrow> string \<Rightarrow> string \<Rightarrow> bool" where
  "hidden E m k \<longleftrightarrow> k \<in> set (e_exclude E m) \<and> k \<notin> set (case e_related E m of None \<Rightarrow> [] | Some ks \<Rightarrow> ks) \<and>
     k \<notin> set (e_hybrid E m) \<and> k \<notin> response_keys"

lemma row_as_dict_hides: "hidden E m k \<Longrightarrow> yields (\<lambda>d. \<not> dhas d k) (row_as_dict E m row)"
  unfolding row_as_dict_def by (rule yields_reads) (auto simp: hidden_def dest!: as_dict_excludes)

lemma add_owner_hides: "hidden E m k \<Longrightarrow> \<not> dhas d k \<Longrightarrow> yields (\<lambda>d. \<not> dhas d k) (add_owner E m row b d)"
  by (auto simp: add_owner_def dict_simps hidden_def response_keys_def intro!: yields_intros)

lemma add_category_hides: "hidden E m k \<Longrightarrow> \<not> dhas d k \<Longrightarrow> yields (\<lambda>d. \<not> dhas d k) (add_category E m row b d)"
  by (auto simp: add_category_def dict_simps hidden_def response_keys_def intro!: yields_intros)

lemma with_privacy_hides: "hidden E m k \<Longrightarrow> \<not> dhas d k \<Longrightarrow> yields (\<lambda>d. \<not> dhas d k) (with_privacy E d b)"
  unfolding with_privacy_def
  by (rule yields_bnd) (auto simp: Let_def dict_simps hidden_def response_keys_def intro!: yields_intros)

lemma drop_modified_hides: "\<not> dhas d k \<Longrightarrow> \<not> dhas (drop_modified d) k"
  by (simp add: drop_modified_def dict_simps)

lemma get_row_hides:
  assumes "hidden E m k"
  shows "yields (\<lambda>r. \<not> dhas (fst r) k) (crud_get_row E m acc q ident row)"
proof -
  have k: "k \<notin> {''rbac'', ''message'', ''id''}" using assms by (auto simp: hidden_def response_keys_def)
  have located: "yields (\<lambda>r. \<not> dhas (fst r) k) (bnd (with_privacy E (dset (drop_modified d) ''rbac'' v) b) (\<lambda>d'. ret (d', 200)))"
    if "\<not> dhas d k" for d v b
    by (rule yields_then [OF with_privacy_hides [OF assms]])
      (use that k in \<open>auto simp: dict_simps drop_modified_hides intro!: yields_intros\<close>)
  show ?thesis unfolding crud_get_row_def
    apply (rule yields_then [OF row_as_dict_hides [OF assms]])
    apply (rule yields_then [OF add_owner_hides [OF assms]], assumption)
    apply (rule yields_bnd)
    apply (rule yields_then [OF add_category_hides [OF assms]], assumption)
    using k by (auto simp: Let_def dict_simps drop_modified_hides msg_resp_def denied_id_def intro!: yields_intros located)
qed

lemma basic_get_hides:
  assumes "controller E = Inr (res, m)" and "hidden E m k"
  shows "yields (\<lambda>r. \<not> dhas (fst r) k) (basic_get E ident)"
proof -
  have k: "k \<notin> {''message'', ''id''}" using assms(2) by (auto simp: hidden_def response_keys_def)
  show ?thesis unfolding basic_get_def assms(1) bnd_of_Inr prod.case Let_def
    apply (rule yields_bnd)
    apply (rule yields_then [where Q = "\<lambda>r. case r of Inl resp \<Rightarrow> \<not> dhas (fst resp) k | Inr _ \<Rightarrow> True"])
    using k by (auto simp: dict_simps intro!: yields_intros get_row_hides assms split: sum.splits)
qed

lemma find_item_hides: "hidden E m k \<Longrightarrow> yields (\<lambda>d. \<not> dhas d k) (find_item E m acc row)"
  unfolding find_item_def
  apply (rule yields_then [OF row_as_dict_hides], assumption)
  apply (rule yields_then [OF add_owner_hides], assumption, assumption)
  apply (rule yields_then [OF add_category_hides], assumption, assumption)
  by (auto simp: dict_simps hidden_def response_keys_def intro!: yields_intros)

lemma find_items_hide:
  "hidden E m k \<Longrightarrow> yields (\<lambda>ds. \<forall>d \<in> set ds. \<not> dhas d k) (find_items E m acc rows)"
proof (induction rows)
  case (Cons r rs)
  show ?case unfolding find_items.simps
    by (rule yields_then [OF find_item_hides [OF Cons.prems]], rule yields_then [OF Cons.IH [OF Cons.prems]])
      (auto intro!: yields_intros)
qed (auto intro!: yields_intros)

end
