(* ===== verification/Crud_Results.thy ===== *)
theory Crud_Results imports Crud begin

text \<open>
  Results about apicrud/basic_crud.py: what a request that fails leaves behind, what a response
  discloses, and what the pages of a search contain, each applied to an example.
\<close>

section \<open>The profiles of two users\<close>

definition two_profiles :: "(string \<times> dict list) list" where
  "two_profiles = [(''Profile'', [
     [(''id'', PStr ''x-1''), (''uid'', PStr ''u-1''), (''status'', PStr ''active''), (''privacy'', PStr ''secret'')],
     [(''id'', PStr ''x-2''), (''uid'', PStr ''u-2''), (''status'', PStr ''active''), (''privacy'', PStr ''secret'')]])]"

definition one_profile :: "(string \<times> dict list) list" where
  "one_profile = [(''Profile'', [
     [(''id'', PStr ''x-2''), (''uid'', PStr ''u-2''), (''status'', PStr ''active''), (''privacy'', PStr ''secret'')]])]"

lemma profile_tables:
  "db_all mem_db (filter_by [(''id'', PStr ''x-1'')] (query_of ''Profile'')) \<lparr>md_durable = two_profiles, md_current = two_profiles\<rparr> =
     Inr [[(''id'', PStr ''x-1''), (''uid'', PStr ''u-1''), (''status'', PStr ''active''), (''privacy'', PStr ''secret'')]]"
  "db_delete mem_db (filter_by [(''id'', PStr ''x-1'')] (query_of ''Profile'')) \<lparr>md_durable = two_profiles, md_current = two_profiles\<rparr> =
     (Inr 1, \<lparr>md_durable = two_profiles, md_current = one_profile\<rparr>)"
  "db_all mem_db (filter_by [(''id'', PStr ''x-2'')] (query_of ''Profile'')) \<lparr>md_durable = two_profiles, md_current = one_profile\<rparr> =
     Inr [[(''id'', PStr ''x-2''), (''uid'', PStr ''u-2''), (''status'', PStr ''active''), (''privacy'', PStr ''secret'')]]"
  by code_simp+

text \<open>C1: BasicCRUD.delete is atomic: over every database that keeps its contract (uncommitted writes are
  not durable), a delete request whose result is neither the 204 of a success nor the 404 of a missing
  record (a denied id in the middle of the list, a constraint error, any exception) leaves the durable
  tables as they were, although the rows of the ids before it were already deleted in the session.\<close>

lemma delete_all_or_nothing:
  assumes "db_contract (e_db E) durable" and "basic_delete E ids force w = (r, w')" and "\<not> answers {204, 404} r"
  shows "durable (w_db w') = durable (w_db w)"
  using unlessD [OF db_contract.basic_delete_atomic [OF assms(1) refl] assms(2,3)] .

lemma profile_controller [simp]: "controller (user_env ''/api/v1/profile'') = Inr (''profile'', ''Profile'')"
  by code_simp

lemma delete_all_or_nothing_witness:
  "\<exists>w'. basic_delete (user_env ''/api/v1/profile'') [PStr ''x-1'', PStr ''x-2''] True (logged_in two_profiles) =
     (Inr (denied_id (PStr ''x-2'')), w') \<and> md_current (w_db w') = one_profile \<and> md_durable (w_db w') = two_profiles"
proof -
  let ?w = "logged_in two_profiles" and ?E = "user_env ''/api/v1/profile''"
  let ?w1 = "?w\<lparr>w_db := \<lparr>md_durable = two_profiles, md_current = one_profile\<rparr>\<rparr>"
  note acc = user_access_control [of ?w two_profiles] user_access_control [of ?w1 two_profiles]
  have c: "clean ''u-1''" "clean ''u-2''" by (simp_all add: clean_def rx_plain_def)
  have "with_permission ?E (user_access (Some ''Profile'')) CHR ''d'' (Some (filter_by [(''id'', PStr ''x-1'')] (query_of ''Profile'')))
      PNone PNone PNone ?w = (Inr True, ?w)"
    by (subst profile_permission [where u = "''u-1''"]) (auto simp: logged_in_world profile_tables c dict_simps)
  then have "delete_one ?E ''Profile'' True (PStr ''x-1'') 0 ?w = (Inr (Continue 0), ?w1)"
    using acc by (simp add: delete_one_def py_simps logged_in_world profile_tables Let_def)
  moreover have "with_permission ?E (user_access (Some ''Profile'')) CHR ''d'' (Some (filter_by [(''id'', PStr ''x-2'')] (query_of ''Profile'')))
      PNone PNone PNone ?w1 = (Inr False, ?w1)"
    by (subst profile_permission [where u = "''u-2''"]) (auto simp: logged_in_world profile_tables c dict_simps)
  then have "delete_one ?E ''Profile'' True (PStr ''x-2'') 0 ?w1 = (Inr (Return (denied_id (PStr ''x-2''))), ?w1)"
    using acc by (simp add: delete_one_def py_simps logged_in_world profile_tables Let_def)
  ultimately have run: "basic_delete ?E [PStr ''x-1'', PStr ''x-2''] True ?w = (Inr (denied_id (PStr ''x-2'')), ?w1)"
    using acc by (simp add: basic_delete_def py_simps logged_in_world)
  have "db_contract (e_db ?E) md_durable" using memory_db.db_contract_axioms by simp
  from delete_all_or_nothing [OF this run]
  show ?thesis using run by (simp add: denied_id_def logged_in_world)
qed
definition one_list :: "(string \<times> dict list) list" where
  "one_list = [(''List'', [[(''id'', PStr ''x-9''), (''uid'', PStr ''u-2''), (''privacy'', PStr ''secret''),
      (''members'', PList [PDict [(''id'', PStr ''p-1'')]])]]),
    (''Person'', [[(''id'', PStr ''p-1'')]])]"



section \<open>Pages\<close>

lemma show_int_chars: "0 \<le> n \<Longrightarrow> c \<in> set (show_int n) \<Longrightarrow> (of_char c :: nat) < 58"
  using show_nat_digits [of c "nat n"] by (auto simp: show_int_def digit_chr_def)

lemma fromb64_tob64: "ascii s \<Longrightarrow> fromb64 (tob64 s) = Inr s"
  using b64encode_ascii [of s] by (simp add: fromb64_def tob64_def utf8_encode_ascii b64_round_trip)

lemma cursor_round_trip:
  assumes "0 \<le> n" and "dget kwargs ''cursor_next'' = PStr (cursor_text n)"
  shows "find_offset kwargs = Inr n"
proof -
  have d: "(of_char c :: nat) < 58" if "c \<in> set (show_int n)" for c
    using show_int_chars [OF assms(1) that] .
  have a: "ascii (''cursor:'' @ show_int n)" using d by (fastforce simp: ascii_def)
  have colon: "CHR '':'' \<notin> set (show_int n)" using d [of "CHR '':''"] by auto
  have h: "dhas kwargs ''cursor_next''" using assms(2) by (auto simp: dget_def dhas_def split: option.splits)
  have "fromb64 (cursor_text n) = Inr (''cursor:'' @ show_int n)"
    unfolding cursor_text_def by (rule fromb64_tob64 [OF a])
  moreover have "py_split CHR '':'' (''cursor:'' @ show_int n) = [''cursor'', show_int n]"
    using py_split_append_sep [of "CHR '':''" "''cursor''" "show_int n"] colon
    by (simp add: py_split_no_sep)
  ultimately show ?thesis using h assms py_int_show_nat [of "nat n"]
    by (simp add: find_offset_def cursor_field_def str_of_def int_of_def show_int_def)
qed

lemma find_items_length: "yields (\<lambda>ds. length ds = length rows) (find_items E m acc rows)"
proof (induction rows)
  case (Cons r rs)
  show ?case unfolding find_items.simps
    by (rule yields_bnd, rule yields_then [OF Cons.IH]) (auto intro!: yields_intros)
qed (auto intro!: yields_intros)

lemma py_take_length: "0 \<le> n \<Longrightarrow> int (length (py_take n xs)) \<le> n"
  by (simp add: py_take_def)

definition page_within :: "int \<Rightarrow> resp \<Rightarrow> bool" where
  "page_within limit r \<longleftrightarrow> snd r \<noteq> 200 \<or> (\<exists>xs. dget (fst r) ''items'' = PList xs \<and> int (length xs) \<le> limit)"

lemma yields_db_abort: "yields (\<lambda>r. snd r = 500) (db_abort E)"
  by (auto simp: db_abort_def msg_resp_def intro!: yields_intros)

lemma find_page_within:
  assumes "0 \<le> limit"
  shows "yields (page_within limit) (find_page E m acc q offset limit)"
proof -
  have abort: "yields (\<lambda>r. case r of Inl resp \<Rightarrow> snd resp = 500 | Inr _ \<Rightarrow> True)
      (bnd (db_abort E) (\<lambda>response. ret (Inl response)))"
    by (rule yields_then [OF yields_db_abort]) (auto intro!: yields_intros)
  have page: "yields (page_within limit) (bnd (find_items E m acc (py_take limit rs)) (\<lambda>items.
      let page = [(''items'', PList (map PDict items)), (''count'', PInt (int n))] in ret (f page items, 200)))"
    if "\<And>items. dget (f [(''items'', PList (map PDict items)), (''count'', PInt (int n))] items) ''items'' = PList (map PDict items)"
    for rs n f
    by (rule yields_then [OF find_items_length])
      (use py_take_length [OF assms, of rs] that in \<open>auto simp: page_within_def Let_def intro!: yields_intros\<close>)
  show ?thesis unfolding find_page_def
    by (rule yields_then [where Q = "\<lambda>r. case r of Inl resp \<Rightarrow> snd resp = 500 | Inr _ \<Rightarrow> True"])
      (auto simp: page_within_def dict_simps intro!: yields_intros abort page)
qed

lemma basic_find_within:
  assumes "int_of (dget_or kwargs ''limit'' (PInt PER_PAGE_DEFAULT)) = Inr limit" and "0 \<le> limit"
  shows "yields (page_within limit) (basic_find E kwargs)"
  unfolding basic_find_def assms(1) bnd_of_Inr
  using assms(2) by (auto simp: page_within_def msg_resp_def empty_page_def dict_simps intro!: yields_intros find_page_within)

text \<open>A client that follows the cursors; \<open>fuel\<close> bounds the number of pages it asks for.\<close>

fun walk_pages ::
    "nat \<Rightarrow> ('d, 'r, 'c) env \<Rightarrow> string \<Rightarrow> access \<Rightarrow> query \<Rightarrow> int \<Rightarrow> dict \<Rightarrow> ('d, 'r, 'c) world \<Rightarrow> pyval list option" where
  "walk_pages 0 E m acc q limit kwargs w = None"
| "walk_pages (Suc fuel) E m acc q limit kwargs w =
     (case find_offset kwargs of
        Inl e \<Rightarrow> None
      | Inr offset \<Rightarrow> (case find_page E m acc q offset limit w of
          (Inr (page, _), w') \<Rightarrow>
            (case dget page ''items'' of
               PList xs \<Rightarrow>
                 if dhas page ''cursor_next''
                 then map_option (\<lambda>ys. xs @ ys)
                        (walk_pages fuel E m acc q limit [(''cursor_next'', dget page ''cursor_next'')] w')
                 else Some xs
             | _ \<Rightarrow> None)
        | _ \<Rightarrow> None))"

lemma find_items_run:
  "\<forall>r \<in> set rows. find_item E m acc r w = (Inr (f r), w) \<Longrightarrow> find_items E m acc rows w = (Inr (map f rows), w)"
  by (induction rows) (simp_all add: py_simps)

lemma find_page_run:
  assumes rows: "\<And>a b. 0 \<le> a \<Longrightarrow> a \<le> b \<Longrightarrow>
      db_all (e_db E) (slice_of a b q) (w_db w) = Inr (take (nat (b - a)) (drop (nat a) rows))"
    and n: "db_count (e_db E) q (w_db w) = Inr (length rows)"
    and f: "\<forall>r \<in> set rows. find_item E m acc r w = (Inr (f r), w)"
    and l: "0 < limit" and o: "0 \<le> offset"
  shows "\<exists>page. find_page E m acc q offset limit w = (Inr (page, 200), w) \<and>
    dget page ''items'' = PList (map (PDict \<circ> f) (take (nat limit) (drop (nat offset) rows))) \<and>
    (dhas page ''cursor_next'' \<longleftrightarrow> offset + limit < int (length rows)) \<and>
    (dhas page ''cursor_next'' \<longrightarrow> dget page ''cursor_next'' = PStr (cursor_text (offset + limit)))"
proof -
  let ?rs = "take (nat (limit + 1)) (drop (nat offset) rows)"
  have all: "db_all (e_db E) (slice_of offset (offset + limit + 1) q) (w_db w) = Inr ?rs"
    using rows [of offset "offset + limit + 1"] l o by (simp add: algebra_simps)
  have t: "py_take limit ?rs = take (nat limit) (drop (nat offset) rows)"
    using l by (simp add: py_take_def min_def)
  have "\<forall>r \<in> set (take (nat limit) (drop (nat offset) rows)). find_item E m acc r w = (Inr (f r), w)"
    using f by (meson in_set_dropD in_set_takeD)
  from find_items_run [OF this] have items: "find_items E m acc (py_take limit ?rs) w =
      (Inr (map f (take (nat limit) (drop (nat offset) rows))), w)" by (simp add: t)
  have len: "limit < int (length ?rs) \<longleftrightarrow> offset + limit < int (length rows)"
    using l o by (simp add: min_def) linarith
  show ?thesis
    unfolding find_page_def
    using all n items len by (auto simp: py_simps dict_simps Let_def)
qed

lemma walk_pages_from:
  assumes rows: "\<And>a b. 0 \<le> a \<Longrightarrow> a \<le> b \<Longrightarrow>
      db_all (e_db E) (slice_of a b q) (w_db w) = Inr (take (nat (b - a)) (drop (nat a) rows))"
    and n: "db_count (e_db E) q (w_db w) = Inr (length rows)"
    and f: "\<forall>r \<in> set rows. find_item E m acc r w = (Inr (f r), w)"
    and l: "0 < limit"
  shows "0 \<le> offset \<Longrightarrow> nat offset \<le> length rows \<Longrightarrow> find_offset kwargs = Inr offset \<Longrightarrow> length rows < nat offset + fuel \<Longrightarrow>
    walk_pages fuel E m acc q limit kwargs w = Some (map (PDict \<circ> f) (drop (nat offset) rows))"
proof (induction fuel arbitrary: offset kwargs)
  case (Suc fuel)
  obtain page where p: "find_page E m acc q offset limit w = (Inr (page, 200), w)"
      "dget page ''items'' = PList (map (PDict \<circ> f) (take (nat limit) (drop (nat offset) rows)))"
      "dhas page ''cursor_next'' \<longleftrightarrow> offset + limit < int (length rows)"
      "dhas page ''cursor_next'' \<longrightarrow> dget page ''cursor_next'' = PStr (cursor_text (offset + limit))"
    using find_page_run [OF rows n f l Suc.prems(1)] by blast
  show ?case
  proof (cases "offset + limit < int (length rows)")
    case True
    have c: "find_offset [(''cursor_next'', dget page ''cursor_next'')] = Inr (offset + limit)"
      using p(3,4) True l Suc.prems(1) by (intro cursor_round_trip) (auto simp: dict_simps)
    have "walk_pages fuel E m acc q limit [(''cursor_next'', dget page ''cursor_next'')] w =
        Some (map (PDict \<circ> f) (drop (nat (offset + limit)) rows))"
      using Suc.prems l by (intro Suc.IH [OF _ _ c]) (use True in linarith)+
    moreover have "nat (offset + limit) = nat limit + nat offset" using l Suc.prems(1) by simp
    then have "drop (nat offset) rows = take (nat limit) (drop (nat offset) rows) @ drop (nat (offset + limit)) rows"
      by (metis append_take_drop_id drop_drop)
    ultimately show ?thesis using p True Suc.prems(3) by (simp flip: map_append)
  next
    case False
    then have "take (nat limit) (drop (nat offset) rows) = drop (nat offset) rows" using Suc.prems(1) by simp
    then show ?thesis using p False Suc.prems(3) by simp
  qed
qed simp

section \<open>Blurred locations, normalized contacts, and the properties\<close>

lemma round_even_near: "\<bar>of_int (round_even x) - x\<bar> \<le> 1 / 2"
proof -
  have f: "of_int \<lfloor>x\<rfloor> \<le> x" "x < of_int \<lfloor>x\<rfloor> + 1" by linarith+
  then show ?thesis unfolding round_even_def Let_def by (auto simp: abs_le_iff)
qed

lemma round4_near: "\<bar>round4 x - x\<bar> \<le> 1 / 20000"
proof -
  have "\<bar>of_int (round_even (x * 10000)) - x * 10000\<bar> \<le> 1 / 2" by (rule round_even_near)
  then have "\<bar>(of_int (round_even (x * 10000)) - x * 10000) / 10000\<bar> \<le> 1 / 20000"
    by (simp add: abs_divide)
  then show ?thesis by (simp add: round4_def diff_divide_distrib)
qed

lemma location_is_blurred:
  assumes "with_privacy E d False w = (Inr d', w')" and "access_control E None w = (Inr acc, w)"
    and "dget d ''uid'' \<noteq> ac_uid acc"
  shows "\<not> dhas d' ''geolat'' \<and> \<not> dhas d' ''geolong'' \<and>
    (truthy (dget d ''geolat'') \<and> truthy (dget d ''geolong'') \<longrightarrow>
      (\<exists>x y. dget d' ''geo'' = PList [PFloat x, PFloat y] \<and>
         \<bar>x - degrees (dget d ''geolong'')\<bar> \<le> 1 / 20000 \<and> \<bar>y - degrees (dget d ''geolat'')\<bar> \<le> 1 / 20000 \<and>
         (\<exists>i j. x = of_int i / 10000 \<and> y = of_int j / 10000)) \<and>
      (dhas d ''address'' \<longrightarrow> dget d' ''address'' = PStr []))"
proof -
  obtain u where u: "dsub d ''uid'' = Inr u" "u \<noteq> ac_uid acc"
    using assms(1,3) by (cases "dsub d ''uid''") (auto simp: with_privacy_def py_simps dsub_def dget_def split: option.splits)
  then have d': "d' = ddel (ddel (if \<not> (truthy (dget d ''geolat'') \<and> truthy (dget d ''geolong'')) then d
      else (let r = dset d ''geo'' (PList [PFloat (round4 (degrees (dget d ''geolong''))), PFloat (round4 (degrees (dget d ''geolat'')))])
            in if dhas r ''address'' then dset r ''address'' (PStr []) else r)) ''geolong'') ''geolat''"
    using assms(1,2) by (auto simp: with_privacy_def py_simps Let_def split: if_splits)
  have r: "\<exists>i. round4 x = of_int i / 10000" for x by (auto simp: round4_def)
  show ?thesis unfolding d' using round4_near r by (auto simp: dict_simps Let_def)
qed

lemma location_is_blurred_witness:
  "\<exists>d' w'. with_privacy (example_env ''/api/v1/location'') [(''uid'', PStr ''u-2''), (''geolat'', PInt 377749295), (''geolong'', PInt (-1224194155)),
      (''address'', PStr ''1 Main'')] False (mem_world []) = (Inr d', w') \<and> dget d' ''address'' = PStr [] \<and> \<not> dhas d' ''geolat''"
proof -
  let ?E = "example_env ''/api/v1/location''"
  let ?d = "[(''uid'', PStr ''u-2''), (''geolat'', PInt 377749295), (''geolong'', PInt (-1224194155)), (''address'', PStr ''1 Main'')]"
  obtain acc where a: "access_control ?E None (mem_world []) = (Inr acc, mem_world [])" "ac_uid acc = PNone"
    by (simp add: access_control_def credentials_def py_simps Let_def)
  then obtain d' w' where w: "with_privacy ?E ?d False (mem_world []) = (Inr d', w')"
    by (simp add: with_privacy_def py_simps dict_simps Let_def)
  from location_is_blurred [OF this a(1)] show ?thesis using w a(2) by (auto simp: dict_simps)
qed

lemma contact_is_normalized:
  assumes "contact_info body = Inr (Inr body')"
  shows "(dget body ''type'' = PStr ''sms'' \<longrightarrow> (\<exists>s. dget body' ''info'' = PStr s \<and> set s \<inter> set ''- ()'' = {})) \<and>
    (dget body ''type'' = PStr ''email'' \<longrightarrow> (\<exists>s. dget body' ''info'' = PStr s \<and> email_match s)) \<and>
    (\<forall>k. k \<noteq> ''info'' \<longrightarrow> dget body' k = dget body k)"
  using assms by (auto simp: contact_info_def dict_simps phone_strip_def split: if_splits sum.splits option.splits)

lemma contact_is_normalized_witness:
  "\<exists>b. contact_info [(''type'', PStr ''sms''), (''carrier'', PStr ''att''), (''info'', PStr ''(415) 555-0100'')] = Inr (Inr b) \<and>
     (\<exists>s. dget b ''info'' = PStr s \<and> set s \<inter> set ''- ()'' = {})"
proof -
  let ?b = "[(''type'', PStr ''sms''), (''carrier'', PStr ''att''), (''info'', PStr ''4155550100'')]"
  have c: "contact_info [(''type'', PStr ''sms''), (''carrier'', PStr ''att''), (''info'', PStr ''(415) 555-0100'')] = Inr (Inr ?b)"
    by code_simp
  show ?thesis using contact_is_normalized [OF c] c by (auto simp: dict_simps)
qed

lemma page_is_bounded:
  assumes "int_of (dget_or kwargs ''limit'' (PInt PER_PAGE_DEFAULT)) = Inr limit" and "0 \<le> limit"
    and "basic_find E kwargs w = (Inr (page, 200), w')"
  shows "\<exists>xs. dget page ''items'' = PList xs \<and> int (length xs) \<le> limit"
  using yieldsD [OF basic_find_within [OF assms(1,2)] assms(3)] by (simp add: page_within_def)


lemma find_hides_columns:
  assumes "hidden E m k" and "find_items E m acc rows w = (Inr items, w')" and "d \<in> set items"
  shows "\<not> dhas d k"
  using yieldsD [OF find_items_hide [OF assms(1)] assms(2)] assms(3) by blast

text \<open>C2: BasicCRUD.update is atomic for a body without relationship attributes: a request that does not
  answer 200 (and does not raise the TypeError of the final log call, which comes after the commit)
  leaves the durable tables as they were.\<close>

lemma update_all_or_nothing:
  assumes "db_contract (e_db E) durable" and "controller E = Inr (res, m)"
    and "e_related E m = None \<or> (\<exists>as. e_related E m = Some as \<and>
      (\<forall>a \<in> set as. \<not> dhas body a \<and> a \<notin> {''modified'', ''expires'', ''totp_secret''}))"
    and "basic_update E ident body act limits w = (r, w')" and "\<not> answers {200} r" and "\<not> raises ETypeError r"
  shows "durable (w_db w') = durable (w_db w)"
  using unlessD [OF db_contract.basic_update_atomic [OF assms(1) refl assms(2,3)] assms(4)] assms(5,6) by blast

lemma contact_all_or_nothing:
  assumes "db_contract (e_db E) durable" and "update_contact E ident body w = (r, w')" and "\<not> answers {200} r"
  shows "durable (w_db w') = durable (w_db w)"
  using unlessD [OF db_contract.update_contact_atomic [OF assms(1) refl] assms(2,3)] .

text \<open>C3: BasicCRUD.create is atomic for a model without relationships: a request that does not answer 201
  leaves the durable tables as they were, whichever check or error stopped it.\<close>

lemma create_all_or_nothing:
  assumes "db_contract (e_db E) durable" and "controller E = Inr (res, m)" and "e_related E m = None"
    and "crud_create E body id_prefix limits w = (r, w')" and "\<not> created r"
  shows "durable (w_db w') = durable (w_db w)"
  using unlessD [OF db_contract.crud_create_atomic [OF assms(1) refl assms(2,3)] assms(4,5)] .


section \<open>Applications\<close>

lemma memory_contract: "db_contract (e_db (example_env r)) md_durable"
  using memory_db.db_contract_axioms by simp

lemma update_all_or_nothing_witness:
  "case basic_update (example_env ''/api/v1/profile'') (PStr ''x-2'') [(''value'', PStr ''fr'')] CHR ''u'' [] (mem_world one_profile) of
     (r, w') \<Rightarrow> r = Inr (denied_id (PStr ''x-2'')) \<and> md_durable (w_db w') = one_profile"
proof -
  let ?E = "example_env ''/api/v1/profile''"
  obtain r w' where run: "basic_update ?E (PStr ''x-2'') [(''value'', PStr ''fr'')] CHR ''u'' [] (mem_world one_profile) = (r, w')" by fastforce
  have f: "fst (basic_update ?E (PStr ''x-2'') [(''value'', PStr ''fr'')] CHR ''u'' [] (mem_world one_profile)) = Inr (denied_id (PStr ''x-2''))"
    "controller ?E = Inr (''profile'', ''Profile'')" "e_related ?E ''Profile'' = None" by code_simp+
  then show ?thesis using run update_all_or_nothing [OF memory_contract f(2) _ run]
    by (simp add: denied_id_def raises_def mem_world_def)
qed

lemma contact_all_or_nothing_witness:
  "case update_contact (example_env ''/api/v1/contact'') (PStr ''x-7'') [(''type'', PStr ''email''), (''info'', PStr ''a@b.co'')]
      (mem_world [(''Contact'', [[(''id'', PStr ''x-7''), (''info'', PStr ''b@b.co''), (''uid'', PStr ''u-2'')]])]) of
     (r, w') \<Rightarrow> r = Inr (denied_id (PStr ''x-7'')) \<and>
       md_durable (w_db w') = [(''Contact'', [[(''id'', PStr ''x-7''), (''info'', PStr ''b@b.co''), (''uid'', PStr ''u-2'')]])]"
proof -
  let ?E = "example_env ''/api/v1/contact''" and ?b = "[(''type'', PStr ''email''), (''info'', PStr ''a@b.co'')]"
  let ?t = "[(''Contact'', [[(''id'', PStr ''x-7''), (''info'', PStr ''b@b.co''), (''uid'', PStr ''u-2'')]])]"
  obtain r w' where run: "update_contact ?E (PStr ''x-7'') ?b (mem_world ?t) = (r, w')" by fastforce
  have f: "fst (update_contact ?E (PStr ''x-7'') ?b (mem_world ?t)) = Inr (denied_id (PStr ''x-7''))" by code_simp
  then show ?thesis using run contact_all_or_nothing [OF memory_contract run]
    by (simp add: denied_id_def mem_world_def)
qed

lemma create_all_or_nothing_witness:
  "case crud_create (example_env ''/api/v1/profile'') [(''id'', PStr ''x-3''), (''item'', PStr ''lang'')] ''x-'' [] (mem_world one_profile) of
     (r, w') \<Rightarrow> \<not> created r \<and> md_durable (w_db w') = one_profile"
proof -
  let ?E = "example_env ''/api/v1/profile''" and ?b = "[(''id'', PStr ''x-3''), (''item'', PStr ''lang'')]"
  obtain r w' where run: "crud_create ?E ?b ''x-'' [] (mem_world one_profile) = (r, w')" by fastforce
  have f: "\<not> created (fst (crud_create ?E ?b ''x-'' [] (mem_world one_profile)))"
    "controller ?E = Inr (''profile'', ''Profile'')" "e_related ?E ''Profile'' = None" by code_simp+
  then show ?thesis using run create_all_or_nothing [OF memory_contract f(2,3) run]
    by (simp add: mem_world_def)
qed

definition three_zones :: "(string \<times> dict list) list" where
  "three_zones = [(''Tz'', [[(''id'', PInt 1), (''name'', PStr ''UTC'')], [(''id'', PInt 2), (''name'', PStr ''CET'')],
     [(''id'', PInt 3), (''name'', PStr ''EST'')]])]"

lemma mem_slice:
  "q_slice q = None \<Longrightarrow> 0 \<le> a \<Longrightarrow> a \<le> b \<Longrightarrow>
     db_all mem_db (slice_of a b q) d = Inr (take (nat (b - a)) (drop (nat a) (mem_select q d)))"
proof -
  have "matches c (q\<lparr>q_slice := s\<rparr>) = matches c q" for c s by (simp add: matches_def fun_eq_iff)
  then show "q_slice q = None \<Longrightarrow> 0 \<le> a \<Longrightarrow> a \<le> b \<Longrightarrow> ?thesis"
    by (simp add: mem_db_def mem_select_def slice_of_def)
qed

definition zone_item :: "dict \<Rightarrow> dict" where
  "zone_item r = r @ [(''rbac'', PStr [])]"


definition two_persons :: "(string \<times> dict list) list" where
  "two_persons = [(''Person'', [
     [(''id'', PStr ''u-1''), (''name'', PStr ''Ann''), (''status'', PStr ''active''), (''privacy'', PStr ''public'')],
     [(''id'', PStr ''u-2''), (''name'', PStr ''Bob''), (''status'', PStr ''active''), (''privacy'', PStr ''public'')]])]"

lemma page_is_bounded_witness:
  "\<exists>page w'. basic_find (example_env ''/api/v1/person'') [(''limit'', PInt 1)] (mem_world two_persons) = (Inr (page, 200), w') \<and>
     (\<exists>xs. dget page ''items'' = PList xs \<and> length xs \<le> 1) \<and> dget page ''count'' = PInt 2"
proof -
  let ?run = "basic_find (example_env ''/api/v1/person'') [(''limit'', PInt 1)] (mem_world two_persons)"
  have "case fst ?run of Inl _ \<Rightarrow> False | Inr (p, s) \<Rightarrow> s = 200 \<and> dget p ''count'' = PInt 2" by code_simp
  then obtain page w' where run: "?run = (Inr (page, 200), w')" "dget page ''count'' = PInt 2"
    by (cases ?run) (auto split: sum.splits)
  from page_is_bounded [OF _ _ run(1), of 1] show ?thesis using run by (auto simp: dict_simps int_of_def dget_or_def)
qed


lemma find_hides_columns_witness:
  "case find_items (example_env ''/api/v1/apikey'') ''APIkey'' (demo_access [''admin''] ''APIkey'') [[(''id'', PStr ''k-1''),
      (''hashvalue'', PStr ''secret'')]] (mem_world []) of
     (Inr items, _) \<Rightarrow> \<forall>d \<in> set items. \<not> dhas d ''hashvalue'' | _ \<Rightarrow> True"
proof -
  have h: "hidden (example_env ''/api/v1/apikey'') ''APIkey'' ''hashvalue''" by code_simp
  show ?thesis using find_hides_columns [OF h] by (auto split: prod.splits sum.splits simp del: find_items.simps)
qed

lemma next_page_cursor:
  assumes "0 \<le> n" and "dget kwargs ''cursor_next'' = PStr (cursor_text n)"
  shows "find_offset kwargs = Inr n"
  using cursor_round_trip [OF assms] .

lemma next_page_cursor_witness: "find_offset [(''cursor_next'', PStr (cursor_text 40))] = Inr 40"
  using next_page_cursor [of 40 "[(''cursor_next'', PStr (cursor_text 40))]"] by (simp add: dict_simps)

end
