(* ===== verification/Trashcan.thy ===== *)
theory Trashcan imports Crud begin

text \<open>
  apicrud/trashcan.py: reading, restoring and purging the records that were disabled. A record is
  named by \<open><resource>-<id>\<close>; a search goes through the resources in the order in which their
  controllers were registered, and its cursor names the resource and the offset in it.
\<close>

section \<open>Composite ids\<close>

text \<open>\<open>id.split('-', maxsplit=1)\<close>, unpacked into two names.\<close>

definition composite_id :: "string \<Rightarrow> exc + (string \<times> string)" where
  "composite_id s =
     (if CHR ''-'' \<in> set s then Inr (takeWhile (\<lambda>c. c \<noteq> CHR ''-'') s, tl (dropWhile (\<lambda>c. c \<noteq> CHR ''-'') s))
      else Inl (Exc EValueError ''not enough values to unpack (expected 2, got 1)''))"

definition record_name :: "string \<Rightarrow> string \<Rightarrow> string" where
  "record_name resource ident = resource @ ''-'' @ ident"

definition models_attr :: "('d, 'r, 'c) env \<Rightarrow> string \<Rightarrow> exc + string" where
  "models_attr E n = (if n \<in> set (e_models E) then Inr n
     else Inl (Exc EAttributeError (''module has no attribute '' @ n)))"

text \<open>
  \<open>get\<close> and \<open>update\<close> look up the capitalized name, which is not how APIkey is spelled; \<open>delete\<close> and
  \<open>find\<close> make an exception for it.
\<close>

definition trash_model :: "('d, 'r, 'c) env \<Rightarrow> string \<Rightarrow> exc + string" where
  "trash_model E resource =
     models_attr E (if resource = ''apikey'' then ''APIkey'' else capitalize resource)"

lemma composite_record [simp]: "CHR ''-'' \<notin> set r \<Longrightarrow> composite_id (record_name r i) = Inr (r, i)"
proof -
  assume r: "CHR ''-'' \<notin> set r"
  then have "\<And>x. x \<in> set r \<Longrightarrow> x \<noteq> CHR ''-''" by metis
  then show ?thesis by (auto simp: composite_id_def record_name_def takeWhile_append dropWhile_append)
qed

section \<open>Get, update, delete\<close>

definition trash_get_row ::
    "('d, 'r, 'c) env \<Rightarrow> string \<Rightarrow> access \<Rightarrow> query \<Rightarrow> string \<Rightarrow> dict \<Rightarrow> (('d, 'r, 'c) world, resp) py" where
  "trash_get_row E m acc q ident row =
     bnd (row_as_dict E m row) (\<lambda>d0.
     bnd (add_owner E m row (e_attrs E m ''uid'' \<and> e_attrs E m ''owner'') d0) (\<lambda>d1.
     bnd (rbac_permissions E acc (Some q)
            (no_target\<lparr>tg_membership := PStr (ac_primary acc), tg_id := member_id E m acc\<rparr>)) (\<lambda>actions.
     let rbac = actions - {CHR ''c''}
     in if CHR ''r'' \<in> rbac then ret (dset (drop_modified d1) ''rbac'' (PStr (rbac_string rbac)), 200)
        else ret ([(''message'', PStr ''access denied''), (''id'', PStr ident)], 403))))"

definition trash_get :: "('d, 'r, 'c) env \<Rightarrow> string \<Rightarrow> (('d, 'r, 'c) world, resp) py" where
  "trash_get E ident =
     bnd (of_result (controller E)) (\<lambda>_.
     bnd (of_result (composite_id ident)) (\<lambda>(resource, record_id).
     bnd (of_result (models_attr E (capitalize resource))) (\<lambda>m.
     bnd (access_control E (Some m)) (\<lambda>acc.
     let q = filter_by [(''id'', PStr record_id)] (query_of m)
     in bnd (try_catch (bnd (run_one E q) (\<lambda>row. ret (Inr row)))
          (\<lambda>ex. if exc_kind ex = ENoResultFound
                then ret (Inl ([(''id'', PStr ident), (''message'', PStr (not_found_message ex))], 404))
                else raise_exc ex)) (\<lambda>r. case r of
          Inl response \<Rightarrow> ret response
        | Inr row \<Rightarrow> trash_get_row E m acc q ident row)))))"

text \<open>Only the status is written; it takes the permission to delete, not the one to update.\<close>

definition trash_update_row ::
    "('d, 'r, 'c) env \<Rightarrow> string \<Rightarrow> string \<Rightarrow> string \<Rightarrow> dict \<Rightarrow> (('d, 'r, 'c) world, resp + dict) py" where
  "trash_update_row E m ident record_id body =
     (let q = filter_by [(''id'', PStr record_id)] (query_of m)
      in try_catch
           (bnd (access_control E (Some m)) (\<lambda>acc.
            bnd (with_permission E acc (CHR ''d'') (Some q) PNone PNone PNone) (\<lambda>allowed.
            if \<not> allowed then ret (Inl (denied_id (PStr ident)))
            else bnd (run_one E q) (\<lambda>row.
                 bnd (row_as_dict E m row) (\<lambda>current.
                 bnd (on_db (db_update (e_db E) q [(''status'', dget body ''status'')])) (\<lambda>_.
                 bnd (commit E) (\<lambda>_.
                 ret (Inr current))))))))
           (\<lambda>ex. bnd (db_abort E) (\<lambda>response. ret (Inl response))))"

definition trash_update :: "('d, 'r, 'c) env \<Rightarrow> string \<Rightarrow> dict \<Rightarrow> (('d, 'r, 'c) world, resp) py" where
  "trash_update E ident body =
     bnd (of_result (composite_id ident)) (\<lambda>(resource, record_id).
     bnd (of_result (controller E)) (\<lambda>_.
     bnd (of_result (models_attr E (capitalize resource))) (\<lambda>m.
     bnd (access_control E None) (\<lambda>_.
     bnd (trash_update_row E m ident record_id body) (\<lambda>r. case r of
       Inl response \<Rightarrow> ret response
     | Inr current \<Rightarrow>
         bnd (of_result (log_update current body)) (\<lambda>_.
         ret ([(''id'', PStr ident), (''message'', PStr ''updated'')], 200)))))))"

text \<open>One round of the loop of \<open>delete\<close>; the state counts the ids whose query deleted nothing.\<close>

definition trash_delete_one ::
    "('d, 'r, 'c) env \<Rightarrow> string \<Rightarrow> nat \<Rightarrow> (('d, 'r, 'c) world, (nat, resp) flow) py" where
  "trash_delete_one E ident errors =
     bnd (of_result (composite_id ident)) (\<lambda>(resource, record_id).
     bnd (of_result (trash_model E resource)) (\<lambda>m.
     let q = filter_by [(''id'', PStr record_id)] (query_of m)
     in try_catch
          (bnd (access_control E (Some m)) (\<lambda>acc.
           bnd (with_permission E acc (CHR ''d'') (Some q) PNone PNone PNone) (\<lambda>allowed.
           if \<not> allowed then ret (Return (denied_id (PStr ident)))
           else bnd (on_db (db_delete (e_db E) q)) (\<lambda>n. ret (Continue (if n = 0 then errors + 1 else errors))))))
          (\<lambda>ex. bnd (db_abort E) (\<lambda>response. ret (Return response)))))"

definition trash_delete :: "('d, 'r, 'c) env \<Rightarrow> string list \<Rightarrow> (('d, 'r, 'c) world, resp) py" where
  "trash_delete E ids =
     bnd (of_result (controller E)) (\<lambda>_.
     bnd (access_control E None) (\<lambda>_.
     bnd (for_loop (trash_delete_one E) ids 0) (\<lambda>fl. case fl of
       Return response \<Rightarrow> ret response
     | Continue errors \<Rightarrow> finish_delete E errors)))"

section \<open>Find\<close>

definition trash_cursor :: "dict \<Rightarrow> exc + (string \<times> int)" where
  "trash_cursor kwargs =
     (if dhas kwargs ''cursor_next'' then
        (case cursor_field kwargs 1 of Inl e \<Rightarrow> Inl e
         | Inr start \<Rightarrow> (case cursor_field kwargs 2 of Inl e \<Rightarrow> Inl e
         | Inr n \<Rightarrow> (case int_of (PStr n) of Inl e \<Rightarrow> Inl e | Inr offset \<Rightarrow> Inr (start, offset))))
      else if dhas kwargs ''offset'' then
        (case int_of (dget kwargs ''offset'') of Inl e \<Rightarrow> Inl e | Inr offset \<Rightarrow> Inr (''0'', offset))
      else Inr (''0'', 0))"

definition trash_cursor_text :: "string \<Rightarrow> int \<Rightarrow> string" where
  "trash_cursor_text resource offset = tob64 (''cursor:'' @ resource @ '':'' @ show_int offset)"

text \<open>A filter that is not an object cannot be indexed by a name.\<close>

definition trash_filter :: "dict \<Rightarrow> exc + dict" where
  "trash_filter kwargs =
     (case str_of (dget_or kwargs ''filter'' (PStr ''{}'')) of
        Inl e \<Rightarrow> Inl e
      | Inr s \<Rightarrow> (case json_loads s of
          Inl e \<Rightarrow> Inl e
        | Inr (PDict d) \<Rightarrow> Inr d
        | Inr _ \<Rightarrow> Inl (Exc ETypeError ''indices must be integers'')))"

text \<open>Who is not an administrator sees only what is their own: \<open>Inr None\<close> is a denial.\<close>

definition trash_scope :: "access \<Rightarrow> dict \<Rightarrow> exc + dict option" where
  "trash_scope acc flt =
     (case ac_auth acc of
        None \<Rightarrow> Inl (Exc ETypeError ''argument of type NoneType is not iterable'')
      | Some roles \<Rightarrow>
          if ''admin'' \<in> set roles then Inr (Some flt)
          else if dhas flt ''uid'' \<and> dget flt ''uid'' \<noteq> ac_uid acc then Inr None
          else Inr (Some (dset flt ''uid'' (ac_uid acc))))"

text \<open>The resources to search: that of the filter, or the registered ones from the cursor's on.\<close>

definition trash_resources :: "('d, 'r, 'c) env \<Rightarrow> dict \<Rightarrow> dict \<Rightarrow> string \<Rightarrow> (pyval list \<times> dict) option" where
  "trash_resources E kwargs flt start =
     (if dhas flt ''resource'' then Some ([dget flt ''resource''], ddel flt ''resource'')
      else if dhas kwargs ''offset'' then None
      else Some (map PStr (filter (\<lambda>k. k \<notin> {''auth'', ''scope'', ''settings'', ''trashcan'', ''tz''} \<and> start \<le> k)
                    (map fst (e_controllers E))), flt))"

definition drop_null_id :: "dict \<Rightarrow> dict" where
  "drop_null_id flt = (if dhas flt ''id'' \<and> \<not> truthy (dget flt ''id'') then ddel flt ''id'' else flt)"

text \<open>
  The loop over the filter of one resource; a person is found by its referrer. \<open>Inr None\<close> where the
  model has no such attribute.
\<close>

fun trash_keys ::
    "('d, 'r, 'c) env \<Rightarrow> string \<Rightarrow> string \<Rightarrow> string list \<Rightarrow> dict \<Rightarrow> query \<Rightarrow> exc + (dict \<times> query) option" where
  "trash_keys E resource m [] flt q = Inr (Some (flt, q))"
| "trash_keys E resource m (k # ks) flt q =
     (if k = ''uid'' \<and> resource = ''person''
      then trash_keys E resource m ks (dset (ddel flt ''uid'') ''referrer_id'' (dget flt ''uid'')) q
      else if \<not> e_attrs E m k then Inr None
      else (case filter_key E m k flt q of
          Inl e \<Rightarrow> Inl e
        | Inr (flt', q') \<Rightarrow> trash_keys E resource m ks flt' q'))"

fun pick_fields :: "('d, 'r, 'c) env \<Rightarrow> string \<Rightarrow> dict \<Rightarrow> string list \<Rightarrow> exc + dict" where
  "pick_fields E m data [] = Inr []"
| "pick_fields E m data (k # ks) =
     (if \<not> e_attrs E m k then pick_fields E m data ks
      else (case dsub data k of Inl e \<Rightarrow> Inl e
          | Inr v \<Rightarrow> (case pick_fields E m data ks of Inl e \<Rightarrow> Inl e | Inr d \<Rightarrow> Inr ((k, v) # d))))"

fun first_field :: "('d, 'r, 'c) env \<Rightarrow> string \<Rightarrow> dict \<Rightarrow> string list \<Rightarrow> exc + pyval" where
  "first_field E m data [] = Inr (PStr [])"
| "first_field E m data (k # ks) = (if e_attrs E m k then dsub data k else first_field E m data ks)"

definition trash_record :: "('d, 'r, 'c) env \<Rightarrow> string \<Rightarrow> string \<Rightarrow> dict \<Rightarrow> exc + dict" where
  "trash_record E resource m data =
     (case pick_fields E m data [''created'', ''modified'', ''uid'', ''status''] of Inl e \<Rightarrow> Inl e
      | Inr fs \<Rightarrow> (case dsub data ''id'' of Inl e \<Rightarrow> Inl e
      | Inr i \<Rightarrow> (case first_field E m data [''name'', ''info'', ''item'', ''subject''] of Inl e \<Rightarrow> Inl e
      | Inr n \<Rightarrow> Inr (fs @ [(''id'', PStr (record_name resource (py_str i))), (''resource'', PStr resource),
          (''name'', n), (''rbac'', PStr ''dru'')]))))"

definition trash_page :: "dict list \<Rightarrow> dict" where
  "trash_page items = [(''items'', PList (map PDict items)), (''count'', PInt (int (length items)))]"

text \<open>One round of the loop over the results; the state is the page so far and the offset.\<close>

definition trash_item ::
    "('d, 'r, 'c) env \<Rightarrow> string \<Rightarrow> string \<Rightarrow> int \<Rightarrow> dict \<Rightarrow> dict list \<times> int \<Rightarrow>
     (('d, 'r, 'c) world, (dict list \<times> int, resp) flow) py" where
  "trash_item E resource m limit row st = (case st of (items, offset) \<Rightarrow>
     if limit \<le> int (length items)
     then ret (Return (trash_page items @ [(''cursor_next'', PStr (trash_cursor_text resource offset))], 200))
     else bnd (row_as_dict E m row) (\<lambda>data.
          bnd (of_result (trash_record E resource m data)) (\<lambda>record.
          ret (Continue (items @ [record], offset + 1)))))"

text \<open>
  The query of one resource: an exception that ends the request is \<open>Inl\<close>, an invalid filter key
  \<open>Inr (Inl _)\<close> with the response, a filter that the database layer refuses is rolled back by the
  caller.
\<close>

definition trash_order :: "('d, 'r, 'c) env \<Rightarrow> string \<Rightarrow> string \<times> bool \<Rightarrow> query \<Rightarrow> query" where
  "trash_order E m srt q = (if e_attrs E m (fst srt) then order_by (m, fst srt) (snd srt) q else q)"

definition trash_query ::
    "('d, 'r, 'c) env \<Rightarrow> string \<Rightarrow> access \<Rightarrow> string \<times> bool \<Rightarrow> query \<Rightarrow> exc + query" where
  "trash_query E m acc srt q =
     (case column_of E m ''status'' of Inl e \<Rightarrow> Inl e
      | Inr st \<Rightarrow> with_filter E acc (where_cond (CEq st (PStr ''disabled'')) (trash_order E m srt q)) (CHR ''r''))"

definition trash_fetch ::
    "('d, 'r, 'c) env \<Rightarrow> query \<Rightarrow> int \<Rightarrow> int \<Rightarrow> (('d, 'r, 'c) world, resp + dict list) py" where
  "trash_fetch E q offset limit =
     try_catch (bnd (run_all E (slice_of offset (offset + limit + 1) q)) (\<lambda>rs. ret (Inr rs)))
       (\<lambda>ex. bnd (db_abort E) (\<lambda>response. ret (Inl response)))"

definition trash_collect ::
    "('d, 'r, 'c) env \<Rightarrow> string \<Rightarrow> string \<Rightarrow> int \<Rightarrow> dict list \<Rightarrow> dict list \<times> int \<Rightarrow>
     (('d, 'r, 'c) world, (dict list \<times> int, resp) flow) py" where
  "trash_collect E resource m limit results st =
     bnd (for_loop (trash_item E resource m limit) (py_take (limit - int (length (fst st)) + 1) results) st) (\<lambda>fl. case fl of
       Return response \<Rightarrow> ret (Return response)
     | Continue (items, offset) \<Rightarrow> ret (Continue (items, if items \<noteq> [] then 0 else offset)))"

definition trash_resource ::
    "('d, 'r, 'c) env \<Rightarrow> dict \<Rightarrow> string \<times> bool \<Rightarrow> int \<Rightarrow> pyval \<Rightarrow> dict list \<times> int \<Rightarrow>
     (('d, 'r, 'c) world, (dict list \<times> int, resp) flow) py" where
  "trash_resource E flt srt limit res st =
     bnd (of_result (case res of PStr s \<Rightarrow> Inr s
        | _ \<Rightarrow> Inl (Exc EAttributeError ''object has no attribute capitalize''))) (\<lambda>resource.
     bnd (of_result (trash_model E resource)) (\<lambda>m.
     bnd (access_control E (Some m)) (\<lambda>acc.
     bnd (of_result (trash_keys E resource m (map fst flt) flt (query_of m))) (\<lambda>keyed. case keyed of
       None \<Rightarrow> ret (Return ([(''message'', PStr ''invalid filter key''), (''resource'', PStr resource)], 405))
     | Some (xfilter, q1) \<Rightarrow> (case filter_by_checked E xfilter q1 of
         Inl _ \<Rightarrow> bnd (db_abort E) (\<lambda>response. ret (Return response))
       | Inr q2 \<Rightarrow>
           bnd (of_result (trash_query E m acc srt q2)) (\<lambda>q.
           bnd (trash_fetch E q (snd st) limit) (\<lambda>r. case r of
             Inl response \<Rightarrow> ret (Return response)
           | Inr results \<Rightarrow> trash_collect E resource m limit results st)))))))"

definition trash_search ::
    "('d, 'r, 'c) env \<Rightarrow> dict \<Rightarrow> string \<times> bool \<Rightarrow> int \<Rightarrow> pyval list \<Rightarrow> int \<Rightarrow> (('d, 'r, 'c) world, resp) py" where
  "trash_search E flt srt limit resources offset =
     bnd (for_loop (trash_resource E flt srt limit) resources ([], offset)) (\<lambda>fl. case fl of
       Return response \<Rightarrow> ret response
     | Continue (items, _) \<Rightarrow> ret (trash_page items, 200))"

definition trash_find_for :: "('d, 'r, 'c) env \<Rightarrow> access \<Rightarrow> dict \<Rightarrow> (('d, 'r, 'c) world, resp) py" where
  "trash_find_for E acc kwargs =
     bnd (of_result (trash_cursor kwargs)) (\<lambda>(start, offset).
     bnd (of_result (find_sort kwargs ''name'')) (\<lambda>srt.
     case trash_filter kwargs of
       Inl e \<Rightarrow> if exc_kind e = EJSONDecodeError
               then ret (msg_resp (''invalid filter specified='' @ exc_msg e) 405) else raise_exc e
     | Inr flt0 \<Rightarrow>
         bnd (of_result (trash_scope acc flt0)) (\<lambda>scoped. case scoped of
           None \<Rightarrow> ret (msg_resp ''access denied'' 403)
         | Some flt1 \<Rightarrow> (case trash_resources E kwargs flt1 start of
             None \<Rightarrow> ret (msg_resp ''use cursor pagination or specify resource in filter'' 405)
           | Some (resources, flt2) \<Rightarrow>
               bnd (of_result (int_of (dget_or kwargs ''limit'' (PInt PER_PAGE_DEFAULT)))) (\<lambda>limit.
               trash_search E (drop_null_id flt2) srt limit resources offset)))))"

definition trash_find :: "('d, 'r, 'c) env \<Rightarrow> dict \<Rightarrow> (('d, 'r, 'c) world, resp) py" where
  "trash_find E kwargs =
     bnd (of_result (controller E)) (\<lambda>_.
     bnd (access_control E None) (\<lambda>acc. trash_find_for E acc kwargs))"

section \<open>What the operations leave alone\<close>

context db_contract
begin

lemma keeps_trash_delete_one [keeps_intros]:
  "e_db E = D \<Longrightarrow> keeps (\<lambda>w. durable (w_db w)) (trash_delete_one E ident errors)"
  by (auto simp: trash_delete_one_def Let_def intro!: keeps_intros)

lemma trash_delete_atomic:
  "e_db E = D \<Longrightarrow> unless (answers {204, 404}) (\<lambda>w. durable (w_db w)) (trash_delete E ids)"
  by (auto simp: trash_delete_def intro!: unless_intros keeps_intros)

end

section \<open>What a search shows\<close>

lemma yields_result_then: "(\<And>x. r = Inr x \<Longrightarrow> yields P (f x)) \<Longrightarrow> yields P (bnd (of_result r) f)"
  by (cases r) (auto simp: yields_def py_simps)

text \<open>The invariant of a loop with an early return, for what it yields.\<close>

definition flow_ok :: "('s \<Rightarrow> bool) \<Rightarrow> ('r \<Rightarrow> bool) \<Rightarrow> ('s, 'r) flow \<Rightarrow> bool" where
  "flow_ok I R fl = (case fl of Continue s \<Rightarrow> I s | Return r \<Rightarrow> R r)"

lemma flow_ok_simps [simp]: "flow_ok I R (Continue s) = I s" "flow_ok I R (Return r) = R r"
  by (simp_all add: flow_ok_def)

lemma yields_for_loop:
  assumes "\<And>x s. x \<in> set xs \<Longrightarrow> I s \<Longrightarrow> yields (flow_ok I R) (body x s)" and "I s"
  shows "yields (flow_ok I R) (for_loop body xs s)"
  using assms
proof (induction xs arbitrary: s)
  case (Cons x xs)
  have "yields (flow_ok I R) (body x s)" using Cons.prems by simp
  then show ?case unfolding for_loop.simps
    by (rule yields_then) (auto simp: Cons intro!: yields_intros split: flow.split)
qed (auto intro!: yields_intros)

lemma del_all_get: "del_all ks d = Inr d' \<Longrightarrow> dhas d' k \<Longrightarrow> dget d' k = dget d k"
proof (induction ks arbitrary: d)
  case (Cons a ks)
  then have d: "del_all ks (ddel d a) = Inr d'" by (auto split: if_splits)
  moreover have "k \<noteq> a" using del_all_absent [OF d, of a] Cons.prems(2) by (auto simp: dict_simps)
  ultimately show ?case using Cons.IH Cons.prems(2) by (simp add: dict_simps)
qed simp

lemma add_related_get: "add_related rel ks d = Inr d' \<Longrightarrow> k \<notin> set ks \<Longrightarrow> dget d' k = dget d k"
  by (induction ks arbitrary: d) (auto simp: dict_simps split: sum.splits)

lemma add_hybrid_get: "k \<notin> set ks \<Longrightarrow> dget (add_hybrid hyb ks d) k = dget d k"
  by (induction ks arbitrary: d) (auto simp: dict_simps)

text \<open>A column of the model: no relationship or hybrid has its name.\<close>

definition plain_column :: "('d, 'r, 'c) env \<Rightarrow> string \<Rightarrow> string \<Rightarrow> bool" where
  "plain_column E m k \<longleftrightarrow> k \<notin> set (case e_related E m of None \<Rightarrow> [] | Some ks \<Rightarrow> ks) \<and> k \<notin> set (e_hybrid E m) \<and>
     k \<noteq> ''_sa_instance_state''"

lemma as_dict_get:
  assumes "plain_column E m k"
  shows "yields (\<lambda>d. dhas d k \<longrightarrow> dget d k = dget row k) (row_as_dict E m row)"
  unfolding row_as_dict_def
proof (rule yields_reads, rule impI)
  fix d w
  let ?rel = "\<lambda>a. db_related (e_db E) m (dget row ''id'') a (w_db w)"
  let ?hyb = "\<lambda>h. if h = ''totp'' then PBool (account_totp row) else PNone"
  assume "as_dict_of (e_exclude E m) (e_related E m) (e_hybrid E m) ?rel ?hyb row = Inr d" and h: "dhas d k"
  then obtain d1 d2 where d: "del_all (e_exclude E m) row = Inr d1"
    "add_related ?rel (case e_related E m of None \<Rightarrow> [] | Some ks \<Rightarrow> ks) d1 = Inr d2"
    "d = ddel (add_hybrid ?hyb (e_hybrid E m) d2) ''_sa_instance_state''"
    by (auto simp: as_dict_of_def split: sum.splits)
  have "dhas d1 k" "dget d k = dget d1 k" using assms d h
    by (auto simp: plain_column_def dict_simps add_hybrid_absent add_hybrid_get add_related_absent add_related_get)
  then show "dget d k = dget row k" using del_all_get [OF d(1)] by simp
qed

lemma dget_append: "dget (a @ b) k = (if dhas a k then dget a k else dget b k)"
  by (auto simp: dget_def dhas_def map_add_def split: option.splits)

lemma pick_fields_get:
  "pick_fields E m data ks = Inr d \<Longrightarrow>
     (dhas d k \<longleftrightarrow> k \<in> set ks \<and> e_attrs E m k) \<and> (dhas d k \<longrightarrow> dhas data k \<and> dget d k = dget data k)"
proof (induction ks arbitrary: d)
  case (Cons a ks)
  then show ?case
    by (auto simp: dict_simps dsub_def dhas_def dget_def split: if_splits sum.splits option.splits)
qed (simp add: dict_simps)

lemma trash_record_get:
  assumes "trash_record E res m data = Inr r"
  shows "dget r ''resource'' = PStr res"
    and "k \<in> {''uid'', ''status''} \<Longrightarrow> e_attrs E m k \<Longrightarrow> dhas data k \<and> dget r k = dget data k"
proof -
  obtain fs i n where r: "pick_fields E m data [''created'', ''modified'', ''uid'', ''status''] = Inr fs"
    "r = fs @ [(''id'', PStr (record_name res (py_str i))), (''resource'', PStr res), (''name'', n), (''rbac'', PStr ''dru'')]"
    using assms by (auto simp: trash_record_def split: sum.splits)
  note p = pick_fields_get [OF r(1)]
  show "dget r ''resource'' = PStr res" using p [of "''resource''"] by (simp add: r(2) dget_append dict_simps)
  show "k \<in> {''uid'', ''status''} \<Longrightarrow> e_attrs E m k \<Longrightarrow> dhas data k \<and> dget r k = dget data k"
    using p [of k] by (auto simp: r(2) dget_append)
qed

text \<open>An item of the trashcan of user \<open>u\<close>: disabled and, persons apart, theirs.\<close>

definition trashed :: "pyval \<Rightarrow> dict \<Rightarrow> bool" where
  "trashed u item \<longleftrightarrow> dget item ''status'' = PStr ''disabled'' \<and>
     (dget item ''resource'' = PStr ''person'' \<or> dget item ''uid'' = u)"

definition trash_shown :: "pyval \<Rightarrow> resp \<Rightarrow> bool" where
  "trash_shown u r \<longleftrightarrow> (snd r = 200 \<longrightarrow>
     (\<exists>items. dget (fst r) ''items'' = PList (map PDict items) \<and> (\<forall>i \<in> set items. trashed u i)))"

abbreviation shown_flow :: "pyval \<Rightarrow> (dict list \<times> int, resp) flow \<Rightarrow> bool" where
  "shown_flow u \<equiv> flow_ok (\<lambda>(items, n). \<forall>i \<in> set items. trashed u i) (trash_shown u)"

lemma trash_shown_page: "(\<forall>i \<in> set items. trashed u i) \<Longrightarrow> trash_shown u (trash_page items @ rest, 200)"
  by (auto simp: trash_shown_def trash_page_def dget_append dict_simps)

lemma trash_shown_error: "s \<noteq> 200 \<Longrightarrow> trash_shown u (d, s)"
  by (simp add: trash_shown_def)

lemma yields_abort_shown: "yields (trash_shown u) (db_abort E)"
  by (auto simp: db_abort_def msg_resp_def trash_shown_def intro!: yields_intros)

lemma trash_item_shown:
  assumes "e_attrs E m ''status''" "plain_column E m ''status''" "dget row ''status'' = PStr ''disabled''"
    and "res \<noteq> ''person'' \<longrightarrow> e_attrs E m ''uid'' \<and> plain_column E m ''uid'' \<and> dget row ''uid'' = u"
    and "\<forall>i \<in> set (fst st). trashed u i"
  shows "yields (shown_flow u) (trash_item E res m limit row st)"
proof -
  obtain items n where st: "st = (items, n)" by (cases st)
  have "trashed u r" if "dhas d ''status'' \<longrightarrow> dget d ''status'' = dget row ''status''"
    "dhas d ''uid'' \<longrightarrow> res = ''person'' \<or> dget d ''uid'' = dget row ''uid''"
    "trash_record E res m d = Inr r" for d r
    using trash_record_get [OF that(3)] trash_record_get(2) [OF that(3), of "''uid''"]
      trash_record_get(2) [OF that(3), of "''status''"] that assms(1-4) by (auto simp: trashed_def)
  note rcd = yields_of_result [where P = "trashed u", OF this]
  have row: "yields (\<lambda>d. (dhas d ''status'' \<longrightarrow> dget d ''status'' = dget row ''status'') \<and>
      (dhas d ''uid'' \<longrightarrow> res = ''person'' \<or> dget d ''uid'' = dget row ''uid'')) (row_as_dict E m row)"
    using as_dict_get [OF assms(2), of row] as_dict_get [of E m "''uid''" row] assms(4)
    unfolding yields_def by blast
  have "yields (shown_flow u) (bnd (row_as_dict E m row) (\<lambda>data.
      bnd (of_result (trash_record E res m data)) (\<lambda>rc. ret (Continue (items @ [rc], n + 1)))))"
    by (rule yields_then [OF row], rule yields_then [OF rcd]) (use assms(5) in \<open>auto simp: st intro!: yields_intros\<close>)
  then show ?thesis using assms(5) by (auto simp: trash_item_def st trash_shown_page intro!: yields_intros)
qed

text \<open>What the loop over the filter and the query leave of the restrictions.\<close>

lemma filter_key_uid:
  "filter_key E m k flt q = Inr (flt', q') \<Longrightarrow> k \<noteq> ''uid'' \<or> (\<exists>s. dget flt ''uid'' = PStr s \<and> s \<noteq> ''*'' \<and> CHR ''%'' \<notin> set s) \<Longrightarrow>
     map_of flt' ''uid'' = map_of flt ''uid'' \<and> q_model q' = q_model q"
  by (auto simp: filter_key_def delete_conv map_add_def fun_upd_def split: pyval.splits if_splits sum.splits list.splits option.splits)

lemma trash_keys_uid:
  assumes "trash_keys E res m ks flt q = Inr (Some (flt', q'))" and "res \<noteq> ''person''"
    and "map_of flt ''uid'' = Some (PStr s)" "s \<noteq> ''*''" "CHR ''%'' \<notin> set s"
  shows "map_of flt' ''uid'' = Some (PStr s) \<and> q_model q' = q_model q \<and> (''uid'' \<in> set ks \<longrightarrow> e_attrs E m ''uid'')"
  using assms
proof (induction ks arbitrary: flt q)
  case (Cons k ks)
  from Cons.prems obtain f p where f: "filter_key E m k flt q = Inr (f, p)" "e_attrs E m k"
    "trash_keys E res m ks f p = Inr (Some (flt', q'))"
    by (auto split: if_splits sum.splits)
  moreover have "map_of f ''uid'' = Some (PStr s) \<and> q_model p = q_model q"
    using filter_key_uid [OF f(1)] Cons.prems(3-5) by (simp add: dget_def)
  ultimately show ?case using Cons.IH [of f p] Cons.prems(2,4,5) by auto
qed simp

lemma filter_key_model: "filter_key E m k flt q = Inr (flt', q') \<Longrightarrow> q_model q' = q_model q"
  by (auto simp: filter_key_def split: pyval.splits if_splits sum.splits list.splits)

lemma trash_keys_model: "trash_keys E res m ks flt q = Inr (Some (flt', q')) \<Longrightarrow> q_model q' = q_model q"
proof (induction ks arbitrary: flt q)
  case (Cons k ks)
  then show ?case by (auto split: if_splits sum.splits dest: filter_key_model)
qed simp

lemma filter_policies_keeps:
  "filter_policies a m act ps cs q = Inr q' \<Longrightarrow> q_model q' = q_model q \<and> set (q_conds q) \<subseteq> set (q_conds q')"
proof (induction ps arbitrary: cs q)
  case (Cons p ps)
  from Cons.prems show ?case by (fastforce simp: Let_def split: if_splits sum.splits dest: Cons.IH)
qed auto

lemma with_filter_keeps:
  "with_filter E a q act = Inr q' \<Longrightarrow> q_model q' = q_model q \<and> set (q_conds q) \<subseteq> set (q_conds q')"
  by (auto simp: with_filter_def Let_def dest: filter_policies_keeps split: option.splits)

lemma trash_query_keeps:
  assumes "trash_query E m acc srt q = Inr q'" and "q_model q = m"
  shows "q_model q' = m \<and> e_attrs E m ''status'' \<and> set (q_conds q) \<subseteq> set (q_conds q') \<and>
    CEq (m, ''status'') (PStr ''disabled'') \<in> set (q_conds q')"
  using assms with_filter_keeps
  by (fastforce simp: trash_query_def column_of_def trash_order_def split: sum.splits if_splits)

definition plain_models :: "('d, 'r, 'c) env \<Rightarrow> bool" where
  "plain_models E \<longleftrightarrow> (\<forall>m \<in> set (e_models E). plain_column E m ''status'' \<and> plain_column E m ''uid'')"

context query_contract
begin

lemma trash_rows:
  assumes "e_db E = D" and "plain_models E" and "trash_model E res = Inr m"
    and "trash_keys E res m (map fst flt) flt (query_of m) = Inr (Some (xf, q1))"
    and "map_of flt ''uid'' = Some (PStr s)" "s \<noteq> ''*''" "CHR ''%'' \<notin> set s"
    and "filter_by_checked E xf q1 = Inr q2" and "trash_query E m acc srt q2 = Inr q"
    and "db_all (e_db E) (slice_of a b q) d = Inr rows" and "row \<in> set rows"
  shows "e_attrs E m ''status'' \<and> plain_column E m ''status'' \<and> dget row ''status'' = PStr ''disabled'' \<and>
    (res \<noteq> ''person'' \<longrightarrow> e_attrs E m ''uid'' \<and> plain_column E m ''uid'' \<and> dget row ''uid'' = PStr s)"
proof -
  have m: "m \<in> set (e_models E)" using assms(3) by (auto simp: trash_model_def models_attr_def split: if_splits)
  have q1: "q_model q1 = m" using trash_keys_model [OF assms(4)] by simp
  have q2: "q_model q2 = m" "set (q_conds q2) \<supseteq> (\<lambda>(k, v). CEq (m, k) v) ` set xf"
    using assms(8) q1 by (auto simp: filter_by_checked_def split: if_splits)
  note k = trash_query_keeps [OF assms(9) q2(1)]
  have sound: "CEq (m, c) v \<in> set (q_conds q) \<Longrightarrow> dget row c = v" for c v
    using where_sound [of "slice_of a b q" d rows row c v] assms(1,10,11) k by simp
  have "e_attrs E m ''uid'' \<and> dget row ''uid'' = PStr s" if "res \<noteq> ''person''"
  proof -
    have "''uid'' \<in> set (map fst flt)" using assms(5) by (force dest: map_of_SomeD)
    with trash_keys_uid [OF assms(4) that assms(5-7)] have u: "map_of xf ''uid'' = Some (PStr s)" "e_attrs E m ''uid''"
      by auto
    then have "CEq (m, ''uid'') (PStr s) \<in> set (q_conds q)" using q2(2) k map_of_SomeD by fastforce
    with u sound show ?thesis by simp
  qed
  then show ?thesis using k sound m assms(2) by (simp add: plain_models_def)
qed

lemma trash_fetch_sound:
  "yields (\<lambda>r. case r of Inl response \<Rightarrow> trash_shown u response
     | Inr rows \<Rightarrow> \<exists>d. db_all (e_db E) (slice_of n (n + limit + 1) q) d = Inr rows) (trash_fetch E q n limit)"
proof -
  have "yields (\<lambda>rows. \<exists>d. db_all (e_db E) (slice_of n (n + limit + 1) q) d = Inr rows)
      (run_all E (slice_of n (n + limit + 1) q))" by (rule yields_reads) auto
  note rows = yields_then [OF this] and abort = yields_then [OF yields_abort_shown [of u E]]
  show ?thesis unfolding trash_fetch_def by (rule yields_try; rule rows abort) (auto intro!: yields_intros)
qed

lemma trash_collect_shown:
  assumes "\<And>row. row \<in> set rows \<Longrightarrow> e_attrs E m ''status'' \<and> plain_column E m ''status'' \<and> dget row ''status'' = PStr ''disabled'' \<and>
      (r \<noteq> ''person'' \<longrightarrow> e_attrs E m ''uid'' \<and> plain_column E m ''uid'' \<and> dget row ''uid'' = u)"
    and "\<forall>i \<in> set (fst st). trashed u i"
  shows "yields (shown_flow u) (trash_collect E r m limit rows st)"
  unfolding trash_collect_def
proof (rule yields_then)
  show "yields (shown_flow u) (for_loop (trash_item E r m limit) (py_take (limit - int (length (fst st)) + 1) rows) st)"
  proof (rule yields_for_loop)
    fix x and st' :: "dict list \<times> int"
    assume "x \<in> set (py_take (limit - int (length (fst st)) + 1) rows)"
      and "case st' of (items, n) \<Rightarrow> \<forall>i \<in> set items. trashed u i"
    then show "yields (shown_flow u) (trash_item E r m limit x st')"
      using assms(1) [of x] by (intro trash_item_shown) (auto simp: py_take_def split: if_splits dest: in_set_takeD)
  qed (use assms(2) in \<open>auto split: prod.splits\<close>)
qed (auto intro!: yields_intros split: flow.splits)

lemma trash_resource_shown:
  assumes "e_db E = D" and "plain_models E" and "map_of flt ''uid'' = Some (PStr s)" "s \<noteq> ''*''" "CHR ''%'' \<notin> set s"
    and "\<forall>i \<in> set (fst st). trashed (PStr s) i"
  shows "yields (shown_flow (PStr s)) (trash_resource E flt srt limit res st)"
proof -
  have abort: "yields (shown_flow (PStr s)) (bnd (db_abort E) (\<lambda>response. ret (Return response)))"
    by (rule yields_then [OF yields_abort_shown]) (auto intro!: yields_intros)
  have query: "yields (shown_flow (PStr s))
      (bnd (trash_fetch E q (snd st) limit) (\<lambda>r. case r of
         Inl response \<Rightarrow> ret (Return response) | Inr results \<Rightarrow> trash_collect E rn m limit results st))"
    if "trash_model E rn = Inr m" "trash_keys E rn m (map fst flt) flt (query_of m) = Inr (Some (xf, q1))"
      "filter_by_checked E xf q1 = Inr q2" "trash_query E m acc srt q2 = Inr q" for rn m xf q1 q2 q acc
    by (rule yields_then [OF trash_fetch_sound [of "PStr s"]])
      (use assms(6) trash_rows [OF assms(1,2) that(1,2) assms(3-5) that(3,4)] in
        \<open>auto intro!: yields_intros trash_collect_shown split: sum.splits\<close>)
  show ?thesis unfolding trash_resource_def
    by (auto simp: trash_shown_error intro!: yields_result_then yields_bnd [where m = "access_control E m" for m] yields_ret abort query split: option.splits sum.splits)
qed

lemma trash_search_shown:
  assumes "e_db E = D" and "plain_models E" and "map_of flt ''uid'' = Some (PStr s)" "s \<noteq> ''*''" "CHR ''%'' \<notin> set s"
  shows "yields (trash_shown (PStr s)) (trash_search E flt srt limit resources offset)"
  unfolding trash_search_def
proof (rule yields_then)
  show "yields (shown_flow (PStr s)) (for_loop (trash_resource E flt srt limit) resources ([], offset))"
    by (rule yields_for_loop) (use trash_resource_shown [OF assms] in \<open>auto split: prod.splits\<close>)
qed (use trash_shown_page [of _ "PStr s" "[]"] in \<open>auto intro!: yields_intros split: flow.splits\<close>)

lemma trash_find_shown:
  assumes "e_db E = D" and "plain_models E" and "access_control E None w = (Inr acc, w0)"
    and "ac_auth acc = Some roles" "''admin'' \<notin> set roles" "ac_uid acc = PStr s" "s \<noteq> ''*''" "CHR ''%'' \<notin> set s"
    and "trash_find E kwargs w = (Inr r, w')"
  shows "trash_shown (PStr s) r"
proof -
  have scope: "map_of flt ''uid'' = Some (PStr s)" if "trash_scope acc flt0 = Inr (Some flt)" for flt0 flt
    using that assms(4-6) by (auto simp: trash_scope_def update_conv split: if_splits)
  have keep: "map_of (drop_null_id flt') ''uid'' = map_of flt ''uid''" if "trash_resources E kwargs flt start = Some (rs, flt')" for rs flt flt' start
    using that by (auto simp: trash_resources_def drop_null_id_def delete_conv split: if_splits)
  have "yields (trash_shown (PStr s)) (trash_find_for E acc kwargs)"
    unfolding trash_find_for_def
    by (auto simp: trash_shown_error msg_resp_def scope keep split: sum.splits option.splits
        intro!: yields_result_then yields_ret yields_raise yields_if trash_search_shown assms)
  moreover have "trash_find_for E acc kwargs w0 = (Inr r, w')" using assms(3,9)
    by (cases "controller E") (auto simp: trash_find_def py_simps)
  ultimately show ?thesis by (rule yieldsD)
qed

end

section \<open>Properties\<close>

text \<open>C15: The trashcan shows a user without the admin role only disabled records, and of every resource
  but person only those whose uid is the user, whatever the filter, sort order, cursor and pagination
  of the request.\<close>

lemma trashcan_shows_own:
  assumes "query_contract (e_db E)" and "plain_models E" and "access_control E None w = (Inr acc, w0)"
    and "ac_auth acc = Some roles" "''admin'' \<notin> set roles" "ac_uid acc = PStr u" "u \<noteq> ''*''" "CHR ''%'' \<notin> set u"
    and "trash_find E kwargs w = (Inr (page, 200), w')"
  shows "\<exists>items. dget page ''items'' = PList (map PDict items) \<and>
    (\<forall>i \<in> set items. dget i ''status'' = PStr ''disabled'' \<and> (dget i ''resource'' = PStr ''person'' \<or> dget i ''uid'' = PStr u))"
  using query_contract.trash_find_shown [OF assms(1) refl assms(2-)] by (simp add: trash_shown_def trashed_def)

definition trashed_profiles :: "(string \<times> dict list) list" where
  "trashed_profiles = [(''Profile'', [
     [(''id'', PStr ''x-1''), (''uid'', PStr ''u-1''), (''item'', PStr ''lang''), (''status'', PStr ''disabled''), (''privacy'', PStr ''public''),
      (''created'', PNone), (''modified'', PNone)],
     [(''id'', PStr ''x-2''), (''uid'', PStr ''u-1''), (''item'', PStr ''tz''), (''status'', PStr ''active''), (''privacy'', PStr ''public''),
      (''created'', PNone), (''modified'', PNone)],
     [(''id'', PStr ''x-3''), (''uid'', PStr ''u-2''), (''item'', PStr ''lang''), (''status'', PStr ''disabled''), (''privacy'', PStr ''public''),
      (''created'', PNone), (''modified'', PNone)]])]"

lemma example_plain: "plain_models (user_env r)"
proof -
  have "plain_models mem_env" by code_simp
  then show ?thesis by (simp add: plain_models_def plain_column_def user_env_def example_env_def)
qed

definition trash_request :: dict where
  "trash_request = [(''filter'', PStr (''{'' @ [CHR 0x22] @ ''resource'' @ [CHR 0x22] @ '':'' @ [CHR 0x22] @ ''profile'' @ [CHR 0x22] @ ''}''))]"

lemma trash_request_parsed:
  "trash_cursor trash_request = Inr (''0'', 0)" "find_sort trash_request ''name'' = Inr (''name'', False)"
  "trash_filter trash_request = Inr [(''resource'', PStr ''profile'')]"
  "trash_scope (user_access None) [(''resource'', PStr ''profile'')] = Inr (Some [(''resource'', PStr ''profile''), (''uid'', PStr ''u-1'')])"
  "int_of (dget_or trash_request ''limit'' (PInt PER_PAGE_DEFAULT)) = Inr 100"
  by code_simp+

definition trash_example_query :: query where
  "trash_example_query = where_cond (COr [CEq (''Profile'', ''privacy'') (PStr ''public''), CEq (''Profile'', ''uid'') (PStr ''u-1'')])
     (where_cond (CEq (''Profile'', ''status'') (PStr ''disabled'')) (filter_by [(''uid'', PStr ''u-1'')] (query_of ''Profile'')))"

abbreviation trash_env :: "(mdb, mredis, mcache) env" where
  "trash_env \<equiv> user_env ''/api/v1/trashcan''"

lemma trash_example_steps:
  "trash_keys trash_env ''profile'' ''Profile'' [''uid''] [(''uid'', PStr ''u-1'')] (query_of ''Profile'') =
     Inr (Some ([(''uid'', PStr ''u-1'')], query_of ''Profile''))"
  "filter_by_checked trash_env [(''uid'', PStr ''u-1'')] (query_of ''Profile'') = Inr (filter_by [(''uid'', PStr ''u-1'')] (query_of ''Profile''))"
  "trash_query trash_env ''Profile'' (user_access (Some ''Profile'')) (''name'', False)
     (filter_by [(''uid'', PStr ''u-1'')] (query_of ''Profile'')) = Inr trash_example_query"
  "trash_model trash_env ''profile'' = Inr ''Profile''" "controller trash_env = Inr (''trashcan'', ''Trashcan'')"
  "trash_resources trash_env trash_request [(''resource'', PStr ''profile''), (''uid'', PStr ''u-1'')] ''0'' =
     Some ([PStr ''profile''], [(''uid'', PStr ''u-1'')])"
  by code_simp+

definition disabled_lang :: dict where
  "disabled_lang = [(''id'', PStr ''x-1''), (''uid'', PStr ''u-1''), (''item'', PStr ''lang''), (''status'', PStr ''disabled''), (''privacy'', PStr ''public''),
      (''created'', PNone), (''modified'', PNone)]"

lemma trash_example_rows:
  "db_all mem_db (slice_of 0 101 trash_example_query) \<lparr>md_durable = trashed_profiles, md_current = trashed_profiles\<rparr> = Inr [disabled_lang]"
  by code_simp

definition lang_item :: dict where
  "lang_item = [(''created'', PNone), (''modified'', PNone), (''uid'', PStr ''u-1''), (''status'', PStr ''disabled''), (''id'', PStr ''profile-x-1''),
     (''resource'', PStr ''profile''), (''name'', PStr ''lang''), (''rbac'', PStr ''dru'')]"

lemma trash_example_record: "row_as_dict trash_env ''Profile'' disabled_lang w = (Inr disabled_lang, w)"
  "trash_record trash_env ''profile'' ''Profile'' disabled_lang = Inr lang_item"
proof -
  have "e_exclude trash_env ''Profile'' = []" "e_related trash_env ''Profile'' = None" "e_hybrid trash_env ''Profile'' = []" by code_simp+
  then show "row_as_dict trash_env ''Profile'' disabled_lang w = (Inr disabled_lang, w)"
    by (simp add: row_as_dict_def py_simps as_dict_of_def disabled_lang_def)
  show "trash_record trash_env ''profile'' ''Profile'' disabled_lang = Inr lang_item" by code_simp
qed

lemma trashcan_shows_own_witness:
  "\<exists>page w'. trash_find trash_env trash_request (logged_in trashed_profiles) = (Inr (page, 200), w') \<and>
     (\<exists>items. items \<noteq> [] \<and> dget page ''items'' = PList (map PDict items) \<and> (\<forall>i \<in> set items. dget i ''uid'' = PStr ''u-1''))"
proof -
  let ?w = "logged_in trashed_profiles" and ?flt = "[(''uid'', PStr ''u-1'')]"
  note acc = user_access_control [of ?w trashed_profiles, OF refl logged_in_world(1)]
  have fetch: "trash_fetch trash_env trash_example_query 0 100 ?w = (Inr (Inr [disabled_lang]), ?w)"
    using trash_example_rows by (simp add: trash_fetch_def py_simps logged_in_world)
  have "trash_collect trash_env ''profile'' ''Profile'' 100 [disabled_lang] ([], 0) ?w = (Inr (Continue ([lang_item], 0)), ?w)"
    by (simp add: trash_collect_def py_simps py_take_def trash_item_def trash_example_record)
  then have "trash_resource trash_env ?flt (''name'', False) 100 (PStr ''profile'') ([], 0) ?w = (Inr (Continue ([lang_item], 0)), ?w)"
    by (simp add: trash_resource_def py_simps acc trash_example_steps fetch del: trash_keys.simps)
  then have search: "trash_search trash_env ?flt (''name'', False) 100 [PStr ''profile''] 0 ?w = (Inr (trash_page [lang_item], 200), ?w)"
    by (simp add: trash_search_def py_simps)
  have "drop_null_id ?flt = ?flt" by (simp add: drop_null_id_def dict_simps)
  with search have run: "trash_find trash_env trash_request ?w = (Inr (trash_page [lang_item], 200), ?w)"
    by (simp add: trash_find_def trash_find_for_def py_simps acc trash_request_parsed trash_example_steps)
  have q: "query_contract (e_db trash_env)" using memory_query.query_contract_axioms by simp
  have "dget (trash_page [lang_item]) ''items'' = PList [PDict lang_item]" by (simp add: trash_page_def dict_simps)
  moreover from trashcan_shows_own [OF q example_plain acc _ _ _ _ _ run, of "[''user'']" "''u-1''"]
  obtain items where i: "dget (trash_page [lang_item]) ''items'' = PList (map PDict items)"
    "\<forall>i \<in> set items. dget i ''resource'' = PStr ''person'' \<or> dget i ''uid'' = PStr ''u-1''"
    by (auto simp: user_access_def)
  ultimately have "items = [lang_item]" by (cases items) auto
  then show ?thesis using run i by (intro exI conjI) (auto simp: lang_item_def dict_simps)
qed

lemma purge_all_or_nothing:
  assumes "db_contract (e_db E) durable" and "trash_delete E ids w = (r, w')" and "\<not> answers {204, 404} r"
  shows "durable (w_db w') = durable (w_db w)"
  using unlessD [OF db_contract.trash_delete_atomic [OF assms(1) refl] assms(2,3)] .

definition secret_profile :: "(string \<times> dict list) list" where
  "secret_profile = [(''Profile'', [[(''id'', PStr ''x-1''), (''uid'', PStr ''u-1''), (''status'', PStr ''disabled''), (''privacy'', PStr ''secret'')]])]"

lemma secret_profile_db:
  "db_all mem_db (filter_by [(''id'', PStr ''x-1'')] (query_of ''Profile'')) \<lparr>md_durable = secret_profile, md_current = secret_profile\<rparr> =
     Inr [[(''id'', PStr ''x-1''), (''uid'', PStr ''u-1''), (''status'', PStr ''disabled''), (''privacy'', PStr ''secret'')]]"
  "db_delete mem_db (filter_by [(''id'', PStr ''x-1'')] (query_of ''Profile'')) \<lparr>md_durable = secret_profile, md_current = secret_profile\<rparr> =
     (Inr 1, \<lparr>md_durable = secret_profile, md_current = [(''Profile'', [])]\<rparr>)"
  "composite_id ''profile-x-1'' = Inr (''profile'', ''x-1'')"
  "composite_id ''nodash'' = Inl (Exc EValueError ''not enough values to unpack (expected 2, got 1)'')"
  by code_simp+

lemma purge_all_or_nothing_witness:
  "\<exists>e w'. trash_delete trash_env [''profile-x-1'', ''nodash''] (logged_in secret_profile) = (Inl e, w') \<and>
     md_current (w_db w') = [(''Profile'', [])] \<and> md_durable (w_db w') = secret_profile"
proof -
  let ?w = "logged_in secret_profile"
  let ?w1 = "?w\<lparr>w_db := \<lparr>md_durable = secret_profile, md_current = [(''Profile'', [])]\<rparr>\<rparr>"
  note acc = user_access_control [of ?w secret_profile, OF refl logged_in_world(1)]
  have "clean ''u-1''" by (simp add: clean_def rx_plain_def)
  then have "with_permission trash_env (user_access (Some ''Profile'')) CHR ''d'' (Some (filter_by [(''id'', PStr ''x-1'')] (query_of ''Profile'')))
      PNone PNone PNone ?w = (Inr True, ?w)"
    by (subst profile_permission [where u = "''u-1''"]) (auto simp: logged_in_world secret_profile_db dict_simps)
  then have run: "trash_delete trash_env [''profile-x-1'', ''nodash''] ?w =
      (Inl (Exc EValueError ''not enough values to unpack (expected 2, got 1)''), ?w1)"
    using acc by (simp add: trash_delete_def trash_delete_one_def py_simps secret_profile_db trash_example_steps logged_in_world Let_def)
  have "db_contract (e_db trash_env) md_durable" using memory_db.db_contract_axioms by simp
  from purge_all_or_nothing [OF this run] run show ?thesis by (simp add: logged_in_world)
qed

lemma trashed_apikey_unreadable:
  assumes "controller E = Inr (res, m)" and "''Apikey'' \<notin> set (e_models E)"
  shows "trash_get E (record_name ''apikey'' i) w = (Inl (Exc EAttributeError ''module has no attribute Apikey''), w) \<and>
    trash_update E (record_name ''apikey'' i) body w = (Inl (Exc EAttributeError ''module has no attribute Apikey''), w)"
proof -
  have "capitalize ''apikey'' = ''Apikey''" by code_simp
  then show ?thesis using assms by (simp add: trash_get_def trash_update_def py_simps models_attr_def)
qed

lemma trashed_apikey_unreadable_witness:
  "\<forall>w. trash_get trash_env ''apikey-k-1'' w = (Inl (Exc EAttributeError ''module has no attribute Apikey''), w)"
proof -
  have "''Apikey'' \<notin> set (e_models trash_env)" by code_simp
  from trashed_apikey_unreadable [OF trash_example_steps(5) this, of "''k-1''"] show ?thesis by (simp add: record_name_def)
qed

end
