(* ===== verification/Confirmation.thy ===== *)
theory Confirmation imports Crud begin

text \<open>
  apicrud/messaging/confirmation.py: a contact is confirmed by a token that was sent to it. The
  token names the contact, its address and a nonce; it is signed and dated (itsdangerous, a
  parameter) and, while it may be used, kept in a session of the contact under the nonce.
\<close>

section \<open>Tokens\<close>

definition letter :: "nat \<Rightarrow> char" where
  "letter x = (map char_of ([97..<123] @ [65..<91::nat])) ! (x mod 52)"

definition random_letters :: "nat \<Rightarrow> (('d, 'r, 'c) world, string) py" where
  "random_letters n = bnd (draws n) (\<lambda>xs. ret (map letter xs))"

lemma random_letters_run [py_simps]:
  "random_letters n w = (Inr (map (\<lambda>i. letter (w_rnd w (w_pos w + i))) [0..<n]), w\<lparr>w_pos := w_pos w + n\<rparr>)"
  by (simp add: random_letters_def py_simps draws_run comp_def)

lemma keeps_random_letters [keeps_intros]: "keeps w_db (random_letters n)"
  by (simp add: keeps_def py_simps)

text \<open>\<open>dict(ses)\<close>: None, the answer of a session that could not be created, is not a mapping.\<close>

definition dict_of :: "dict option \<Rightarrow> exc + dict" where
  "dict_of d = (case d of None \<Rightarrow> Inl (Exc ETypeError ''NoneType object is not iterable'') | Some x \<Rightarrow> Inr x)"

text \<open>\<open>query.one()\<close> in a \<open>try\<close> that catches NoResultFound.\<close>

definition one_or_none :: "('d, 'r, 'c) env \<Rightarrow> query \<Rightarrow> (('d, 'r, 'c) world, dict option) py" where
  "one_or_none E q = try_catch (bnd (run_one E q) (\<lambda>x. ret (Some x)))
     (\<lambda>ex. if exc_kind ex = ENoResultFound then ret None else raise_exc ex)"

lemma keeps_one_or_none [keeps_intros]: "keeps v (one_or_none E q)"
  by (auto simp: one_or_none_def intro!: keeps_intros)

lemma one_or_none_run [py_simps]:
  "one_or_none E q w = (case one_of (db_all (e_db E) q (w_db w)) of
     Inl e \<Rightarrow> if exc_kind e = ENoResultFound then (Inr None, w) else (Inl e, w) | Inr x \<Rightarrow> (Inr (Some x), w))"
  by (simp add: one_or_none_def py_simps split: sum.splits)

text \<open>A short nonce for a text message, since its reader types it.\<close>

definition contact_token :: "('d, 'r, 'c) env \<Rightarrow> dict \<Rightarrow> string \<Rightarrow> int \<Rightarrow> string" where
  "contact_token E contact nonce now =
     cr_token_dumps (e_crypt E) (cf_TOKEN_SECRET (e_cfg E)) (cf_TOKEN_SALT (e_cfg E))
       (py_str (dget contact ''id'') @ '':'' @ py_str (dget contact ''info'') @ '':'' @ nonce) now"

text \<open>The message handed to \<open>func_send\<close>, the queue of the messaging worker.\<close>

definition send_message ::
    "('d, 'r, 'c) env \<Rightarrow> pyval \<Rightarrow> string \<Rightarrow> dict \<Rightarrow> (('d, 'r, 'c) world, unit) py" where
  "send_message E to template kwargs =
     (if e_func_send E then modify (\<lambda>w. w\<lparr>w_sent := w_sent w @ [(''to'', to) # (''template'', PStr template) # kwargs]\<rparr>)
      else ret ())"

text \<open>
  \<open>request\<close>. The check of the source for a contact that is false cannot fail: \<open>one()\<close> returns a
  record or raises.
\<close>

definition confirmation_request ::
    "('d, 'r, 'c) env \<Rightarrow> pyval \<Rightarrow> int option \<Rightarrow> string \<Rightarrow> (('d, 'r, 'c) world, resp) py" where
  "confirmation_request E ident ttl_arg template =
     (let ttl = (case ttl_arg of Some t \<Rightarrow> if t \<noteq> 0 then t else cf_TOKEN_TIMEOUT (e_cfg E) | None \<Rightarrow> cf_TOKEN_TIMEOUT (e_cfg E))
      in bnd (run_one E (filter_by [(''id'', ident)] (query_of ''Contact''))) (\<lambda>contact.
         bnd (if dget contact ''type'' = PStr ''sms'' then ret ''1'' else random_letters 8) (\<lambda>nonce.
         bnd (gets w_now) (\<lambda>now.
         let token = contact_token E contact nonce now
         in bnd (session_create E (dget contact ''id'') [] None (Some nonce) (Some ttl) [(''param'', PStr token)]) (\<lambda>_.
            bnd (send_message E ident template [(''token'', PStr token), (''type'', dget contact ''type'')]) (\<lambda>_.
            ret ([(''token'', PStr token), (''id'', ident), (''uid'', dget contact ''uid'')], 200)))))))"

definition token_parts :: "('d, 'r, 'c) env \<Rightarrow> pyval \<Rightarrow> int \<Rightarrow> exc + (string \<times> string \<times> string)" where
  "token_parts E token now = (case token of
       PStr t \<Rightarrow> (case cr_token_loads (e_crypt E) (cf_TOKEN_SECRET (e_cfg E)) (cf_TOKEN_SALT (e_cfg E))
             (cf_TOKEN_TIMEOUT (e_cfg E)) t now of
           Inl e \<Rightarrow> Inl e
         | Inr s \<Rightarrow> (case py_split (CHR '':'') s of
               [ident, info, nonce] \<Rightarrow> Inr (ident, info, nonce)
             | _ \<Rightarrow> Inl (Exc EValueError ''not the expected number of values to unpack'')))
     | _ \<Rightarrow> Inl (Exc ETypeError ''argument is not iterable''))"

text \<open>
  The contact becomes active and its person keeps no referrer; a session of the person opens, with
  the role \<open>person\<close>, or \<open>pending\<close> where the token has been spent.
\<close>

definition confirm_contact ::
    "('d, 'r, 'c) env \<Rightarrow> string \<Rightarrow> string \<Rightarrow> string \<Rightarrow> bool \<Rightarrow> dict \<Rightarrow> (('d, 'r, 'c) world, resp) py" where
  "confirm_contact E ident info nonce clear_session contact =
     bnd (set_attr E ''Contact'' (dget contact ''id'') ''status'' (PStr ''active'')) (\<lambda>_.
     bnd (on_db (db_update (e_db E) (filter_by [(''id'', dget contact ''uid'')] (query_of ''Person''))
            [(''referrer_id'', PNone)])) (\<lambda>_.
     bnd (commit E) (\<lambda>_.
     bnd (if clear_session then session_delete E (PStr ident) nonce None else ret ()) (\<lambda>_.
     bnd (related_one E ''Contact'' contact ''owner'') (\<lambda>owner.
     bnd (session_create E (dget contact ''uid'') [if clear_session then ''pending'' else ''person''] None None None
            [(''info'', PStr info), (''type'', dget contact ''type''), (''contact_id'', PStr ident), (''name'', dget owner ''name'')]) (\<lambda>ses.
     bnd (of_result (dict_of ses)) (\<lambda>d.
     ret (d, 200))))))))"

definition confirm :: "('d, 'r, 'c) env \<Rightarrow> pyval \<Rightarrow> bool \<Rightarrow> (('d, 'r, 'c) world, resp) py" where
  "confirm E token clear_session =
     bnd (gets w_now) (\<lambda>now.
     case token_parts E token now of
       Inl ex \<Rightarrow> ret ([(''token'', token), (''message'', PStr (exc_msg ex))], 403)
     | Inr (ident, info, nonce) \<Rightarrow>
         bnd (session_get_arg E (PStr ident) nonce ''param'' None) (\<lambda>v.
         if v \<noteq> token then ret ([(''id'', PStr ident), (''message'', PStr ''invalid token'')], 403)
         else bnd (one_or_none E (filter_by [(''id'', PStr ident)] (query_of ''Contact''))) (\<lambda>r. case r of
           None \<Rightarrow> ret ([(''token'', token), (''id'', PStr ident), (''message'', PStr ''not found'')], 404)
         | Some contact \<Rightarrow> confirm_contact E ident info nonce clear_session contact)))"

end
