(* ===== verification/Metrics.thy ===== *)
theory Metrics imports Rate_Limit begin

text \<open>
  apicrud/metrics.py: counters, gauges and granted limits in redis, under keys
  \<open>mtr:<name>:<labels>\<close>. A grant counts down from the limit and expires with its period.
\<close>

definition interval_secs :: "string \<Rightarrow> exc + int option" where
  "interval_secs period =
     (if period = ''hour'' then Inr (Some 3600)
      else if period = ''day'' then Inr (Some 86400)
      else if period = ''week'' then Inr (Some 604800)
      else if period = ''month'' then Inr (Some 2678400)
      else if period = ''indefinite'' then Inr None
      else Inl (Exc EKeyError period))"

definition metric_key :: "string \<Rightarrow> string list \<Rightarrow> string" where
  "metric_key name labels = ''mtr:'' @ name @ '':'' @ py_join '','' (sort labels)"

definition metric_labels :: "('d, 'r, 'c) env \<Rightarrow> metric \<Rightarrow> pyval \<Rightarrow> string list \<Rightarrow> string list" where
  "metric_labels E m uid labels =
     (if labels \<noteq> [] then labels
      else if mt_scope m = ''instance'' then [''instance='' @ e_instance E]
      else if truthy uid then [''uid='' @ py_str uid] else [])"

definition int_of_stored :: "string \<Rightarrow> exc + int" where
  "int_of_stored s = (case py_int s of None \<Rightarrow> Inl (Exc EValueError ''invalid literal for int()'') | Some i \<Rightarrow> Inr i)"

definition num_of :: "pyval \<Rightarrow> exc + rat" where
  "num_of v = (case py_num v of None \<Rightarrow> Inl (Exc ETypeError ''not supported between instances'') | Some r \<Rightarrow> Inr r)"

text \<open>The usage notice: sent when the remaining share crosses the configured percentage.\<close>

definition usage_notice ::
    "('d, 'r, 'c) env \<Rightarrow> metric \<Rightarrow> string \<Rightarrow> pyval \<Rightarrow> int \<Rightarrow> rat \<Rightarrow> (('d, 'r, 'c) world, unit) py" where
  "usage_notice E m name uid current limit =
     (if mt_notify m \<noteq> 0 \<and> e_func_send E then
        (let used = of_int current / limit * 100;
             used_next = (of_int current - 1) / limit * 100;
             level = of_int (100 - mt_notify m)
         in if level \<le> used \<and> used_next < level
            then modify (\<lambda>w. w\<lparr>w_sent := w_sent w @ [[(''to_uid'', uid), (''template'', PStr ''usage_notify''),
                   (''percent'', PInt (mt_notify m)), (''period'', PStr (mt_period m)), (''resource'', PStr name)]]\<rparr>)
            else ret ())
      else ret ())"

text \<open>
  A grant: the key is set to one less than the limit at first use and when it is at or above the
  limit, refused at zero, and counted down otherwise.
\<close>

definition number_text :: "('d, 'r, 'c) env \<Rightarrow> rat \<Rightarrow> string" where
  "number_text E x = (if of_int (floor x) = x then show_int (floor x) else cr_float_repr (e_crypt E) x)"

definition store_grant ::
    "('d, 'r, 'c) env \<Rightarrow> metric \<Rightarrow> string \<Rightarrow> pyval \<Rightarrow> string \<Rightarrow> (('d, 'r, 'c) world, bool) py" where
  "store_grant E m name uid key =
     bnd (redis_get E key) (\<lambda>current.
     bnd (grants_get E name uid) (\<lambda>limit_val.
     let start = bnd (of_result (num_of limit_val)) (\<lambda>limit.
           bnd (of_result (interval_secs (mt_period m))) (\<lambda>ex.
           bnd (redis_set E key (number_text E (limit - 1)) ex False) (\<lambda>_. ret True)))
     in case current of
          None \<Rightarrow> start
        | Some s \<Rightarrow>
            bnd (of_result (int_of_stored s)) (\<lambda>cur.
            bnd (of_result (num_of limit_val)) (\<lambda>limit.
            if limit \<le> of_int cur then start
            else if cur \<le> 0 then ret False
            else bnd (usage_notice E m name uid cur limit) (\<lambda>_.
                 bnd (on_redis (rd_incrby (e_redis E) key (- 1))) (\<lambda>_. ret True))))))"

definition metrics_store ::
    "('d, 'r, 'c) env \<Rightarrow> pyval \<Rightarrow> string \<Rightarrow> string list \<Rightarrow> pyval \<Rightarrow> (('d, 'r, 'c) world, bool) py" where
  "metrics_store E uid name labels value =
     (case map_of (cf_METRICS (e_cfg E)) name of
        None \<Rightarrow> raise_exc (Exc EAssertionError (''name='' @ name @ '' not defined in config''))
      | Some m \<Rightarrow>
          let key = metric_key name (metric_labels E m uid labels)
          in if mt_style m = ''grant'' then store_grant E m name uid key
             else if mt_style m = ''counter'' then
               (case value of
                  PInt i \<Rightarrow> bnd (on_redis (rd_incrby (e_redis E) key i)) (\<lambda>_. ret True)
                | PFloat x \<Rightarrow> bnd (on_redis (rd_incrbyfloat (e_redis E) key x)) (\<lambda>_. ret True)
                | PNone \<Rightarrow> bnd (on_redis (rd_incrby (e_redis E) key 1)) (\<lambda>_. ret True)
                | _ \<Rightarrow> raise_exc (Exc EAssertionError ''Invalid value''))
             else if mt_style m = ''gauge'' then
               (case value of
                  PInt i \<Rightarrow> bnd (redis_set E key (show_int i) None False) (\<lambda>_. ret True)
                | PFloat x \<Rightarrow> bnd (redis_set E key (cr_float_repr (e_crypt E) x) None False) (\<lambda>_. ret True)
                | PStr s \<Rightarrow> bnd (redis_set E key s None False) (\<lambda>_. ret True)
                | PBytes s \<Rightarrow> bnd (redis_set E key s None False) (\<lambda>_. ret True)
                | _ \<Rightarrow> raise_exc (Exc ERedisError ''Invalid input of type''))
             else ret True)"

text \<open>The remaining credit of a grant; None when it is used up.\<close>

definition metrics_check :: "('d, 'r, 'c) env \<Rightarrow> pyval \<Rightarrow> string \<Rightarrow> (('d, 'r, 'c) world, rat option) py" where
  "metrics_check E uid name =
     (case map_of (cf_METRICS (e_cfg E)) name of
        None \<Rightarrow> raise_exc (Exc EAssertionError (''name='' @ name @ '' not defined in config''))
      | Some m \<Rightarrow>
          let key = ''mtr:'' @ name @ '':'' @ (if truthy uid then ''uid='' @ py_str uid else [])
          in if mt_style m \<noteq> ''grant'' then raise_exc (Exc EAssertionError (''name='' @ name @ '' is not a grant metric''))
             else bnd (redis_get E key) (\<lambda>current.
                  bnd (grants_get E name uid) (\<lambda>limit_val.
                  case current of
                    None \<Rightarrow> bnd (of_result (num_of limit_val)) (\<lambda>l. ret (Some l))
                  | Some s \<Rightarrow>
                      bnd (of_result (int_of_stored s)) (\<lambda>cur.
                      bnd (of_result (num_of limit_val)) (\<lambda>l.
                      ret (if l \<le> of_int cur then Some l else if 0 < cur then Some (of_int cur) else None))))))"

lemma keeps_usage_notice [keeps_intros]: "keeps w_db (usage_notice E m name uid c l)"
  by (auto simp: usage_notice_def Let_def intro!: keeps_intros keeps_modify)

lemma keeps_store_grant [keeps_intros]: "keeps w_db (store_grant E m name uid key)"
  by (auto simp: store_grant_def Let_def intro!: keeps_intros)

lemma keeps_metrics_store [keeps_intros]: "keeps w_db (metrics_store E uid name labels value)"
  by (auto simp: metrics_store_def Let_def intro!: keeps_intros split: pyval.splits)

section \<open>The budget of a period\<close>

fun metrics_run ::
    "('d, 'r, 'c) env \<Rightarrow> pyval \<Rightarrow> string \<Rightarrow> int list \<Rightarrow> ('d, 'r, 'c) world \<Rightarrow> (exc + bool) list" where
  "metrics_run E uid name [] w = []"
| "metrics_run E uid name (t # ts) w =
     (case metrics_store E uid name [] PNone (w\<lparr>w_now := t\<rparr>) of (r, w') \<Rightarrow> r # metrics_run E uid name ts w')"

lemma usage_notice_run:
  "\<exists>x. usage_notice E m name uid c l w = (Inr (), w\<lparr>w_sent := x\<rparr>)"
proof -
  have "\<exists>x. w = w\<lparr>w_sent := x\<rparr>" by (rule exI [of _ "w_sent w"]) simp
  then show ?thesis unfolding usage_notice_def Let_def by (auto simp: py_simps)
qed

context redis_counters
begin

definition holds_credit :: "string \<Rightarrow> int \<Rightarrow> int \<Rightarrow> int \<Rightarrow> 'r \<Rightarrow> bool" where
  "holds_credit key now d c s \<longleftrightarrow> (\<forall>t. now \<le> t \<and> t < d \<longrightarrow> view t s key = Some (show_int c))"

lemma store_grant_start:
  assumes R: "e_redis E = R" and L: "grants_get E name uid w = (Inr (PInt L), w)"
    and p: "interval_secs (mt_period m) = Inr (Some n)" and v: "view (w_now w) (w_redis w) key = None"
  shows "\<exists>w'. store_grant E m name uid key w = (Inr True, w') \<and> w_grants w' = w_grants w \<and>
    holds_credit key (w_now w) (w_now w + n * 1000000) (L - 1) (w_redis w')"
proof -
  have "(of_int L - 1 :: rat) = of_int (L - 1)" by simp
  then have "number_text E (of_int L - 1) = show_int (L - 1)"
    by (simp only: number_text_def floor_of_int simp_thms if_True)
  then show ?thesis using assms
    by (simp add: store_grant_def py_simps Let_def get_view num_of_def set_result holds_credit_def set_same)
qed

lemma store_grant_next:
  assumes R: "e_redis E = R" and L: "grants_get E name uid w = (Inr (PInt L), w)"
    and now: "w_now w < d" and c: "0 \<le> c" "c < L" and h: "holds_credit key (w_now w) d c (w_redis w)"
  shows "\<exists>w'. store_grant E m name uid key w = (Inr (0 < c), w') \<and> w_grants w' = w_grants w \<and>
    holds_credit key (w_now w) d (if 0 < c then c - 1 else c) (w_redis w')"
proof -
  have v: "view (w_now w) (w_redis w) key = Some (show_int c)" using h now by (simp add: holds_credit_def)
  have i: "int_of_stored (show_int c) = Inr c" using c by (simp add: int_of_stored_def py_int_show_int)
  obtain x where x: "usage_notice E m name uid c (of_int L) w = (Inr (), w\<lparr>w_sent := x\<rparr>)"
    using usage_notice_run by blast
  have co: "count_of (view (w_now w) (w_redis w) key) = Some c" using v c by (simp add: count_of_def py_int_show_int)
  have after: "holds_credit key (w_now w) d (c - 1) (snd (rd_incrby R key (- 1) (w_now w) (w_redis w)))"
    using h incrby_view [OF v py_int_show_int [OF c(1)]] by (simp add: holds_credit_def)
  show ?thesis
  proof (cases "c = 0")
    case True
    then show ?thesis using R L v i c h by (simp add: store_grant_def py_simps Let_def get_view num_of_def)
  next
    case False
    then show ?thesis using R L v i x c after incrby_result [OF co]
      by (simp add: store_grant_def py_simps Let_def get_view num_of_def)
  qed
qed

lemma metrics_run_spent:
  assumes R: "e_redis E = R" and L: "\<forall>w'. w_grants w' = G \<longrightarrow> grants_get E name uid w' = (Inr (PInt L), w')"
    and m: "map_of (cf_METRICS (e_cfg E)) name = Some m" "mt_style m = ''grant''"
    and "\<forall>t \<in> set ts. now \<le> t \<and> t < d" and "sorted ts" and "0 \<le> c" and "c < L"
    and "holds_credit (metric_key name (metric_labels E m uid [])) now d c (w_redis w)" and "w_grants w = G"
  shows "metrics_run E uid name ts w = map (\<lambda>j. Inr (int j < c)) [0..<length ts]"
  using assms(5-)
proof (induction ts arbitrary: w c now)
  case (Cons t ts)
  let ?w = "w\<lparr>w_now := t\<rparr>" and ?key = "metric_key name (metric_labels E m uid [])"
  have h: "holds_credit ?key (w_now ?w) d c (w_redis ?w)"
    using Cons.prems by (auto simp: holds_credit_def)
  have "w_grants ?w = G" using Cons.prems by simp
  then have g: "grants_get E name uid ?w = (Inr (PInt L), ?w)" using L by blast
  obtain w' where w': "store_grant E m name uid ?key ?w = (Inr (0 < c), w')" "w_grants w' = G"
    "holds_credit ?key t d (if 0 < c then c - 1 else c) (w_redis w')"
    using store_grant_next [OF R g _ _ _ h, of m] Cons.prems by auto
  have "metrics_run E uid name ts w' = map (\<lambda>j. Inr (int j < (if 0 < c then c - 1 else c))) [0..<length ts]"
    using Cons.prems w' by (intro Cons.IH [where now = t]) auto
  also have "\<dots> = map (\<lambda>j. Inr (int (Suc j) < c)) [0..<length ts]"
    using Cons.prems(3) by (intro map_cong) auto
  finally show ?case using w'(1) m
    by (simp add: metrics_store_def Let_def upt_conv_Cons map_Suc_upt [symmetric] comp_def del: upt_Suc)
qed simp

text \<open>Within one period exactly the first \<open>L\<close> uses of a grant succeed.\<close>

lemma metrics_run_budget:
  assumes R: "e_redis E = R" and L: "\<forall>w'. w_grants w' = w_grants w \<longrightarrow> grants_get E name uid w' = (Inr (PInt L), w')"
    and m: "map_of (cf_METRICS (e_cfg E)) name = Some m" "mt_style m = ''grant''"
    and p: "interval_secs (mt_period m) = Inr (Some n)" and "1 \<le> L"
    and "\<forall>t \<in> set ts. t0 \<le> t \<and> t < t0 + n * 1000000" and "sorted ts"
    and v: "view t0 (w_redis w) (metric_key name (metric_labels E m uid [])) = None"
  shows "metrics_run E uid name (t0 # ts) w = map (\<lambda>j. Inr (int j < L)) [0..<Suc (length ts)]"
proof -
  let ?w = "w\<lparr>w_now := t0\<rparr>" and ?key = "metric_key name (metric_labels E m uid [])"
  have "w_grants ?w = w_grants w" by simp
  then have g: "grants_get E name uid ?w = (Inr (PInt L), ?w)" using L by blast
  have "view (w_now ?w) (w_redis ?w) ?key = None" using v by simp
  from store_grant_start [OF R g p this]
  obtain w' where w': "store_grant E m name uid ?key ?w = (Inr True, w')" "w_grants w' = w_grants w"
    "holds_credit ?key t0 (t0 + n * 1000000) (L - 1) (w_redis w')" by auto
  have "metrics_run E uid name ts w' = map (\<lambda>j. Inr (int j < L - 1)) [0..<length ts]"
    using metrics_run_spent [OF R L m assms(7,8) _ _ w'(3) w'(2)] assms(6) by simp
  also have "\<dots> = map (\<lambda>j. Inr (int (Suc j) < L)) [0..<length ts]"
    by (rule map_cong) auto
  finally show ?thesis using w'(1) m assms(6)
    by (simp add: metrics_store_def Let_def upt_conv_Cons map_Suc_upt [symmetric] comp_def del: upt_Suc)
qed

end

section \<open>Properties\<close>

definition demo_metric :: metric where
  "demo_metric = \<lparr>mt_notify = 0, mt_period = ''hour'', mt_scope = ''user'', mt_style = ''grant''\<rparr>"

definition metric_env :: "(mdb, mredis, mcache) env" where
  "metric_env = mem_env\<lparr>e_cfg := mem_config\<lparr>cf_METRICS := [(''sms_daily_total'', demo_metric)]\<rparr>\<rparr>"

definition granted_world :: "(mdb, mredis, mcache) world" where
  "granted_world = (mem_world [])\<lparr>w_grants := [(PStr ''defaults'', PDict []),
     (PStr ''u-1'', PDict [(''sms_daily_total'', PInt 2)])]\<rparr>"

lemma metric_env_simps [simp]: "e_redis metric_env = mem_redis" "e_cache metric_env = mem_cache"
  "cf_METRICS (e_cfg metric_env) = [(''sms_daily_total'', demo_metric)]"
  by (simp_all add: metric_env_def)


lemma granted_limit:
  "w_grants w' = w_grants granted_world \<Longrightarrow> grants_get metric_env ''sms_daily_total'' (PStr ''u-1'') w' = (Inr (PInt 2), w')"
  by (simp add: grants_get_def grants_init_def py_simps cache_sub_def granted_world_def mem_cache_def dict_simps grant_value_def)


lemma metrics_zero_limit:
  "metrics_run metric_env (PStr ''u-1'') ''sms_daily_total'' [1640995200000000, 1640995260000000]
     (granted_world\<lparr>w_grants := [(PStr ''defaults'', PDict []), (PStr ''u-1'', PDict [(''sms_daily_total'', PInt 0)])]\<rparr>)
   = [Inr True, Inr False]"
  by code_simp

end
