(* ===== verification/Registry.thy ===== *)
theory Registry imports Access begin

text \<open>
  apicrud/service_registry.py: instances announce themselves under expiring redis keys
  \<open>reg:<service>:<instance>\<close>, encrypted; \<open>find\<close> collects them and the public URL of each resource.
  The timers that refresh an entry are in \<open>Registry_Refresh\<close>.
\<close>

record service_data =
  sd_name :: string
  sd_id :: string
  sd_info :: dict

definition registry_key :: "string \<Rightarrow> string \<Rightarrow> string" where
  "registry_key name ident = ''reg:'' @ name @ '':'' @ ident"

text \<open>The entry \<open>register\<close> composes; \<open>created\<close> is the time it prints.\<close>

definition registry_entry ::
    "string list \<Rightarrow> pyval \<Rightarrow> int \<Rightarrow> string \<Rightarrow> string \<Rightarrow> string \<Rightarrow> string \<Rightarrow> service_data" where
  "registry_entry endpoints ipv4 tcp_port public_url created name ident =
     \<lparr>sd_name = name, sd_id = ident,
      sd_info = [(''endpoints'', PList (map PStr endpoints)), (''ipv4'', ipv4), (''port'', PInt tcp_port),
        (''public_url'', PStr public_url), (''created'', PStr created)]\<rparr>"

text \<open>\<open>_save_entry\<close>: every exception is logged and swallowed.\<close>

definition registry_save ::
    "('d, 'r, 'c) env \<Rightarrow> string \<Rightarrow> int \<Rightarrow> service_data \<Rightarrow> (('d, 'r, 'c) world, unit) py" where
  "registry_save E secret ttl sd = try_catch
     (bnd (encrypt_json E secret (sd_info sd)) (\<lambda>data.
      bnd (redis_set E (registry_key (sd_name sd) (sd_id sd)) data (Some ttl) False) (\<lambda>_. ret ())))
     (\<lambda>ex. ret ())"

text \<open>One key of the scan: the decrypted entry with the name and id of its key, or nothing.\<close>

definition registry_read ::
    "('d, 'r, 'c) env \<Rightarrow> string \<Rightarrow> string \<Rightarrow> (('d, 'r, 'c) world, dict option) py" where
  "registry_read E secret key = try_catch
     (bnd (redis_get E key) (\<lambda>v. case v of
        None \<Rightarrow> raise_exc (Exc ETypeError ''argument should be a bytes-like object'')
      | Some enc \<Rightarrow>
          bnd (of_result (decrypt_json E secret enc)) (\<lambda>x. case (x, py_split (CHR '':'') key) of
            (PDict info, [_, name, ident]) \<Rightarrow>
              ret (Some (dset (dset info ''name'' (PStr name)) ''id'' (PStr ident)))
          | (PDict info, _) \<Rightarrow> raise_exc (Exc EValueError ''not enough values to unpack'')
          | _ \<Rightarrow> raise_exc (Exc ETypeError ''object does not support item assignment''))))
     (\<lambda>ex. ret None)"

text \<open>The first instance to name a resource decides its URL.\<close>

fun map_urls :: "string \<Rightarrow> dict \<Rightarrow> pyval list \<Rightarrow> dict \<Rightarrow> exc + dict" where
  "map_urls base info [] urls = Inr urls"
| "map_urls base info (r # rs) urls =
     (if dhas urls (py_str r)
      then (if r \<noteq> PStr ''metric'' \<and> \<not> dhas info ''public_url''
            then Inl (Exc EKeyError ''public_url'') else map_urls base info rs urls)
      else (case dsub info ''public_url'' of
          Inl e \<Rightarrow> Inl e
        | Inr u \<Rightarrow> map_urls base info rs (dset urls (py_str r) (PStr (py_str u @ base)))))"

definition registry_visit ::
    "('d, 'r, 'c) env \<Rightarrow> string \<Rightarrow> string \<Rightarrow> dict list \<times> dict \<Rightarrow>
     (('d, 'r, 'c) world, (dict list \<times> dict, unit) flow) py" where
  "registry_visit E secret key acc = (case acc of (found, urls) \<Rightarrow>
     bnd (registry_read E secret key) (\<lambda>r. case r of
       None \<Rightarrow> ret (Continue (found, urls))
     | Some info \<Rightarrow>
         (case dget info ''endpoints'' of
            PList rs \<Rightarrow> bnd (of_result (map_urls (cf_BASE_URL (e_cfg E)) info rs urls)) (\<lambda>urls'.
              ret (Continue (found @ [info], urls')))
          | _ \<Rightarrow> ret (Continue (found @ [info], urls)))))"

definition registry_find ::
    "('d, 'r, 'c) env \<Rightarrow> string \<Rightarrow> string option \<Rightarrow> (('d, 'r, 'c) world, dict list \<times> dict) py" where
  "registry_find E secret service_name =
     bnd (reads (\<lambda>w. rd_scan (e_redis E)
       (case service_name of Some s \<Rightarrow> ''reg:'' @ s @ '':*'' | None \<Rightarrow> ''reg:*'') (w_now w) (w_redis w))) (\<lambda>keys.
     bnd (for_loop (registry_visit E secret) keys ([], [])) (\<lambda>fl. case fl of
       Continue r \<Rightarrow> ret r | Return _ \<Rightarrow> ret ([], [])))"

lemma keeps_registry_find [keeps_intros]: "keeps v (registry_find E secret s)"
  by (auto simp: registry_find_def registry_visit_def registry_read_def intro!: keeps_intros
      split: prod.splits list.splits pyval.splits)

text \<open>An entry that was saved is read back, with the name and id of its key, until it expires.\<close>

context session_env
begin

lemma registry_read_live:
  assumes "view (w_now w) (w_redis w) (registry_key name ident) = Some data"
    and "decrypt_json E secret data = Inr (PDict info)"
    and "CHR '':'' \<notin> set name" and "CHR '':'' \<notin> set ident"
  shows "registry_read E secret (registry_key name ident) w =
    (Inr (Some (dset (dset info ''name'' (PStr name)) ''id'' (PStr ident))), w)"
proof -
  have "registry_key name ident = ''reg'' @ CHR '':'' # (name @ CHR '':'' # ident)"
    by (simp add: registry_key_def)
  then have "py_split (CHR '':'') (registry_key name ident) = [''reg'', name, ident]"
    using assms(3,4) by (simp add: py_split_append_sep py_split_no_sep)
  then show ?thesis using assms(1,2) by (simp add: registry_read_def py_simps get_view)
qed

lemma registry_save_run:
  assumes "storable (sd_info sd)"
  shows "\<exists>data w'. registry_save E secret ttl sd w = (Inr (), w') \<and> w_now w' = w_now w \<and>
    decrypt_json E secret data = Inr (PDict (sd_info sd)) \<and>
    (\<forall>t. w_now w \<le> t \<longrightarrow> t < w_now w + ttl * 1000000 \<longrightarrow>
      view t (w_redis w') (registry_key (sd_name sd) (sd_id sd)) = Some data)"
proof -
  obtain data where d: "encrypt_json E secret (sd_info sd) w = (Inr data, w\<lparr>w_pos := w_pos w + 16\<rparr>)"
    "decrypt_json E secret data = Inr (PDict (sd_info sd))"
    using encrypt_json_run [OF cipher assms(1)] by blast
  show ?thesis
    by (rule exI [of _ data]) (use d in \<open>simp add: registry_save_def py_simps set_result set_same\<close>)
qed

lemma registry_saved:
  assumes "storable (sd_info sd)" and "0 < ttl" and "registry_save E secret ttl sd w = (r, w')"
    and "w_redis w'' = w_redis w'" and "w_now w \<le> w_now w''" and "w_now w'' < w_now w + ttl * 1000000"
    and "CHR '':'' \<notin> set (sd_name sd)" and "CHR '':'' \<notin> set (sd_id sd)"
  shows "registry_read E secret (registry_key (sd_name sd) (sd_id sd)) w'' =
    (Inr (Some (dset (dset (sd_info sd) ''name'' (PStr (sd_name sd))) ''id'' (PStr (sd_id sd)))), w'')"
proof -
  obtain data u where u: "registry_save E secret ttl sd w = (Inr (), u)"
    "decrypt_json E secret data = Inr (PDict (sd_info sd))"
    "\<forall>t. w_now w \<le> t \<longrightarrow> t < w_now w + ttl * 1000000 \<longrightarrow>
      view t (w_redis u) (registry_key (sd_name sd) (sd_id sd)) = Some data"
    using registry_save_run [OF assms(1)] by blast
  show ?thesis
    by (rule registry_read_live [OF _ u(2) assms(7,8)]) (use u(1,3) assms(3-6) in simp)
qed

end

section \<open>Properties\<close>

lemma registry_read_back:
  assumes "session_env E view" and "storable (sd_info sd)" and "0 < ttl" and "registry_save E secret ttl sd w = (r, w')"
    and "w_redis w'' = w_redis w'" and "w_now w \<le> w_now w''" and "w_now w'' < w_now w + ttl * 1000000"
    and "CHR '':'' \<notin> set (sd_name sd)" and "CHR '':'' \<notin> set (sd_id sd)"
  shows "registry_read E secret (registry_key (sd_name sd) (sd_id sd)) w'' =
    (Inr (Some (dset (dset (sd_info sd) ''name'' (PStr (sd_name sd))) ''id'' (PStr (sd_id sd)))), w'')"
  using session_env.registry_saved [OF assms] .

lemma registry_read_back_witness:
  "\<exists>r w'. registry_save mem_env ''sec'' 60 \<lparr>sd_name = ''api'', sd_id = ''h1'', sd_info = [(''port'', PInt 8080)]\<rparr> (mem_world []) = (r, w') \<and>
     registry_read mem_env ''sec'' ''reg:api:h1'' (w'\<lparr>w_now := 1640995200000000\<rparr>) =
       (Inr (Some [(''port'', PInt 8080), (''name'', PStr ''api''), (''id'', PStr ''h1'')]), w'\<lparr>w_now := 1640995200000000\<rparr>)"
proof -
  let ?sd = "\<lparr>sd_name = ''api'', sd_id = ''h1'', sd_info = [(''port'', PInt 8080)]\<rparr>"
  obtain r w' where s: "registry_save mem_env ''sec'' 60 ?sd (mem_world []) = (r, w')" by fastforce
  have "storable (sd_info ?sd)" by (simp add: storable_def)
  from registry_read_back [OF memory_sessions.session_env_axioms this _ s, of "w'\<lparr>w_now := 1640995200000000\<rparr>"] s
  show ?thesis by (auto simp: mem_world_def registry_key_def)
qed

end
