(* ===== verification/Accounts.thy ===== *)
theory Accounts imports Confirmation Metrics Registry begin

text \<open>
  apicrud/session_auth.py, apart from \<open>account_login\<close>: what follows an accepted login, the
  registration of accounts, and the roles that come with memberships.
\<close>

section \<open>Roles from memberships\<close>

text \<open>
  One role per privacy level, in ascending order, up to the level of the membership. A level that is
  not in the list (or is its first, which is skipped) does not end the loop.
\<close>

fun roles_upto :: "string \<Rightarrow> pyval \<Rightarrow> string list \<Rightarrow> string list" where
  "roles_upto prefix authorization [] = []"
| "roles_upto prefix authorization (l # ls) =
     (prefix @ ''-'' @ l) # (if PStr l = authorization then [] else roles_upto prefix authorization ls)"

text \<open>
  The query of \<open>get_roles\<close>. An exception while it is built is logged and leaves the variable as it
  was: unbound, or without the condition on the id.
\<close>

definition roles_query ::
    "('d, 'r, 'c) env \<Rightarrow> pyval \<Rightarrow> string \<Rightarrow> string \<Rightarrow> pyval \<Rightarrow> exc + query" where
  "roles_query E uid member_model column ident =
     (let m = capitalize member_model
      in if m \<in> set (e_models E) \<and> e_attrs E m ''uid'' \<and> e_attrs E m ''status''
         then (let q = filter_by [(''uid'', uid), (''status'', PStr ''active'')] (query_of m)
               in Inr (if truthy ident \<and> e_attrs E m column then filter_by [(column, ident)] q else q))
         else Inl (Exc EUnboundLocalError ''local variable query referenced before assignment''))"

definition roles_default :: "('d, 'r, 'c) env \<Rightarrow> string option \<Rightarrow> string option" where
  "roles_default E member_model = (case member_model of
       Some m \<Rightarrow> if m \<noteq> [] then Some m else (case e_private E of [] \<Rightarrow> None | (r, _) # _ \<Rightarrow> Some r)
     | None \<Rightarrow> (case e_private E of [] \<Rightarrow> None | (r, _) # _ \<Rightarrow> Some r))"

definition membership_roles :: "('d, 'r, 'c) env \<Rightarrow> string \<Rightarrow> string \<Rightarrow> dict \<Rightarrow> string list" where
  "membership_roles E m resource row =
     (if e_attrs E m resource
      then roles_upto (resource @ ''-'' @ py_str (dget row (resource @ ''_id''))) (dget row ''authorization'') (tl (e_levels E))
      else [])"

definition get_roles ::
    "('d, 'r, 'c) env \<Rightarrow> pyval \<Rightarrow> string option \<Rightarrow> string option \<Rightarrow> pyval \<Rightarrow> (('d, 'r, 'c) world, string list) py" where
  "get_roles E uid member_arg resource_arg ident =
     bnd (access_control E None) (\<lambda>acc.
     let resource = (case resource_arg of Some r \<Rightarrow> if r \<noteq> [] then r else ac_primary acc | None \<Rightarrow> ac_primary acc)
     in case roles_default E member_arg of
          None \<Rightarrow> ret []
        | Some member_model \<Rightarrow>
            if resource = [] then ret []
            else bnd (of_result (roles_query E uid member_model (resource @ ''_id'') ident)) (\<lambda>q.
                 bnd (run_all E q) (\<lambda>rows.
                 ret (concat (map (membership_roles E (capitalize member_model) resource) rows)))))"

text \<open>
  \<open>update_auth\<close> adds the roles of a new membership to the session. The roles are a set on the way;
  the model keeps the order of first occurrence.
\<close>

definition update_auth ::
    "('d, 'r, 'c) env \<Rightarrow> pyval \<Rightarrow> string option \<Rightarrow> string option \<Rightarrow> bool \<Rightarrow> (('d, 'r, 'c) world, unit) py" where
  "update_auth E ident member_arg resource_arg force =
     bnd (access_control E None) (\<lambda>acc.
     let resource = (case resource_arg of Some r \<Rightarrow> if r \<noteq> [] then r else ac_primary acc | None \<Rightarrow> ac_primary acc)
     in if roles_of acc = [] then ret ()
        else if force \<or> resource @ ''-'' @ py_str ident @ ''-invitee'' \<notin> set (roles_of acc)
        then bnd (get_roles E (ac_uid acc) member_arg (Some resource) ident) (\<lambda>more.
             case rq_authorization (e_req E) of
               None \<Rightarrow> raise_exc (Exc EAttributeError ''NoneType object has no attribute username'')
             | Some (username, password) \<Rightarrow>
                 try_catch (session_update E (PStr username) password ''auth''
                     (PStr (py_join '':'' (remdups (roles_of acc @ more)))) None)
                   (\<lambda>ex. if exc_kind ex = ETypeError then ret () else raise_exc ex))
        else ret ())"

section \<open>An accepted login\<close>

datatype login_result =
    LAnswer pyval nat pyval
  | LRedirect string
  | LAbort resp

text \<open>A cookie that names a session of the user stands for the second factor.\<close>

definition totp_bypass :: "('d, 'r, 'c) env \<Rightarrow> pyval \<Rightarrow> (('d, 'r, 'c) world, bool) py" where
  "totp_bypass E uid =
     (case map_of (rq_cookies (e_req E)) (cf_LOGIN_MFA_COOKIE_NAME (e_cfg E)) of
        None \<Rightarrow> ret False
      | Some token \<Rightarrow> bnd (session_get E uid token None) (\<lambda>s. ret (case s of None \<Rightarrow> False | Some d \<Rightarrow> d \<noteq> [])))"

definition internal_method :: "pyval \<Rightarrow> bool" where
  "internal_method m \<longleftrightarrow> m \<in> {PStr ''local'', PStr ''ldap''}"

text \<open>The roles of the new session and how long it lasts.\<close>

definition login_contact :: "('d, 'r, 'c) env \<Rightarrow> dict \<Rightarrow> (('d, 'r, 'c) world, dict) py" where
  "login_contact E account =
     bnd (related_one E ''Account'' account ''owner'') (\<lambda>owner.
     run_one E (filter_by [(''info'', dget owner ''identity''), (''type'', PStr ''email'')] (query_of ''Contact'')))"

definition stamp_login :: "('d, 'r, 'c) env \<Rightarrow> dict \<Rightarrow> (('d, 'r, 'c) world, unit) py" where
  "stamp_login E account =
     try_catch
       (bnd (gets w_now) (\<lambda>now.
        bnd (set_attr E ''Account'' (dget account ''id'') ''last_login'' (PTime now)) (\<lambda>_.
        commit E)))
       (\<lambda>ex. ret ())"

definition login_roles ::
    "('d, 'r, 'c) env \<Rightarrow> string option \<Rightarrow> access \<Rightarrow> dict \<Rightarrow> pyval \<Rightarrow> (('d, 'r, 'c) world, string list \<times> int) py" where
  "login_roles E roles_from acc account meth =
     (let duration = (if truthy (dget account ''is_admin'') then cf_LOGIN_ADMIN_LIMIT (e_cfg E)
                      else cf_LOGIN_SESSION_LIMIT (e_cfg E));
          totp = account_totp account;
          second = internal_method meth \<or> cf_LOGIN_MFA_EXTERNAL (e_cfg E)
      in if truthy (dget account ''password_must_change'') \<and> meth = PStr ''local''
         then ret ([''person'', ''pwchange''], 300)
         else if \<not> totp \<and> cf_LOGIN_MFA_REQUIRED (e_cfg E) \<and> second
         then ret ([''mfarequired''], 300)
         else bnd (totp_bypass E (dget account ''uid'')) (\<lambda>bypass.
           if \<not> bypass \<and> totp \<and> second \<and> \<not> ''pendingtotp'' \<in> set (roles_of acc)
           then ret ([''pendingtotp''], 120)
           else bnd (login_contact E account) (\<lambda>contact.
             if dget contact ''status'' \<in> {PStr ''active'', PStr ''unconfirmed''}
             then bnd (case roles_from of
                    None \<Rightarrow> ret []
                  | Some m \<Rightarrow> if m = [] then ret [] else get_roles E (dget account ''uid'') (Some m) None PNone) (\<lambda>more.
                  bnd (stamp_login E account) (\<lambda>_.
                  ret ((if truthy (dget account ''is_admin'') then [''admin'', ''user''] else [''user'']) @ more, duration)))
             else ret ([], duration))))"

text \<open>\<open>account.settings\<close>, where the code asks whether it has an attribute.\<close>

definition account_settings_row :: "('d, 'r, 'c) env \<Rightarrow> dict \<Rightarrow> (('d, 'r, 'c) world, dict option) py" where
  "account_settings_row E account =
     bnd (reads (\<lambda>w. db_related (e_db E) ''Account'' (dget account ''id'') ''settings'' (w_db w))) (\<lambda>rs.
     ret (case rs of [] \<Rightarrow> None | r # _ \<Rightarrow> Some r))"

definition login_answer ::
    "('d, 'r, 'c) env \<Rightarrow> dict \<Rightarrow> string list \<Rightarrow> pyval \<Rightarrow> pyval \<Rightarrow> dict \<Rightarrow> (('d, 'r, 'c) world, login_result) py" where
  "login_answer E account roles meth headers ses =
     (let jwt = cr_jwt_encode (e_crypt E) ses (cf_JWT_SECRET (e_cfg E))
      in bnd (registry_find E (cf_REDIS_AES_SECRET (e_cfg E)) None) (\<lambda>(_, urls).
         bnd (account_settings_row E account) (\<lambda>settings.
         let retval = [(''jwt_token'', PStr jwt), (''resources'', PDict urls), (''settings_id'', dget account ''settings_id''),
               (''username'', dget account ''name'')] @
             (case settings of
                Some s \<Rightarrow> if e_attrs E ''Settings'' ''default_storage_id'' then [(''storage_id'', dget s ''default_storage_id'')] else []
              | None \<Rightarrow> [])
         in bnd (if ''pendingtotp'' \<notin> set roles
                 then metrics_store E PNone ''logins_success_total'' [''method='' @ py_str meth] PNone else ret True) (\<lambda>_.
            if internal_method meth then ret (LAnswer (PDict retval) 201 headers)
            else case settings of
                None \<Rightarrow> raise_exc (Exc EAttributeError ''NoneType object has no attribute url'')
              | Some s \<Rightarrow> ret (LRedirect (py_str (dget s ''url'') @ cf_AUTH_LANDING_PAGE (e_cfg E) @ ''?token='' @ jwt))))))"

definition login_accepted ::
    "('d, 'r, 'c) env \<Rightarrow> string option \<Rightarrow> dict \<Rightarrow> pyval \<Rightarrow> pyval \<Rightarrow> (('d, 'r, 'c) world, login_result) py" where
  "login_accepted E roles_from account meth headers =
     bnd (access_control E None) (\<lambda>acc.
     bnd (login_roles E roles_from acc account meth) (\<lambda>(roles, duration).
     bnd (related_one E ''Account'' account ''owner'') (\<lambda>owner.
     bnd (session_create E (dget account ''uid'') roles None None (Some duration)
            [(''acc'', dget account ''id''), (''identity'', dget owner ''identity''), (''method'', meth)]) (\<lambda>ses.
     case ses of
       Some d \<Rightarrow> login_answer E account roles meth headers d
     | None \<Rightarrow> bnd (db_abort E) (\<lambda>response. ret (LAbort response))))))"

section \<open>Registration\<close>

text \<open>
  The person and the contact of a new account: those that have the identity already, or new ones.
  \<open>Inl\<close> is the response that ends the registration.
\<close>

definition new_person ::
    "('d, 'r, 'c) env \<Rightarrow> pyval \<Rightarrow> string \<Rightarrow> (('d, 'r, 'c) world, resp + (pyval \<times> pyval)) py" where
  "new_person E identity name =
     bnd (gen_id 8 ''u-'' id_chars) (\<lambda>uid.
     bnd (gen_id 8 ''x-'' id_chars) (\<lambda>cid.
     try_catch
       (bnd (session_add E ''Person'' [(''id'', PStr uid), (''name'', PStr name), (''identity'', identity),
               (''status'', PStr ''active'')]) (\<lambda>_.
        bnd (session_add E ''Contact'' [(''id'', PStr cid), (''uid'', PStr uid), (''type'', PStr ''email''),
               (''info'', identity)]) (\<lambda>_.
        bnd (commit E) (\<lambda>_. ret (Inr (PStr uid, PStr cid))))))
       (\<lambda>ex. bnd (db_abort E) (\<lambda>response. ret (Inl response)))))"

definition known_contact :: "('d, 'r, 'c) env \<Rightarrow> pyval \<Rightarrow> pyval \<Rightarrow> (('d, 'r, 'c) world, resp + (pyval \<times> pyval)) py" where
  "known_contact E identity uid =
     try_catch
       (bnd (run_one E (filter_by [(''info'', identity), (''type'', PStr ''email'')] (query_of ''Contact''))) (\<lambda>c.
        ret (Inr (uid, dget c ''id''))))
       (\<lambda>ex. bnd (db_abort E) (\<lambda>response. ret (Inl response)))"

text \<open>A profile setting; one that exists already (or a value that is too long) is rolled back and ignored.\<close>

definition add_profile ::
    "('d, 'r, 'c) env \<Rightarrow> pyval \<Rightarrow> string \<Rightarrow> string \<Rightarrow> ekind set \<Rightarrow> (('d, 'r, 'c) world, unit) py" where
  "add_profile E uid item v ignored =
     try_catch
       (bnd (gen_id 8 ''x-'' id_chars) (\<lambda>i.
        bnd (session_add E ''Profile'' [(''id'', PStr i), (''uid'', uid), (''item'', PStr item), (''value'', PStr v),
               (''status'', PStr ''active'')]) (\<lambda>_.
        commit E)))
       (\<lambda>ex. if exc_kind ex \<in> ignored then rollback E else raise_exc ex)"

definition register_profile ::
    "('d, 'r, 'c) env \<Rightarrow> pyval \<Rightarrow> string option \<Rightarrow> (('d, 'r, 'c) world, unit) py" where
  "register_profile E uid picture =
     bnd (try_catch (bnd (run_one E (filter_by [(''name'', PStr ''global'')] (query_of ''Settings''))) (\<lambda>s. ret (dget s ''lang'')))
            (\<lambda>ex. ret (PStr ''en''))) (\<lambda>default_lang.
     bnd (case rq_language (e_req E) of
            Some lang \<Rightarrow> if lang \<noteq> [] \<and> PStr lang \<noteq> default_lang
              then add_profile E uid ''lang'' lang {EIntegrityError} else ret ()
          | None \<Rightarrow> ret ()) (\<lambda>_.
     case picture of
       Some p \<Rightarrow> if p \<noteq> [] then add_profile E uid ''picture'' p {EDataError, EIntegrityError} else ret ()
     | None \<Rightarrow> ret ()))"

definition activate_contact :: "('d, 'r, 'c) env \<Rightarrow> pyval \<Rightarrow> pyval \<Rightarrow> (('d, 'r, 'c) world, resp) py" where
  "activate_contact E uid cid =
     try_catch
       (bnd (run_one E (filter_by [(''id'', cid)] (query_of ''Contact''))) (\<lambda>c.
        bnd (set_attr E ''Contact'' (dget c ''id'') ''status'' (PStr ''active'')) (\<lambda>_.
        bnd (commit E) (\<lambda>_.
        ret ([(''uid'', uid), (''message'', PStr ''registered'')], 200)))))
       (\<lambda>ex. db_abort E)"

text \<open>
  What is known of the identity: \<open>Inl\<close> the refusal of a user name or an address that has an account,
  \<open>Inr\<close> the user id of the person with this identity, or None.
\<close>

definition register_known ::
    "('d, 'r, 'c) env \<Rightarrow> pyval \<Rightarrow> string \<Rightarrow> (('d, 'r, 'c) world, resp + pyval) py" where
  "register_known E identity username =
     bnd (one_or_none E (filter_by [(''name'', PStr username)] (query_of ''Account''))) (\<lambda>taken. case taken of
       Some _ \<Rightarrow> ret (Inl (msg_resp ''that username is already registered'' 405))
     | None \<Rightarrow>
         bnd (one_or_none E (filter_by [(''identity'', identity)] (query_of ''Person''))) (\<lambda>existing. case existing of
           None \<Rightarrow> ret (Inr PNone)
         | Some p \<Rightarrow>
             bnd (one_or_none E (filter_by [(''uid'', dget p ''id'')] (query_of ''Account''))) (\<lambda>account. case account of
               Some _ \<Rightarrow> ret (Inl (msg_resp ''that email is already registered, use forgot-password'' 405))
             | None \<Rightarrow> ret (Inr (dget p ''id'')))))"

definition register ::
    "('d, 'r, 'c) env \<Rightarrow> string \<Rightarrow> string \<Rightarrow> string \<Rightarrow> string option \<Rightarrow> string option \<Rightarrow> (('d, 'r, 'c) world, resp) py" where
  "register E identity0 username name template picture =
     (if username = [] \<or> identity0 = [] \<or> name = [] then ret (msg_resp ''all fields required'' 400)
      else
        let identity = (case identity_normalize identity0 of None \<Rightarrow> PNone | Some i \<Rightarrow> PStr i)
        in bnd (register_known E identity username) (\<lambda>known. case known of
             Inl response \<Rightarrow> ret response
           | Inr uid0 \<Rightarrow>
               bnd (if truthy uid0 then known_contact E identity uid0 else new_person E identity name) (\<lambda>r. case r of
                 Inl response \<Rightarrow> ret response
               | Inr (uid, cid) \<Rightarrow>
                   bnd (register_profile E uid picture) (\<lambda>_.
                   case template of
                     Some t \<Rightarrow> if t \<noteq> [] then confirmation_request E cid None t else activate_contact E uid cid
                   | None \<Rightarrow> activate_contact E uid cid))))"

text \<open>
  \<open>account_add\<close>. Where the global settings cannot be read, the call of \<open>db_abort\<close> passes \<open>message\<close>
  a second time and raises.
\<close>

definition account_add :: "('d, 'r, 'c) env \<Rightarrow> string \<Rightarrow> pyval \<Rightarrow> (('d, 'r, 'c) world, resp) py" where
  "account_add E username uid =
     bnd (try_catch (bnd (run_one E (filter_by [(''name'', PStr ''global'')] (query_of ''Settings''))) (\<lambda>s. ret (dget s ''id'')))
            (\<lambda>ex. raise_exc (Exc ETypeError ''dict() got multiple values for keyword argument message''))) (\<lambda>settings_id.
     bnd (gen_id 8 ''x-'' id_chars) (\<lambda>ident.
     try_catch
       (bnd (session_add E ''Account'' [(''id'', PStr ident), (''uid'', uid), (''name'', PStr username),
               (''password_must_change'', PBool True), (''password'', PStr []), (''settings_id'', settings_id),
               (''status'', PStr ''active'')]) (\<lambda>_.
        bnd (commit E) (\<lambda>_.
        ret ([(''id'', PStr ident), (''uid'', uid), (''username'', PStr username)], 201))))
       (\<lambda>ex. db_abort E)))"

section \<open>Authorization info\<close>

definition attr_of :: "dict \<Rightarrow> string \<Rightarrow> exc + pyval" where
  "attr_of d k = (case map_of d k of Some v \<Rightarrow> Inr v | None \<Rightarrow> Inl (Exc EAttributeError (''object has no attribute '' @ k)))"

definition auth_params :: "('d, 'r, 'c) env \<Rightarrow> (('d, 'r, 'c) world, resp) py" where
  "auth_params E =
     bnd (access_control E None) (\<lambda>acc.
     let account_id = ac_account_id acc
     in bnd (settings_of E (cf_APPROVED_SENDERS (e_cfg E)) account_id PNone) (\<lambda>settings.
        bnd (try_catch (bnd (run_one E (filter_by [(''id'', account_id)] (query_of ''Account''))) (\<lambda>a. ret (Inr a)))
               (\<lambda>ex. bnd (db_abort E) (\<lambda>response. ret (Inl response)))) (\<lambda>r. case r of
          Inl response \<Rightarrow> ret response
        | Inr account \<Rightarrow>
            bnd (registry_find E (cf_REDIS_AES_SECRET (e_cfg E)) None) (\<lambda>(_, urls).
            bnd (of_result (attr_of settings ''id'')) (\<lambda>settings_id.
            bnd (account_settings_row E account) (\<lambda>row.
            bnd (if row \<noteq> None \<and> e_attrs E ''Settings'' ''default_storage_id''
                 then of_result (attr_of settings ''default_storage_id'') else ret PNone) (\<lambda>storage_id.
            ret ([(''account_id'', account_id), (''uid'', ac_uid acc), (''resources'', PDict urls), (''settings_id'', settings_id),
                  (''totp'', PBool (account_totp account))] @
                 (if truthy storage_id then [(''storage_id'', storage_id)] else []), 200)))))))) "

text \<open>The login methods on offer; \<open>client\<close> tells which providers have a client id in the environment.\<close>

definition methods :: "('d, 'r, 'c) env \<Rightarrow> (string \<Rightarrow> bool) \<Rightarrow> resp" where
  "methods E client =
     (let ms = concat (map (\<lambda>m. if m = ''oauth2'' then filter client (cf_AUTH_PARAMS (e_cfg E)) else [m]) (cf_AUTH_METHODS (e_cfg E)));
          internal = (if ''local'' \<in> set (cf_AUTH_METHODS (e_cfg E)) then cf_LOGIN_INTERNAL_POLICY (e_cfg E) else ''closed'')
      in ([(''items'', PList (map PStr ms)), (''count'', PInt (int (length ms))),
           (''policies'', PDict [(''login_internal'', PStr internal), (''login_external'', PStr (cf_LOGIN_EXTERNAL_POLICY (e_cfg E)))])], 200))"

end
