(* ===== verification/Login.thy ===== *)
theory Login imports Accounts Mutex begin

text \<open>
  Logging in: \<open>SessionAuth.account_login\<close> (apicrud/session_auth.py) and the methods it tries, local
  passwords, LDAP, OAuth2 and one-time passwords (apicrud/auth). A method yields its response and,
  where it succeeded, the account. The LDAP server and the OAuth2 provider are parameters.
\<close>

section \<open>Local passwords\<close>

text \<open>\<open>apicrud/auth/local_func.py\<close>.\<close>

definition local_account :: "('d, 'r, 'c) env \<Rightarrow> pyval \<Rightarrow> (('d, 'r, 'c) world, dict) py" where
  "local_account E username = (case username of
       PStr s \<Rightarrow>
         if CHR ''@'' \<in> set s
         then run_one E (where_cond (CEq (''Account'', ''status'') (PStr ''active''))
                (where_cond (CEq (''Person'', ''identity'') username) (join_model ''Person'' (query_of ''Account''))))
         else run_one E (filter_by [(''name'', username), (''status'', PStr ''active'')] (query_of ''Account''))
     | _ \<Rightarrow> raise_exc (Exc ETypeError ''argument is not iterable''))"

definition password_ok :: "('d, 'r, 'c) env \<Rightarrow> pyval \<Rightarrow> pyval \<Rightarrow> exc + bool" where
  "password_ok E password stored = (case (password, stored) of
       (PStr p, PStr h) \<Rightarrow> Inr (cr_pw_verify (e_crypt E) p h)
     | _ \<Rightarrow> Inl (Exc ETypeError ''secret must be unicode or bytes''))"

text \<open>The password of an account found under \<open>username\<close>.\<close>

definition check_password ::
    "('d, 'r, 'c) env \<Rightarrow> pyval \<Rightarrow> pyval \<Rightarrow> dict \<Rightarrow> (('d, 'r, 'c) world, resp \<times> dict option) py" where
  "check_password E username password account =
     (let invalid = ([(''username'', username), (''message'', PStr ''not valid'')], 403)
      in if dget account ''password'' = PStr []
         then ret (([(''username'', username), (''message'', PStr ''no password'')], 403), None)
         else bnd (if truthy password then of_result (password_ok E password (dget account ''password'')) else ret False) (\<lambda>ok.
              if ok then ret (([], 200), Some account)
              else bnd (commit E) (\<lambda>_. ret (invalid, None))))"

definition local_login ::
    "('d, 'r, 'c) env \<Rightarrow> pyval \<Rightarrow> pyval \<Rightarrow> (('d, 'r, 'c) world, resp \<times> dict option) py" where
  "local_login E username password =
     bnd (try_catch (bnd (local_account E username) (\<lambda>a. ret (Inr a)))
       (\<lambda>ex. if exc_kind ex = EInvalidPaddingError then ret (Inl (msg_resp ''DB operational error'' 503))
             else if exc_kind ex \<in> {ENoResultFound, ETypeError}
             then ret (Inl ([(''username'', username), (''message'', PStr ''not valid'')], 403))
             else if exc_kind ex = EOperationalError then bnd (db_abort E) (\<lambda>response. ret (Inl response))
             else raise_exc ex)) (\<lambda>r. case r of
       Inl response \<Rightarrow> ret (response, None)
     | Inr account \<Rightarrow>
         check_password E (case username of
             PStr s \<Rightarrow> if CHR ''@'' \<in> set s then dget account ''name'' else username | _ \<Rightarrow> username) password account)"

section \<open>One-time passwords\<close>

text \<open>
  \<open>apicrud/auth/totp_func.py\<close>. The backup codes are a run of 16-byte digests; the one that is used
  is cut out.
\<close>

function snip_code :: "string \<Rightarrow> string \<Rightarrow> string option" where
  "snip_code h codes =
     (if codes = [] then None
      else if h = take 16 codes then Some (drop 16 codes)
      else map_option ((@) (take 16 codes)) (snip_code h (drop 16 codes)))"
  by pat_completeness auto

termination by (relation "measure (\<lambda>(h, codes). length codes)") auto

declare snip_code.simps [simp del]

definition MFA_BACKUP_CODELEN :: nat where
  "MFA_BACKUP_CODELEN = 8"

definition denied :: resp where
  "denied = msg_resp ''access denied'' 403"

text \<open>
  A backup code: the remaining digests are written back as they are, although they were read as
  encrypted.
\<close>

definition use_backup_code ::
    "('d, 'r, 'c) env \<Rightarrow> dict \<Rightarrow> string \<Rightarrow> (('d, 'r, 'c) world, bool) py" where
  "use_backup_code E account otp =
     bnd (of_result (case dget account ''backup_codes'' of
            PBytes b \<Rightarrow> aes_decrypt_bin (e_crypt E) (cf_DB_AES_SECRET (e_cfg E)) b
          | _ \<Rightarrow> Inl (Exc ETypeError ''NoneType object is not subscriptable''))) (\<lambda>codes.
     case snip_code (cr_md5 (e_crypt E) (utf8_encode otp)) codes of
       None \<Rightarrow> ret False
     | Some rest \<Rightarrow>
         bnd (set_attr E ''Account'' (dget account ''id'') ''backup_codes'' (PBytes rest)) (\<lambda>_.
         bnd (commit E) (\<lambda>_. ret True)))"

definition check_totp :: "('d, 'r, 'c) env \<Rightarrow> dict \<Rightarrow> string \<Rightarrow> (('d, 'r, 'c) world, bool) py" where
  "check_totp E account otp =
     (if length otp = MFA_BACKUP_CODELEN then use_backup_code E account otp
      else if \<not> account_totp account then ret False
      else bnd (gets w_now) (\<lambda>now.
           if cr_totp_verify (e_crypt E) (py_str (dget account ''totp_secret'')) otp 1 now then ret True
           else bnd (metrics_store E PNone ''logins_fail_total'' [] PNone) (\<lambda>_.
                bnd (commit E) (\<lambda>_. ret False))))"

text \<open>A redis key blocks the replay of a password for one minute: \<open>Inr False\<close> where it was there.\<close>

definition totp_key :: "access \<Rightarrow> string \<Rightarrow> string" where
  "totp_key acc otp = ''totp:'' @ py_str (ac_account_id acc) @ '':'' @ otp"

definition block_replay :: "('d, 'r, 'c) env \<Rightarrow> access \<Rightarrow> string \<Rightarrow> (('d, 'r, 'c) world, resp option) py" where
  "block_replay E acc otp =
     try_catch
       (bnd (redis_set E (totp_key acc otp) [] (Some 60) True) (\<lambda>ok. ret (if ok then None else Some denied)))
       (\<lambda>ex. ret (Some (msg_resp ''access denied'' 500)))"

text \<open>The cookie that lets the next logins go without the second factor, where they are configured.\<close>

definition bypass_cookie :: "('d, 'r, 'c) env \<Rightarrow> access \<Rightarrow> dict \<Rightarrow> (('d, 'r, 'c) world, pyval) py" where
  "bypass_cookie E acc account =
     (if cf_LOGIN_MFA_COOKIE_LIMIT (e_cfg E) > 0 then
        bnd (related_one E ''Account'' account ''owner'') (\<lambda>owner.
        bnd (session_create E (ac_uid acc) [] None None (Some (cf_LOGIN_MFA_COOKIE_LIMIT (e_cfg E)))
               [(''acc'', dget account ''id''), (''identity'', dget owner ''identity'')]) (\<lambda>ses. case ses of
          None \<Rightarrow> raise_exc (Exc EAttributeError ''NoneType object has no attribute get'')
        | Some d \<Rightarrow>
            ret (PDict [(''Set-Cookie'', PStr (cf_LOGIN_MFA_COOKIE_NAME (e_cfg E) @ ''='' @ py_str (dget d ''jti'') @
              ''; Path='' @ (if ac_apikey_id acc \<noteq> None then ''/'' else cf_BASE_URL (e_cfg E) @ ''/auth'') @
              ''; Max-Age='' @ show_int (cf_LOGIN_MFA_COOKIE_LIMIT (e_cfg E)) @
              (if cf_PUBLIC_HOST (e_cfg E) \<noteq> ''localhost''
               then ''; Domain='' @ cf_PUBLIC_HOST (e_cfg E) @ ''; HttpOnly; SameSite=Strict; Secure'' else [])))])))
      else ret PNone)"

definition totp_login ::
    "('d, 'r, 'c) env \<Rightarrow> pyval \<Rightarrow> pyval \<Rightarrow> (('d, 'r, 'c) world, resp \<times> pyval \<times> dict option) py" where
  "totp_login E username otp_arg =
     bnd (access_control E None) (\<lambda>acc.
     bnd (one_or_none E (filter_by [if ac_apikey_id acc \<noteq> None then (''name'', username) else (''id'', ac_account_id acc)]
            (query_of ''Account''))) (\<lambda>found. case found of
       None \<Rightarrow> ret (denied, PNone, None)
     | Some account \<Rightarrow>
         bnd (related_one E ''Account'' account ''owner'') (\<lambda>_.
         bnd (of_result (str_of otp_arg)) (\<lambda>otp.
         bnd (check_totp E account otp) (\<lambda>valid.
         if \<not> valid then ret (denied, PNone, None)
         else bnd (block_replay E acc otp) (\<lambda>blocked. case blocked of
                Some response \<Rightarrow> ret (response, PNone, None)
              | None \<Rightarrow>
                  bnd (bypass_cookie E acc account) (\<lambda>headers.
                  ret (([], 200), headers, Some account))))))))"

section \<open>LDAP\<close>

text \<open>
  \<open>apicrud/auth/ldap_func.py\<close>. \<open>dir_bind\<close> is the outcome of binding with a name and a password,
  \<open>dir_search\<close> what a search under a base with a filter finds first: its attributes.
\<close>

record directory =
  dir_bind :: "string \<Rightarrow> pyval \<Rightarrow> exc + bool"
  dir_search :: "string \<Rightarrow> string \<Rightarrow> dict option"

definition ldap_param :: "('d, 'r, 'c) env \<Rightarrow> string \<Rightarrow> exc + pyval" where
  "ldap_param E k = dsub (cf_LDAP_PARAMS (e_cfg E)) k"

definition bind_name :: "('d, 'r, 'c) env \<Rightarrow> string \<Rightarrow> exc + string" where
  "bind_name E username = (case ldap_param E ''domain'' of
       Inl e \<Rightarrow> Inl e
     | Inr domain \<Rightarrow> Inr (if truthy domain \<and> CHR 0x5C \<notin> set username
         then py_str domain @ [CHR 0x5C] @ username else username))"

text \<open>The attributes whose values are text, joined: \<open>''.join\<close> of a string is the string.\<close>

fun text_items :: "pyval list \<Rightarrow> exc + string" where
  "text_items [] = Inr []"
| "text_items (PStr s # vs) = (case text_items vs of Inl e \<Rightarrow> Inl e | Inr t \<Rightarrow> Inr (s @ t))"
| "text_items (v # vs) = Inl (Exc ETypeError ''expected str instance'')"

fun ldap_user :: "dict \<Rightarrow> exc + dict" where
  "ldap_user [] = Inr []"
| "ldap_user ((k, v) # rest) = (case ldap_user rest of
       Inl e \<Rightarrow> Inl e
     | Inr d \<Rightarrow> (case v of
           PStr s \<Rightarrow> Inr ((k, v) # d)
         | PList [] \<Rightarrow> Inl (Exc EIndexError ''list index out of range'')
         | PList (PStr s # vs) \<Rightarrow> (case text_items (PStr s # vs) of Inl e \<Rightarrow> Inl e | Inr t \<Rightarrow> Inr ((k, PStr t) # d))
         | PList _ \<Rightarrow> Inr d
         | _ \<Rightarrow> Inl (Exc ETypeError ''object is not subscriptable'')))"

definition ldap_identity :: "('d, 'r, 'c) env \<Rightarrow> dict \<Rightarrow> pyval \<Rightarrow> exc + string option" where
  "ldap_identity E user account_name = (case ldap_param E ''attr_identity'' of
       Inl e \<Rightarrow> Inl e
     | Inr attr \<Rightarrow>
         if truthy attr
         then Inr (case dget user (py_str attr) of PStr s \<Rightarrow> identity_normalize s | _ \<Rightarrow> None)
         else (case ldap_param E ''email_domain'' of
             Inl e \<Rightarrow> Inl e | Inr domain \<Rightarrow> Inr (Some (py_str account_name @ ''@'' @ py_str domain))))"

text \<open>The account of a directory user, registered where there is none.\<close>

definition text_or_empty :: "pyval \<Rightarrow> string" where
  "text_or_empty v = (case v of PStr s \<Rightarrow> s | _ \<Rightarrow> [])"

definition ldap_register ::
    "('d, 'r, 'c) env \<Rightarrow> dict \<Rightarrow> string \<Rightarrow> pyval \<Rightarrow> (('d, 'r, 'c) world, resp \<times> dict option) py" where
  "ldap_register E user identity account_name =
     (let name = (if truthy (dget user ''displayName'') then dget user ''displayName'' else dget user ''cn'');
          username = text_or_empty account_name
      in bnd (register E identity username (text_or_empty name) None None) (\<lambda>(content, status).
         if status \<noteq> 200 then ret ((content, status), None)
         else bnd (of_result (dsub content ''uid'')) (\<lambda>uid.
              bnd (account_add E username uid) (\<lambda>(content', status').
              if status' \<noteq> 201 then ret ((content', status'), None)
              else bnd (of_result (dsub content' ''id'')) (\<lambda>i.
                   bnd (run_one E (filter_by [(''id'', i)] (query_of ''Account''))) (\<lambda>account.
                   ret (([], 200), Some account)))))))"

definition ldap_account ::
    "('d, 'r, 'c) env \<Rightarrow> dict \<Rightarrow> (('d, 'r, 'c) world, resp \<times> dict option) py" where
  "ldap_account E user =
     bnd (of_result (ldap_param E ''attr_name'')) (\<lambda>attr_name.
     let account_name = dget user (py_str attr_name)
     in bnd (of_result (ldap_identity E user account_name)) (\<lambda>found. case found of
          None \<Rightarrow> ret (denied, None)
        | Some identity \<Rightarrow>
            if CHR ''@'' \<notin> set identity then ret (denied, None)
            else bnd (try_catch
                   (bnd (one_or_none E (where_cond (CEq (''Account'', ''status'') (PStr ''active''))
                       (where_cond (CEq (''Account'', ''name'') account_name)
                       (where_cond (CEq (''Person'', ''identity'') (PStr identity)) (join_model ''Person'' (query_of ''Account'')))))) (\<lambda>a.
                    ret (Inr a)))
                   (\<lambda>ex. bnd (db_abort E) (\<lambda>response. ret (Inl response)))) (\<lambda>r. case r of
                Inl response \<Rightarrow> ret (response, None)
              | Inr (Some account) \<Rightarrow> ret (([], 200), Some account)
              | Inr None \<Rightarrow> ldap_register E user identity account_name)))"

text \<open>The user name goes into the search filter as it is.\<close>

definition ldap_login ::
    "('d, 'r, 'c) env \<Rightarrow> directory \<Rightarrow> pyval \<Rightarrow> pyval \<Rightarrow> (('d, 'r, 'c) world, resp \<times> dict option) py" where
  "ldap_login E dir username_arg password =
     bnd (of_result (str_of username_arg)) (\<lambda>username.
     bnd (of_result (bind_name E username)) (\<lambda>dn.
     if dir_bind dir dn password \<noteq> Inr True then ret (denied, None)
     else bnd (of_result (ldap_param E ''search_base'')) (\<lambda>base.
          bnd (of_result (ldap_param E ''search_filter'')) (\<lambda>pat.
          bnd (of_result (py_format [(''user'', username)] (py_str pat))) (\<lambda>flt.
          case dir_search dir (py_str base) flt of
            None \<Rightarrow> ret (denied, None)
          | Some attributes \<Rightarrow> bnd (of_result (ldap_user attributes)) (\<lambda>user. ldap_account E user))))))"

section \<open>OAuth2\<close>

text \<open>
  \<open>apicrud/auth/oauth2_func.py\<close> and \<open>apicrud/auth/oauth2.py\<close>. Of a provider the model knows whether
  it has a client, the response to an authorization request, and the user that an authorization code
  stands for: \<open>Inl (Inl e)\<close> where the code is refused.
\<close>

record oauth =
  oa_client :: "string \<Rightarrow> exc + bool"
  oa_redirect :: "string \<Rightarrow> string \<Rightarrow> pyval \<Rightarrow> nat \<times> string"
  oa_token :: "string \<Rightarrow> string \<Rightarrow> exc + dict"

definition callback_url :: "('d, 'r, 'c) env \<Rightarrow> string \<Rightarrow> string" where
  "callback_url E meth = cf_PUBLIC_URL (e_cfg E) @ cf_BASE_URL (e_cfg E) @ ''/auth_callback/'' @ meth"

definition oauth2_login :: "('d, 'r, 'c) env \<Rightarrow> oauth \<Rightarrow> string \<Rightarrow> pyval \<Rightarrow> exc + resp" where
  "oauth2_login E oa meth nonce = (case oa_client oa meth of
       Inl e \<Rightarrow> if exc_kind e = ERuntimeError then Inr (msg_resp ''login client missing'' 500) else Inl e
     | Inr False \<Rightarrow> Inl (Exc EAttributeError ''NoneType object has no attribute authorize_redirect'')
     | Inr True \<Rightarrow> (case oa_redirect oa meth (callback_url E meth) nonce of (status, location) \<Rightarrow>
         if status = 302 then Inr ([(''location'', PStr location)], 200)
         else Inr (msg_resp ''openid client failure'' 405)))"

text \<open>An answer of \<open>login_accepted\<close> as the callback returns it, or the response that ended it before.\<close>

definition external_username :: "string \<Rightarrow> (('d, 'r, 'c) world, string) py" where
  "external_username identity =
     bnd (gen_id 6 [] base36_chars) (\<lambda>suffix.
     ret (take 15 (hd (py_split (CHR ''@'') identity)) @ ''-'' @ suffix))"

definition external_picture :: "dict \<Rightarrow> pyval" where
  "external_picture user =
     (let picture = (if truthy (dget user ''picture'') then dget user ''picture'' else dget user ''avatar_url'')
      in if \<not> truthy picture \<and> truthy (dget user ''gravatar_id'')
         then PStr (''https://2.gravatar.com/avatar/'' @ py_str (dget user ''gravatar_id'')) else picture)"

definition unknown_user ::
    "('d, 'r, 'c) env \<Rightarrow> string \<Rightarrow> string \<Rightarrow> dict \<Rightarrow> (('d, 'r, 'c) world, login_result) py" where
  "unknown_user E meth identity user =
     (let name = text_or_empty (dget user ''name''); picture = Some (text_or_empty (external_picture user));
          policy = cf_LOGIN_EXTERNAL_POLICY (e_cfg E)
      in bnd (external_username identity) (\<lambda>username.
         if policy = ''closed''
         then bnd (metrics_store E PNone ''logins_fail_total'' [] PNone) (\<lambda>_. ret (LAbort (msg_resp ''not valid'' 403)))
         else if policy = ''auto''
         then bnd (register E identity username name None picture) (\<lambda>(content, status).
              if status \<noteq> 200 then ret (LAbort (content, status))
              else bnd (of_result (dsub content ''uid'')) (\<lambda>uid.
                   bnd (account_add E username uid) (\<lambda>(content', status').
                   if status' \<noteq> 201 then ret (LAbort (content', status'))
                   else bnd (of_result (dsub content' ''id'')) (\<lambda>i.
                        bnd (run_one E (filter_by [(''id'', i)] (query_of ''Account''))) (\<lambda>account.
                        login_accepted E None account (PStr meth) PNone)))))
         else if policy = ''open''
         then bnd (register E identity username name (Some ''confirm_new'') picture) (\<lambda>(content, status).
              if status \<noteq> 200 then ret (LAbort (content, status))
              else bnd (of_result (dsub content ''uid'')) (\<lambda>uid.
                   bnd (account_add E username uid) (\<lambda>_. ret (LAbort (content, status)))))
         else ret (LAbort (msg_resp ''unimplemented'' 403))))"

definition callback_account ::
    "('d, 'r, 'c) env \<Rightarrow> string \<Rightarrow> (('d, 'r, 'c) world, resp + dict) py" where
  "callback_account E identity =
     bnd (try_catch
            (bnd (one_or_none E (where_cond (CEq (''Account'', ''status'') (PStr ''active''))
                (where_cond (CEq (''Person'', ''identity'') (PStr identity)) (join_model ''Person'' (query_of ''Account''))))) (\<lambda>a.
             ret (Inr a)))
            (\<lambda>ex. bnd (db_abort E) (\<lambda>response. ret (Inl response)))) (\<lambda>r. case r of
       Inl response \<Rightarrow> ret (Inl response)
     | Inr (Some account) \<Rightarrow> ret (Inr account)
     | Inr None \<Rightarrow>
         try_catch
           (bnd (run_one E (where_cond (CEq (''Contact'', ''type'') (PStr ''email''))
               (where_cond (CEq (''Contact'', ''info'') (PStr identity))
               (join_model ''Contact'' (join_model ''Person'' (query_of ''Account'')))))) (\<lambda>account. ret (Inr account)))
           (\<lambda>ex. if exc_kind ex = ENoResultFound then ret (Inl denied)
                 else bnd (db_abort E) (\<lambda>response. ret (Inl response))))"

definition callback_contact ::
    "('d, 'r, 'c) env \<Rightarrow> string \<Rightarrow> string \<Rightarrow> dict \<Rightarrow> (('d, 'r, 'c) world, login_result) py" where
  "callback_contact E meth identity contact =
     bnd (callback_account E identity) (\<lambda>r. case r of
       Inl response \<Rightarrow> ret (LAbort response)
     | Inr account \<Rightarrow>
         bnd (related_one E ''Account'' account ''owner'') (\<lambda>owner.
         if dget owner ''status'' \<noteq> PStr ''active'' \<or> dget contact ''status'' = PStr ''disabled''
         then ret (LAbort denied)
         else login_accepted E None account (PStr meth) PNone))"

definition provider_user :: "string \<Rightarrow> dict \<Rightarrow> exc + dict" where
  "provider_user meth user =
     (if meth = ''slack''
      then (case dsub user ''user'' of Inl e \<Rightarrow> Inl e | Inr (PDict d) \<Rightarrow> Inr d
            | Inr _ \<Rightarrow> Inl (Exc EAttributeError ''object has no attribute get''))
      else Inr user)"

definition oauth2_callback ::
    "('d, 'r, 'c) env \<Rightarrow> oauth \<Rightarrow> string \<Rightarrow> string \<Rightarrow> (('d, 'r, 'c) world, login_result) py" where
  "oauth2_callback E oa meth code =
     bnd (of_result (oa_client oa meth)) (\<lambda>client.
     if \<not> client then ret (LAbort (msg_resp ''login client missing'' 500))
     else case oa_token oa meth code of
       Inl _ \<Rightarrow> ret (LAbort (msg_resp ''openid client failure'' 500))
     | Inr user0 \<Rightarrow>
         bnd (of_result (provider_user meth user0)) (\<lambda>user.
         case (case dget user ''email'' of PStr s \<Rightarrow> identity_normalize s | _ \<Rightarrow> None) of
           None \<Rightarrow> ret (LAbort denied)
         | Some identity \<Rightarrow>
             if CHR ''@'' \<notin> set identity then ret (LAbort denied)
             else bnd (try_catch
                    (bnd (one_or_none E (filter_by [(''info'', PStr identity)] (query_of ''Contact''))) (\<lambda>c. ret (Inr c)))
                    (\<lambda>ex. bnd (db_abort E) (\<lambda>response. ret (Inl response)))) (\<lambda>r. case r of
                  Inl response \<Rightarrow> ret (LAbort response)
                | Inr None \<Rightarrow> unknown_user E meth identity user
                | Inr (Some contact) \<Rightarrow> callback_contact E meth identity contact)))"

section \<open>\<open>account_login\<close>\<close>

text \<open>
  The loop over the methods. A method named by the caller is a string, so that the loop runs over
  its characters, none of which is the name of a method.
\<close>

type_synonym attempt = "pyval \<times> nat \<times> dict option \<times> pyval"

fun try_methods ::
    "('d, 'r, 'c) env \<Rightarrow> directory \<Rightarrow> pyval \<Rightarrow> pyval \<Rightarrow> string list \<Rightarrow> attempt \<Rightarrow> (('d, 'r, 'c) world, attempt) py" where
  "try_methods E dir username password [] st = ret st"
| "try_methods E dir username password (item # items) (content, status, account, meth) =
     bnd (if item = ''local'' then
            bnd (local_login E username password) (\<lambda>((c, s), a). ret (PDict c, s, a))
          else if item = ''ldap'' then
            bnd (ldap_login E dir username password) (\<lambda>((c, s), a). ret (PDict c, s, a))
          else ret (content, status, account)) (\<lambda>(content', status', account').
     if status' = 200 then ret (content', status', account', PStr item)
     else try_methods E dir username password items (content', status', account', meth))"

definition login_items :: "('d, 'r, 'c) env \<Rightarrow> pyval \<Rightarrow> string list" where
  "login_items E meth = (case meth of
       PStr s \<Rightarrow> if s \<noteq> [] then map (\<lambda>c. [c]) s else cf_AUTH_METHODS (e_cfg E)
     | _ \<Rightarrow> cf_AUTH_METHODS (e_cfg E))"

text \<open>\<open>content, status, headers = ...\<close>: a pair and a redirect cannot be unpacked into three names.\<close>

definition unpack_login :: "login_result \<Rightarrow> exc + (pyval \<times> nat \<times> pyval)" where
  "unpack_login r = (case r of
       LAnswer c s h \<Rightarrow> Inr (c, s, h)
     | LRedirect _ \<Rightarrow> Inl (Exc ETypeError ''cannot unpack non-iterable Response object'')
     | LAbort _ \<Rightarrow> Inl (Exc EValueError ''not enough values to unpack (expected 3, got 2)''))"

definition denied_content :: pyval where
  "denied_content = PStr ''access denied''"

definition login_pending ::
    "('d, 'r, 'c) env \<Rightarrow> string option \<Rightarrow> access \<Rightarrow> pyval \<Rightarrow> pyval \<Rightarrow> (('d, 'r, 'c) world, pyval \<times> nat \<times> pyval) py" where
  "login_pending E roles_from acc username otp =
     (if truthy otp then
        bnd (totp_login E username otp) (\<lambda>((content, status), headers, found). case found of
          Some account \<Rightarrow>
            if status = 200
            then bnd (login_accepted E roles_from account (ac_method acc) headers) (\<lambda>r. of_result (unpack_login r))
            else ret (PDict content, status, headers)
        | None \<Rightarrow> ret (PDict content, status, headers))
      else ret (denied_content, 403, PList []))"

definition login_methods ::
    "('d, 'r, 'c) env \<Rightarrow> string option \<Rightarrow> directory \<Rightarrow> pyval \<Rightarrow> pyval \<Rightarrow> pyval \<Rightarrow>
     (('d, 'r, 'c) world, (pyval \<times> nat \<times> pyval) \<times> pyval) py" where
  "login_methods E roles_from dir username password meth0 =
     bnd (try_methods E dir username password (login_items E meth0) (denied_content, 403, None, meth0))
       (\<lambda>(content, status, found, meth). case found of
          Some account \<Rightarrow>
            if status = 200
            then bnd (login_accepted E roles_from account meth PNone) (\<lambda>r.
                 bnd (of_result (unpack_login r)) (\<lambda>answer. ret (answer, meth)))
            else ret ((content, status, PList []), meth)
        | None \<Rightarrow> ret ((content, status, PList []), meth))"

definition finish_login ::
    "('d, 'r, 'c) env \<Rightarrow> pyval \<Rightarrow> (pyval \<times> nat \<times> pyval) \<times> pyval \<Rightarrow> (('d, 'r, 'c) world, login_result) py" where
  "finish_login E username r = (case r of ((content, status, headers), meth) \<Rightarrow>
     bnd (if status \<in> {200, 201} then rate_reset E ''login.attempt'' username
          else bnd (metrics_store E PNone ''logins_fail_total'' [''method='' @ py_str meth] PNone) (\<lambda>_. ret ())) (\<lambda>_.
     ret (LAnswer content status headers)))"

definition pending_second :: "access \<Rightarrow> pyval \<Rightarrow> bool" where
  "pending_second acc otp \<longleftrightarrow> roles_of acc \<noteq> [] \<and>
     (''pendingtotp'' \<in> set (roles_of acc) \<or> (truthy otp \<and> ac_apikey_id acc \<noteq> None))"

definition account_login ::
    "('d, 'r, 'c) env \<Rightarrow> string option \<Rightarrow> directory \<Rightarrow> oauth \<Rightarrow> pyval \<Rightarrow> pyval \<Rightarrow> pyval \<Rightarrow> pyval \<Rightarrow> pyval \<Rightarrow>
     (('d, 'r, 'c) world, login_result) py" where
  "account_login E roles_from dir oa username password meth otp nonce =
     bnd (access_control E None) (\<lambda>acc.
     bnd (rate_call E (rate_limit_init E True (Some (cf_LOGIN_LOCKOUT_INTERVAL (e_cfg E))))
            (PInt (cf_LOGIN_ATTEMPTS_MAX (e_cfg E))) ''login.attempt'' username) (\<lambda>locked.
     if locked then
       bnd (sleep_secs 5) (\<lambda>_. ret (LAbort ([(''username'', username), (''message'', PStr ''locked out'')], 403)))
     else if pending_second acc otp then
       bnd (login_pending E roles_from acc username otp) (\<lambda>r. finish_login E username (r, meth))
     else if meth \<in> PStr ` set (cf_AUTH_PARAMS (e_cfg E)) then
       bnd (of_result (oauth2_login E oa (text_or_empty meth) nonce)) (\<lambda>(content, status).
       finish_login E username ((PDict content, status, PList []), meth))
     else if \<not> truthy meth \<or> meth \<in> PStr ` set (cf_AUTH_METHODS (e_cfg E)) then
       bnd (login_methods E roles_from dir username password meth) (finish_login E username)
     else ret (LAbort (msg_resp ''unsupported login method'' 500))))"

end
