(* ===== verification/Credentials.thy ===== *)
theory Credentials imports Login begin

text \<open>
  The other credentials of apicrud/auth: passwords that change or are forgotten and Basic
  authentication (local_user.py), the registration of one-time passwords (totp.py) and API keys
  (apikey.py).
\<close>

section \<open>Passwords\<close>

text \<open>The four classes of \<open>string.ascii_lowercase\<close>, \<open>ascii_uppercase\<close>, \<open>digits\<close> and \<open>punctuation\<close>.\<close>

definition chars_in :: "nat \<Rightarrow> nat \<Rightarrow> char \<Rightarrow> bool" where
  "chars_in a b c \<longleftrightarrow> a \<le> of_char c \<and> of_char c \<le> b"

definition is_lower :: "char \<Rightarrow> bool" where "is_lower c \<longleftrightarrow> chars_in 97 122 c"
definition is_upper :: "char \<Rightarrow> bool" where "is_upper c \<longleftrightarrow> chars_in 65 90 c"
definition is_num :: "char \<Rightarrow> bool" where "is_num c \<longleftrightarrow> chars_in 48 57 c"
definition is_punct :: "char \<Rightarrow> bool" where
  "is_punct c \<longleftrightarrow> chars_in 33 47 c \<or> chars_in 58 64 c \<or> chars_in 91 96 c \<or> chars_in 123 126 c"

definition password_weak :: "string \<Rightarrow> bool" where
  "password_weak p \<longleftrightarrow> 1 < length (filter id [\<not> list_ex is_lower p, \<not> list_ex is_upper p, \<not> list_ex is_num p, \<not> list_ex is_punct p])"

definition set_password :: "('d, 'r, 'c) env \<Rightarrow> dict \<Rightarrow> string \<Rightarrow> (('d, 'r, 'c) world, unit) py" where
  "set_password E account new =
     bnd draw (\<lambda>salt.
     bnd (set_attr E ''Account'' (dget account ''id'') ''password'' (PStr (cr_pw_hash (e_crypt E) new salt))) (\<lambda>_.
     bnd (set_attr E ''Account'' (dget account ''id'') ''password_must_change'' (PBool False)) (\<lambda>_.
     commit E)))"

text \<open>
  \<open>change_password\<close>. Of the confirmation only the status is looked at, not whose contact it was.
\<close>

definition old_or_token ::
    "('d, 'r, 'c) env \<Rightarrow> dict \<Rightarrow> pyval \<Rightarrow> pyval \<Rightarrow> (('d, 'r, 'c) world, resp option) py" where
  "old_or_token E account reset_token old_password =
     (let refused = (\<lambda>m s. Some ([(''username'', dget account ''name''), (''message'', PStr m)], s))
      in if truthy old_password
         then bnd (of_result (password_ok E old_password (dget account ''password''))) (\<lambda>ok.
              ret (if ok then None else refused ''invalid credential'' 403))
         else bnd (confirm E reset_token True) (\<lambda>(_, status).
              ret (if status = 200 then None else refused ''invalid token'' 405)))"

definition change_password ::
    "('d, 'r, 'c) env \<Rightarrow> pyval \<Rightarrow> pyval \<Rightarrow> pyval \<Rightarrow> pyval \<Rightarrow> pyval \<Rightarrow> (('d, 'r, 'c) world, resp) py" where
  "change_password E uid new_password reset_token old_password verify_password =
     (if \<not> truthy new_password \<or> new_password \<noteq> verify_password then ret (msg_resp ''passwords do not match'' 405)
      else bnd (one_or_none E (filter_by [(''uid'', uid), (''status'', PStr ''active'')] (query_of ''Account''))) (\<lambda>found. case found of
        None \<Rightarrow> ret ([(''uid'', uid), (''message'', PStr ''account not found'')], 404)
      | Some account \<Rightarrow>
          bnd (of_result (str_of new_password)) (\<lambda>new.
          if password_weak new then ret (msg_resp ''rejected weak password'' 405)
          else bnd (old_or_token E account reset_token old_password) (\<lambda>r. case r of
                 Some response \<Rightarrow> ret response
               | None \<Rightarrow>
                   bnd (set_password E account new) (\<lambda>_.
                   ret ([(''id'', dget account ''id''), (''uid'', uid), (''username'', dget account ''name'')], 200))))))"

text \<open>\<open>forgot_password\<close>: the account with this name or address, administrators excepted.\<close>

definition forgot_query :: "pyval \<Rightarrow> pyval \<Rightarrow> query" where
  "forgot_query identity username =
     where_cond (COr [CEq (''Account'', ''name'') username, CEq (''Person'', ''identity'') identity])
     (where_cond (CEq (''Account'', ''status'') (PStr ''active''))
     (where_cond (CEq (''Account'', ''is_admin'') (PBool False)) (join_model ''Person'' (query_of ''Account''))))"

definition forgot_contact :: "('d, 'r, 'c) env \<Rightarrow> pyval \<Rightarrow> pyval \<Rightarrow> (('d, 'r, 'c) world, dict \<times> pyval) py" where
  "forgot_contact E identity username =
     bnd (run_one E (forgot_query identity username)) (\<lambda>account.
     bnd (related_one E ''Account'' account ''owner'') (\<lambda>owner.
     bnd (run_one E (filter_by [(''type'', PStr ''email''), (''info'', dget owner ''identity'')] (query_of ''Contact''))) (\<lambda>contact.
     ret (account, dget contact ''id''))))"

definition forgot_password ::
    "('d, 'r, 'c) env \<Rightarrow> string \<Rightarrow> pyval \<Rightarrow> string \<Rightarrow> (('d, 'r, 'c) world, resp) py" where
  "forgot_password E identity0 username template =
     (let identity = (case identity_normalize identity0 of None \<Rightarrow> PNone | Some i \<Rightarrow> PStr i)
      in bnd (try_catch (bnd (forgot_contact E identity username) (\<lambda>r. ret (Some r)))
                (\<lambda>ex. if exc_kind ex = ENoResultFound then ret None else raise_exc ex)) (\<lambda>r. case r of
           None \<Rightarrow> ret (msg_resp ''username or email not found'' 404)
         | Some (_, i) \<Rightarrow> confirmation_request E i None template))"

section \<open>Basic authentication\<close>

datatype token_auth = TokenOk | TokenMissing | TokenInvalid | TokenExpired

definition token_state :: "string \<Rightarrow> string \<Rightarrow> int \<Rightarrow> dict option \<Rightarrow> exc + token_auth" where
  "token_state username password now session = (case session of
       None \<Rightarrow> Inr TokenMissing
     | Some d \<Rightarrow>
         if \<not> dhas d ''jti'' then Inr TokenMissing
         else if dget d ''jti'' \<noteq> PStr password then Inr TokenInvalid
         else (case dsub d ''sub'' of
             Inl e \<Rightarrow> Inl e
           | Inr sub \<Rightarrow>
               if sub \<noteq> PStr username then Inr TokenInvalid
               else if dhas d ''exp'' then
                 (case dget d ''exp'' of
                    PStr x \<Rightarrow> Inr (if x < epoch_secs now then TokenExpired else TokenOk)
                  | _ \<Rightarrow> Inl (Exc ETypeError ''not supported between instances''))
               else Inr TokenOk))"

definition basic :: "('d, 'r, 'c) env \<Rightarrow> string \<Rightarrow> string \<Rightarrow> (('d, 'r, 'c) world, dict option) py" where
  "basic E username password =
     bnd (session_get E (PStr username) password None) (\<lambda>session.
     bnd (gets w_now) (\<lambda>now.
     bnd (of_result (token_state username password now session)) (\<lambda>st.
     if st = TokenOk then ret (Some [(''uid'', PStr username)])
     else bnd (case session of
            None \<Rightarrow> ret ()
          | Some d \<Rightarrow> if d = [] then ret ()
              else try_catch (session_delete E (PStr username) password None)
                (\<lambda>ex. if exc_kind ex = ERedisConnectionError then ret () else raise_exc ex)) (\<lambda>_.
          ret None))))"

section \<open>Registration of one-time passwords\<close>

definition base32_chars :: string where
  "base32_chars = map char_of ([65..<91] @ [50..<56::nat])"

definition random_text :: "string \<Rightarrow> nat \<Rightarrow> (('d, 'r, 'c) world, string) py" where
  "random_text chars n = bnd (draws n) (\<lambda>xs. ret (map (\<lambda>x. chars ! (x mod length chars)) xs))"

text \<open>
  The active account of the session. The handler of an exception calls \<open>dict\<close> on its message, which
  raises unless it is empty.
\<close>

definition totp_account :: "('d, 'r, 'c) env \<Rightarrow> access \<Rightarrow> (('d, 'r, 'c) world, resp + dict) py" where
  "totp_account E acc =
     try_catch
       (bnd (run_one E (filter_by [(''id'', ac_account_id acc), (''status'', PStr ''active'')] (query_of ''Account''))) (\<lambda>a.
        ret (Inr a)))
       (\<lambda>ex. if exc_msg ex = [] then bnd (db_abort E) (\<lambda>response. ret (Inl response))
             else raise_exc (Exc EValueError ''dictionary update sequence element #0 has length 1; 2 is required''))"

text \<open>\<open>uri\<close> is \<open>provisioning_uri\<close> of pyotp, of a secret, a name and an issuer.\<close>

definition totp_generate ::
    "('d, 'r, 'c) env \<Rightarrow> (string \<Rightarrow> pyval \<Rightarrow> string \<Rightarrow> string) \<Rightarrow> (('d, 'r, 'c) world, resp) py" where
  "totp_generate E uri =
     bnd (access_control E None) (\<lambda>acc.
     bnd (totp_account E acc) (\<lambda>r. case r of
       Inl response \<Rightarrow> ret response
     | Inr account \<Rightarrow>
         if account_totp account then ret denied
         else bnd (random_text base32_chars 32) (\<lambda>totp.
              bnd (related_one E ''Account'' account ''owner'') (\<lambda>owner.
              bnd (session_create E (ac_uid acc) [''pendingtotp''] None None (Some 120)
                     [(''totp'', PStr totp), (''uri'', PStr (uri totp (dget owner ''identity'') (cf_APPNAME (e_cfg E))))]) (\<lambda>ses.
              bnd (of_result (dict_of ses)) (\<lambda>d. ret (d, 200)))))))"

fun backup_codes :: "nat \<Rightarrow> (('d, 'r, 'c) world, string list) py" where
  "backup_codes 0 = ret []"
| "backup_codes (Suc n) =
     bnd (random_text base36_chars MFA_BACKUP_CODELEN) (\<lambda>code. bnd (backup_codes n) (\<lambda>codes. ret (code # codes)))"

text \<open>The secret and the encrypted digests of the backup codes become part of the account.\<close>

definition store_totp ::
    "('d, 'r, 'c) env \<Rightarrow> dict \<Rightarrow> pyval \<Rightarrow> string list \<Rightarrow> (('d, 'r, 'c) world, unit) py" where
  "store_totp E account totp_secret codes =
     bnd (set_attr E ''Account'' (dget account ''id'') ''totp_secret'' totp_secret) (\<lambda>_.
     bnd (random_bytes 16) (\<lambda>iv.
     bnd (of_result (aes_encrypt_bin (e_crypt E) (cf_DB_AES_SECRET (e_cfg E)) iv
            (concat (map (\<lambda>c. cr_md5 (e_crypt E) (utf8_encode c)) codes)))) (\<lambda>enc.
     set_attr E ''Account'' (dget account ''id'') ''backup_codes'' (PBytes enc))))"

definition totp_register :: "('d, 'r, 'c) env \<Rightarrow> dict \<Rightarrow> (('d, 'r, 'c) world, resp \<times> pyval) py" where
  "totp_register E body =
     bnd (access_control E None) (\<lambda>acc.
     bnd (of_result (str_of (dget body ''nonce''))) (\<lambda>nonce.
     bnd (session_get_arg E (ac_uid acc) nonce ''totp'' None) (\<lambda>totp_secret.
     if \<not> truthy totp_secret then ret (denied, PNone)
     else bnd (totp_account E acc) (\<lambda>r. case r of
       Inl response \<Rightarrow> ret (response, PNone)
     | Inr account \<Rightarrow>
         if account_totp account then ret (denied, PNone)
         else bnd (gets w_now) (\<lambda>now.
              if dget body ''otp_first'' \<noteq> PStr (cr_totp_now (e_crypt E) (py_str totp_secret) now) then ret (denied, PNone)
              else bnd (backup_codes (cf_LOGIN_MFA_BACKUP_CODES (e_cfg E))) (\<lambda>codes.
                   bnd (store_totp E account totp_secret codes) (\<lambda>_.
                   try_catch
                     (bnd (commit E) (\<lambda>_.
                      ret (([(''message'', PStr ''registered''), (''backup_codes'', PList (map PStr codes))], 200),
                        PDict [(''Set-Cookie'', PStr (cf_LOGIN_MFA_COOKIE_NAME (e_cfg E) @ ''=; Domain='' @ cf_PUBLIC_HOST (e_cfg E) @
                          ''; Path='' @ cf_BASE_URL (e_cfg E) @ ''/auth; expires=Sat, Jan 01 2000 00:00:00 UTC; HttpOnly; SameSite=Strict; Secure''))])))
                     (\<lambda>ex. bnd (db_abort E) (\<lambda>response. ret (response, PNone))))))))))"

section \<open>API keys\<close>

text \<open>
  \<open>APIKey.access\<close>: a verified key is remembered under its id, with the roles and the scopes of its
  owner, for the time to live of redis.
\<close>

definition apikey_item_of ::
    "('d, 'r, 'c) env \<Rightarrow> pyval \<Rightarrow> dict list \<Rightarrow> dict \<Rightarrow> (('d, 'r, 'c) world, apikey_item) py" where
  "apikey_item_of E uid scopes account =
     bnd (gets w_now) (\<lambda>now.
     bnd (related_one E ''Account'' account ''owner'') (\<lambda>owner.
     ret \<lparr>ak_account_id = dget account ''id'', ak_expires = now + cf_REDIS_TTL (e_cfg E) * 1000000,
          ak_identity = dget owner ''identity'',
          ak_roles = (if truthy (dget account ''is_admin'') then [''admin'', ''user''] else [''user'']),
          ak_scopes = map (\<lambda>s. dget s ''name'') scopes, ak_totp = account_totp account, ak_uid = uid\<rparr>))"

definition put_apikey :: "string \<Rightarrow> apikey_item \<Rightarrow> (('d, 'r, 'c) world, unit) py" where
  "put_apikey key_id item = modify (\<lambda>w. w\<lparr>w_apikeys := AList.update key_id item (w_apikeys w)\<rparr>)"

text \<open>The item is stored before the roles of the memberships are added to it.\<close>

definition remember_apikey ::
    "('d, 'r, 'c) env \<Rightarrow> string \<Rightarrow> pyval \<Rightarrow> dict list \<Rightarrow> dict \<Rightarrow> (('d, 'r, 'c) world, apikey_item option) py" where
  "remember_apikey E key_id uid scopes account =
     bnd (apikey_item_of E uid scopes account) (\<lambda>item.
     bnd (put_apikey key_id item) (\<lambda>_.
     bnd (get_roles E uid None None PNone) (\<lambda>more.
     let item' = item\<lparr>ak_roles := ak_roles item @ more\<rparr>
     in bnd (put_apikey key_id item') (\<lambda>_. ret (Some item')))))"

definition verified_item ::
    "('d, 'r, 'c) env \<Rightarrow> string \<Rightarrow> string \<Rightarrow> (('d, 'r, 'c) world, apikey_item option) py" where
  "verified_item E key_id secret =
     bnd (apikey_verify E key_id secret) (\<lambda>v. case v of
       None \<Rightarrow> ret None
     | Some (uid, scopes) \<Rightarrow>
         if \<not> truthy uid then ret None
         else bnd (try_catch (bnd (run_one E (filter_by [(''uid'', uid), (''status'', PStr ''active'')] (query_of ''Account''))) (\<lambda>a.
                     ret (Some a)))
                (\<lambda>ex. ret None)) (\<lambda>found. case found of
           None \<Rightarrow> ret None
         | Some account \<Rightarrow> remember_apikey E key_id uid scopes account))"

definition cached_item ::
    "('d, 'r, 'c) env \<Rightarrow> string \<Rightarrow> string \<Rightarrow> (('d, 'r, 'c) world, apikey_item option) py" where
  "cached_item E key_id secret =
     bnd (gets w_now) (\<lambda>now.
     bnd (gets w_apikeys) (\<lambda>keys. case map_of keys key_id of
       None \<Rightarrow> verified_item E key_id secret
     | Some item \<Rightarrow> if ak_expires item < now then verified_item E key_id secret else ret (Some item)))"

text \<open>The second factor of an API key, where it is configured: the bypass cookie.\<close>

definition rule_part :: "('d, 'r, 'c) env \<Rightarrow> exc + string" where
  "rule_part E = (case py_split (CHR ''/'') (rq_rule (e_req E)) of
       _ # _ # _ # res # _ \<Rightarrow> Inr res | _ \<Rightarrow> Inl (Exc EIndexError ''list index out of range''))"

definition apikey_second_factor :: "('d, 'r, 'c) env \<Rightarrow> apikey_item \<Rightarrow> (('d, 'r, 'c) world, unit) py" where
  "apikey_second_factor E item =
     (if \<not> cf_LOGIN_MFA_APIKEY (e_cfg E) then ret ()
      else if cf_LOGIN_MFA_REQUIRED (e_cfg E) \<and> \<not> ak_totp item then raise_exc (Exc (EAbort 403) ''please configure MFA'')
      else if \<not> ak_totp item then ret ()
      else bnd (totp_bypass E (ak_uid item)) (\<lambda>bypass.
           if bypass then ret ()
           else bnd (of_result (rule_part E)) (\<lambda>res.
                if res \<noteq> ''auth'' then raise_exc (Exc (EAbort 401) ''no valid TOTP cookie, please re-auth'') else ret ())))"

definition apikey_session ::
    "('d, 'r, 'c) env \<Rightarrow> string \<Rightarrow> string \<Rightarrow> apikey_item \<Rightarrow> (('d, 'r, 'c) world, bool) py" where
  "apikey_session E key_id secret item =
     (let token = take 8 (apikey_hash E secret);
          duration = (if ''admin'' \<in> set (ak_roles item) then cf_LOGIN_ADMIN_LIMIT (e_cfg E) else cf_LOGIN_SESSION_LIMIT (e_cfg E))
      in bnd (session_get_arg E (ak_uid item) token ''auth'' (Some key_id)) (\<lambda>v. case v of
           PStr _ \<Rightarrow> ret True
         | _ \<Rightarrow>
             bnd (session_create E (ak_uid item) (ak_roles item) (Some key_id) (Some token) (Some duration)
                    [(''acc'', ak_account_id item), (''identity'', ak_identity item)]) (\<lambda>ses.
             ret (ses \<noteq> None))))"

definition apikey_access ::
    "('d, 'r, 'c) env \<Rightarrow> string \<Rightarrow> (('d, 'r, 'c) world, (pyval \<times> pyval list) option) py" where
  "apikey_access E apikey =
     bnd (access_control E None) (\<lambda>_.
     case py_split (CHR ''.'') apikey of
       [key_id, secret] \<Rightarrow>
         bnd (cached_item E key_id secret) (\<lambda>found. case found of
           None \<Rightarrow> ret None
         | Some item \<Rightarrow>
             bnd (apikey_second_factor E item) (\<lambda>_.
             bnd (apikey_session E key_id secret item) (\<lambda>open.
             ret (if open then Some (ak_uid item, ak_scopes item) else None))))
     | _ \<Rightarrow> raise_exc (Exc EValueError ''not the expected number of values to unpack''))"

definition apikey_auth ::
    "('d, 'r, 'c) env \<Rightarrow> string \<Rightarrow> string list \<Rightarrow> (('d, 'r, 'c) world, (pyval \<times> pyval list) option) py" where
  "apikey_auth E apikey required_scopes =
     (if 96 < length apikey \<or> CHR ''.'' \<notin> set apikey then ret None
      else bnd (apikey_access E apikey) (\<lambda>r. case r of
        None \<Rightarrow> ret None
      | Some (uid, scopes) \<Rightarrow>
          if \<not> PStr ` set required_scopes \<subseteq> set scopes then ret None
          else bnd (metrics_store E PNone ''api_key_auth_total'' [] PNone) (\<lambda>_. ret (Some (uid, scopes)))))"

end
