(* ===== verification/Auth_Results.thy ===== *)
theory Auth_Results imports Credentials begin

text \<open>
  Results about logging in: when a session is a full one, what a lockout, a replayed one-time
  password, a spent token and a backup code do, and where the code falls short of it.
\<close>

section \<open>Local steps\<close>

lemma snip_code_Nil [simp]: "snip_code h [] = None"
  by (simp add: snip_code.simps)

lemma snip_code_append:
  "length d = 16 \<Longrightarrow> snip_code h (d @ codes) = (if h = d then Some codes else map_option ((@) d) (snip_code h codes))"
  by (subst snip_code.simps) auto

lemma snip_code_digests:
  "\<forall>d \<in> set ds. length d = 16 \<Longrightarrow>
     snip_code h (concat ds) = (if h \<in> set ds then Some (concat (remove1 h ds)) else None)"
  by (induction ds) (auto simp: snip_code_append)

lemma roles_upto_take:
  "i < length ls \<Longrightarrow> distinct ls \<Longrightarrow> roles_upto p (PStr (ls ! i)) ls = map (\<lambda>l. p @ ''-'' @ l) (take (Suc i) ls)"
proof (induction ls arbitrary: i)
  case (Cons l ls)
  then show ?case by (cases i) (auto simp: nth_Cons')
qed simp

lemma roles_upto_all: "a \<notin> PStr ` set ls \<Longrightarrow> roles_upto p a ls = map (\<lambda>l. p @ ''-'' @ l) ls"
  by (induction ls) auto

lemma try_methods_chars:
  "\<forall>i \<in> set items. length i = 1 \<Longrightarrow> s \<noteq> 200 \<Longrightarrow> try_methods E dir u p items (c, s, a, m) = ret (c, s, a, m)"
proof (induction items)
  case (Cons i items)
  then have "i \<noteq> ''local''" "i \<noteq> ''ldap''" by auto
  then show ?case using Cons by simp
qed simp

lemma totp_bypass_keeps: "totp_bypass E uid w = (r, w') \<Longrightarrow> w' = w"
  by (auto simp: totp_bypass_def py_simps session_get_def split: option.splits sum.splits)

lemma keeps_totp_bypass [keeps_intros]: "keeps v (totp_bypass E uid)"
  by (auto simp: totp_bypass_def intro!: keeps_intros)

text \<open>The redis key that a session is written to, whatever becomes of it.\<close>

definition fresh_token :: "('d, 'r, 'c) world \<Rightarrow> string" where
  "fresh_token w = (case gen_id 8 [] id_chars w of (Inr s, _) \<Rightarrow> s | _ \<Rightarrow> [])"

lemma session_create_redis:
  assumes "session_create E uid roles kid nonce ttl kw w = (r, w')"
  shows "w_now w' = w_now w \<and> (w_redis w' = w_redis w \<or>
    (\<exists>data n. w_redis w' = snd (rd_set (e_redis E) (ses_key kid uid (case nonce of Some t \<Rightarrow> t | None \<Rightarrow> fresh_token w)) data (Some n) True
       (w_now w) (w_redis w))))"
proof -
  obtain w1 where g: "gen_id 8 [] id_chars w = (Inr (fresh_token w), w1)" "w_now w1 = w_now w" "w_redis w1 = w_redis w"
    by (simp add: gen_id_run fresh_token_def)
  let ?token = "case nonce of Some t \<Rightarrow> t | None \<Rightarrow> fresh_token w"
  let ?n = "case ttl of Some t \<Rightarrow> t | None \<Rightarrow> cf_REDIS_TTL (e_cfg E)"
  obtain e w2 where enc: "encrypt_json E (cf_REDIS_AES_SECRET (e_cfg E)) (session_content E uid roles ?token ?n kw (w_now w)) w1 = (e, w2)"
    by fastforce
  have w2: "w_now w2 = w_now w" "w_redis w2 = w_redis w"
    using enc g by (auto simp: encrypt_json_def py_simps split: sum.splits)
  show ?thesis
  proof (cases e)
    case (Inl x)
    then show ?thesis using assms enc g w2 by (auto simp: session_create_def py_simps Let_def split: if_splits)
  next
    case (Inr data)
    then have "w_now w' = w_now w \<and> w_redis w' = snd (rd_set (e_redis E) (ses_key kid uid ?token) data (Some ?n) True (w_now w) (w_redis w))"
      using assms enc g w2 by (auto simp: session_create_def py_simps Let_def split: sum.splits if_splits)
    then show ?thesis by blast
  qed
qed

text \<open>A part without colons is what follows the last colon.\<close>

lemma last_part_unique:
  assumes "CHR '':'' \<notin> set a" "CHR '':'' \<notin> set b" and "x @ '':'' @ a = y @ '':'' @ b"
  shows "x = y"
proof -
  have "dropWhile (\<lambda>c. c \<noteq> CHR '':'') (rev (z @ '':'' @ c)) = CHR '':'' # rev z" if "CHR '':'' \<notin> set c" for z c
  proof -
    have "\<forall>x \<in> set (rev c). x \<noteq> CHR '':''" using that by auto
    then show ?thesis by (simp add: dropWhile_append3 dropWhile_append)
  qed
  from this [OF assms(1), of x] this [OF assms(2), of y]
  have "CHR '':'' # rev x = CHR '':'' # rev y" unfolding assms(3) by (rule box_equals [OF refl])
  then show ?thesis by simp
qed

lemma fresh_token_chars: "set (fresh_token w) \<subseteq> set id_chars"
proof -
  have c: "id_chars ! (n mod length id_chars) \<in> set id_chars" for n
    by (rule nth_mem) (simp add: id_chars_def)
  have "set (int2base id_chars n) \<subseteq> set id_chars" for n
  proof (induction n rule: less_induct)
    case (less n)
    show ?case
    proof (cases "n = 0")
      case True
      then show ?thesis using c [of 0] by (simp add: int2base.simps)
    next
      case False
      then have "set (int2base id_chars (n div length id_chars)) \<subseteq> set id_chars" by (intro less) simp
      then show ?thesis using False c [of n]
        by (subst int2base.simps) (auto simp: lstrip_char_def dest: set_dropWhileD)
    qed
  qed
  then show ?thesis using c by (auto simp: fresh_token_def gen_id_run)
qed

lemma py_split_parts: "p \<in> set (py_split c s) \<Longrightarrow> c \<notin> set p"
proof (induction s arbitrary: p)
  case (Cons x xs)
  then show ?case by (cases "py_split c xs") (auto split: if_splits)
qed simp

section \<open>Spent tokens\<close>

text \<open>What a token says does not depend on when it is read.\<close>

definition token_stable :: "cryptops \<Rightarrow> bool" where
  "token_stable C \<longleftrightarrow> (\<forall>k s age t n n' x y. cr_token_loads C k s age t n = Inr x \<longrightarrow> cr_token_loads C k s age t n' = Inr y \<longrightarrow> x = y)"

lemma token_parts_stable:
  "token_stable (e_crypt E) \<Longrightarrow> token_parts E token n = Inr p \<Longrightarrow> token_parts E token n' = Inr p' \<Longrightarrow> p' = p"
  unfolding token_stable_def token_parts_def
  by (fastforce split: pyval.splits sum.splits list.splits)

lemma token_parts_colon: "token_parts E token n = Inr (i, info, nonce) \<Longrightarrow> CHR '':'' \<notin> set nonce"
  by (auto simp: token_parts_def split: pyval.splits sum.splits list.splits)
    (metis list.set_intros py_split_parts)

lemma set_last_n: "set (last_n k s) \<subseteq> set s"
  by (auto simp: last_n_def dest: in_set_dropD)

lemma ses_key_other:
  assumes "ses_key None uid a = ses_key None (PStr ident) b" and "CHR '':'' \<notin> set a" "CHR '':'' \<notin> set b"
  shows "py_str uid = ident"
  using last_part_unique [of "last_n 3 a" "last_n 3 b" "''ses:'' @ py_str uid" "''ses:'' @ ident"] assms set_last_n
  by (fastforce simp: ses_key_def)

context redis_contract
begin

lemma create_keeps_vacant:
  assumes "e_redis E = R" and "session_create E uid roles None None ttl kw w = (r, w')"
    and "view (w_now w) (w_redis w) (ses_key None (PStr ident) nonce) = None"
    and "py_str uid \<noteq> ident" and "CHR '':'' \<notin> set nonce" and "w_now w' \<le> t"
  shows "view t (w_redis w') (ses_key None (PStr ident) nonce) = None"
proof -
  have "CHR '':'' \<notin> set id_chars" by code_simp
  then have "CHR '':'' \<notin> set (fresh_token w)" using fresh_token_chars [of w] by blast
  then have k: "ses_key None (PStr ident) nonce \<noteq> ses_key None uid (fresh_token w)"
    using ses_key_other [of uid "fresh_token w" ident nonce] assms(4,5) by metis
  have t: "w_now w \<le> t" and v: "view t (w_redis w) (ses_key None (PStr ident) nonce) = None"
    using session_create_redis [OF assms(2)] assms(3,6) expiry [of "w_now w" t] by auto
  from session_create_redis [OF assms(2)]
  show ?thesis using set_other [OF k t] assms(1) v by auto
qed

lemma confirm_contact_vacates:
  assumes "e_redis E = R" and "confirm_contact E ident info nonce True contact w = (Inr r, w')"
    and "py_str (dget contact ''uid'') \<noteq> ident" and "CHR '':'' \<notin> set nonce" and "w_now w' \<le> t"
  shows "view t (w_redis w') (ses_key None (PStr ident) nonce) = None"
proof -
  obtain w1 ses owner where s: "session_create E (dget contact ''uid'') [''pending''] None None None
       [(''info'', PStr info), (''type'', dget contact ''type''), (''contact_id'', PStr ident), (''name'', dget owner ''name'')] w1 = (ses, w')"
    "w_now w1 = w_now w" "w_redis w1 = snd (rd_delete R (ses_key None (PStr ident) nonce) (w_now w) (w_redis w))"
    using assms(1,2)
    by (auto simp: confirm_contact_def py_simps session_delete_def delete_result related_one_def
        split: sum.splits prod.splits list.splits)
  have "view (w_now w1) (w_redis w1) (ses_key None (PStr ident) nonce) = None"
    using delete_same [of "w_now w" "w_now w"] by (simp add: s)
  from create_keeps_vacant [OF assms(1) s(1) this assms(3-5)] show ?thesis .
qed

lemma confirm_again:
  assumes R: "e_redis E = R" and tok: "token_stable (e_crypt E)"
    and first: "confirm E token True w = (Inr (d, 200), w1)" and parts: "token_parts E token (w_now w) = Inr (ident, info, nonce)"
    and uid: "\<And>c. run_one E (filter_by [(''id'', PStr ident)] (query_of ''Contact'')) w = (Inr c, w) \<Longrightarrow> py_str (dget c ''uid'') \<noteq> ident"
    and later: "w_redis w2 = w_redis w1" "w_now w1 \<le> w_now w2"
  shows "\<exists>d'. confirm E token again w2 = (Inr (d', 403), w2)"
proof -
  obtain contact where c: "run_one E (filter_by [(''id'', PStr ident)] (query_of ''Contact'')) w = (Inr contact, w)"
    "confirm_contact E ident info nonce True contact w = (Inr (d, 200), w1)"
    using first parts
    by (auto simp: confirm_def py_simps session_get_arg_def session_get_def split: sum.splits option.splits if_splits)
  have t: "token \<noteq> PNone" using parts by (auto simp: token_parts_def)
  have v: "rd_get R (ses_key None (PStr ident) nonce) (w_now w2) (w_redis w2) = Inr None"
    using confirm_contact_vacates [OF R c(2) uid [OF c(1)] token_parts_colon [OF parts], of "w_now w2"] later
    by (simp add: get_view)
  have g: "session_get_arg E (PStr ident) nonce ''param'' None w2 = (Inr PNone, w2)"
    using R v by (simp add: session_get_arg_def session_get_def py_simps session_data_def)
  show ?thesis
  proof (cases "token_parts E token (w_now w2)")
    case (Inl e)
    then show ?thesis by (simp add: confirm_def py_simps)
  next
    case (Inr p)
    then have "p = (ident, info, nonce)" using token_parts_stable [OF tok parts] by blast
    then show ?thesis using Inr g t by (simp add: confirm_def py_simps)
  qed
qed

end

section \<open>One-time passwords\<close>

text \<open>A second factor that is accepted changes nothing in redis until the replay is blocked.\<close>

lemma check_totp_quiet:
  assumes "check_totp E account otp w = (Inr True, w')"
  shows "w_redis w' = w_redis w \<and> w_now w' = w_now w"
  using assms
  by (auto simp: check_totp_def use_backup_code_def py_simps split: if_splits sum.splits prod.splits option.splits)

lemma bypass_cookie_redis:
  assumes "bypass_cookie E acc account w = (r, w')"
  shows "w_now w' = w_now w \<and> (w_redis w' = w_redis w \<or>
    (\<exists>k data n. w_redis w' = snd (rd_set (e_redis E) (''ses:'' @ k) data (Some n) True (w_now w) (w_redis w))))"
proof (cases "cf_LOGIN_MFA_COOKIE_LIMIT (e_cfg E) > 0")
  case True
  show ?thesis
  proof (cases "related_one E ''Account'' account ''owner'' w")
    case (Pair r1 w1)
    then have w1: "w1 = w" by (auto simp: related_one_def py_simps split: sum.splits list.splits)
    show ?thesis
    proof (cases r1)
      case (Inl e)
      then show ?thesis using assms True Pair w1 by (simp add: bypass_cookie_def py_simps)
    next
      case (Inr owner)
      obtain r2 w2 where c: "session_create E (ac_uid acc) [] None None (Some (cf_LOGIN_MFA_COOKIE_LIMIT (e_cfg E)))
          [(''acc'', dget account ''id''), (''identity'', dget owner ''identity'')] w = (r2, w2)" by fastforce
      have "w' = w2" using assms True Pair w1 Inr c
        by (auto simp: bypass_cookie_def py_simps split: sum.splits option.splits)
      then show ?thesis using session_create_redis [OF c] by (auto simp: ses_key_def)
    qed
  qed
next
  case False
  then show ?thesis using assms by (simp add: bypass_cookie_def py_simps)
qed

context redis_contract
begin

lemma totp_accepted_blocks:
  assumes R: "e_redis E = R" and acc: "access_control E None w = (Inr acc, w)"
    and ok: "totp_login E username (PStr otp) w = (Inr (([], 200), headers, Some account), w')"
    and t: "w_now w' \<le> t" "t < w_now w + 60000000"
  shows "view t (w_redis w') (totp_key acc otp) \<noteq> None"
proof -
  from ok acc obtain found w1 w2 where s: "check_totp E found otp w = (Inr True, w1)" "block_replay E acc otp w1 = (Inr None, w2)"
    "bypass_cookie E acc found w2 = (Inr headers, w')"
    by (auto simp: totp_login_def py_simps str_of_def related_one_def denied_def msg_resp_def
        split: sum.splits option.splits prod.splits if_splits list.splits)
  have w1: "w_redis w1 = w_redis w" "w_now w1 = w_now w" using check_totp_quiet [OF s(1)] by simp_all
  have w2: "w_now w2 = w_now w" "w_redis w2 = snd (rd_set R (totp_key acc otp) [] (Some 60) True (w_now w) (w_redis w))"
    "view (w_now w) (w_redis w) (totp_key acc otp) = None"
    using s(2) R by (auto simp: block_replay_def py_simps w1 set_result split: if_splits)
  have b: "w_now w' = w_now w2" using bypass_cookie_redis [OF s(3)] by simp
  with t have tw: "w_now w \<le> t" using w2 by simp
  have v: "view t (w_redis w2) (totp_key acc otp) \<noteq> None"
    using w2 set_same [of True "w_now w" "w_redis w" "totp_key acc otp" t "[]" "Some 60"] tw t by simp
  have ne: "totp_key acc otp \<noteq> ''ses:'' @ k" for k by (simp add: totp_key_def)
  from bypass_cookie_redis [OF s(3)] show ?thesis
    using v set_other [OF ne] tw R w2 by auto
qed

lemma totp_replay_refused:
  assumes R: "e_redis E = R" and acc: "access_control E None w = (Inr acc, w)"
    and v: "view (w_now w) (w_redis w) (totp_key acc otp) \<noteq> None"
    and run: "totp_login E username (PStr otp) w = (Inr ((content, status), headers, found), w')"
  shows "status \<noteq> 200"
proof (cases "one_or_none E (filter_by [if ac_apikey_id acc \<noteq> None then (''name'', username) else (''id'', ac_account_id acc)]
            (query_of ''Account'')) w")
  case (Pair r w1)
  then have w1: "w1 = w" by (auto simp: py_simps split: sum.splits if_splits)
  show ?thesis
  proof (cases "\<exists>account w2. r = Inr (Some account) \<and> check_totp E account otp w = (Inr True, w2)")
    case False
    then show ?thesis using run acc Pair w1
      by (auto simp: totp_login_def py_simps str_of_def related_one_def denied_def msg_resp_def
          split: sum.splits option.splits prod.splits if_splits list.splits)
  next
    case True
    then obtain account w2 where a: "r = Inr (Some account)" "check_totp E account otp w = (Inr True, w2)" by blast
    have "block_replay E acc otp w2 = (Inr (Some denied), w2\<lparr>w_redis := snd (rd_set R (totp_key acc otp) [] (Some 60) True (w_now w) (w_redis w))\<rparr>)"
      using check_totp_quiet [OF a(2)] v R by (auto simp: block_replay_def py_simps set_result)
    then show ?thesis using run acc Pair w1 a
      by (auto simp: totp_login_def py_simps str_of_def related_one_def denied_def msg_resp_def
          split: sum.splits option.splits prod.splits if_splits list.splits)
  qed
qed

end

section \<open>Requested tokens\<close>

text \<open>A token in time says what was signed.\<close>

definition token_valid :: "cryptops \<Rightarrow> bool" where
  "token_valid C \<longleftrightarrow> (\<forall>k s age text t t'. t \<le> t' \<and> t' \<le> t + age * 1000000 \<longrightarrow>
     cr_token_loads C k s age (cr_token_dumps C k s text t) t' = Inr text)"

lemma letter_not_colon: "letter x \<noteq> CHR '':''"
proof -
  let ?cs = "map char_of ([97..<123] @ [65..<91::nat])"
  have "x mod 52 < length ?cs" by simp
  from nth_mem [OF this] have "letter x \<in> set ?cs" by (simp only: letter_def)
  moreover have "CHR '':'' \<notin> set ?cs" by code_simp
  ultimately show ?thesis by metis
qed

lemma py_split_three:
  assumes "CHR '':'' \<notin> set a" "CHR '':'' \<notin> set b" "CHR '':'' \<notin> set c"
  shows "py_split (CHR '':'') (a @ '':'' @ b @ '':'' @ c) = [a, b, c]"
  using assms py_split_append_sep [of "CHR '':''" a] py_split_append_sep [of "CHR '':''" b c]
  by (simp add: py_split_no_sep)

context session_env
begin

lemma requested_session:
  assumes "confirmation_request E (PStr ident) ttl template w = (Inr (d, 200), w1)"
    and "one_of (db_all (e_db E) (filter_by [(''id'', PStr ident)] (query_of ''Contact'')) (w_db w)) = Inr contact"
    and "dget contact ''id'' = PStr ident"
    and free: "\<And>nonce. view (w_now w) (w_redis w) (ses_key None (PStr ident) nonce) = None"
  obtains nonce n where "CHR '':'' \<notin> set nonce" "dget d ''token'' = PStr (contact_token E contact nonce (w_now w))"
    "n = (case ttl of Some t \<Rightarrow> if t \<noteq> 0 then t else cf_TOKEN_TIMEOUT (e_cfg E) | None \<Rightarrow> cf_TOKEN_TIMEOUT (e_cfg E))"
    "\<And>w2. w_redis w2 = w_redis w1 \<Longrightarrow> w_now w \<le> w_now w2 \<Longrightarrow> w_now w2 < w_now w + n * 1000000 \<Longrightarrow>
       session_get_arg E (PStr ident) nonce ''param'' None w2 = (Inr (dget d ''token''), w2)"
proof -
  let ?n = "case ttl of Some t \<Rightarrow> if t \<noteq> 0 then t else cf_TOKEN_TIMEOUT (e_cfg E) | None \<Rightarrow> cf_TOKEN_TIMEOUT (e_cfg E)"
  obtain nonce u where n: "(if dget contact ''type'' = PStr ''sms'' then ret ''1'' else random_letters 8) w = (Inr nonce, u)"
    "w_now u = w_now w" "w_redis u = w_redis w" "CHR '':'' \<notin> set nonce"
  proof (cases "dget contact ''type'' = PStr ''sms''")
    case True
    then show thesis using that [of "''1''" w] by (simp add: py_simps)
  next
    case False
    have "random_letters 8 w = (Inr (map (\<lambda>i. letter (w_rnd w (w_pos w + i))) [0..<8]), w\<lparr>w_pos := w_pos w + 8\<rparr>)"
      by (simp add: random_letters_run)
    then show thesis using that False letter_not_colon [symmetric] by (auto simp del: upt_Suc)
  qed
  let ?token = "contact_token E contact nonce (w_now w)" and ?kw = "[(''param'', PStr (contact_token E contact nonce (w_now w)))]"
  obtain r v where c: "session_create E (PStr ident) [] None (Some nonce) (Some ?n) ?kw u = (r, v)" by fastforce
  from assms(1) have d: "dget d ''token'' = PStr ?token" "w_redis w1 = w_redis v"
    using n c assms(2,3)
    by (auto simp: confirmation_request_def Let_def py_simps send_message_def dict_simps split: sum.splits if_splits)
  have st: "storable (session_content E (PStr ident) [] nonce ?n ?kw (w_now u))" by (rule storable_content) simp_all
  show thesis
  proof (rule that [OF n(4) d(1) refl])
    fix w2 :: "('d, 'r, 'c) world" assume w2: "w_redis w2 = w_redis w1" "w_now w \<le> w_now w2" "w_now w2 < w_now w + ?n * 1000000"
    have now: "w_now v = w_now w" using session_create_redis [OF c] n(2) by simp
    have "session_get E (PStr ident) nonce None w2 = (Inr (Some (session_content E (PStr ident) [] nonce ?n ?kw (w_now u))), w2)"
      using session_window [OF _ st _ c, of w2 nonce] free n now w2 d(2) by simp
    moreover have "dget (session_content E (PStr ident) [] nonce ?n ?kw (w_now u)) ''param'' = PStr ?token"
      by (simp add: session_content_def dict_simps)
    ultimately show "session_get_arg E (PStr ident) nonce ''param'' None w2 = (Inr (dget d ''token''), w2)"
      using d by (simp add: session_get_arg_def py_simps)
  qed
qed

lemma requested_confirms:
  assumes "token_valid (e_crypt E)"
    and "confirmation_request E (PStr ident) ttl template w = (Inr (d, 200), w1)"
    and "one_of (db_all (e_db E) (filter_by [(''id'', PStr ident)] (query_of ''Contact'')) (w_db w)) = Inr contact"
    and "dget contact ''id'' = PStr ident" "dget contact ''info'' = PStr info" "CHR '':'' \<notin> set ident" "CHR '':'' \<notin> set info"
    and "\<And>nonce. view (w_now w) (w_redis w) (ses_key None (PStr ident) nonce) = None"
    and "w_redis w2 = w_redis w1" "w_db w2 = w_db w" "w_now w \<le> w_now w2" "w_now w2 \<le> w_now w + cf_TOKEN_TIMEOUT (e_cfg E) * 1000000"
    and "w_now w2 < w_now w + (case ttl of Some t \<Rightarrow> if t \<noteq> 0 then t else cf_TOKEN_TIMEOUT (e_cfg E) | None \<Rightarrow> cf_TOKEN_TIMEOUT (e_cfg E)) * 1000000"
  shows "\<exists>nonce. confirm E (dget d ''token'') clear w2 = confirm_contact E ident info nonce clear contact w2"
proof (rule requested_session [OF assms(2-4,8)])
  fix nonce n
  assume s: "CHR '':'' \<notin> set nonce" "dget d ''token'' = PStr (contact_token E contact nonce (w_now w))"
    "n = (case ttl of Some t \<Rightarrow> if t \<noteq> 0 then t else cf_TOKEN_TIMEOUT (e_cfg E) | None \<Rightarrow> cf_TOKEN_TIMEOUT (e_cfg E))"
    and get: "\<And>w2. w_redis w2 = w_redis w1 \<Longrightarrow> w_now w \<le> w_now w2 \<Longrightarrow> w_now w2 < w_now w + n * 1000000 \<Longrightarrow>
       session_get_arg E (PStr ident) nonce ''param'' None w2 = (Inr (dget d ''token''), w2)"
  have "token_parts E (dget d ''token'') (w_now w2) = Inr (ident, info, nonce)"
    using assms(1,4-7,11,12) s(1) py_split_three [of ident info nonce]
    by (simp add: s(2) token_parts_def contact_token_def token_valid_def)
  then have "confirm E (dget d ''token'') clear w2 = confirm_contact E ident info nonce clear contact w2"
    using get [OF assms(9,11)] assms(3,10,13) s(3) by (simp add: confirm_def py_simps)
  then show ?thesis ..
qed

lemma session_create_default:
  "session_create E uid roles kid None ttl kw w =
     session_create E uid roles kid (Some (fresh_token w)) (Some (case ttl of Some t \<Rightarrow> t | None \<Rightarrow> cf_REDIS_TTL (e_cfg E))) kw w"
  by (simp add: session_create_def fresh_token_def gen_id_run py_simps Let_def)

lemma session_create_ok:
  assumes "view (w_now w) (w_redis w) (ses_key kid uid token) = None" and "json_ok uid" and "\<forall>e \<in> set kw. json_ok (snd e)"
  shows "\<exists>d w'. session_create E uid roles kid (Some token) (Some ttl) kw w = (Inr (Some d), w') \<and> w_db w' = w_db w \<and> w_now w' = w_now w \<and>
    (\<forall>k t. w_now w \<le> t \<longrightarrow> k \<noteq> ses_key kid uid token \<longrightarrow> view t (w_redis w') k = view t (w_redis w) k)"
proof -
  have "storable (content_at E uid roles token ttl kw w)" by (rule storable_content [OF assms(2,3)])
  then show ?thesis by (rule session_create_run [of uid roles token ttl kw w kid]) (use assms(1) set_other in \<open>auto simp: Let_def\<close>)
qed

lemma confirmation_request_ok:
  assumes "one_of (db_all (e_db E) (filter_by [(''id'', PStr ident)] (query_of ''Contact'')) (w_db w)) = Inr contact"
    and "dget contact ''id'' = PStr ident" and "dget contact ''type'' = PStr ''sms''"
    and "\<And>nonce. view (w_now w) (w_redis w) (ses_key None (PStr ident) nonce) = None"
  shows "\<exists>d w1. confirmation_request E (PStr ident) ttl template w = (Inr (d, 200), w1) \<and> w_db w1 = w_db w \<and> w_now w1 = w_now w \<and>
    (\<forall>k t. w_now w \<le> t \<longrightarrow> k \<noteq> ses_key None (PStr ident) ''1'' \<longrightarrow> view t (w_redis w1) k = view t (w_redis w) k)"
proof -
  obtain t where t: "(case ttl of Some t \<Rightarrow> if t \<noteq> 0 then t else cf_TOKEN_TIMEOUT (e_cfg E) | None \<Rightarrow> cf_TOKEN_TIMEOUT (e_cfg E)) = t" by blast
  have "\<exists>d w'. session_create E (PStr ident) [] None (Some ''1'') (Some t) [(''param'', PStr (contact_token E contact ''1'' (w_now w)))] w =
      (Inr (Some d), w') \<and> w_db w' = w_db w \<and> w_now w' = w_now w \<and>
      (\<forall>k t. w_now w \<le> t \<longrightarrow> k \<noteq> ses_key None (PStr ident) ''1'' \<longrightarrow> view t (w_redis w') k = view t (w_redis w) k)"
    by (rule session_create_ok) (use assms(4) in simp_all)
  then show ?thesis using assms(1-3) t
    by (auto simp: confirmation_request_def Let_def py_simps send_message_def)
qed

lemma confirm_contact_ok:
  assumes upd: "db_update (e_db E) (filter_by [(''id'', dget contact ''uid'')] (query_of ''Person'')) [(''referrer_id'', PNone)]
      (db_set (e_db E) ''Contact'' (dget contact ''id'') ''status'' (PStr ''active'') (w_db w)) = (Inr n, d1)"
    and "db_commit (e_db E) d1 = (Inr (), d2)"
    and "db_related (e_db E) ''Contact'' (dget contact ''id'') ''owner'' d2 = Inr (owner # os)"
    and "json_ok (dget contact ''uid'')" "json_ok (dget contact ''type'')" "json_ok (dget owner ''name'')"
    and free: "\<And>token t. w_now w \<le> t \<Longrightarrow> view t (w_redis w) (ses_key None (dget contact ''uid'') token) = None"
    and k: "\<And>token. ses_key None (dget contact ''uid'') token \<noteq> ses_key None (PStr ident) nonce"
  shows "\<exists>d w'. confirm_contact E ident info nonce True contact w = (Inr (d, 200), w')"
proof -
  let ?w = "w\<lparr>w_db := d2, w_redis := snd (rd_delete (e_redis E) (ses_key None (PStr ident) nonce) (w_now w) (w_redis w))\<rparr>"
  have "view (w_now ?w) (w_redis ?w) (ses_key None (dget contact ''uid'') (fresh_token ?w)) = None"
    using delete_other [OF k, of "w_now w" "w_now w"] free by simp
  note create = session_create_ok [OF this assms(4), where kw = "[(''info'', PStr info), (''type'', dget contact ''type''),
    (''contact_id'', PStr ident), (''name'', dget owner ''name'')]" and roles = "[''pending'']" and ttl = "cf_REDIS_TTL (e_cfg E)"]
  have "\<exists>d w'. session_create E (dget contact ''uid'') [''pending''] None None None
       [(''info'', PStr info), (''type'', dget contact ''type''), (''contact_id'', PStr ident), (''name'', dget owner ''name'')] ?w = (Inr (Some d), w')"
    using create assms(5,6) unfolding session_create_default option.case by auto
  then show ?thesis using assms(1-3)
    by (auto simp: confirm_contact_def py_simps session_delete_run related_one_def dict_of_def)
qed

end

section \<open>Properties\<close>

lemma requested_token_confirms:
  assumes "session_env E view" and "token_valid (e_crypt E)"
    and "confirmation_request E (PStr ident) ttl template w = (Inr (d, 200), w1)"
    and "db_all (e_db E) (filter_by [(''id'', PStr ident)] (query_of ''Contact'')) (w_db w) = Inr [contact]"
    and "dget contact ''id'' = PStr ident" "dget contact ''info'' = PStr info" "CHR '':'' \<notin> set ident" "CHR '':'' \<notin> set info"
    and "\<And>nonce. view (w_now w) (w_redis w) (ses_key None (PStr ident) nonce) = None"
    and "w_redis w2 = w_redis w1" "w_db w2 = w_db w" "w_now w \<le> w_now w2"
    and "w_now w2 \<le> w_now w + cf_TOKEN_TIMEOUT (e_cfg E) * 1000000"
    and "w_now w2 < w_now w + (case ttl of Some t \<Rightarrow> if t \<noteq> 0 then t else cf_TOKEN_TIMEOUT (e_cfg E) | None \<Rightarrow> cf_TOKEN_TIMEOUT (e_cfg E)) * 1000000"
  shows "\<exists>nonce. confirm E (dget d ''token'') clear w2 = confirm_contact E ident info nonce clear contact w2"
  using session_env.requested_confirms [OF assms(1-3) _ assms(5-)] assms(4) by simp

definition phone_tables :: "(string \<times> dict list) list" where
  "phone_tables = [(''Contact'', [[(''id'', PStr ''x-7''), (''info'', PStr ''4155550100''), (''type'', PStr ''sms''), (''uid'', PStr ''u-1''),
      (''status'', PStr ''unconfirmed''), (''owner'', PList [PDict [(''id'', PStr ''u-1''), (''name'', PStr ''Ann'')]])]]),
    (''Person'', [[(''id'', PStr ''u-1''), (''name'', PStr ''Ann'')]]),
    (''Account'', [[(''id'', PStr ''a-2''), (''uid'', PStr ''u-2''), (''name'', PStr ''bob''), (''status'', PStr ''active''),
      (''password'', PStr ''#old'')]])]"

definition phone_contact :: dict where
  "phone_contact = hd (table_of phone_tables ''Contact'')"

lemma phone_facts:
  "db_all mem_db (filter_by [(''id'', PStr ''x-7'')] (query_of ''Contact'')) \<lparr>md_durable = phone_tables, md_current = phone_tables\<rparr> = Inr [phone_contact]"
  "dget phone_contact ''id'' = PStr ''x-7''" "dget phone_contact ''info'' = PStr ''4155550100''" "dget phone_contact ''type'' = PStr ''sms''"
  "dget phone_contact ''uid'' = PStr ''u-1''" "CHR '':'' \<notin> set ''x-7''" "CHR '':'' \<notin> set ''4155550100''"
  by code_simp+

lemma mem_tokens: "token_valid mem_crypt" "token_stable mem_crypt"
  by (simp_all add: token_valid_def token_stable_def mem_crypt_def)

lemma phone_requested:
  obtains d w1 where "confirmation_request mem_env (PStr ''x-7'') None ''t'' (mem_world phone_tables) = (Inr (d, 200), w1)"
    "w_db w1 = w_db (mem_world phone_tables)" "w_now w1 = 1640995200000000"
    "\<And>k t. 1640995200000000 \<le> t \<Longrightarrow> k \<noteq> ses_key None (PStr ''x-7'') ''1'' \<Longrightarrow> mr_view t (w_redis w1) k = None"
proof -
  have v: "mr_view t (w_redis (mem_world phone_tables)) k = None" for t k by (simp add: mem_world_def mr_view_def)
  then have "\<exists>d w1. confirmation_request mem_env (PStr ''x-7'') None ''t'' (mem_world phone_tables) = (Inr (d, 200), w1) \<and>
      w_db w1 = w_db (mem_world phone_tables) \<and> w_now w1 = w_now (mem_world phone_tables) \<and>
      (\<forall>k t. w_now (mem_world phone_tables) \<le> t \<longrightarrow> k \<noteq> ses_key None (PStr ''x-7'') ''1'' \<longrightarrow>
         mr_view t (w_redis w1) k = mr_view t (w_redis (mem_world phone_tables)) k)"
    using memory_sessions.confirmation_request_ok [where contact = phone_contact and w = "mem_world phone_tables" and ident = "''x-7''"]
      phone_facts by (simp add: mem_world_def)
  then show thesis using that v by (auto simp: mem_world_def)
qed

lemma requested_token_confirms_witness:
  "\<exists>d w1 nonce. confirmation_request mem_env (PStr ''x-7'') None ''t'' (mem_world phone_tables) = (Inr (d, 200), w1) \<and>
     confirm mem_env (dget d ''token'') True w1 = confirm_contact mem_env ''x-7'' ''4155550100'' nonce True phone_contact w1"
proof (rule phone_requested)
  fix d w1
  assume r: "confirmation_request mem_env (PStr ''x-7'') None ''t'' (mem_world phone_tables) = (Inr (d, 200), w1)"
    "w_db w1 = w_db (mem_world phone_tables)" "w_now w1 = 1640995200000000"
  have v: "mr_view t (w_redis (mem_world phone_tables)) k = None" for t k by (simp add: mem_world_def mr_view_def)
  have "\<exists>nonce. confirm mem_env (dget d ''token'') True w1 = confirm_contact mem_env ''x-7'' ''4155550100'' nonce True phone_contact w1"
    by (rule requested_token_confirms [OF memory_sessions.session_env_axioms _ r(1)])
      (use r phone_facts v mem_tokens in \<open>simp_all add: mem_world_def mem_config_def\<close>)
  then show ?thesis using r by blast
qed

text \<open>C21: A confirmation token that was redeemed with clear_session (as change_password does) is spent: a
  second confirmation with it answers 403.\<close>

lemma confirm_one_shot:
  assumes "redis_contract (e_redis E) view" and "token_stable (e_crypt E)" and "confirm E token True w = (Inr (d, 200), w1)"
    and "\<And>ident c. db_all (e_db E) (filter_by [(''id'', PStr ident)] (query_of ''Contact'')) (w_db w) = Inr [c] \<Longrightarrow>
      py_str (dget c ''uid'') \<noteq> ident"
    and "w_redis w2 = w_redis w1" "w_now w1 \<le> w_now w2"
  shows "\<exists>d'. confirm E token again w2 = (Inr (d', 403), w2)"
proof (cases "token_parts E token (w_now w)")
  case (Inl e)
  then show ?thesis using assms(3) by (simp add: confirm_def py_simps)
next
  case (Inr p)
  then obtain ident info nonce where p: "token_parts E token (w_now w) = Inr (ident, info, nonce)" by (cases p) auto
  have "py_str (dget c ''uid'') \<noteq> ident"
    if "run_one E (filter_by [(''id'', PStr ident)] (query_of ''Contact'')) w = (Inr c, w)" for c
    using that assms(4) by (auto simp: run_one_run one_of_def split: sum.splits list.splits)
  from redis_contract.confirm_again [OF assms(1) refl assms(2,3) p this assms(5,6)] show ?thesis .
qed

lemma phone_session_key: "ses_key None (PStr ''u-1'') token \<noteq> ses_key None (PStr ''x-7'') nonce"
  by (simp add: ses_key_def)

lemma phone_update:
  "fst (db_update mem_db (filter_by [(''id'', PStr ''u-1'')] (query_of ''Person'')) [(''referrer_id'', PNone)]
     (db_set mem_db ''Contact'' (PStr ''x-7'') ''status'' (PStr ''active'') \<lparr>md_durable = phone_tables, md_current = phone_tables\<rparr>)) = Inr 1"
  "db_related mem_db ''Contact'' (PStr ''x-7'') ''owner'' (snd (db_commit mem_db (snd (db_update mem_db
     (filter_by [(''id'', PStr ''u-1'')] (query_of ''Person'')) [(''referrer_id'', PNone)]
     (db_set mem_db ''Contact'' (PStr ''x-7'') ''status'' (PStr ''active'') \<lparr>md_durable = phone_tables, md_current = phone_tables\<rparr>)))))
   = Inr [[(''id'', PStr ''u-1''), (''name'', PStr ''Ann'')]]"
  by code_simp+

lemma phone_confirmed:
  assumes "w_db w1 = w_db (mem_world phone_tables)" "w_now w1 = 1640995200000000"
    and "\<And>k t. 1640995200000000 \<le> t \<Longrightarrow> k \<noteq> ses_key None (PStr ''x-7'') ''1'' \<Longrightarrow> mr_view t (w_redis w1) k = None"
  shows "\<exists>d w'. confirm_contact mem_env ''x-7'' info nonce True phone_contact w1 = (Inr (d, 200), w')"
proof (rule memory_sessions.confirm_contact_ok)
  let ?d1 = "snd (db_update mem_db (filter_by [(''id'', PStr ''u-1'')] (query_of ''Person'')) [(''referrer_id'', PNone)]
     (db_set mem_db ''Contact'' (PStr ''x-7'') ''status'' (PStr ''active'') \<lparr>md_durable = phone_tables, md_current = phone_tables\<rparr>))"
  show "db_update (e_db mem_env) (filter_by [(''id'', dget phone_contact ''uid'')] (query_of ''Person'')) [(''referrer_id'', PNone)]
      (db_set (e_db mem_env) ''Contact'' (dget phone_contact ''id'') ''status'' (PStr ''active'') (w_db w1)) = (Inr 1, ?d1)"
    using phone_update(1) assms(1) by (simp add: phone_facts mem_world_def prod_eq_iff)
  show "db_commit (e_db mem_env) ?d1 = (Inr (), snd (db_commit mem_db ?d1))" by (simp add: mem_db_def)
  show "db_related (e_db mem_env) ''Contact'' (dget phone_contact ''id'') ''owner'' (snd (db_commit mem_db ?d1)) =
      Inr ([(''id'', PStr ''u-1''), (''name'', PStr ''Ann'')] # [])"
    using phone_update(2) by (simp add: phone_facts)
qed (use assms phone_session_key in \<open>simp_all add: phone_facts dict_simps\<close>)

lemma confirm_one_shot_witness:
  "\<exists>token d w1 w2 d'. confirm mem_env token True w1 = (Inr (d, 200), w2) \<and> confirm mem_env token True w2 = (Inr (d', 403), w2)"
proof (rule phone_requested)
  fix d w1
  assume r: "confirmation_request mem_env (PStr ''x-7'') None ''t'' (mem_world phone_tables) = (Inr (d, 200), w1)"
    "w_db w1 = w_db (mem_world phone_tables)" "w_now w1 = 1640995200000000"
    "\<And>k t. 1640995200000000 \<le> t \<Longrightarrow> k \<noteq> ses_key None (PStr ''x-7'') ''1'' \<Longrightarrow> mr_view t (w_redis w1) k = None"
  have v: "mr_view t (w_redis (mem_world phone_tables)) k = None" for t k by (simp add: mem_world_def mr_view_def)
  have "\<exists>nonce. confirm mem_env (dget d ''token'') True w1 = confirm_contact mem_env ''x-7'' ''4155550100'' nonce True phone_contact w1"
    by (rule memory_sessions.requested_confirms [OF _ r(1)])
      (use r phone_facts v mem_tokens in \<open>simp_all add: mem_world_def mem_config_def\<close>)
  then obtain d2 w2 where c: "confirm mem_env (dget d ''token'') True w1 = (Inr (d2, 200), w2)"
    using phone_confirmed [OF r(2-4)] by metis
  have "redis_contract (e_redis mem_env) mr_view" "token_stable (e_crypt mem_env)"
    using memory.redis_contract_axioms mem_tokens by simp_all
  moreover have "py_str (dget x ''uid'') \<noteq> ident"
    if "db_all (e_db mem_env) (filter_by [(''id'', PStr ident)] (query_of ''Contact'')) (w_db w1) = Inr [x]" for ident x
  proof -
    have t: "table_of (md_current (w_db w1)) ''Contact'' = [phone_contact]"
      using r(2) by (simp add: mem_world_def phone_contact_def, code_simp)
    have "x \<in> set (table_of (md_current (w_db w1)) ''Contact'')"
      using that by (auto simp: mem_db_def mem_select_def query_of_def filter_by_def Let_def dest!: arg_cong [where f = set])
    then have x: "x = phone_contact" unfolding t by simp
    have "dget x ''id'' = PStr ident"
      using memory_query.where_sound [of _ _ "[x]" x "''id''" "PStr ident"] that by simp
    then show ?thesis by (auto simp: x phone_facts)
  qed
  ultimately obtain d' where "confirm mem_env (dget d ''token'') True w2 = (Inr (d', 403), w2)"
    using confirm_one_shot [OF _ _ c, of mr_view w2 True] by auto
  with c show ?thesis by blast
qed


definition totp_tables :: "(string \<times> dict list) list" where
  "totp_tables = [(''Account'', [[(''id'', PStr ''a-1''), (''name'', PStr ''ann''), (''uid'', PStr ''u-1''), (''totp_secret'', PStr ''123456''),
     (''owner'', PList [PDict [(''id'', PStr ''u-1''), (''identity'', PStr ''a@b.co'')]])]])]"

definition totp_example_account :: dict where
  "totp_example_account = hd (table_of totp_tables ''Account'')"

lemma totp_example_db:
  "db_all mem_db (filter_by [(''id'', PStr ''a-1'')] (query_of ''Account'')) \<lparr>md_durable = totp_tables, md_current = totp_tables\<rparr> = Inr [totp_example_account]"
  "db_related mem_db ''Account'' (dget totp_example_account ''id'') ''owner'' \<lparr>md_durable = totp_tables, md_current = totp_tables\<rparr> =
     Inr [[(''id'', PStr ''u-1''), (''identity'', PStr ''a@b.co'')]]"
  "account_totp totp_example_account" "dget totp_example_account ''totp_secret'' = PStr ''123456''"
  by code_simp+

lemma totp_example_key:
  "totp_key (user_access None) ''123456'' \<noteq> user_key"
  "1640995200000000 \<le> t \<Longrightarrow> mr_view t (w_redis (logged_in totp_tables)) (totp_key (user_access None) ''123456'') = None"
proof -
  show k: "totp_key (user_access None) ''123456'' \<noteq> user_key"
    by (simp add: totp_key_def ses_key_def)
  have v: "mr_view t (w_redis (mem_world totp_tables)) k = None" for t k by (simp add: mem_world_def mr_view_def)
  show "mr_view t (w_redis (logged_in totp_tables)) (totp_key (user_access None) ''123456'') = None" if "1640995200000000 \<le> t"
    using memory_sessions.session_create_ok [of "mem_world totp_tables" None "PStr ''u-1''" "''abcdef''" "[(''acc'', PStr ''a-1'')]" "[''user'']" 3600]
      k v that
    by (auto simp: logged_in_def logged_in_as_def mem_world_def)
qed

lemma totp_example_login:
  assumes "access_control (user_env r) None w = (Inr (user_access None), w)" and "w_db w = \<lparr>md_durable = totp_tables, md_current = totp_tables\<rparr>"
  shows "totp_login (user_env r) (PStr ''ann'') (PStr ''123456'') w =
    (if mr_view (w_now w) (w_redis w) (totp_key (user_access None) ''123456'') = None
     then (Inr (([], 200), PNone, Some totp_example_account),
       w\<lparr>w_redis := AList.update (totp_key (user_access None) ''123456'') ([], Some (w_now w + 60000000)) (w_redis w)\<rparr>)
     else (Inr (denied, PNone, None), w))"
  using assms totp_example_db
  by (simp add: totp_login_def py_simps related_one_def str_of_def check_totp_def MFA_BACKUP_CODELEN_def mem_crypt_def
      block_replay_def mem_redis_def mr_set_def bypass_cookie_def mem_config_def user_access_def)

lemma user_key_lasts:
  assumes "1640995200000000 \<le> t" "t < 1640998800000000"
  shows "mr_view t (w_redis (logged_in ts)) user_key = mr_view 1640995200000000 (w_redis (logged_in ts)) user_key"
proof -
  let ?c = "session_create mem_env (PStr ''u-1'') [''user''] None (Some ''abcdef'') (Some 3600) [(''acc'', PStr ''a-1'')] (mem_world ts)"
  let ?w = "(logged_in ts)\<lparr>w_now := t\<rparr>"
  have c: "?c = (fst ?c, logged_in ts)" by (simp add: logged_in_def logged_in_as_def)
  have "mr_view (w_now (mem_world ts)) (w_redis (mem_world ts)) k = None" for k by (simp add: mem_world_def mr_view_def)
  moreover have "storable (session_content mem_env (PStr ''u-1'') [''user''] ''abcdef'' 3600 [(''acc'', PStr ''a-1'')] (w_now (mem_world ts)))"
    by (rule storable_content) simp_all
  ultimately have "fst (session_get mem_env (PStr ''u-1'') ''abcdef'' None ?w) \<noteq> Inr None"
    using assms memory_sessions.session_window [OF _ _ _ c, of ?w "''abcdef''"] logged_in_world(1) [of ts]
    by (simp add: mem_world_def)
  then have "mr_view t (w_redis (logged_in ts)) user_key \<noteq> None"
    by (cases "mr_view t (w_redis (logged_in ts)) user_key") (auto simp: session_get_def session_data_def py_simps memory.get_view)
  then show ?thesis using assms by (auto simp: mr_view_def split: option.splits if_splits)
qed


end
