(* ===== verification/Lockout.thy ===== *)
theory Lockout imports Credentials begin

text \<open>
  The lockout of \<open>account_login\<close>: nothing that a login does apart from the limiter itself touches the
  counter of its attempts, so that guesses are counted whatever they were, and whatever else the
  service does in between.
\<close>

section \<open>What leaves a redis key alone\<close>

text \<open>The time, and from then on what the key \<open>K\<close> will hold.\<close>

definition key_view ::
    "(int \<Rightarrow> 'r \<Rightarrow> string \<Rightarrow> string option) \<Rightarrow> string \<Rightarrow> ('d, 'r, 'c) world \<Rightarrow> int \<times> (int \<Rightarrow> string option)" where
  "key_view view K w = (w_now w, \<lambda>t. if w_now w \<le> t then view t (w_redis w) K else None)"

lemma key_view_same:
  "w_now w' = w_now w \<Longrightarrow> (\<And>t. w_now w \<le> t \<Longrightarrow> view t (w_redis w') K = view t (w_redis w) K) \<Longrightarrow>
     key_view view K w' = key_view view K w"
  by (auto simp: key_view_def)

lemma key_viewD:
  assumes "key_view view K w' = key_view view K w"
  shows "w_now w' = w_now w" "w_now w \<le> t \<Longrightarrow> view t (w_redis w') K = view t (w_redis w) K"
proof -
  show now: "w_now w' = w_now w" using assms by (simp add: key_view_def)
  assume "w_now w \<le> t"
  moreover have "(if w_now w' \<le> t then view t (w_redis w') K else None) = (if w_now w \<le> t then view t (w_redis w) K else None)"
    using assms unfolding key_view_def prod.inject by metis
  ultimately show "view t (w_redis w') K = view t (w_redis w) K" using now by simp
qed

text \<open>INCRBY and INCRBYFLOAT of one key do nothing to another.\<close>

locale redis_keys = redis_counters R view
  for R :: "'r redisops" and view :: "int \<Rightarrow> 'r \<Rightarrow> string \<Rightarrow> string option" +
  assumes incrby_other: "k' \<noteq> k \<Longrightarrow> t \<le> t' \<Longrightarrow> view t' (snd (rd_incrby R k n t s)) k' = view t' s k'"
    and incrbyfloat_other: "k' \<noteq> k \<Longrightarrow> t \<le> t' \<Longrightarrow> view t' (snd (rd_incrbyfloat R k x t s)) k' = view t' s k'"
begin

abbreviation leaves :: "string \<Rightarrow> (('d, 'r, 'c) world, 'a) py \<Rightarrow> bool" where
  "leaves K m \<equiv> keeps (key_view view K) m"

lemma leaves_world:
  assumes "\<And>w. w_now (snd (m w)) = w_now w \<and> w_redis (snd (m w)) = w_redis w"
  shows "leaves K m"
  unfolding keeps_def by (intro allI key_view_same) (simp_all add: assms)

lemma leaves_on_db [keeps_intros]: "leaves K (on_db f)"
  by (rule leaves_world) (simp add: py_simps)

lemma leaves_rollback [keeps_intros]: "leaves K (rollback E)"
  by (rule leaves_world) (simp add: py_simps)

lemma leaves_session_add [keeps_intros]: "leaves K (session_add E m row)"
  by (rule leaves_world) (simp add: py_simps)

lemma leaves_set_attr [keeps_intros]: "leaves K (set_attr E m i a x)"
  by (rule leaves_world) (simp add: py_simps)

lemma leaves_draw [keeps_intros]: "leaves K draw"
  by (rule leaves_world) (simp add: py_simps)

lemma leaves_random_bytes [keeps_intros]: "leaves K (random_bytes n)"
  by (rule leaves_world) (simp add: py_simps)

lemma leaves_random_letters [keeps_intros]: "leaves K (random_letters n)"
  by (rule leaves_world) (simp add: py_simps)

lemma leaves_gen_id [keeps_intros]: "leaves K (gen_id len prefix chars)"
  by (rule leaves_world) (simp add: gen_id_run)

lemma leaves_cache_put [keeps_intros]: "leaves K (cache_put E k x)"
  by (rule leaves_world) (simp add: py_simps)

lemma leaves_sent [keeps_intros]: "leaves K (modify (\<lambda>w. w\<lparr>w_sent := f w\<rparr>))"
  by (rule leaves_world) (simp add: py_simps)

lemma leaves_set [keeps_intros]: "e_redis E = R \<Longrightarrow> K \<noteq> k \<Longrightarrow> leaves K (redis_set E k x ttl nx)"
  unfolding keeps_def by (intro allI key_view_same) (simp_all add: py_simps set_other)

lemma leaves_delete [keeps_intros]: "e_redis E = R \<Longrightarrow> K \<noteq> k \<Longrightarrow> leaves K (redis_delete E k)"
  unfolding keeps_def by (intro allI key_view_same) (simp_all add: py_simps delete_other)

lemma leaves_incrby [keeps_intros]: "e_redis E = R \<Longrightarrow> K \<noteq> k \<Longrightarrow> leaves K (on_redis (rd_incrby (e_redis E) k n))"
  unfolding keeps_def by (intro allI key_view_same) (simp_all add: py_simps incrby_other)

lemma leaves_incrbyfloat [keeps_intros]: "e_redis E = R \<Longrightarrow> K \<noteq> k \<Longrightarrow> leaves K (on_redis (rd_incrbyfloat (e_redis E) k x))"
  unfolding keeps_def by (intro allI key_view_same) (simp_all add: py_simps incrbyfloat_other)

end

section \<open>What a login leaves alone\<close>

text \<open>Every other key that a login writes has another prefix.\<close>

lemma rate_key_other [simp]: "rate_key s u i \<noteq> ses_key k uid token" "rate_key s u i \<noteq> totp_key acc otp"
  "rate_key s u i \<noteq> metric_key n ls"
  by (simp_all add: rate_key_def ses_key_def totp_key_def metric_key_def)

context redis_keys
begin

lemma leaves_encrypt_json [keeps_intros]: "leaves (rate_key s u i) (encrypt_json E secret d)"
  by (auto simp: encrypt_json_def intro!: keeps_intros)

lemma leaves_session_create [keeps_intros]: "e_redis E = R \<Longrightarrow> leaves (rate_key s u i) (session_create E uid roles kid nonce ttl kw)"
  unfolding session_create_def Let_def by (auto intro!: keeps_intros)

lemma leaves_grants_init [keeps_intros]: "leaves (rate_key s u i) (grants_init E)"
  by (auto simp: grants_init_def intro!: keeps_intros)

lemma leaves_grants_get [keeps_intros]: "leaves (rate_key s u i) (grants_get E name uid)"
  by (auto simp: grants_get_def intro!: keeps_intros)

lemma leaves_usage_notice [keeps_intros]: "leaves (rate_key s u i) (usage_notice E m name uid c l)"
  unfolding usage_notice_def Let_def by (auto intro!: keeps_intros)

lemma leaves_store_grant [keeps_intros]: "e_redis E = R \<Longrightarrow> leaves (rate_key s u i) (store_grant E m name uid (metric_key n ls))"
  unfolding store_grant_def Let_def by (auto intro!: keeps_intros)

lemma leaves_metrics_store [keeps_intros]: "e_redis E = R \<Longrightarrow> leaves (rate_key s u i) (metrics_store E uid name labels value)"
  unfolding metrics_store_def Let_def by (auto intro!: keeps_intros split: pyval.splits)

lemma leaves_db_abort [keeps_intros]: "leaves (rate_key s u i) (db_abort E)"
  by (auto simp: db_abort_def intro!: keeps_intros)

lemma leaves_send_message [keeps_intros]: "leaves (rate_key s u i) (send_message E to template kw)"
  by (auto simp: send_message_def intro!: keeps_intros)

lemma leaves_confirmation_request [keeps_intros]: "e_redis E = R \<Longrightarrow> leaves (rate_key s u i) (confirmation_request E ident ttl template)"
  unfolding confirmation_request_def Let_def by (auto intro!: keeps_intros)

lemma leaves_new_person [keeps_intros]: "leaves (rate_key s u i) (new_person E identity name)"
  by (auto simp: new_person_def intro!: keeps_intros)

lemma leaves_known_contact [keeps_intros]: "leaves (rate_key s u i) (known_contact E identity uid)"
  by (auto simp: known_contact_def intro!: keeps_intros)

lemma leaves_add_profile [keeps_intros]: "leaves (rate_key s u i) (add_profile E uid item x ks)"
  by (auto simp: add_profile_def intro!: keeps_intros)

lemma leaves_register_profile [keeps_intros]: "leaves (rate_key s u i) (register_profile E uid picture)"
  by (auto simp: register_profile_def intro!: keeps_intros)

lemma leaves_activate_contact [keeps_intros]: "leaves (rate_key s u i) (activate_contact E uid cid)"
  by (auto simp: activate_contact_def intro!: keeps_intros)

lemma leaves_register_known [keeps_intros]: "leaves (rate_key s u i) (register_known E identity username)"
  by (auto simp: register_known_def intro!: keeps_intros)

lemma leaves_register [keeps_intros]: "e_redis E = R \<Longrightarrow> leaves (rate_key s u i) (register E identity username name template picture)"
  unfolding register_def Let_def by (auto intro!: keeps_intros)

lemma leaves_account_add [keeps_intros]: "leaves (rate_key s u i) (account_add E username uid)"
  by (auto simp: account_add_def intro!: keeps_intros)

lemma leaves_get_roles [keeps_intros]: "leaves (rate_key s u i) (get_roles E uid m res ident)"
  unfolding get_roles_def Let_def by (auto intro!: keeps_intros)

lemma leaves_totp_bypass [keeps_intros]: "leaves (rate_key s u i) (totp_bypass E uid)"
  by (auto simp: totp_bypass_def intro!: keeps_intros)

lemma leaves_login_contact [keeps_intros]: "leaves (rate_key s u i) (login_contact E account)"
  by (auto simp: login_contact_def intro!: keeps_intros)

lemma leaves_stamp_login [keeps_intros]: "leaves (rate_key s u i) (stamp_login E account)"
  by (auto simp: stamp_login_def intro!: keeps_intros)

lemma leaves_login_roles [keeps_intros]: "leaves (rate_key s u i) (login_roles E rf acc account meth)"
  unfolding login_roles_def Let_def by (auto intro!: keeps_intros)

lemma leaves_account_settings_row [keeps_intros]: "leaves (rate_key s u i) (account_settings_row E account)"
  by (auto simp: account_settings_row_def intro!: keeps_intros)

lemma leaves_login_answer [keeps_intros]: "e_redis E = R \<Longrightarrow> leaves (rate_key s u i) (login_answer E account roles meth headers ses)"
  unfolding login_answer_def Let_def by (auto intro!: keeps_intros)

lemma leaves_login_accepted [keeps_intros]: "e_redis E = R \<Longrightarrow> leaves (rate_key s u i) (login_accepted E rf account meth headers)"
  by (auto simp: login_accepted_def intro!: keeps_intros)

lemma leaves_local_account [keeps_intros]: "leaves (rate_key s u i) (local_account E username)"
  by (auto simp: local_account_def intro!: keeps_intros split: pyval.splits)

lemma leaves_check_password [keeps_intros]: "leaves (rate_key s u i) (check_password E username password account)"
  unfolding check_password_def Let_def by (auto intro!: keeps_intros)

lemma leaves_local_login [keeps_intros]: "leaves (rate_key s u i) (local_login E username password)"
  by (auto simp: local_login_def intro!: keeps_intros)

lemma leaves_ldap_register [keeps_intros]: "e_redis E = R \<Longrightarrow> leaves (rate_key s u i) (ldap_register E user identity name)"
  unfolding ldap_register_def Let_def by (auto intro!: keeps_intros)

lemma leaves_ldap_account [keeps_intros]: "e_redis E = R \<Longrightarrow> leaves (rate_key s u i) (ldap_account E user)"
  unfolding ldap_account_def Let_def by (auto intro!: keeps_intros)

lemma leaves_ldap_login [keeps_intros]: "e_redis E = R \<Longrightarrow> leaves (rate_key s u i) (ldap_login E dir username password)"
  by (auto simp: ldap_login_def intro!: keeps_intros)

lemma leaves_use_backup_code [keeps_intros]: "leaves (rate_key s u i) (use_backup_code E account otp)"
  by (auto simp: use_backup_code_def intro!: keeps_intros)

lemma leaves_check_totp [keeps_intros]: "e_redis E = R \<Longrightarrow> leaves (rate_key s u i) (check_totp E account otp)"
  by (auto simp: check_totp_def intro!: keeps_intros)

lemma leaves_block_replay [keeps_intros]: "e_redis E = R \<Longrightarrow> leaves (rate_key s u i) (block_replay E acc otp)"
  by (auto simp: block_replay_def intro!: keeps_intros)

lemma leaves_bypass_cookie [keeps_intros]: "e_redis E = R \<Longrightarrow> leaves (rate_key s u i) (bypass_cookie E acc account)"
  by (auto simp: bypass_cookie_def intro!: keeps_intros)

lemma leaves_totp_login [keeps_intros]: "e_redis E = R \<Longrightarrow> leaves (rate_key s u i) (totp_login E username otp)"
  by (auto simp: totp_login_def intro!: keeps_intros)

lemma leaves_login_pending [keeps_intros]: "e_redis E = R \<Longrightarrow> leaves (rate_key s u i) (login_pending E rf acc username otp)"
  by (auto simp: login_pending_def intro!: keeps_intros)

end

section \<open>Guesses\<close>

definition login_succeeded :: "exc + login_result \<Rightarrow> bool" where
  "login_succeeded r = (case r of Inr (LAnswer _ status _) \<Rightarrow> status \<in> {200, 201} | _ \<Rightarrow> False)"

lemma login_succeeded_simps [simp]: "\<not> login_succeeded (Inl e)" "\<not> login_succeeded (Inr (LAbort a))"
  "login_succeeded (Inr (LAnswer c s h)) \<longleftrightarrow> s \<in> {200, 201}"
  by (auto simp: login_succeeded_def)

abbreviation attempt_limit :: "config \<Rightarrow> int" where
  "attempt_limit cfg \<equiv> cf_LOGIN_ATTEMPTS_MAX cfg"

abbreviation lockout_interval :: "config \<Rightarrow> int" where
  "lockout_interval cfg \<equiv> cf_LOGIN_LOCKOUT_INTERVAL cfg"

definition attempt_key :: "config \<Rightarrow> pyval \<Rightarrow> int \<Rightarrow> string" where
  "attempt_key cfg username t = rate_key ''login.attempt'' username (rate_slot (lockout_interval cfg) t)"

text \<open>
  \<open>guesses cfg R view username w0 n w\<close>: from \<open>w0\<close> the world \<open>w\<close> is reached with \<open>n\<close> attempts to log
  in as \<open>username\<close> that did not succeed, by any clients, passwords, methods and one-time passwords,
  all of them in one slot of the limiter and before its counter can expire. In between, time passes
  and everything but the counter changes as it likes.
\<close>

inductive guesses ::
    "config \<Rightarrow> 'r redisops \<Rightarrow> (int \<Rightarrow> 'r \<Rightarrow> string \<Rightarrow> string option) \<Rightarrow> pyval \<Rightarrow> ('d, 'r, 'c) world \<Rightarrow> nat \<Rightarrow>
     ('d, 'r, 'c) world \<Rightarrow> bool"
  for cfg :: config and R :: "'r redisops" and view :: "int \<Rightarrow> 'r \<Rightarrow> string \<Rightarrow> string option" and username :: pyval
    and w0 :: "('d, 'r, 'c) world" where
  start: "guesses cfg R view username w0 0 w0"
| other: "guesses cfg R view username w0 n w \<Longrightarrow> w_now w \<le> w_now w' \<Longrightarrow>
     (\<And>t. w_now w' \<le> t \<Longrightarrow> view t (w_redis w') (attempt_key cfg username (w_now w0)) =
        view t (w_redis w) (attempt_key cfg username (w_now w0))) \<Longrightarrow>
     guesses cfg R view username w0 n w'"
| attempt: "guesses cfg R view username w0 n w \<Longrightarrow> e_redis E = R \<Longrightarrow> e_cfg E = cfg \<Longrightarrow>
     w_now w < w_now w0 + (lockout_interval cfg - 1) * 1000000 \<Longrightarrow>
     rate_slot (lockout_interval cfg) (w_now w) = rate_slot (lockout_interval cfg) (w_now w0) \<Longrightarrow>
     fst (access_control E None w) = Inr acc \<Longrightarrow>
     account_login E roles_from dir oa username password meth otp nonce w = (r, w') \<Longrightarrow> \<not> login_succeeded r \<Longrightarrow>
     guesses cfg R view username w0 (Suc n) w'"

lemma access_control_same: "access_control E m w = (r, w') \<Longrightarrow> w' = w"
  using keepsD [OF keeps_access_control [where v = "\<lambda>x. x"]] by metis

text \<open>What follows the limiter.\<close>

definition login_checks ::
    "('d, 'r, 'c) env \<Rightarrow> string option \<Rightarrow> directory \<Rightarrow> oauth \<Rightarrow> access \<Rightarrow> pyval \<Rightarrow> pyval \<Rightarrow> pyval \<Rightarrow> pyval \<Rightarrow> pyval \<Rightarrow>
     (('d, 'r, 'c) world, login_result) py" where
  "login_checks E roles_from dir oa acc username password meth otp nonce =
     (if pending_second acc otp then
       bnd (login_pending E roles_from acc username otp) (\<lambda>r. finish_login E username (r, meth))
     else if meth \<in> PStr ` set (cf_AUTH_PARAMS (e_cfg E)) then
       bnd (of_result (oauth2_login E oa (text_or_empty meth) nonce)) (\<lambda>(content, status).
       finish_login E username ((PDict content, status, PList []), meth))
     else if \<not> truthy meth \<or> meth \<in> PStr ` set (cf_AUTH_METHODS (e_cfg E)) then
       bnd (login_methods E roles_from dir username password meth) (finish_login E username)
     else ret (LAbort (msg_resp ''unsupported login method'' 500)))"

lemma account_login_run:
  assumes "fst (access_control E None w) = Inr acc"
  shows "account_login E roles_from dir oa username password meth otp nonce w =
    (case rate_call E (rate_limit_init E True (Some (lockout_interval (e_cfg E)))) (PInt (attempt_limit (e_cfg E))) ''login.attempt'' username w of
       (Inl e, w') \<Rightarrow> (Inl e, w')
     | (Inr locked, w') \<Rightarrow>
         if locked then (Inr (LAbort ([(''username'', username), (''message'', PStr ''locked out'')], 403)), w'\<lparr>w_now := w_now w' + 5000000\<rparr>)
         else login_checks E roles_from dir oa acc username password meth otp nonce w')"
proof -
  have "access_control E None w = (Inr acc, w)" using assms access_control_same [of E None w] by (cases "access_control E None w") auto
  then show ?thesis
    by (auto simp: account_login_def login_checks_def py_simps sleep_secs_def split: prod.splits sum.splits)
qed

context redis_keys
begin

lemma leaves_try_methods [keeps_intros]:
  "e_redis E = R \<Longrightarrow> leaves (rate_key s u i) (try_methods E dir username password items st)"
proof (induction items arbitrary: st)
  case (Cons item items)
  then show ?case by (cases st) (auto intro!: keeps_intros)
qed (auto intro!: keeps_intros)

lemma leaves_login_methods [keeps_intros]:
  "e_redis E = R \<Longrightarrow> leaves (rate_key s u i) (login_methods E roles_from dir username password meth)"
  unfolding login_methods_def by (auto intro!: keeps_intros)

lemma unless_finish [unless_intros]:
  assumes "e_redis E = R"
  shows "unless login_succeeded (key_view view (rate_key s u i)) (finish_login E username x)"
proof -
  obtain content status headers meth where x: "x = ((content, status, headers), meth)" by (cases x) auto
  show ?thesis
  proof (cases "status \<in> {200, 201}")
    case True
    have s: "login_succeeded (fst (finish_login E username x w))" for w
      using True assms by (auto simp: x finish_login_def rate_reset_def py_simps delete_result)
    show ?thesis unfolding unless_def
    proof (intro allI impI disjI1)
      fix w r w' assume "finish_login E username x w = (r, w')"
      then show "login_succeeded r" using s [of w] by simp
    qed
  next
    case False
    then have "leaves (rate_key s u i) (finish_login E username x)"
      using assms by (auto simp: x finish_login_def intro!: keeps_intros)
    then show ?thesis by (rule unless_keeps)
  qed
qed

lemma unless_login_checks:
  "e_redis E = R \<Longrightarrow> unless login_succeeded (key_view view (rate_key s u i))
     (login_checks E roles_from dir oa acc username password meth otp nonce)"
  unfolding login_checks_def
  by (intro unless_if unless_bnd unless_case_prod unless_finish unless_ret leaves_login_pending leaves_login_methods keeps_of_result)

end

section \<open>The counter counts the guesses\<close>

context redis_keys
begin

lemma rate_call_refused:
  assumes "e_redis E = R" and "rl_enable rl" and "0 < L" and "truthy uid"
    and "view (w_now w) (w_redis w) (rate_key service uid (rate_slot (rl_interval rl) (w_now w))) = Some (show_int c)" and "L \<le> c"
  shows "rate_call E rl (PInt L) service uid w = (Inr True, w)"
proof -
  have "0 \<le> c" using assms by simp
  then have "below_limit (PInt L) (Some (show_int c)) = Inr False"
    using assms by (simp add: below_limit_def show_int_nonempty py_int_show_int)
  then show ?thesis using assms by (simp add: rate_call_def py_simps Let_def get_view)
qed

lemma counted_later: "counted key now d c s \<Longrightarrow> now \<le> now' \<Longrightarrow> (\<And>t. now' \<le> t \<Longrightarrow> view t s' key = view t s key) \<Longrightarrow> counted key now' d c s'"
  by (simp add: counted_def)

lemma attempt_counted:
  assumes R: "e_redis E = R" "e_cfg E = cfg" and cfg: "1 < lockout_interval cfg" "0 < attempt_limit cfg" and u: "truthy username"
    and t: "w_now w < d" "d \<le> w_now w + (lockout_interval cfg - 1) * 1000000"
    and k: "key = attempt_key cfg username (w_now w)" and c: "counted key (w_now w) d c (w_redis w)" "0 \<le> c"
    and acc: "fst (access_control E None w) = Inr acc"
    and run: "account_login E roles_from dir oa username password meth otp nonce w = (r, w')" and r: "\<not> login_succeeded r"
  shows "w_now w \<le> w_now w' \<and> counted key (w_now w') d (if c < attempt_limit cfg then c + 1 else c) (w_redis w')"
proof -
  let ?rl = "rate_limit_init E True (Some (lockout_interval cfg))"
  have rl: "rl_enable ?rl" "rl_interval ?rl = lockout_interval cfg" using cfg by (simp_all add: rate_limit_init_def)
  obtain w1 where w1: "rate_call E ?rl (PInt (attempt_limit cfg)) ''login.attempt'' username w = (Inr (attempt_limit cfg \<le> c), w1)"
    "w_now w1 = w_now w" "counted key (w_now w) d (if c < attempt_limit cfg then c + 1 else c) (w_redis w1)"
    using rate_call_counted [OF R(1) rl(1) _ cfg(2) u, of w d "''login.attempt''" c] rl(2) cfg(1) t c k by (auto simp: attempt_key_def)
  show ?thesis
  proof (cases "attempt_limit cfg \<le> c")
    case True
    then have "w' = w1\<lparr>w_now := w_now w1 + 5000000\<rparr>"
      using run w1(1) R(2) by (simp add: account_login_run [OF acc])
    then show ?thesis using w1 counted_later by simp
  next
    case False
    then have "login_checks E roles_from dir oa acc username password meth otp nonce w1 = (r, w')"
      using run w1(1) R(2) by (simp add: account_login_run [OF acc])
    from unlessD [OF unless_login_checks [OF R(1)] this r] have v: "key_view view key w' = key_view view key w1"
      by (simp add: k attempt_key_def)
    then have "w_now w' = w_now w1" by (rule key_viewD)
    then show ?thesis using w1 counted_later [OF w1(3)] key_viewD(2) [OF v] by simp
  qed
qed

lemma guesses_counted:
  assumes "guesses cfg R view username w0 n w" and "1 < lockout_interval cfg" and "0 < attempt_limit cfg" and "truthy username"
    and "view (w_now w0) (w_redis w0) (attempt_key cfg username (w_now w0)) = None"
  shows "w_now w0 \<le> w_now w \<and> counted (attempt_key cfg username (w_now w0)) (w_now w)
    (w_now w0 + (lockout_interval cfg - 1) * 1000000) (min (int n) (attempt_limit cfg)) (w_redis w)"
  using assms(1)
proof induction
  case start
  then show ?case using assms(3,5) expiry by (auto simp: counted_def)
next
  case (other n w w')
  then show ?case using counted_later by auto
next
  case (attempt n w E acc roles_from dir oa password meth otp nonce r w')
  let ?key = "attempt_key cfg username (w_now w0)" and ?d = "w_now w0 + (lockout_interval cfg - 1) * 1000000"
  have now: "w_now w0 \<le> w_now w" using attempt.IH by simp
  have k: "?key = attempt_key cfg username (w_now w)" using attempt.hyps by (simp add: attempt_key_def)
  have "?d \<le> w_now w + (lockout_interval cfg - 1) * 1000000" using now by simp
  from attempt_counted [OF attempt.hyps(2,3) assms(2-4) attempt.hyps(4) this k _ _ attempt.hyps(6,7,8), of "min (int n) (attempt_limit cfg)"]
  have "w_now w \<le> w_now w' \<and> counted ?key (w_now w') ?d
      (if min (int n) (attempt_limit cfg) < attempt_limit cfg then min (int n) (attempt_limit cfg) + 1 else min (int n) (attempt_limit cfg)) (w_redis w')"
    using attempt.IH assms(3) by simp
  moreover have "(if min (int n) (attempt_limit cfg) < attempt_limit cfg then min (int n) (attempt_limit cfg) + 1
      else min (int n) (attempt_limit cfg)) = min (int (Suc n)) (attempt_limit cfg)" by simp
  ultimately show ?case using now by simp
qed

lemma guesses_locked_out:
  assumes "1 < lockout_interval cfg" and "0 < attempt_limit cfg" and "truthy username"
    and "view (w_now w0) (w_redis w0) (attempt_key cfg username (w_now w0)) = None"
    and "guesses cfg R view username w0 n w" and "attempt_limit cfg \<le> int n"
    and "e_redis E = R" and "e_cfg E = cfg" and "w_now w < w_now w0 + (lockout_interval cfg - 1) * 1000000"
    and "rate_slot (lockout_interval cfg) (w_now w) = rate_slot (lockout_interval cfg) (w_now w0)"
    and "fst (access_control E None w) = Inr acc"
  shows "account_login E roles_from dir oa username password meth otp nonce w =
    (Inr (LAbort ([(''username'', username), (''message'', PStr ''locked out'')], 403)), w\<lparr>w_now := w_now w + 5000000\<rparr>)"
proof -
  let ?rl = "rate_limit_init E True (Some (lockout_interval cfg))"
  have rl: "rl_enable ?rl" "rl_interval ?rl = lockout_interval cfg" using assms(1) by (simp_all add: rate_limit_init_def)
  have "min (int n) (attempt_limit cfg) = attempt_limit cfg" using assms(6) by simp
  then have "view (w_now w) (w_redis w) (attempt_key cfg username (w_now w)) = Some (show_int (attempt_limit cfg))"
    using guesses_counted [OF assms(5,1-4)] assms(2,9,10) by (simp add: counted_def attempt_key_def)
  then have "rate_call E ?rl (PInt (attempt_limit cfg)) ''login.attempt'' username w = (Inr True, w)"
    using rate_call_refused [OF assms(7) rl(1) assms(2,3)] rl(2) by (simp add: attempt_key_def)
  then show ?thesis using assms(8) by (simp add: account_login_run [OF assms(11)])
qed

end


interpretation memory_keys: redis_keys mem_redis mr_view
  by unfold_locales
    (auto simp: mem_redis_def mr_incrby_def mr_view_update split: option.splits)

text \<open>Two wrong passwords, and the right one.\<close>

definition guess_config :: config where
  "guess_config = mem_config\<lparr>cf_LOGIN_ATTEMPTS_MAX := 2, cf_METRICS := [(''logins_fail_total'',
     \<lparr>mt_notify = 0, mt_period = '''', mt_scope = ''service'', mt_style = ''counter''\<rparr>)]\<rparr>"

definition guess_env :: "(mdb, mredis, mcache) env" where
  "guess_env = mem_env\<lparr>e_cfg := guess_config\<rparr>"

definition guess_world :: "(mdb, mredis, mcache) world" where
  "guess_world = mem_world [(''Account'', [[(''id'', PStr ''a-1''), (''name'', PStr ''ann''), (''uid'', PStr ''u-1''),
     (''status'', PStr ''active''), (''password'', PStr ''#correct'')]])]"

definition no_directory :: directory where
  "no_directory = \<lparr>dir_bind = (\<lambda>n p. Inr False), dir_search = (\<lambda>b f. None)\<rparr>"

definition no_oauth :: oauth where
  "no_oauth = \<lparr>oa_client = (\<lambda>m. Inr False), oa_redirect = (\<lambda>m u n. (500, [])), oa_token = (\<lambda>m c. Inl (Exc ERuntimeError []))\<rparr>"

definition guess :: "string \<Rightarrow> (mdb, mredis, mcache) world \<Rightarrow> (exc + login_result) \<times> (mdb, mredis, mcache) world" where
  "guess password = account_login guess_env None no_directory no_oauth (PStr ''ann'') (PStr password) PNone PNone PNone"

lemma guess_access: "fst (access_control guess_env None w) = Inr
    \<lparr>ac_model = None, ac_auth = None, ac_uid = PNone, ac_account_id = PNone, ac_method = PNone, ac_identity = PNone,
     ac_apikey_id = None, ac_primary = ''list'', ac_auth_ids = []\<rparr>"
  by (simp add: access_control_def credentials_def guess_env_def mem_env_def mem_request_def guess_config_def mem_config_def
      py_simps parse_id_def Let_def List.map_filter_def)

definition guess_account :: dict where
  "guess_account = hd (table_of (md_current (w_db guess_world)) ''Account'')"

lemma guess_db:
  "db_all mem_db (filter_by [(''name'', PStr ''ann''), (''status'', PStr ''active'')] (query_of ''Account'')) (w_db guess_world) = Inr [guess_account]"
  "dget guess_account ''password'' = PStr ''#correct''"
  "db_commit mem_db (w_db guess_world) = (Inr (), w_db guess_world)"
  by code_simp+

abbreviation guess_invalid :: dict where
  "guess_invalid \<equiv> [(''username'', PStr ''ann''), (''message'', PStr ''not valid'')]"

lemma guess_login:
  assumes "w_db w = w_db guess_world" and "password \<noteq> ''correct''"
  shows "local_login guess_env (PStr ''ann'') (PStr password) w = (Inr ((guess_invalid, 403), None), w)"
proof -
  have "password \<noteq> [] \<Longrightarrow> \<not> cr_pw_verify mem_crypt password ''#correct''" using assms(2) by (simp add: mem_crypt_def)
  then show ?thesis using assms guess_db
    by (auto simp: local_login_def local_account_def py_simps check_password_def Let_def password_ok_def guess_env_def)
qed

abbreviation guess_metric :: string where
  "guess_metric \<equiv> metric_key ''logins_fail_total'' [''method=None'']"

lemma guess_stored:
  "count_of (mr_view (w_now w) (w_redis w) guess_metric) = Some n \<Longrightarrow>
    metrics_store guess_env PNone ''logins_fail_total'' [''method='' @ py_str PNone] PNone w =
    (Inr True, w\<lparr>w_redis := snd (mr_incrby guess_metric 1 (w_now w) (w_redis w))\<rparr>)"
  using memory_counters.incrby_result [of "w_now w" "w_redis w" guess_metric n 1]
  by (simp add: metrics_store_def guess_env_def guess_config_def Let_def py_simps metric_labels_def mem_redis_def)

lemma guess_checked:
  assumes "w_db w = w_db guess_world" and "password \<noteq> ''correct''" and "count_of (mr_view (w_now w) (w_redis w) guess_metric) = Some n"
    and "roles_of acc = []"
  shows "login_checks guess_env None no_directory no_oauth acc (PStr ''ann'') (PStr password) PNone PNone PNone w =
    (Inr (LAnswer (PDict guess_invalid) 403 (PList [])), w\<lparr>w_redis := snd (mr_incrby guess_metric 1 (w_now w) (w_redis w))\<rparr>)"
proof -
  have "e_cfg guess_env = guess_config" "cf_AUTH_METHODS guess_config = [''local'']" "cf_AUTH_PARAMS guess_config = [''azure'', ''google'']"
    by (simp_all add: guess_env_def guess_config_def mem_config_def)
  then show ?thesis using guess_login [OF assms(1,2)] guess_stored [OF assms(3)] assms(4)
    by (auto simp: login_checks_def pending_second_def login_methods_def login_items_def py_simps denied_content_def finish_login_def)
qed

definition guess_redis :: "string \<Rightarrow> mredis" where
  "guess_redis n = [(''rate:login.attempt:ann:0'', n, Some 1640996999000000), (''mtr:logins_fail_total:method=None'', n, None)]"

lemma guess_keys:
  "rate_key ''login.attempt'' (PStr ''ann'') (rate_slot 1800 1640995200000000) = ''rate:login.attempt:ann:0''"
  "rate_slot 1800 1640995200000000 = 0" "guess_metric = ''mtr:logins_fail_total:method=None''"
  by code_simp+

lemma guess_limiter:
  assumes "w_now w = 1640995200000000" and "fst (mr_pipe [RIncr ''rate:login.attempt:ann:0'', RExpire ''rate:login.attempt:ann:0'' 1799,
      RDelete ''rate:login.attempt:ann:1''] (w_now w) (w_redis w)) = Inr ()"
    and "below_limit (PInt 2) (mr_view (w_now w) (w_redis w) ''rate:login.attempt:ann:0'') = Inr True"
  shows "rate_call guess_env (rate_limit_init guess_env True (Some 1800)) (PInt 2) ''login.attempt'' (PStr ''ann'') w =
    (Inr False, w\<lparr>w_redis := snd (mr_pipe [RIncr ''rate:login.attempt:ann:0'', RExpire ''rate:login.attempt:ann:0'' 1799,
      RDelete ''rate:login.attempt:ann:1''] (w_now w) (w_redis w))\<rparr>)"
proof -
  have "rate_key ''login.attempt'' (PStr ''ann'') 1 = ''rate:login.attempt:ann:1''" "rate_key ''login.attempt'' (PStr ''ann'') 0 = ''rate:login.attempt:ann:0''"
    by code_simp+
  then show ?thesis using assms guess_keys
    by (simp add: rate_call_def rate_limit_init_def guess_env_def mem_redis_def Let_def py_simps)
qed

text \<open>One more attempt, from redis states that are known.\<close>

lemma guess_run:
  assumes "password \<noteq> ''correct''"
    and "mr_pipe [RIncr ''rate:login.attempt:ann:0'', RExpire ''rate:login.attempt:ann:0'' 1799, RDelete ''rate:login.attempt:ann:1'']
      1640995200000000 s = (Inr (), s1)"
    and "below_limit (PInt 2) (mr_view 1640995200000000 s ''rate:login.attempt:ann:0'') = Inr True"
    and "count_of (mr_view 1640995200000000 s1 ''mtr:logins_fail_total:method=None'') = Some n"
    and "snd (mr_incrby ''mtr:logins_fail_total:method=None'' 1 1640995200000000 s1) = s2"
  shows "guess password (guess_world\<lparr>w_redis := s\<rparr>) = (Inr (LAnswer (PDict guess_invalid) 403 (PList [])), guess_world\<lparr>w_redis := s2\<rparr>)"
proof -
  let ?w = "guess_world\<lparr>w_redis := s\<rparr>"
  have w: "w_now ?w = 1640995200000000" "w_redis ?w = s" by (simp_all add: guess_world_def mem_world_def)
  have cfg: "e_cfg guess_env = guess_config" "lockout_interval guess_config = 1800" "attempt_limit guess_config = 2"
    by (simp_all add: guess_env_def guess_config_def mem_config_def)
  show ?thesis unfolding guess_def account_login_run [OF guess_access] cfg
    using guess_limiter [of ?w] guess_checked [of "?w\<lparr>w_redis := s1\<rparr>" password n] assms w guess_keys
    by (simp add: roles_of_def)
qed

lemma guess_runs:
  "guess ''first'' guess_world = (Inr (LAnswer (PDict guess_invalid) 403 (PList [])), guess_world\<lparr>w_redis := guess_redis ''1''\<rparr>)"
  "guess ''second'' (guess_world\<lparr>w_redis := guess_redis ''1''\<rparr>) =
     (Inr (LAnswer (PDict guess_invalid) 403 (PList [])), guess_world\<lparr>w_redis := guess_redis ''2''\<rparr>)"
proof -
  have "guess ''first'' (guess_world\<lparr>w_redis := []\<rparr>) = (Inr (LAnswer (PDict guess_invalid) 403 (PList [])), guess_world\<lparr>w_redis := guess_redis ''1''\<rparr>)"
    by (rule guess_run [where n = 0 and ?s1.0 = "[(''rate:login.attempt:ann:0'', ''1'', Some 1640996999000000)]"]) (simp, code_simp+)
  moreover have "guess_world\<lparr>w_redis := []\<rparr> = guess_world" by (simp add: guess_world_def mem_world_def)
  ultimately show "guess ''first'' guess_world = (Inr (LAnswer (PDict guess_invalid) 403 (PList [])), guess_world\<lparr>w_redis := guess_redis ''1''\<rparr>)"
    by simp
  show "guess ''second'' (guess_world\<lparr>w_redis := guess_redis ''1''\<rparr>) =
     (Inr (LAnswer (PDict guess_invalid) 403 (PList [])), guess_world\<lparr>w_redis := guess_redis ''2''\<rparr>)"
    by (rule guess_run [where n = 1 and ?s1.0 = "[(''rate:login.attempt:ann:0'', ''2'', Some 1640996999000000),
        (''mtr:logins_fail_total:method=None'', ''1'', None)]"]) (simp, code_simp+)
qed


end
