(* ===== verification/Login_Results.thy ===== *)
theory Login_Results imports Auth_Results Lockout begin

text \<open>
  What the credentials give: full sessions only after the second factor, roles of memberships up to
  their level, tokens of Basic authentication while their session lasts; and where a credential gives
  more than it should.
\<close>

section \<open>Numbers as text\<close>

text \<open>Numbers with the same count of digits are ordered as their text is.\<close>

lemma less_append_same: "length xs = length ys \<Longrightarrow> xs < ys \<Longrightarrow> xs @ a < ys @ (b :: string)"
  by (induction xs ys rule: list_induct2) auto

lemma less_append_prefix: "a < b \<Longrightarrow> xs @ a < xs @ (b :: string)"
  by (induction xs) auto

lemma digit_chr_less: "a < b \<Longrightarrow> b < 10 \<Longrightarrow> digit_chr a < digit_chr b"
  by (simp add: digit_chr_def less_char_def)

lemma show_nat_length: "10 ^ k \<le> n \<Longrightarrow> n < 10 ^ Suc k \<Longrightarrow> length (show_nat n) = Suc k"
proof (induction k arbitrary: n)
  case 0
  then show ?case by (subst show_nat.simps) simp
next
  case (Suc k)
  have "1 \<le> (10 :: nat) ^ k" by simp
  then have "\<not> n < 10" using Suc.prems(1) unfolding power_Suc by linarith
  moreover have "length (show_nat (n div 10)) = Suc k" using Suc.prems by (intro Suc.IH) (auto simp: div_less_iff_less_mult less_eq_div_iff_mult_less_eq)
  ultimately show ?case by (subst show_nat.simps) simp
qed

lemma show_nat_less: "10 ^ k \<le> m \<Longrightarrow> m < n \<Longrightarrow> n < 10 ^ Suc k \<Longrightarrow> show_nat m < show_nat n"
proof (induction k arbitrary: m n)
  case 0
  then have "show_nat m = [digit_chr m]" "show_nat n = [digit_chr n]" by (simp_all add: show_nat.simps [of m] show_nat.simps [of n])
  then show ?case using 0 digit_chr_less by simp
next
  case (Suc k)
  have "1 \<le> (10 :: nat) ^ k" by simp
  then have big: "\<not> m < 10" "\<not> n < 10" using Suc.prems(1,2) unfolding power_Suc by linarith+
  have r: "10 ^ k \<le> m div 10" "n div 10 < 10 ^ Suc k"
    using Suc.prems by (auto simp: div_less_iff_less_mult less_eq_div_iff_mult_less_eq)
  have mn: "m div 10 \<le> n div 10" using Suc.prems(2) by (intro div_le_mono) simp
  show ?case
  proof (cases "m div 10 = n div 10")
    case True
    then have "m mod 10 < n mod 10"
      using Suc.prems(2) div_mult_mod_eq [of m 10] div_mult_mod_eq [of n 10] by linarith
    then have "digit_chr (m mod 10) < digit_chr (n mod 10)" by (rule digit_chr_less) simp
    then show ?thesis using big True less_append_prefix by (subst (1 2) show_nat.simps) simp
  next
    case False
    then have "show_nat (m div 10) < show_nat (n div 10)" using mn r by (intro Suc.IH) simp_all
    moreover have "length (show_nat (m div 10)) = length (show_nat (n div 10))"
      using r mn show_nat_length [of k] by simp
    ultimately show ?thesis using big less_append_same by (subst (1 2) show_nat.simps) simp
  qed
qed

text \<open>From September 2001 to the year 2286, the seconds of the epoch have ten digits.\<close>

lemma epoch_secs_mono:
  assumes "1000000000000000 \<le> a" and "a \<le> b" and "b < 10000000000000000"
  shows "\<not> epoch_secs b < epoch_secs a"
proof (cases "a div 1000000 = b div 1000000")
  case True
  then show ?thesis by (simp add: epoch_secs_def)
next
  case False
  have "a div 1000000 \<le> b div 1000000" by (rule zdiv_mono1) (use assms in simp_all)
  then have "nat (a div 1000000) < nat (b div 1000000)" using False assms by simp
  moreover have "10 ^ 9 \<le> nat (a div 1000000)" "nat (b div 1000000) < 10 ^ Suc 9" using assms by (simp_all add: nat_less_iff le_nat_iff)
  ultimately have "show_nat (nat (a div 1000000)) < show_nat (nat (b div 1000000))" by (intro show_nat_less)
  moreover have "0 \<le> a div 1000000" "0 \<le> b div 1000000" using assms by simp_all
  ultimately show ?thesis by (simp add: epoch_secs_def show_int_def)
qed

section \<open>Basic authentication\<close>

context session_env
begin

lemma basic_window:
  assumes v: "view (w_now w) (w_redis w) (ses_key None (PStr username) token) = None"
    and kw: "\<forall>e \<in> set kw. json_ok (snd e)" "{''jti'', ''sub'', ''exp''} \<inter> fst ` set kw = {}"
    and c: "session_create E (PStr username) roles None (Some token) (Some ttl) kw w = (r, w1)"
    and l: "w_redis w2 = w_redis w1" "w_now w1 \<le> w_now w2" and t: "last_n 3 token' = last_n 3 token"
    and time: "1000000000000000 \<le> w_now w2" "w_now w + ttl * 1000000 < 10000000000000000"
  shows "basic E username token' w2 =
    (Inr (if token' = token \<and> w_now w2 < w_now w + ttl * 1000000 then Some [(''uid'', PStr username)] else None), w2)"
proof -
  have "storable (session_content E (PStr username) roles token ttl kw (w_now w))" by (rule storable_content) (use kw in simp_all)
  then have g: "session_get E (PStr username) token' None w2 =
    (Inr (if token' = token \<and> w_now w2 < w_now w + ttl * 1000000
          then Some (session_content E (PStr username) roles token ttl kw (w_now w)) else None), w2)"
    using session_window [OF v _ _ c l t] kw(2) by simp
  have claims: "map_of (session_content E (PStr username) roles token ttl kw (w_now w)) ''jti'' = Some (PStr token)"
    "map_of (session_content E (PStr username) roles token ttl kw (w_now w)) ''sub'' = Some (PStr username)"
    "map_of (session_content E (PStr username) roles token ttl kw (w_now w)) ''exp'' = Some (PStr (epoch_secs (w_now w + ttl * 1000000)))"
    using kw(2) by (simp_all add: content_claims)
  show ?thesis
  proof (cases "token' = token \<and> w_now w2 < w_now w + ttl * 1000000")
    case True
    then have "\<not> epoch_secs (w_now w + ttl * 1000000) < epoch_secs (w_now w2)" using time by (intro epoch_secs_mono) simp_all
    then show ?thesis using True claims g
      by (simp add: basic_def py_simps token_state_def dget_def dhas_def dsub_def)
  next
    case False
    with g have "session_get E (PStr username) token' None w2 = (Inr None, w2)" by (simp only: if_False)
    then show ?thesis using False by (auto simp: basic_def py_simps token_state_def)
  qed
qed

end

text \<open>C31: Basic authentication accepts a session token exactly while the session lasts: composed with the
  session manager, basic answers with the uid for the token that opened the session and before the
  time to live is over (the string comparison of epoch seconds agrees with time up to the year 2286),
  and with None for any other token of the same redis key and any later time.\<close>

lemma basic_while_session_lasts:
  assumes "session_env E view" and "view (w_now w) (w_redis w) (ses_key None (PStr username) token) = None"
    and "\<forall>e \<in> set kw. json_ok (snd e)" and "{''jti'', ''sub'', ''exp''} \<inter> fst ` set kw = {}"
    and "session_create E (PStr username) roles None (Some token) (Some ttl) kw w = (r, w1)"
    and "w_redis w2 = w_redis w1" and "w_now w1 \<le> w_now w2" and "last_n 3 token' = last_n 3 token"
    and "1000000000000000 \<le> w_now w2" and "w_now w + ttl * 1000000 < 10000000000000000"
  shows "basic E username token' w2 =
    (Inr (if token' = token \<and> w_now w2 < w_now w + ttl * 1000000 then Some [(''uid'', PStr username)] else None), w2)"
  using session_env.basic_window [OF assms] .

lemma basic_while_session_lasts_witness:
  "basic mem_env ''u-1'' ''abcdef'' (logged_in []) = (Inr (Some [(''uid'', PStr ''u-1'')]), logged_in []) \<and>
   basic mem_env ''u-1'' ''xyzdef'' (logged_in []) = (Inr None, logged_in []) \<and>
   basic mem_env ''u-1'' ''abcdef'' ((logged_in [])\<lparr>w_now := 1640998800000000\<rparr>) = (Inr None, (logged_in [])\<lparr>w_now := 1640998800000000\<rparr>)"
proof -
  let ?c = "session_create mem_env (PStr ''u-1'') [''user''] None (Some ''abcdef'') (Some 3600) [(''acc'', PStr ''a-1'')] (mem_world [])"
  have c: "?c = (fst ?c, logged_in [])" by (simp add: logged_in_def logged_in_as_def)
  have v: "mr_view (w_now (mem_world [])) (w_redis (mem_world [])) k = None" for k by (simp add: mem_world_def mr_view_def)
  note basic = basic_while_session_lasts [OF memory_sessions.session_env_axioms v _ _ c]
  show ?thesis
    using basic [of "logged_in []" "''abcdef''"] basic [of "logged_in []" "''xyzdef''"]
      basic [of "(logged_in [])\<lparr>w_now := 1640998800000000\<rparr>" "''abcdef''"]
    by (simp add: logged_in_world mem_world_def last_n_def)
qed

section \<open>The roles of a session\<close>

lemma roles_upto_dash: "r \<in> set (roles_upto p a ls) \<Longrightarrow> CHR ''-'' \<in> set r"
  by (induction ls) (auto split: if_splits)

lemma get_roles_dash: "yields (\<lambda>rs. \<forall>r \<in> set rs. CHR ''-'' \<in> set r) (get_roles E uid m res ident)"
  unfolding get_roles_def Let_def
  by (auto intro!: yields_intros simp: membership_roles_def dest: roles_upto_dash split: if_splits)


lemma explicit_method_denied:
  assumes "fst (access_control E None w) = Inr acc" and "\<not> pending_second acc otp"
    and "m \<noteq> []" and "m \<notin> set (cf_AUTH_PARAMS (e_cfg E))"
    and "account_login E roles_from dir oa username password (PStr m) otp nonce w = (r, w')"
  shows "\<not> login_succeeded r"
proof -
  have f: "\<not> login_succeeded (fst (finish_login E username ((denied_content, 403, h), meth) w))" for h meth w
    by (auto simp: finish_login_def py_simps split: sum.splits prod.splits)
  have "try_methods E dir username password (map (\<lambda>c. [c]) m) (denied_content, 403, None, PStr m) = ret (denied_content, 403, None, PStr m)"
    by (rule try_methods_chars) auto
  then have "\<not> login_succeeded (fst (login_checks E roles_from dir oa acc username password (PStr m) otp nonce w1))" for w1
    using assms(2-4) f by (auto simp: login_checks_def login_methods_def login_items_def py_simps)
  then show ?thesis using assms(5) unfolding account_login_run [OF assms(1)]
    by (auto split: sum.splits prod.splits if_splits) (metis fst_conv)
qed

lemma explicit_method_denied_witness:
  "fst (local_login guess_env (PStr ''ann'') (PStr ''correct'') guess_world) = Inr (([], 200), Some guess_account) \<and>
   ''local'' \<in> set (cf_AUTH_METHODS (e_cfg guess_env)) \<and>
   \<not> login_succeeded (fst (account_login guess_env None no_directory no_oauth (PStr ''ann'') (PStr ''correct'') (PStr ''local'') PNone PNone guess_world))"
proof -
  have c: "e_cfg guess_env = guess_config" "cf_AUTH_METHODS guess_config = [''local'']" "cf_AUTH_PARAMS guess_config = [''azure'', ''google'']"
    by (simp_all add: guess_env_def guess_config_def mem_config_def)
  have "local_login guess_env (PStr ''ann'') (PStr ''correct'') guess_world = (Inr (([], 200), Some guess_account), guess_world)"
    using guess_db by (simp add: local_login_def local_account_def py_simps check_password_def Let_def password_ok_def guess_env_def mem_crypt_def)
  moreover obtain r w' where l: "account_login guess_env None no_directory no_oauth (PStr ''ann'') (PStr ''correct'') (PStr ''local'') PNone PNone guess_world = (r, w')"
    by fastforce
  moreover have "\<not> login_succeeded r"
    using explicit_method_denied [OF guess_access _ _ _ l] by (simp add: pending_second_def roles_of_def c)
  ultimately show ?thesis by (simp add: c)
qed

text \<open>An administrator with a second factor, before and after it.\<close>

definition admin_tables :: "(string \<times> dict list) list" where
  "admin_tables = [(''Account'', [[(''id'', PStr ''a-1''), (''name'', PStr ''ann''), (''uid'', PStr ''u-1''), (''totp_secret'', PStr ''123456''),
     (''is_admin'', PBool True), (''password_must_change'', PBool False), (''owner'', PList [PDict [(''id'', PStr ''u-1''), (''identity'', PStr ''a@b.co'')]])]]),
    (''Contact'', [[(''id'', PStr ''x-1''), (''info'', PStr ''a@b.co''), (''type'', PStr ''email''), (''status'', PStr ''active'')]])]"

definition admin_account :: dict where
  "admin_account = hd (table_of admin_tables ''Account'')"

definition access_as :: "string list \<Rightarrow> access" where
  "access_as roles = (user_access None)\<lparr>ac_auth := Some roles\<rparr>"

lemma admin_logins:
  "fst (login_roles mem_env None (access_as []) admin_account (PStr ''local'') (mem_world admin_tables)) = Inr ([''pendingtotp''], 120)"
  "fst (login_roles mem_env None (access_as [''pendingtotp'']) admin_account (PStr ''local'') (mem_world admin_tables)) = Inr ([''admin'', ''user''], 86400)"
  by code_simp+


section \<open>Backup codes\<close>

text \<open>
  A backup code is accepted where its digest is among those that were stored, and its digest alone is
  cut out.
\<close>

lemma backup_code_spent:
  assumes "dget account ''backup_codes'' = PBytes b" and "aes_decrypt_bin (e_crypt E) (cf_DB_AES_SECRET (e_cfg E)) b = Inr (concat ds)"
    and "\<forall>d \<in> set ds. length d = 16" and "h = cr_md5 (e_crypt E) (utf8_encode otp)" and "length otp = 8"
    and "db_commit (e_db E) (db_set (e_db E) ''Account'' (dget account ''id'') ''backup_codes'' (PBytes (concat (remove1 h ds))) (w_db w)) = (Inr (), d)"
  shows "check_totp E account otp w = (Inr (h \<in> set ds), if h \<in> set ds then w\<lparr>w_db := d\<rparr> else w)"
  using assms snip_code_digests [OF assms(3), of h]
  by (simp add: check_totp_def MFA_BACKUP_CODELEN_def use_backup_code_def py_simps)

text \<open>
  What is left is written back without encryption, although it is read as encrypted: in the example,
  the second of two fresh codes is refused after the first one was used.
\<close>

definition backup_digest :: "string \<Rightarrow> string" where
  "backup_digest otp = cr_md5 mem_crypt (utf8_encode otp)"

definition backup_world :: "(mdb, mredis, mcache) world" where
  "backup_world = mem_world [(''Account'', [[(''id'', PStr ''a-1''), (''backup_codes'',
     PBytes (replicate 16 (CHR ''i'') @ rev (aes_pad (backup_digest ''aaaaaaaa'' @ backup_digest ''bbbbbbbb''))))]])]"

definition backup_account :: "(mdb, mredis, mcache) world \<Rightarrow> dict" where
  "backup_account w = hd (table_of (md_current (w_db w)) ''Account'')"

lemma backup_codes_lost:
  "fst (check_totp mem_env (backup_account backup_world) ''bbbbbbbb'' backup_world) = Inr True \<and>
   (let w = snd (check_totp mem_env (backup_account backup_world) ''aaaaaaaa'' backup_world)
    in fst (check_totp mem_env (backup_account backup_world) ''aaaaaaaa'' backup_world) = Inr True \<and>
       fst (check_totp mem_env (backup_account w) ''bbbbbbbb'' w) \<noteq> Inr True)"
  by code_simp

lemma backup_code_spent_witness:
  "check_totp mem_env (backup_account backup_world) ''bbbbbbbb'' backup_world = (Inr True, backup_world\<lparr>w_db :=
     snd (db_commit mem_db (db_set mem_db ''Account'' (PStr ''a-1'') ''backup_codes'' (PBytes (backup_digest ''aaaaaaaa'')) (w_db backup_world)))\<rparr>)"
proof -
  let ?ds = "[backup_digest ''aaaaaaaa'', backup_digest ''bbbbbbbb'']"
  have f: "dget (backup_account backup_world) ''backup_codes'' = PBytes (replicate 16 (CHR ''i'') @ rev (aes_pad (concat ?ds)))"
    "aes_decrypt_bin mem_crypt (cf_DB_AES_SECRET mem_config) (replicate 16 (CHR ''i'') @ rev (aes_pad (concat ?ds))) = Inr (concat ?ds)"
    "length (backup_digest ''aaaaaaaa'') = 16" "length (backup_digest ''bbbbbbbb'') = 16" "backup_digest ''aaaaaaaa'' \<noteq> backup_digest ''bbbbbbbb''"
    "dget (backup_account backup_world) ''id'' = PStr ''a-1''"
    by code_simp+
  have "remove1 (backup_digest ''bbbbbbbb'') ?ds = [backup_digest ''aaaaaaaa'']" using f(5) by simp
  moreover have "fst (db_commit mem_db d) = Inr ()" for d by (simp add: mem_db_def)
  then have "db_commit mem_db d = (Inr (), snd (db_commit mem_db d))" for d by (metis prod.collapse)
  ultimately show ?thesis
    using backup_code_spent [where E = mem_env and w = backup_world and otp = "''bbbbbbbb''" and ds = ?ds, OF f(1) _ _ refl] f
    by (simp add: backup_digest_def)
qed

section \<open>Roles of memberships\<close>

lemma roles_end_at_level:
  assumes "e_attrs E m resource" and "e_levels E = l # ls" and "distinct ls" and "i < length ls" and "dget row ''authorization'' = PStr (ls ! i)"
  shows "membership_roles E m resource row =
    map (\<lambda>l. resource @ ''-'' @ py_str (dget row (resource @ ''_id'')) @ ''-'' @ l) (take (Suc i) ls)"
  using assms by (simp add: membership_roles_def roles_upto_take)

lemma unknown_level_gets_all:
  assumes "e_attrs E m resource" and "e_levels E = l # ls" and "dget row ''authorization'' \<notin> PStr ` set ls"
  shows "membership_roles E m resource row =
    map (\<lambda>l. resource @ ''-'' @ py_str (dget row (resource @ ''_id'')) @ ''-'' @ l) ls"
  using assms by (simp add: membership_roles_def roles_upto_all)

definition level_env :: "(mdb, mredis, mcache) env" where
  "level_env = mem_env\<lparr>e_levels := [''public'', ''invitee'', ''member'', ''manager''], e_attrs := (\<lambda>m a. True)\<rparr>"

lemma roles_end_at_level_witness:
  "membership_roles level_env ''Listmember'' ''list'' [(''list_id'', PStr ''l-1''), (''authorization'', PStr ''member'')] =
     [''list-l-1-invitee'', ''list-l-1-member'']"
  using roles_end_at_level [of level_env "''Listmember''" "''list''" "''public''" "[''invitee'', ''member'', ''manager'']" 1
      "[(''list_id'', PStr ''l-1''), (''authorization'', PStr ''member'')]"]
  by (simp add: level_env_def dict_simps)

lemma unknown_level_gets_all_witness:
  "membership_roles level_env ''Listmember'' ''list'' [(''list_id'', PStr ''l-1''), (''authorization'', PStr ''public'')] =
     [''list-l-1-invitee'', ''list-l-1-member'', ''list-l-1-manager'']"
  using unknown_level_gets_all [of level_env "''Listmember''" "''list''" "''public''" "[''invitee'', ''member'', ''manager'']"
      "[(''list_id'', PStr ''l-1''), (''authorization'', PStr ''public'')]"]
  by (simp add: level_env_def dict_simps image_iff)

section \<open>Passwords\<close>

text \<open>A password is accepted exactly where it has characters of three of the four classes.\<close>

lemma password_needs_three_classes:
  "password_weak p \<longleftrightarrow> card {c \<in> {is_lower, is_upper, is_num, is_punct}. \<exists>x \<in> set p. c x} < 3"
proof -
  let ?cs = "[is_lower, is_upper, is_num, is_punct]"
  have "is_lower (CHR ''a'')" "is_upper (CHR ''A'')" "is_num (CHR ''0'')" "\<not> is_upper (CHR ''a'')" "\<not> is_num (CHR ''a'')" "\<not> is_punct (CHR ''a'')"
    "\<not> is_num (CHR ''A'')" "\<not> is_punct (CHR ''A'')" "\<not> is_punct (CHR ''0'')"
    by code_simp+
  then have d: "distinct ?cs" by auto
  have "{c \<in> {is_lower, is_upper, is_num, is_punct}. \<exists>x \<in> set p. c x} = set (filter (\<lambda>c. list_ex c p) ?cs)"
    by (auto simp: list_ex_iff)
  moreover have "distinct (filter (\<lambda>c. list_ex c p) ?cs)" using d by (rule distinct_filter)
  ultimately have "card {c \<in> {is_lower, is_upper, is_num, is_punct}. \<exists>x \<in> set p. c x} = length (filter (\<lambda>c. list_ex c p) ?cs)"
    by (metis distinct_card)
  then show ?thesis by (auto simp: password_weak_def)
qed

text \<open>C39: The reset token of change_password is not bound to the user: any token that confirms some
  contact sets a new password on the account of whatever uid the request names.\<close>

lemma reset_token_of_other_user:
  assumes "confirm E token True w = (Inr (d, 200), w1)" and "new \<noteq> []" and "\<not> password_weak new"
    and "db_all (e_db E) (filter_by [(''uid'', uid), (''status'', PStr ''active'')] (query_of ''Account'')) (w_db w) = Inr [account]"
    and "set_password E account new w1 = (Inr (), w2)"
  shows "change_password E uid (PStr new) token PNone (PStr new) w =
    (Inr ([(''id'', dget account ''id''), (''uid'', uid), (''username'', dget account ''name'')], 200), w2)"
  using assms by (simp add: change_password_def py_simps str_of_def old_or_token_def)

lemma reset_token_of_other_user_witness:
  "\<exists>d w1 w2. confirmation_request mem_env (PStr ''x-7'') None ''t'' (mem_world phone_tables) = (Inr (d, 200), w1) \<and>
     dget phone_contact ''uid'' = PStr ''u-1'' \<and>
     change_password mem_env (PStr ''u-2'') (PStr ''New-1'') (dget d ''token'') PNone (PStr ''New-1'') w1 =
       (Inr ([(''id'', PStr ''a-2''), (''uid'', PStr ''u-2''), (''username'', PStr ''bob'')], 200), w2)"
proof (rule phone_requested)
  fix d w1
  assume r: "confirmation_request mem_env (PStr ''x-7'') None ''t'' (mem_world phone_tables) = (Inr (d, 200), w1)"
    "w_db w1 = w_db (mem_world phone_tables)" "w_now w1 = 1640995200000000"
    "\<And>k t. 1640995200000000 \<le> t \<Longrightarrow> k \<noteq> ses_key None (PStr ''x-7'') ''1'' \<Longrightarrow> mr_view t (w_redis w1) k = None"
  have v: "mr_view t (w_redis (mem_world phone_tables)) k = None" for t k by (simp add: mem_world_def mr_view_def)
  have "\<exists>nonce. confirm mem_env (dget d ''token'') True w1 = confirm_contact mem_env ''x-7'' ''4155550100'' nonce True phone_contact w1"
    by (rule memory_sessions.requested_confirms [OF _ r(1)])
      (use r phone_facts v mem_tokens in \<open>simp_all add: mem_world_def mem_config_def\<close>)
  then obtain d2 w2 where c: "confirm mem_env (dget d ''token'') True w1 = (Inr (d2, 200), w2)"
    using phone_confirmed [OF r(2-4)] by metis
  let ?bob = "hd (table_of phone_tables ''Account'')"
  have bob: "db_all mem_db (filter_by [(''uid'', PStr ''u-2''), (''status'', PStr ''active'')] (query_of ''Account'')) (w_db (mem_world phone_tables)) = Inr [?bob]"
    "dget ?bob ''id'' = PStr ''a-2''" "dget ?bob ''name'' = PStr ''bob''" "\<not> password_weak ''New-1''"
    by code_simp+
  have "fst (set_password mem_env ?bob ''New-1'' w2) = Inr ()" by (simp add: set_password_def py_simps mem_db_def)
  then obtain w3 where s: "set_password mem_env ?bob ''New-1'' w2 = (Inr (), w3)" by (metis prod.collapse)
  have "change_password mem_env (PStr ''u-2'') (PStr ''New-1'') (dget d ''token'') PNone (PStr ''New-1'') w1 =
      (Inr ([(''id'', PStr ''a-2''), (''uid'', PStr ''u-2''), (''username'', PStr ''bob'')], 200), w3)"
    using reset_token_of_other_user [OF c _ bob(4) _ s] bob r(2) by simp
  then show ?thesis using r(1) phone_facts(5) by blast
qed

section \<open>API keys\<close>

context session_env
begin

lemma apikey_session_open:
  assumes "view (w_now w) (w_redis w) (ses_key (Some key_id) (ak_uid item) (take 8 (apikey_hash E secret))) = None"
    and "json_ok (ak_uid item)" "json_ok (ak_account_id item)" "json_ok (ak_identity item)"
  shows "\<exists>w'. apikey_session E key_id secret item w = (Inr True, w')"
proof -
  let ?token = "take 8 (apikey_hash E secret)"
  let ?duration = "if ''admin'' \<in> set (ak_roles item) then cf_LOGIN_ADMIN_LIMIT (e_cfg E) else cf_LOGIN_SESSION_LIMIT (e_cfg E)"
  have "session_get E (ak_uid item) ?token (Some key_id) w = (Inr None, w)"
    using assms(1) by (simp add: session_get_def session_data_def py_simps get_view)
  then have "session_get_arg E (ak_uid item) ?token ''auth'' (Some key_id) w = (Inr PNone, w)"
    by (simp add: session_get_arg_def py_simps)
  moreover have "\<forall>e \<in> set [(''acc'', ak_account_id item), (''identity'', ak_identity item)]. json_ok (snd e)" using assms(3,4) by simp
  note session_create_ok [OF assms(1,2) this, of "ak_roles item" "?duration"]
  then obtain d w' where "session_create E (ak_uid item) (ak_roles item) (Some key_id) (Some ?token) (Some ?duration)
      [(''acc'', ak_account_id item), (''identity'', ak_identity item)] w = (Inr (Some d), w')" by blast
  ultimately show ?thesis by (simp add: apikey_session_def Let_def py_simps)
qed

lemma cached_key_accepts:
  assumes "map_of (w_apikeys w) key_id = Some item" and "w_now w \<le> ak_expires item" and "\<not> cf_LOGIN_MFA_APIKEY (e_cfg E)"
    and "fst (access_control E None w) = Inr acc" and "CHR ''.'' \<notin> set key_id" and "CHR ''.'' \<notin> set secret"
    and "length key_id + length secret < 96" and "PStr ` set required \<subseteq> set (ak_scopes item)"
    and "view (w_now w) (w_redis w) (ses_key (Some key_id) (ak_uid item) (take 8 (apikey_hash E secret))) = None"
    and "json_ok (ak_uid item)" "json_ok (ak_account_id item)" "json_ok (ak_identity item)"
    and "\<And>w2. fst (metrics_store E PNone ''api_key_auth_total'' [] PNone w2) = Inr True"
  shows "\<exists>w'. apikey_auth E (key_id @ ''.'' @ secret) required w = (Inr (Some (ak_uid item, ak_scopes item)), w')"
proof -
  have acc: "access_control E None w = (Inr acc, w)"
    using assms(4) access_control_same [of E None w] by (cases "access_control E None w") auto
  have split: "py_split (CHR ''.'') (key_id @ ''.'' @ secret) = [key_id, secret]"
    using py_split_append_sep [OF assms(5), of secret] py_split_no_sep [OF assms(6)] by simp
  have "cached_item E key_id secret w = (Inr (Some item), w)" using assms(1,2) by (simp add: cached_item_def py_simps)
  moreover obtain w1 where "apikey_session E key_id secret item w = (Inr True, w1)" using apikey_session_open [OF assms(9-12)] by blast
  ultimately have "apikey_access E (key_id @ ''.'' @ secret) w = (Inr (Some (ak_uid item, ak_scopes item)), w1)"
    using acc split assms(3) by (simp add: apikey_access_def py_simps apikey_second_factor_def)
  moreover obtain w2 where "metrics_store E PNone ''api_key_auth_total'' [] PNone w1 = (Inr True, w2)" using assms(13) by (metis prod.collapse)
  ultimately show ?thesis using assms(7,8) by (simp add: apikey_auth_def py_simps)
qed

end

lemma cached_key_accepts_any_secret:
  assumes "session_env E view" and "map_of (w_apikeys w) key_id = Some item" and "w_now w \<le> ak_expires item"
    and "\<not> cf_LOGIN_MFA_APIKEY (e_cfg E)"
    and "fst (access_control E None w) = Inr acc" and "CHR ''.'' \<notin> set key_id" and "CHR ''.'' \<notin> set secret"
    and "length key_id + length secret < 96" and "PStr ` set required \<subseteq> set (ak_scopes item)"
    and "view (w_now w) (w_redis w) (ses_key (Some key_id) (ak_uid item) (take 8 (apikey_hash E secret))) = None"
    and "json_ok (ak_uid item)" "json_ok (ak_account_id item)" "json_ok (ak_identity item)"
    and "\<And>w2. fst (metrics_store E PNone ''api_key_auth_total'' [] PNone w2) = Inr True"
  shows "\<exists>w'. apikey_auth E (key_id @ ''.'' @ secret) required w = (Inr (Some (ak_uid item, ak_scopes item)), w')"
  by (rule session_env.cached_key_accepts [OF assms])

definition key_item :: apikey_item where
  "key_item = \<lparr>ak_account_id = PStr ''a-1'', ak_expires = 1640998800000000, ak_identity = PStr ''a@b.co'', ak_roles = [''user''],
     ak_scopes = [], ak_totp = False, ak_uid = PStr ''u-1''\<rparr>"

definition key_env :: "(mdb, mredis, mcache) env" where
  "key_env = mem_env\<lparr>e_cfg := mem_config\<lparr>cf_METRICS := [(''api_key_auth_total'',
     \<lparr>mt_notify = 0, mt_period = '''', mt_scope = ''service'', mt_style = ''summary''\<rparr>)]\<rparr>\<rparr>"

definition key_world :: "(mdb, mredis, mcache) world" where
  "key_world = (mem_world [])\<lparr>w_apikeys := [(''k1'', key_item)]\<rparr>"

lemma cached_key_accepts_any_secret_witness:
  "\<exists>w'. apikey_auth key_env ''k1.not the secret'' [] key_world = (Inr (Some (PStr ''u-1'', [])), w')"
proof -
  have e: "session_env key_env mr_view"
    using memory_sessions.session_env_axioms by (simp add: session_env_def session_env_axioms_def key_env_def)
  have "\<exists>w'. apikey_auth key_env (''k1'' @ ''.'' @ ''not the secret'') [] key_world = (Inr (Some (ak_uid key_item, ak_scopes key_item)), w')"
    by (rule cached_key_accepts_any_secret [OF e])
      (simp_all add: key_world_def key_item_def key_env_def mem_config_def mem_world_def mr_view_def metrics_store_def
        access_control_def credentials_def py_simps mem_env_def mem_request_def parse_id_def Let_def List.map_filter_def)
  then show ?thesis by (simp add: key_item_def)
qed

end
