(* ===== verification/Metric_Reports.thy ===== *)
theory Metric_Reports imports Metrics Crud begin

text \<open>
  apicrud/metrics.py, the reports: \<open>find\<close> (the metrics a caller may see, as JSON), \<open>collect\<close> (the
  Prometheus text) and the process metrics both collect on the way. What /proc and os say is an
  argument of the definitions. Keys are found with SCAN MATCH.
\<close>

section \<open>Reading numbers\<close>

text \<open>
  \<open>float(s)\<close>; None is ValueError. (The literals for infinity and nan are not rationals and count as
  errors here.)
\<close>

definition float_digits :: "string \<Rightarrow> string option" where
  "float_digits s = (if s = [] then Some []
     else if read_nat 10 s = None then None else Some (filter (\<lambda>c. c \<noteq> CHR ''_'') s))"

definition float_unsigned :: "string \<Rightarrow> rat option" where
  "float_unsigned s =
     (let mant = takeWhile (\<lambda>c. c \<noteq> CHR ''e'' \<and> c \<noteq> CHR ''E'') s; ex = drop (length mant) s;
          ip = takeWhile (\<lambda>c. c \<noteq> CHR ''.'') mant; fp = drop (Suc (length ip)) mant
      in if ip = [] \<and> fp = [] then None
         else (case (float_digits ip, float_digits fp, if ex = [] then Some 0 else with_sign (read_nat 10) (tl ex)) of
              (Some i, Some f, Some e) \<Rightarrow> Some (scale10 (of_nat (digits_val (i @ f))) (e - int (length f)))
            | _ \<Rightarrow> None))"

definition py_float :: "string \<Rightarrow> rat option" where
  "py_float s = (case str_strip s of
       [] \<Rightarrow> None
     | c # cs \<Rightarrow> if c = CHR ''-'' then map_option uminus (float_unsigned cs)
               else if c = CHR ''+'' then float_unsigned cs else float_unsigned (c # cs))"

definition float_of_text :: "string \<Rightarrow> exc + rat" where
  "float_of_text s = (case py_float s of
       None \<Rightarrow> Inl (Exc EValueError ''could not convert string to float'') | Some x \<Rightarrow> Inr x)"

text \<open>\<open>int(value)\<close>, or \<open>float(value)\<close> where that is no integer.\<close>

definition stored_number :: "string \<Rightarrow> exc + pyval" where
  "stored_number s = (case py_int s of
       Some i \<Rightarrow> Inr (PInt i)
     | None \<Rightarrow> (case float_of_text s of Inl e \<Rightarrow> Inl e | Inr x \<Rightarrow> Inr (PFloat x)))"

text \<open>\<open>s.split()\<close> and \<open>list[i]\<close>.\<close>

fun words_from :: "string \<Rightarrow> string \<Rightarrow> string list" where
  "words_from cur [] = (if cur = [] then [] else [rev cur])"
| "words_from cur (c # cs) =
     (if is_space c then (if cur = [] then words_from [] cs else rev cur # words_from [] cs)
      else words_from (c # cur) cs)"

abbreviation py_words :: "string \<Rightarrow> string list" where
  "py_words \<equiv> words_from []"

definition item_at :: "nat \<Rightarrow> 'a list \<Rightarrow> exc + 'a" where
  "item_at i xs = (if i < length xs then Inr (xs ! i) else Inl (Exc EIndexError ''list index out of range''))"

definition starts_with :: "string \<Rightarrow> string \<Rightarrow> bool" where
  "starts_with s p \<longleftrightarrow> take (length p) s = p"

section \<open>The process metrics\<close>

text \<open>
  The lines of /proc/stat, the text of /proc/self/stat, the lines of /proc/self/limits, SC_CLK_TCK
  and the number of entries of /proc/self/fd, each of which can fail.
\<close>

record procfs =
  pf_boot :: "exc + string list"
  pf_stat :: "exc + string"
  pf_limits :: "exc + string list"
  pf_ticks :: "exc + rat"
  pf_fds :: "exc + nat"

fun btime_in :: "string list \<Rightarrow> exc + rat option" where
  "btime_in [] = Inr None"
| "btime_in (l # ls) = (if starts_with l ''btime '' then
       (case item_at 1 (py_words l) of Inl e \<Rightarrow> Inl e | Inr t \<Rightarrow>
         (case float_of_text t of Inl e \<Rightarrow> Inl e | Inr x \<Rightarrow> Inr (Some x)))
     else btime_in ls)"

definition boot_time :: "procfs \<Rightarrow> exc + rat option" where
  "boot_time p = (case pf_boot p of
       Inr ls \<Rightarrow> btime_in ls | Inl e \<Rightarrow> if exc_kind e = EOSError then Inr None else Inl e)"

text \<open>The soft limit of open files: the last line that names it, unbound when none does.\<close>

fun max_fds_in :: "string list \<Rightarrow> int option \<Rightarrow> exc + int option" where
  "max_fds_in [] m = Inr m"
| "max_fds_in (l # ls) m = (if starts_with l ''Max open files'' then
       (case item_at 3 (py_words l) of Inl e \<Rightarrow> Inl e | Inr t \<Rightarrow>
         (case int_of_stored t of Inl e \<Rightarrow> Inl e | Inr n \<Rightarrow> max_fds_in ls (Some n)))
     else max_fds_in ls m)"

definition max_fds :: "procfs \<Rightarrow> exc + int option" where
  "max_fds p = (case pf_limits p of
       Inr ls \<Rightarrow> max_fds_in ls None | Inl e \<Rightarrow> if exc_kind e = EOSError then Inr (Some 0) else Inl e)"

definition clock_ticks :: "procfs \<Rightarrow> exc + rat" where
  "clock_ticks p = (case pf_ticks p of
       Inr t \<Rightarrow> Inr t
     | Inl e \<Rightarrow> if exc_kind e \<in> {EValueError, ETypeError, EAttributeError, EOSError} then Inr 100 else Inl e)"

definition stat_field :: "string list \<Rightarrow> nat \<Rightarrow> exc + rat" where
  "stat_field stats i = (case item_at i stats of Inl e \<Rightarrow> Inl e | Inr s \<Rightarrow> float_of_text s)"

definition over_ticks :: "rat \<Rightarrow> rat \<Rightarrow> exc + rat" where
  "over_ticks x ticks = (if ticks = 0 then Inl (Exc EOther ''float division by zero'') else Inr (x / ticks))"

definition process_collect :: "('d, 'r, 'c) env \<Rightarrow> procfs \<Rightarrow> pyval \<Rightarrow> (('d, 'r, 'c) world, unit) py" where
  "process_collect E p uid =
     bnd (of_result (boot_time p)) (\<lambda>boot. case boot of
       None \<Rightarrow> ret ()
     | Some bt \<Rightarrow>
       if bt = 0 then ret ()
       else bnd (of_result (pf_stat p)) (\<lambda>txt.
         let stats = py_words (last (py_split (CHR '')'') txt));
             store = (\<lambda>name v. bnd (metrics_store E uid name [] v) (\<lambda>_. ret ()))
         in bnd (of_result (max_fds p)) (\<lambda>fds.
            bnd (of_result (clock_ticks p)) (\<lambda>ticks.
            bnd (of_result (stat_field stats 11)) (\<lambda>ut.
            bnd (of_result (stat_field stats 12)) (\<lambda>st.
            bnd (of_result (over_ticks (ut + st) ticks)) (\<lambda>cpu.
            bnd (store ''process_cpu_seconds_total'' (PFloat cpu)) (\<lambda>_.
            bnd (case fds of None \<Rightarrow> raise_exc (Exc EUnboundLocalError ''max_fds'') | Some n \<Rightarrow> ret n) (\<lambda>n.
            bnd (store ''process_max_fds'' (PInt n)) (\<lambda>_.
            bnd (of_result (pf_fds p)) (\<lambda>k.
            bnd (store ''process_open_fds'' (PInt (int k))) (\<lambda>_.
            bnd (of_result (stat_field stats 21)) (\<lambda>rss.
            bnd (store ''process_resident_memory_bytes'' (PFloat rss)) (\<lambda>_.
            bnd (of_result (stat_field stats 19)) (\<lambda>start.
            bnd (of_result (over_ticks start ticks)) (\<lambda>since.
            bnd (store ''process_start_time_seconds'' (PFloat (bt + since))) (\<lambda>_.
            bnd (of_result (stat_field stats 20)) (\<lambda>vsize.
            store ''process_virtual_memory_bytes'' (PFloat vsize)))))))))))))))))))"

section \<open>Searching\<close>

text \<open>The label part of the pattern: by user, or by a piece of the label.\<close>

definition uid_label :: "pyval \<Rightarrow> string" where
  "uid_label uid = (if truthy uid then ''uid='' @ py_str uid else ''uid=*'')"

definition some_label :: "pyval \<Rightarrow> string" where
  "some_label l = (if l \<noteq> PStr ''*'' then ''*'' @ py_str l @ ''*'' else ''*'')"

definition py_or :: "pyval \<Rightarrow> pyval \<Rightarrow> pyval" where
  "py_or a b = (if truthy a then a else b)"

definition name_pattern :: "dict \<Rightarrow> dict \<Rightarrow> string" where
  "name_pattern filt kwargs = py_str (py_or (dget filt ''name'') (dget_or kwargs ''name'' (PStr ''*'')))"

text \<open>One key of the scan; the key may have expired since.\<close>

definition report_item :: "('d, 'r, 'c) env \<Rightarrow> string \<Rightarrow> (('d, 'r, 'c) world, dict) py" where
  "report_item E key =
     bnd (redis_get E key) (\<lambda>v. case v of
       None \<Rightarrow> raise_exc (Exc EAttributeError ''NoneType object has no attribute decode'')
     | Some s \<Rightarrow>
         bnd (of_result (stored_number s)) (\<lambda>n.
         bnd (of_result (item_at 1 (py_split (CHR '':'') key))) (\<lambda>name.
         bnd (of_result (item_at 2 (py_split (CHR '':'') key))) (\<lambda>labels.
         ret [(''name'', PStr name), (''labels'', PList (map PStr (py_split (CHR '','') labels))), (''value'', n)]))))"

text \<open>The loop over the scan: the offset counts down to 0, skipped keys count towards the limit.\<close>

fun report_items ::
    "('d, 'r, 'c) env \<Rightarrow> int \<Rightarrow> string list \<Rightarrow> int \<Rightarrow> int \<Rightarrow> dict list \<Rightarrow> (('d, 'r, 'c) world, dict list \<times> int) py" where
  "report_items E limit [] off count acc = ret (acc, count)"
| "report_items E limit (k # ks) off count acc =
     bnd (if off \<noteq> 0 then ret (off - 1, acc) else bnd (report_item E k) (\<lambda>d. ret (off, acc @ [d]))) (\<lambda>(off', acc').
     if limit \<le> count + 1 then ret (acc', count + 1)
     else report_items E limit ks off' (count + 1) acc')"

text \<open>The limit and offset are the integers the API layer parsed.\<close>

definition int_param :: "pyval \<Rightarrow> exc + int" where
  "int_param v = (case v of PInt i \<Rightarrow> Inr i | _ \<Rightarrow> Inl (Exc ETypeError ''not supported between instances''))"

definition scan_report ::
    "('d, 'r, 'c) env \<Rightarrow> dict \<Rightarrow> string \<Rightarrow> string \<Rightarrow> (('d, 'r, 'c) world, resp) py" where
  "scan_report E kwargs name label =
     bnd (of_result (int_param (dget_or kwargs ''limit'' (PInt PER_PAGE_DEFAULT)))) (\<lambda>limit.
     bnd (of_result (int_param (dget_or kwargs ''offset'' (PInt 0)))) (\<lambda>off.
     bnd (reads (\<lambda>w. rd_scan (e_redis E) (''mtr:'' @ name @ '':'' @ label) (w_now w) (w_redis w))) (\<lambda>keys.
     bnd (report_items E limit keys off 0 []) (\<lambda>(items, count).
     ret ([(''items'', PList (map PDict items)), (''count'', PInt count)], 200)))))"

definition metrics_find ::
    "('d, 'r, 'c) env \<Rightarrow> procfs \<Rightarrow> pyval \<Rightarrow> dict \<Rightarrow> (('d, 'r, 'c) world, resp) py" where
  "metrics_find E p self_uid kwargs = with_json_filter kwargs (\<lambda>filt.
     let name = name_pattern filt kwargs
     in bnd (access_control E None) (\<lambda>acc. case ac_auth acc of
          None \<Rightarrow> raise_exc (Exc ETypeError ''argument of type NoneType is not iterable'')
        | Some auth \<Rightarrow>
            if ''admin'' \<in> set auth then
              (let label = (if dhas filt ''uid'' \<or> dhas kwargs ''uid''
                            then uid_label (py_or (dget filt ''uid'') (dget kwargs ''uid''))
                            else some_label (py_or (dget filt ''label'') (dget_or kwargs ''label'' (PStr ''*''))))
               in bnd (process_collect E p self_uid) (\<lambda>_. scan_report E kwargs name label))
            else if ''user'' \<in> set auth then
              (let uid = dget filt ''uid''
               in if \<not> truthy uid \<or> uid \<noteq> ac_uid acc then ret (msg_resp ''access denied'' 403)
                  else scan_report E kwargs name (''uid='' @ py_str uid))
            else ret (msg_resp ''access denied'' 403)))"

section \<open>The Prometheus text\<close>

text \<open>A line of the export: name, type, labels and the value as it is stored.\<close>

record export_item =
  xi_name :: string
  xi_type :: string
  xi_labels :: "string list"
  xi_value :: string

text \<open>Unknown names are left out, and so are grants unless the label of the search names a user.\<close>

fun export_items ::
    "('d, 'r, 'c) env \<Rightarrow> string \<Rightarrow> int \<Rightarrow> string list \<Rightarrow> int \<Rightarrow> export_item list \<Rightarrow>
     (('d, 'r, 'c) world, export_item list) py" where
  "export_items E label limit [] count acc = ret acc"
| "export_items E label limit (k # ks) count acc =
     bnd (of_result (item_at 1 (py_split (CHR '':'') k))) (\<lambda>name.
     case map_of (cf_METRICS (e_cfg E)) name of
       None \<Rightarrow> export_items E label limit ks count acc
     | Some m \<Rightarrow>
         if mt_style m = ''grant'' \<and> \<not> occurs ''uid'' label then export_items E label limit ks count acc
         else
           bnd (of_result (item_at 2 (py_split (CHR '':'') k))) (\<lambda>labels.
           bnd (redis_get E k) (\<lambda>v. case v of
             None \<Rightarrow> raise_exc (Exc EAttributeError ''NoneType object has no attribute decode'')
           | Some s \<Rightarrow>
               (let acc' = acc @ [\<lparr>xi_name = name, xi_type = (if mt_style m = ''grant'' then ''gauge'' else mt_style m),
                      xi_labels = py_split (CHR '','') labels, xi_value = s\<rparr>]
                in if limit \<le> count + 1 then ret acc'
                   else export_items E label limit ks (count + 1) acc'))))"

definition export_label :: "string \<Rightarrow> string" where
  "export_label l = (case py_split (CHR ''='') l of
       a # b # _ \<Rightarrow> a @ ''='' @ [CHR 0x22] @ b @ [CHR 0x22] | _ \<Rightarrow> l)"

definition export_text :: "export_item \<Rightarrow> string" where
  "export_text x = ''# TYPE '' @ xi_name x @ '' '' @ xi_type x @ [newline] @
     xi_name x @ (if xi_labels x \<noteq> [] then ''{'' @ py_join '','' (map export_label (xi_labels x)) @ ''}'' else []) @
     '' '' @ xi_value x @ [newline]"

definition metrics_collect ::
    "('d, 'r, 'c) env \<Rightarrow> procfs \<Rightarrow> pyval \<Rightarrow> dict \<Rightarrow> (('d, 'r, 'c) world, (resp + string \<times> nat)) py" where
  "metrics_collect E p self_uid kwargs =
     (case load_filter kwargs of
        Inl e \<Rightarrow> if exc_kind e = EJSONDecodeError
                then ret (Inl (msg_resp (''invalid filter specified='' @ exc_msg e) 405)) else raise_exc e
      | Inr filt \<Rightarrow>
          (let name = name_pattern filt kwargs;
               label = (if dhas filt ''uid'' then uid_label (dget filt ''uid'')
                        else some_label (py_or (dget filt ''label'') (dget_or kwargs ''label'' (PStr ''*''))))
           in bnd (process_collect E p self_uid) (\<lambda>_.
              bnd (of_result (int_param (dget_or kwargs ''limit'' (PInt PER_PAGE_DEFAULT)))) (\<lambda>limit.
              bnd (reads (\<lambda>w. rd_scan (e_redis E) (''mtr:'' @ name @ '':'' @ label) (w_now w) (w_redis w))) (\<lambda>keys.
              bnd (export_items E label limit keys 0 []) (\<lambda>items.
              ret (Inr (concat (map export_text items), 200))))))))"

section \<open>What the reports show\<close>

lemma py_split_snoc: "c \<notin> set b \<Longrightarrow> py_split c (a @ c # b) = py_split c a @ [b]"
  by (induction a) (auto simp: py_split_no_sep split: list.splits)

text \<open>Every item comes from a key of the scan, with the number stored there.\<close>

definition shows_key :: "dict \<Rightarrow> string \<Rightarrow> bool" where
  "shows_key d k \<longleftrightarrow> 2 < length (py_split (CHR '':'') k) \<and>
     dget d ''labels'' = PList (map PStr (py_split (CHR '','') (py_split (CHR '':'') k ! 2)))"

lemma report_item_shows: "report_item E k w = (Inr d, w') \<Longrightarrow> w' = w \<and> shows_key d k"
  by (auto simp: report_item_def py_simps item_at_def shows_key_def dget_def split: sum.splits option.splits if_splits)

lemma report_items_show:
  assumes "report_items E limit ks off count acc w = (Inr (items, n), w')"
    and "\<forall>d \<in> set acc. \<exists>k \<in> K. shows_key d k" and "set ks \<subseteq> K"
  shows "\<forall>d \<in> set items. \<exists>k \<in> K. shows_key d k"
  using assms
proof (induction ks arbitrary: off count acc w)
  case Nil
  then show ?case by (simp add: py_simps)
next
  case (Cons k ks)
  show ?case
  proof (cases "off = 0")
    case False
    then show ?thesis using Cons.prems Cons.IH [of "off - 1" "count + 1" acc w]
      by (auto simp: py_simps split: if_splits)
  next
    case True
    then obtain d w1 where d: "report_item E k w = (Inr d, w1)"
      using Cons.prems(1) by (auto simp: py_simps split: prod.splits sum.splits)
    then have "\<forall>d \<in> set (acc @ [d]). \<exists>k \<in> K. shows_key d k"
      using Cons.prems(2,3) report_item_shows [OF d] by auto
    then show ?thesis using Cons.prems(1,3) True d report_item_shows [OF d] Cons.IH [of 0 "count + 1" "acc @ [d]" w]
      by (auto simp: py_simps split: if_splits)
  qed
qed

lemma scan_report_shows:
  assumes "scan_report E kwargs name label w = (Inr res, w')"
  shows "\<exists>ks items. rd_scan (e_redis E) (''mtr:'' @ name @ '':'' @ label) (w_now w) (w_redis w) = Inr ks \<and>
    dget (fst res) ''items'' = PList (map PDict items) \<and> (\<forall>d \<in> set items. \<exists>k \<in> set ks. shows_key d k)"
proof -
  obtain ks limit off items n w1 where
    "rd_scan (e_redis E) (''mtr:'' @ name @ '':'' @ label) (w_now w) (w_redis w) = Inr ks"
    "report_items E limit ks off 0 [] w = (Inr (items, n), w1)" "dget (fst res) ''items'' = PList (map PDict items)"
    using assms by (auto simp: scan_report_def py_simps dget_def split: sum.splits prod.splits)
  then show ?thesis using report_items_show [of E limit ks off 0 "[]" w items n w1 "set ks"] by auto
qed

text \<open>What a caller who is no admin gets is the report on their own label.\<close>

lemma find_as_user:
  assumes "metrics_find E p self_uid kwargs w = (Inr res, w')" and "snd res = 200"
    and "access_control E None w = (Inr a, w)" and "''admin'' \<notin> set (roles_of a)"
  shows "\<exists>filt. load_filter kwargs = Inr filt \<and>
    scan_report E kwargs (name_pattern filt kwargs) (''uid='' @ py_str (ac_uid a)) w = (Inr res, w')"
proof -
  obtain filt where f: "load_filter kwargs = Inr filt"
    using assms(1,2) by (auto simp: metrics_find_def with_json_filter_def py_simps msg_resp_def split: sum.splits if_splits)
  obtain auth where "ac_auth a = Some auth"
    using assms(1,3) f by (cases "ac_auth a") (auto simp: metrics_find_def with_json_filter_def py_simps Let_def)
  then show ?thesis using assms f
    by (auto simp: metrics_find_def with_json_filter_def py_simps msg_resp_def roles_of_def Let_def split: if_splits)
qed

lemma glob_prefix: "glob (p @ q) s \<Longrightarrow> glob_plain p \<Longrightarrow> starts_with s p"
proof (induction p arbitrary: s)
  case (Cons x p)
  then show ?case by (cases s) (auto simp: glob_plain_def starts_with_def)
qed (simp add: starts_with_def)

context redis_scanning
begin

lemma own_label:
  assumes "rd_scan R (''mtr:'' @ name @ '':'' @ ''uid='' @ u) t s = Inr ks" and "k \<in> set ks" and "shows_key d k"
    and "glob_plain u" and "CHR '':'' \<notin> set u" and "CHR '','' \<notin> set u" and "set name \<inter> {CHR ''['', CHR 0x5C} = {}"
    and "length (py_split (CHR '':'') k) = 3"
  shows "dget d ''labels'' = PList [PStr (''uid='' @ u)]"
proof -
  have g: "glob_plain ('':uid='' @ u)" using assms(4) by (auto simp: glob_plain_def)
  have n: "set (''mtr:'' @ name) \<inter> {CHR ''['', CHR 0x5C} = {}" using assms(7) by auto
  have s: "rd_scan R ((''mtr:'' @ name) @ ('':uid='' @ u)) t s = Inr ks" using assms(1) by simp
  obtain k' where k: "k = k' @ CHR '':'' # (''uid='' @ u)" using scan_suffix [OF s assms(2) g n] by auto
  have "CHR '':'' \<notin> set (''uid='' @ u)" using assms(5) by simp
  from py_split_snoc [OF this] k have sp: "py_split (CHR '':'') k = py_split (CHR '':'') k' @ [''uid='' @ u]" by simp
  then have "py_split (CHR '':'') k ! 2 = ''uid='' @ u" using assms(8) by (simp add: nth_append)
  moreover have "py_split (CHR '','') (''uid='' @ u) = [''uid='' @ u]" using assms(6) by (intro py_split_no_sep) simp
  ultimately show ?thesis using assms(3) by (simp add: shows_key_def)
qed

lemma find_own_labels:
  assumes "metrics_find E p self_uid kwargs w = (Inr res, w')" and "snd res = 200" and "e_redis E = R"
    and "access_control E None w = (Inr a, w)" and "''admin'' \<notin> set (roles_of a)" and "ac_uid a = PStr u"
    and "glob_plain u" and "CHR '':'' \<notin> set u" and "CHR '','' \<notin> set u"
    and "\<And>filt. load_filter kwargs = Inr filt \<Longrightarrow> set (name_pattern filt kwargs) \<inter> {CHR ''['', CHR 0x5C} = {}"
    and "\<And>k. view (w_now w) (w_redis w) k \<noteq> None \<Longrightarrow> starts_with k ''mtr:'' \<Longrightarrow> length (py_split (CHR '':'') k) = 3"
  shows "\<exists>items. dget (fst res) ''items'' = PList (map PDict items) \<and>
    (\<forall>d \<in> set items. dget d ''labels'' = PList [PStr (''uid='' @ u)])"
proof -
  obtain filt where f: "load_filter kwargs = Inr filt"
    and r: "scan_report E kwargs (name_pattern filt kwargs) (''uid='' @ u) w = (Inr res, w')"
    using find_as_user [OF assms(1,2,4,5)] assms(6) by auto
  let ?p = "''mtr:'' @ name_pattern filt kwargs @ '':'' @ ''uid='' @ u"
  obtain ks items where ks: "rd_scan R ?p (w_now w) (w_redis w) = Inr ks"
    and items: "dget (fst res) ''items'' = PList (map PDict items)" "\<forall>d \<in> set items. \<exists>k \<in> set ks. shows_key d k"
    using scan_report_shows [OF r] assms(3) by auto
  note plain = assms(7,8,9) assms(10) [OF f]
  have "dget d ''labels'' = PList [PStr (''uid='' @ u)]" if d: "d \<in> set items" for d
  proof -
    obtain k where k: "k \<in> set ks" "shows_key d k" using items(2) d by blast
    have "CHR ''['' \<notin> set u" using plain(1) by (auto simp: glob_plain_def)
    moreover have "CHR ''['' \<notin> set (name_pattern filt kwargs)" using plain(4) by blast
    ultimately have "CHR ''['' \<notin> set ?p" by simp
    then have "glob ?p k" by (rule scan_match [OF ks k(1)])
    then have "starts_with k ''mtr:''" by (rule glob_prefix) (simp add: glob_plain_def)
    with assms(11) scan_live [OF ks k(1)] have "length (py_split (CHR '':'') k) = 3" by blast
    then show ?thesis using own_label [OF ks k plain] by simp
  qed
  then show ?thesis using items(1) by blast
qed

end

section \<open>Properties\<close>

text \<open>A redis with the counters of two users next to the session of the first.\<close>

definition two_users :: "(mdb, mredis, mcache) world" where
  "two_users = (mem_world [])\<lparr>w_redis :=
     [(''mtr:sms_daily_total:uid=u-1'', (''7'', None)), (''mtr:sms_daily_total:uid=u-2'', (''9'', None))] @
     (case mr_view 1640995200000000 (w_redis (logged_in [])) user_key of
        None \<Rightarrow> [] | Some v \<Rightarrow> [(user_key, (v, None))])\<rparr>"

definition own_query :: dict where
  "own_query = [(''filter'', PStr (''{'' @ [CHR 0x22] @ ''uid'' @ [CHR 0x22] @ '':'' @ [CHR 0x22] @ ''u-1'' @ [CHR 0x22] @ ''}''))]"

definition no_proc :: procfs where
  "no_proc = \<lparr>pf_boot = Inl (Exc EOSError ''''), pf_stat = Inl (Exc EOSError ''''), pf_limits = Inl (Exc EOSError ''''),
     pf_ticks = Inl (Exc EOSError ''''), pf_fds = Inl (Exc EOSError '''')\<rparr>"

lemma user_key_form: "user_key = CHR ''s'' # tl user_key"
  by (simp add: ses_key_def)

lemma user_key_other: "\<not> starts_with user_key ''mtr:''"
  by (subst user_key_form) (simp add: starts_with_def)

lemma two_users_keys: "mr_view t (w_redis two_users) k \<noteq> None \<Longrightarrow> starts_with k ''mtr:'' \<Longrightarrow>
    k \<in> {''mtr:sms_daily_total:uid=u-1'', ''mtr:sms_daily_total:uid=u-2''}"
  using user_key_other by (auto simp: two_users_def mr_view_def split: option.splits if_splits)

lemma two_users_session: "access_control (user_env r) m two_users = (Inr (user_access m), two_users)"
proof (rule user_access_control_view [where ts = "[]"])
  have "user_key \<noteq> ''mtr:sms_daily_total:uid=u-1''" "user_key \<noteq> ''mtr:sms_daily_total:uid=u-2''"
    by (simp_all add: ses_key_def)
  then show "mr_view (w_now two_users) (w_redis two_users) user_key = mr_view 1640995200000000 (w_redis (logged_in [])) user_key"
    by (auto simp: two_users_def mem_world_def mr_view_def [of _ "_ # _"] split: option.splits)
qed

lemma own_query_loads: "load_filter own_query = Inr [(''uid'', PStr ''u-1'')]"
  by code_simp

lemma two_users_scan:
  "rd_scan mem_redis ''mtr:*:uid=u-1'' (w_now two_users) (w_redis two_users) = Inr [''mtr:sms_daily_total:uid=u-1'']"
proof -
  have g: "\<not> glob ''mtr:*:uid=u-1'' user_key" by (subst user_key_form) simp
  have "glob ''mtr:*:uid=u-1'' ''mtr:sms_daily_total:uid=u-1''" "\<not> glob ''mtr:*:uid=u-1'' ''mtr:sms_daily_total:uid=u-2''"
    by code_simp+
  then show ?thesis using g by (simp add: mem_redis_def two_users_def mr_view_def split: option.splits)
qed

text \<open>C25: The report of metrics is private: whatever filter a caller without the admin role passes, every
  item of a 200 answer is labelled with the caller's own uid. Stated for keys of three parts, which is
  how store writes them, a uid that is not a glob pattern, and a name filter without [ and backslash;
  with [ the code can be made to leave the uid out of the pattern (a finding).\<close>

lemma metrics_find_own:
  assumes "metrics_find E p self_uid kwargs w = (Inr res, w')" and "snd res = 200"
    and "redis_scanning (e_redis E) view"
    and "access_control E None w = (Inr a, w)" and "''admin'' \<notin> set (roles_of a)" and "ac_uid a = PStr u"
    and "glob_plain u" and "CHR '':'' \<notin> set u" and "CHR '','' \<notin> set u"
    and "\<And>filt. load_filter kwargs = Inr filt \<Longrightarrow> set (name_pattern filt kwargs) \<inter> {CHR ''['', CHR 0x5C} = {}"
    and "\<And>k. view (w_now w) (w_redis w) k \<noteq> None \<Longrightarrow> starts_with k ''mtr:'' \<Longrightarrow> length (py_split (CHR '':'') k) = 3"
  shows "\<exists>items. dget (fst res) ''items'' = PList (map PDict items) \<and>
    (\<forall>d \<in> set items. dget d ''labels'' = PList [PStr (''uid='' @ u)])"
  using redis_scanning.find_own_labels [OF assms(3) assms(1,2) refl assms(4-)] .

lemma metrics_find_own_witness:
  "\<exists>res w' items. metrics_find (user_env ''/api/v1/metric'') no_proc PNone own_query two_users = (Inr res, w') \<and>
     dget (fst res) ''items'' = PList (map PDict items) \<and> items \<noteq> [] \<and>
     (\<forall>d \<in> set items. dget d ''labels'' = PList [PStr ''uid=u-1''])"
proof -
  let ?E = "user_env ''/api/v1/metric''" and ?item = "[(''name'', PStr ''sms_daily_total''),
    (''labels'', PList [PStr ''uid=u-1'']), (''value'', PInt 7)]"
  let ?res = "([(''items'', PList [PDict ?item]), (''count'', PInt 1)], 200 :: nat)"
  have "report_item ?E ''mtr:sms_daily_total:uid=u-1'' two_users = (Inr ?item, two_users)"
  proof -
    have "rd_get mem_redis ''mtr:sms_daily_total:uid=u-1'' (w_now two_users) (w_redis two_users) = Inr (Some ''7'')"
      by (simp add: mem_redis_def two_users_def mr_view_def)
    moreover have "stored_number ''7'' = Inr (PInt 7)" by code_simp
    ultimately show ?thesis by (simp add: report_item_def py_simps item_at_def)
  qed
  then have run: "metrics_find ?E no_proc PNone own_query two_users = (Inr ?res, two_users)"
    using two_users_scan two_users_session [of "''/api/v1/metric''" None] own_query_loads
    by (simp add: metrics_find_def with_json_filter_def py_simps Let_def user_access_def scan_report_def int_param_def
        name_pattern_def py_or_def own_query_def dget_or_def dget_def PER_PAGE_DEFAULT_def)
  have n: "name_pattern filt own_query = ''*''" if "load_filter own_query = Inr filt" for filt
    using that own_query_loads by (auto simp: name_pattern_def py_or_def own_query_def dget_or_def dget_def)
  have parts: "length (py_split (CHR '':'') k) = 3"
    if "mr_view (w_now two_users) (w_redis two_users) k \<noteq> None" "starts_with k ''mtr:''" for k
    using two_users_keys [OF that] by auto
  have s: "redis_scanning (e_redis ?E) mr_view" using memory_scan.redis_scanning_axioms by simp
  have "\<exists>items. dget (fst ?res) ''items'' = PList (map PDict items) \<and>
    (\<forall>d \<in> set items. dget d ''labels'' = PList [PStr (''uid='' @ ''u-1'')])"
    by (rule metrics_find_own [OF run _ s two_users_session])
      (use n parts in \<open>auto simp: user_access_def roles_of_def glob_plain_def\<close>)
  then obtain items where i: "dget (fst ?res) ''items'' = PList (map PDict items)"
    and l: "\<forall>d \<in> set items. dget d ''labels'' = PList [PStr (''uid='' @ ''u-1'')]" by blast
  have "items \<noteq> []" using i by (auto simp: dget_def)
  then show ?thesis using run i l by (intro exI conjI) (assumption | simp)+
qed

text \<open>The export leaves grants out unless the label of the search names a user.\<close>

lemma export_items_grants:
  assumes "export_items E label limit ks count acc w = (Inr xs, w')" and "\<not> occurs ''uid'' label"
    and "\<forall>x \<in> set acc. \<exists>m. map_of (cf_METRICS (e_cfg E)) (xi_name x) = Some m \<and> mt_style m \<noteq> ''grant''"
  shows "\<forall>x \<in> set xs. \<exists>m. map_of (cf_METRICS (e_cfg E)) (xi_name x) = Some m \<and> mt_style m \<noteq> ''grant''"
  using assms
proof (induction E label limit ks count acc arbitrary: w rule: export_items.induct)
  case (2 E label limit k ks count acc)
  then show ?case
    by (auto simp: py_simps Let_def split: sum.splits option.splits if_splits)
qed (simp add: py_simps)

end
