(* ===== verification/Service_Config.thy ===== *)
theory Service_Config imports Account_Settings begin

text \<open>
  apicrud/service_config.py: the configuration is computed key by key from the environment, a YAML
  file, keyword arguments and the defaults of a schema, then completed. The schema
  (service_config.yaml), the environment, the parsed file, the directories and the JSON Schema
  validator are arguments.
\<close>

section \<open>Sources of a value\<close>

text \<open>A property of the schema; a value that the schema calls an object is a dict.\<close>

record cfg_schema =
  sc_type :: string
  sc_default :: "pyval option"
  sc_format :: "string option"

type_synonym cfg_env = "(string \<times> string) list"

text \<open>\<open>os.environ.get(name, default)\<close>.\<close>

definition environ :: "cfg_env \<Rightarrow> string \<Rightarrow> string \<Rightarrow> string" where
  "environ env name dflt = (case map_of env name of None \<Rightarrow> dflt | Some v \<Rightarrow> v)"

text \<open>A value of the environment, read by the type of the schema.\<close>

definition env_value :: "string \<Rightarrow> string \<Rightarrow> string \<Rightarrow> exc + pyval" where
  "env_value key ty v =
     (if ty = ''array'' then Inr (PList (map PStr (py_split (CHR '','') v)))
      else if ty = ''integer'' then (case py_int v of
          None \<Rightarrow> Inl (Exc EValueError ''invalid literal for int()'') | Some i \<Rightarrow> Inr (PInt i))
      else if ty = ''boolean'' then
        (if str_lower v \<in> {''1'', ''true'', ''yes''} then Inr (PBool True)
         else if str_lower v \<in> {''0'', ''false'', ''no''} then Inr (PBool False)
         else Inl (Exc EAttributeError (''Invalid value for '' @ key)))
      else Inr (PStr v))"

text \<open>\<open>d.update(v)\<close>: a mapping, or an iterable of pairs.\<close>

definition pair_of :: "pyval \<Rightarrow> exc + string \<times> pyval" where
  "pair_of v = (case v of
       PList [PStr k, x] \<Rightarrow> Inr (k, x)
     | PStr [a, b] \<Rightarrow> Inr ([a], PStr [b])
     | PStr _ \<Rightarrow> Inl (Exc EValueError ''dictionary update sequence element has wrong length'')
     | PList _ \<Rightarrow> Inl (Exc EValueError ''dictionary update sequence element has wrong length'')
     | _ \<Rightarrow> Inl (Exc ETypeError ''cannot convert dictionary update sequence element to a sequence''))"

fun update_pairs :: "dict \<Rightarrow> pyval list \<Rightarrow> exc + dict" where
  "update_pairs d [] = Inr d"
| "update_pairs d (x # xs) = (case pair_of x of Inl e \<Rightarrow> Inl e | Inr (k, v) \<Rightarrow> update_pairs (dset d k v) xs)"

definition dict_update :: "pyval \<Rightarrow> pyval \<Rightarrow> exc + pyval" where
  "dict_update d v = (case d of
       PDict es \<Rightarrow>
         (case v of
            PDict fs \<Rightarrow> Inr (PDict (dmerge es fs))
          | PList xs \<Rightarrow> (case update_pairs es xs of Inl e \<Rightarrow> Inl e | Inr r \<Rightarrow> Inr (PDict r))
          | PStr s \<Rightarrow> if s = [] then Inr d else Inl (Exc EValueError ''dictionary update sequence element #0 has length 1; 2 is required'')
          | _ \<Rightarrow> Inl (Exc ETypeError ''object is not iterable''))
     | _ \<Rightarrow> Inl (Exc EAttributeError ''object has no attribute update''))"

definition compose_db_url :: "cfg_env \<Rightarrow> exc + string" where
  "compose_db_url env = (case py_int (environ env ''DB_PORT'' ''3306'') of
       None \<Rightarrow> Inl (Exc EValueError ''invalid literal for int()'')
     | Some port \<Rightarrow> Inr (environ env ''DB_TYPE'' ''mysql+pymysql'' @ ''://'' @ environ env ''DB_USER'' ''example'' @ '':'' @
         environ env ''DB_PASS'' ''example'' @ ''@'' @ environ env ''DB_HOST'' ''None'' @ '':'' @ show_int port @ ''/'' @
         environ env ''DB_NAME'' ''example''))"

text \<open>
  One round of the loop over the schema: the value of a key, and the overrides of the file that are
  left. A nonempty variable of the environment comes first, then the file, the keyword arguments and
  the default; for \<open>db_url\<close> the connection is composed at last.
\<close>

definition from_default :: "cfg_env \<Rightarrow> string \<Rightarrow> cfg_schema \<Rightarrow> dict \<Rightarrow> exc + pyval" where
  "from_default env key s kwargs =
     (if dhas kwargs key then Inr (dget kwargs key)
      else case sc_default s of
          Some v \<Rightarrow> Inr v
        | None \<Rightarrow> if key = ''db_url'' then map_sum id PStr (compose_db_url env)
                  else Inl (Exc EAttributeError (''No value specified for '' @ key)))"

definition from_file :: "cfg_schema \<Rightarrow> pyval \<Rightarrow> exc + pyval" where
  "from_file s v =
     (if sc_type s = ''object'' then
        (case sc_default s of None \<Rightarrow> Inl (Exc EKeyError ''default'') | Some d \<Rightarrow> dict_update d v)
      else Inr v)"

definition config_key ::
    "cfg_env \<Rightarrow> dict \<Rightarrow> string \<Rightarrow> cfg_schema \<Rightarrow> dict \<Rightarrow> exc + pyval \<times> dict" where
  "config_key env kwargs key s overrides =
     (if environ env (str_upper key) [] \<noteq> [] then
        (case env_value key (sc_type s) (environ env (str_upper key) []) of
           Inl e \<Rightarrow> Inl e | Inr v \<Rightarrow> Inr (v, ddel overrides key))
      else if dhas overrides key then
        (case from_file s (dget overrides key) of Inl e \<Rightarrow> Inl e | Inr v \<Rightarrow> Inr (v, ddel overrides key))
      else (case from_default env key s kwargs of Inl e \<Rightarrow> Inl e | Inr v \<Rightarrow> Inr (v, overrides)))"

fun config_keys ::
    "cfg_env \<Rightarrow> dict \<Rightarrow> (string \<times> cfg_schema) list \<Rightarrow> dict \<Rightarrow> dict \<Rightarrow> exc + dict \<times> dict" where
  "config_keys env kwargs [] st overrides = Inr (st, overrides)"
| "config_keys env kwargs ((key, s) # ss) st overrides =
     (case config_key env kwargs key s overrides of
        Inl e \<Rightarrow> Inl e
      | Inr (v, overrides') \<Rightarrow> config_keys env kwargs ss (dset st key v) overrides')"

section \<open>Completing the configuration\<close>

text \<open>\<open>binascii.unhexlify\<close>.\<close>

fun unhex :: "string \<Rightarrow> string option" where
  "unhex [] = Some []"
| "unhex [c] = None"
| "unhex (a # b # cs) = (case (hex_val a, hex_val b, unhex cs) of
       (Some x, Some y, Some r) \<Rightarrow> Some (char_of (16 * x + y) # r) | _ \<Rightarrow> None)"

definition unhexlify :: "pyval \<Rightarrow> exc + pyval" where
  "unhexlify v = (case v of
       PStr s \<Rightarrow> (case unhex s of None \<Rightarrow> Inl (Exc EValueError ''Non-hexadecimal digit found'') | Some b \<Rightarrow> Inr (PBytes b))
     | PBytes s \<Rightarrow> (case unhex s of None \<Rightarrow> Inl (Exc EValueError ''Non-hexadecimal digit found'') | Some b \<Rightarrow> Inr (PBytes b))
     | _ \<Rightarrow> Inl (Exc ETypeError ''argument should be bytes, buffer or ASCII string''))"

text \<open>The defaults of a metric.\<close>

definition compose_metric :: "pyval \<Rightarrow> exc + pyval" where
  "compose_metric item = (case item of
       PDict d \<Rightarrow>
         if set (map fst d) - {''notify'', ''period'', ''scope'', ''style''} \<noteq> {}
         then Inl (Exc EAttributeError ''Invalid metric configuration'')
         else Inr (PDict (dset (dset (dset (dset d
             ''notify'' (dget_or d ''notify'' (PInt 0))) ''period'' (dget_or d ''period'' (PStr ''day'')))
             ''scope'' (dget_or d ''scope'' (PStr ''user''))) ''style'' (dget_or d ''style'' (PStr ''grant''))))
     | _ \<Rightarrow> Inl (Exc EAttributeError ''object has no attribute keys''))"

fun compose_items :: "dict \<Rightarrow> exc + dict" where
  "compose_items [] = Inr []"
| "compose_items ((k, item) # es) = (case compose_metric item of
       Inl e \<Rightarrow> Inl e
     | Inr m \<Rightarrow> (case compose_items es of Inl e \<Rightarrow> Inl e | Inr r \<Rightarrow> Inr ((k, m) # r)))"

definition compose_metrics :: "pyval \<Rightarrow> exc + pyval" where
  "compose_metrics v = (case v of
       PDict d \<Rightarrow> map_sum id PDict (compose_items d)
     | _ \<Rightarrow> Inl (Exc EAttributeError ''object has no attribute items''))"

definition compose_loglevel :: "pyval \<Rightarrow> exc + pyval" where
  "compose_loglevel level =
     (case map_of [(''debug'', 10), (''info'', 20), (''warning'', 30), (''error'', 40), (''critical'', 50)]
             (case level of PStr s \<Rightarrow> s | _ \<Rightarrow> []) of
        None \<Rightarrow> Inl (Exc EKeyError (py_str level)) | Some n \<Rightarrow> Inr (PInt n))"

definition path_join :: "string \<Rightarrow> string \<Rightarrow> string" where
  "path_join a b = (if b \<noteq> [] \<and> hd b = CHR ''/'' then b
     else if a = [] \<or> last a = CHR ''/'' then a @ b else a @ CHR ''/'' # b)"

text \<open>\<open>list.append\<close> and \<open>max\<close> on values of the state.\<close>

definition append_to :: "pyval \<Rightarrow> pyval \<Rightarrow> exc + pyval" where
  "append_to l x = (case l of PList xs \<Rightarrow> Inr (PList (xs @ [x])) | _ \<Rightarrow> Inl (Exc EAttributeError ''object has no attribute append''))"

definition max_int :: "pyval \<Rightarrow> int \<Rightarrow> exc + pyval" where
  "max_int v n = (case py_ge v (PInt n) of Inl e \<Rightarrow> Inl e | Inr ge \<Rightarrow> Inr (if ge then v else PInt n))"

text \<open>An entry that is computed from the entry of a key.\<close>

definition on_key :: "string \<Rightarrow> string \<Rightarrow> (pyval \<Rightarrow> exc + pyval) \<Rightarrow> dict \<Rightarrow> exc + dict" where
  "on_key src dst f st = (case dsub st src of
       Inl e \<Rightarrow> Inl e | Inr v \<Rightarrow> (case f v of Inl e \<Rightarrow> Inl e | Inr r \<Rightarrow> Inr (dset st dst r)))"

fun steps :: "(dict \<Rightarrow> exc + dict) list \<Rightarrow> dict \<Rightarrow> exc + dict" where
  "steps [] st = Inr st"
| "steps (f # fs) st = (case f st of Inl e \<Rightarrow> Inl e | Inr st' \<Rightarrow> steps fs st')"

lemma steps_append: "steps (fs @ gs) st = (case steps fs st of Inl e \<Rightarrow> Inl e | Inr st' \<Rightarrow> steps gs st')"
  by (induction fs arbitrary: st) (auto split: sum.splits)

text \<open>A path without a slash is taken relative to a directory (of translations, only the first counts).\<close>

definition relative_to :: "string \<Rightarrow> pyval \<Rightarrow> exc + pyval" where
  "relative_to dir v = (case v of
       PStr s \<Rightarrow> Inr (if CHR ''/'' \<in> set s then v else PStr (path_join dir s))
     | _ \<Rightarrow> Inl (Exc ETypeError ''argument is not iterable''))"

definition translations_in :: "string \<Rightarrow> pyval \<Rightarrow> exc + pyval" where
  "translations_in dir v = (case v of
       PStr s \<Rightarrow> Inr (if CHR ''/'' \<in> set (hd (py_split (CHR '';'') s)) then v else PStr (path_join dir s))
     | _ \<Rightarrow> Inl (Exc EAttributeError ''object has no attribute split''))"

text \<open>
  The special cases, in the order of the code: \<open>pkg\<close> is the directory of the package, \<open>file_dir\<close> that
  of the YAML file if there is one. Outside production both session limits are at least a day; the
  second is computed from the first.
\<close>

definition special_cases :: "cfg_env \<Rightarrow> string \<Rightarrow> string option \<Rightarrow> dict \<Rightarrow> exc + dict" where
  "special_cases env pkg file_dir = steps (
     [on_key ''flask_secret_key'' ''secret_key'' unhexlify,
      on_key ''metrics'' ''metrics'' compose_metrics,
      on_key ''log_level'' ''log_level'' compose_loglevel,
      on_key ''template_folders'' ''template_folders'' (\<lambda>l. append_to l (PStr (path_join pkg ''templates'')))] @
     (if map_of env ''APP_ENV'' \<noteq> Some ''prod'' then
        [on_key ''login_admin_limit'' ''login_admin_limit'' (\<lambda>v. max_int v 86400),
         on_key ''login_admin_limit'' ''login_session_limit'' (\<lambda>v. max_int v 86400)]
      else []) @
     [on_key ''babel_translation_directories'' ''babel_translation_directories'' (translations_in pkg)] @
     (case file_dir of
        None \<Rightarrow> []
      | Some dir \<Rightarrow> map (\<lambda>k. on_key k k (relative_to dir)) [''rbac_file'', ''db_migrations'', ''db_seed_file'']))"

section \<open>The singleton\<close>

text \<open>
  The module keeps the state dict, the named tuple of the configuration (upper-case names), the
  schema and the AES key it hands to the models.
\<close>

record service_config =
  sv_state :: dict
  sv_config :: "dict option"
  sv_schema :: "(string \<times> cfg_schema) list"
  sv_aes_secret :: pyval

definition config_tuple :: "dict \<Rightarrow> dict" where
  "config_tuple st = map (\<lambda>(k, v). (str_upper k, v)) st"

text \<open>A file that is empty (or holds a false value) is an error, and so is one that is no mapping.\<close>

definition file_overrides :: "pyval option \<Rightarrow> exc + dict" where
  "file_overrides f = (case f of
       None \<Rightarrow> Inr []
     | Some v \<Rightarrow> if \<not> truthy v then Inl (Exc EAttributeError ''No values found in file'')
                else (case v of PDict d \<Rightarrow> Inr d | _ \<Rightarrow> Inl (Exc EAttributeError ''object has no attribute pop'')))"

definition load_config ::
    "cfg_env \<Rightarrow> (dict \<Rightarrow> exc + unit) \<Rightarrow> string \<Rightarrow> (string \<times> cfg_schema) list \<Rightarrow> (string \<times> pyval) option \<Rightarrow> dict \<Rightarrow> dict \<Rightarrow>
     exc + dict" where
  "load_config env valid pkg schema file kwargs st =
     (case file_overrides (map_option snd file) of
        Inl e \<Rightarrow> Inl e
      | Inr overrides \<Rightarrow> (case config_keys env kwargs schema st overrides of
          Inl e \<Rightarrow> Inl e
        | Inr (st1, rest) \<Rightarrow> (case valid st1 of
            Inl e \<Rightarrow> Inl e
          | Inr _ \<Rightarrow> if rest \<noteq> [] then Inl (Exc EAttributeError (''ServiceConfig: unrecognized entries '' @ py_join '','' (map fst rest)))
                     else special_cases env pkg (map_option fst file) st1)))"

definition service_config_init ::
    "cfg_env \<Rightarrow> (dict \<Rightarrow> exc + unit) \<Rightarrow> string \<Rightarrow> (string \<times> cfg_schema) list \<Rightarrow> (string \<times> pyval) option \<Rightarrow> bool \<Rightarrow> dict \<Rightarrow>
     service_config \<Rightarrow> exc + service_config" where
  "service_config_init env valid pkg schema file reset kwargs sv =
     (case (if reset \<or> sv_config sv = None then
              (case load_config env valid pkg schema file kwargs (sv_state sv) of
                 Inl e \<Rightarrow> Inl e
               | Inr st \<Rightarrow> Inr (sv\<lparr>sv_state := st, sv_config := Some (config_tuple st), sv_schema := schema\<rparr>))
            else Inr sv) of
        Inl e \<Rightarrow> Inl e
      | Inr sv' \<Rightarrow> (case dsub (case sv_config sv' of None \<Rightarrow> [] | Some c \<Rightarrow> c) ''DB_AES_SECRET'' of
          Inl _ \<Rightarrow> Inl (Exc EAttributeError ''DB_AES_SECRET'')
        | Inr k \<Rightarrow> Inr (sv'\<lparr>sv_aes_secret := k\<rparr>)))"

section \<open>The configuration endpoint\<close>

definition hidden_key :: "string \<Rightarrow> cfg_schema \<Rightarrow> bool" where
  "hidden_key key s \<longleftrightarrow> occurs key ''db_url'' \<or> sc_format s = Some ''password''"

fun shown_values :: "(string \<times> cfg_schema) list \<Rightarrow> dict \<Rightarrow> exc + dict" where
  "shown_values [] st = Inr []"
| "shown_values ((key, s) # ss) st =
     (if hidden_key key s then shown_values ss st
      else (case dsub st key of
          Inl e \<Rightarrow> Inl e
        | Inr v \<Rightarrow> (case shown_values ss st of Inl e \<Rightarrow> Inl e | Inr d \<Rightarrow> Inr ((key, v) # d))))"

definition config_get :: "('d, 'r, 'c) env \<Rightarrow> service_config \<Rightarrow> (('d, 'r, 'c) world, resp) py" where
  "config_get E sv =
     bnd (access_control E None) (\<lambda>a1.
     if roles_of a1 = [] then ret (msg_resp ''access denied'' 403)
     else bnd (access_control E None) (\<lambda>a2. case ac_auth a2 of
         None \<Rightarrow> raise_exc (Exc ETypeError ''argument of type NoneType is not iterable'')
       | Some auth \<Rightarrow>
           if ''admin'' \<notin> set auth then ret (msg_resp ''access denied'' 403)
           else bnd (of_result (shown_values (sv_schema sv) (sv_state sv))) (\<lambda>d. ret (d, 200))))"

section \<open>Which source wins\<close>

text \<open>The value of a key as the documentation of the class states it.\<close>

definition chosen :: "cfg_env \<Rightarrow> dict \<Rightarrow> dict \<Rightarrow> string \<Rightarrow> cfg_schema \<Rightarrow> exc + pyval" where
  "chosen env kwargs overrides key s =
     (if environ env (str_upper key) [] \<noteq> [] then env_value key (sc_type s) (environ env (str_upper key) [])
      else if dhas overrides key then from_file s (dget overrides key)
      else from_default env key s kwargs)"

lemma config_key_chosen:
  "config_key env kwargs key s ov = Inr (v, ov') \<Longrightarrow>
   chosen env kwargs ov key s = Inr v \<and> map_of ov' = (map_of ov)(key := None)"
  by (auto simp: config_key_def chosen_def delete_conv' dhas_def split: if_splits sum.splits)

lemma chosen_cong: "map_of ov k = map_of ov' k \<Longrightarrow> chosen env kwargs ov k s = chosen env kwargs ov' k s"
  by (simp add: chosen_def dhas_def dget_def)

lemma config_keys_chosen:
  assumes "config_keys env kwargs ss st ov = Inr (st', rest)" and "distinct (map fst ss)"
  shows "(\<forall>(k, s) \<in> set ss. dhas st' k \<and> chosen env kwargs ov k s = Inr (dget st' k)) \<and>
    (\<forall>k. k \<notin> fst ` set ss \<longrightarrow> map_of st' k = map_of st k) \<and>
    (\<forall>k. map_of rest k = (if k \<in> fst ` set ss then None else map_of ov k))"
  using assms
proof (induction ss arbitrary: st ov)
  case Nil
  then show ?case by simp
next
  case (Cons x ss)
  obtain key s where x: "x = (key, s)" by fastforce
  obtain v ov1 where k: "config_key env kwargs key s ov = Inr (v, ov1)"
    and r: "config_keys env kwargs ss (dset st key v) ov1 = Inr (st', rest)"
    using Cons.prems(1) x by (auto split: sum.splits)
  note c = config_key_chosen [OF k]
  have d: "distinct (map fst ss)" "key \<notin> fst ` set ss" using Cons.prems(2) x by (auto simp: image_iff)
  note IH = Cons.IH [OF r d(1)]
  have same: "map_of st' key = Some v" using IH d(2) by (simp add: update_conv)
  have "chosen env kwargs ov k s' = chosen env kwargs ov1 k s'" if "(k, s') \<in> set ss" for k s'
    using that d(2) c by (intro chosen_cong) (auto simp: image_iff)
  then show ?case using IH c same d(2) x by (auto simp: dhas_def dget_def update_conv)
qed

text \<open>The special cases touch these keys only.\<close>

definition completed :: "string set" where
  "completed = {''secret_key'', ''metrics'', ''log_level'', ''template_folders'', ''login_admin_limit'', ''login_session_limit'',
     ''babel_translation_directories'', ''rbac_file'', ''db_migrations'', ''db_seed_file''}"

lemma steps_invariant:
  assumes "\<And>f a b. f \<in> set fs \<Longrightarrow> P a \<Longrightarrow> f a = Inr b \<Longrightarrow> P b" and "P st" and "steps fs st = Inr st'"
  shows "P st'"
  using assms by (induction fs arbitrary: st) (auto split: sum.splits)

lemma on_key_result:
  "on_key src dst f st = Inr st' \<Longrightarrow> \<exists>v r. dsub st src = Inr v \<and> f v = Inr r \<and> st' = dset st dst r"
  by (auto simp: on_key_def split: sum.splits)

lemma special_cases_other:
  assumes "special_cases env pkg dir st = Inr st'" and "k \<notin> completed"
  shows "map_of st' k = map_of st k"
  using assms(1) unfolding special_cases_def
  by (rule steps_invariant [where P = "\<lambda>s. map_of s k = map_of st k", rotated 2])
    (use assms(2) in \<open>auto simp: completed_def update_conv dest!: on_key_result split: if_splits option.splits\<close>)

lemma load_config_parts:
  assumes "load_config env valid pkg schema file kwargs st = Inr st'"
  shows "\<exists>ov st1. file_overrides (map_option snd file) = Inr ov \<and> config_keys env kwargs schema st ov = Inr (st1, []) \<and>
    valid st1 = Inr () \<and> special_cases env pkg (map_option fst file) st1 = Inr st'"
  using assms by (auto simp: load_config_def split: sum.splits if_splits prod.splits)

lemma load_config_chosen:
  assumes "load_config env valid pkg schema file kwargs st = Inr st'" and "distinct (map fst schema)"
    and "file_overrides (map_option snd file) = Inr ov"
  shows "(\<forall>k. dhas ov k \<longrightarrow> k \<in> fst ` set schema) \<and>
    (\<forall>(k, s) \<in> set schema. k \<notin> completed \<longrightarrow> chosen env kwargs ov k s = Inr (dget st' k))"
proof -
  obtain st1 where r: "config_keys env kwargs schema st ov = Inr (st1, [])"
    and sp: "special_cases env pkg (map_option fst file) st1 = Inr st'"
    using load_config_parts [OF assms(1)] assms(3) by auto
  note c = config_keys_chosen [OF r assms(2)]
  have "dget st' k = dget st1 k" if "k \<notin> completed" for k
    using special_cases_other [OF sp that] by (simp add: dget_def)
  moreover have "k \<in> fst ` set schema" if "dhas ov k" for k
    using c that by (auto simp: dhas_def split: if_splits)
  ultimately show ?thesis using c by fastforce
qed

section \<open>Types of the configuration\<close>

definition has_type :: "string \<Rightarrow> pyval \<Rightarrow> bool" where
  "has_type ty v =
     (if ty = ''string'' then (case v of PStr _ \<Rightarrow> True | _ \<Rightarrow> False)
      else if ty = ''integer'' then (case v of PInt _ \<Rightarrow> True | _ \<Rightarrow> False)
      else if ty = ''boolean'' then (case v of PBool _ \<Rightarrow> True | _ \<Rightarrow> False)
      else if ty = ''array'' then (case v of PList _ \<Rightarrow> True | _ \<Rightarrow> False)
      else if ty = ''object'' then (case v of PDict _ \<Rightarrow> True | _ \<Rightarrow> False)
      else if ty = ''number'' then (case v of PInt _ \<Rightarrow> True | PFloat _ \<Rightarrow> True | _ \<Rightarrow> False)
      else True)"

text \<open>Steps that keep the kind of value they change.\<close>

definition same_kind :: "pyval \<Rightarrow> pyval \<Rightarrow> bool" where
  "same_kind v r \<longleftrightarrow> (\<forall>ty. has_type ty v \<longrightarrow> has_type ty r)"

lemma has_type_kind:
  "has_type ty (PStr a) \<Longrightarrow> has_type ty (PStr b)" "has_type ty (PInt i) \<Longrightarrow> has_type ty (PInt j)"
  "has_type ty (PList xs) \<Longrightarrow> has_type ty (PList ys)" "has_type ty (PDict d) \<Longrightarrow> has_type ty (PDict e)"
  by (auto simp: has_type_def split: if_splits)

lemma kind_steps:
  "compose_metrics v = Inr r \<Longrightarrow> same_kind v r" "append_to v x = Inr r \<Longrightarrow> same_kind v r"
  "relative_to dir v = Inr r \<Longrightarrow> same_kind v r" "translations_in dir v = Inr r \<Longrightarrow> same_kind v r"
  by (auto simp: same_kind_def compose_metrics_def append_to_def relative_to_def translations_in_def map_sum_def
      split: pyval.splits sum.splits if_splits intro: has_type_kind)

lemma max_int_PInt: "max_int v n = Inr r \<Longrightarrow> has_type ''integer'' v \<Longrightarrow> has_type ''integer'' r"
  by (auto simp: max_int_def has_type_def split: pyval.splits sum.splits if_splits)

definition well_typed :: "(string \<times> cfg_schema) list \<Rightarrow> dict \<Rightarrow> bool" where
  "well_typed schema st \<longleftrightarrow> (\<forall>(k, s) \<in> set schema. k \<noteq> ''log_level'' \<longrightarrow> has_type (sc_type s) (dget st k))"

lemma dsub_dget: "dsub st k = Inr v \<Longrightarrow> dget st k = v"
  by (auto simp: dsub_def dget_def split: option.splits)

lemma well_typed_same:
  assumes "well_typed schema st" and "on_key k k f st = Inr st'" and "\<And>v r. f v = Inr r \<Longrightarrow> same_kind v r"
  shows "well_typed schema st'"
proof -
  obtain v r where "dget st k = v" "f v = Inr r" "st' = dset st k r"
    using on_key_result [OF assms(2)] dsub_dget by blast
  then show ?thesis using assms(1,3) by (force simp: well_typed_def dget_dset same_kind_def)
qed

lemma well_typed_limit:
  assumes "well_typed schema st" and "on_key ''login_admin_limit'' dst (\<lambda>v. max_int v 86400) st = Inr st'"
    and "\<exists>s. (''login_admin_limit'', s) \<in> set schema \<and> sc_type s = ''integer''"
    and "\<And>s. (dst, s) \<in> set schema \<Longrightarrow> sc_type s = ''integer''"
  shows "well_typed schema st'"
proof -
  obtain v r where v: "dget st ''login_admin_limit'' = v" "max_int v 86400 = Inr r" "st' = dset st dst r"
    using on_key_result [OF assms(2)] dsub_dget by blast
  have "has_type ''integer'' v" using assms(1,3) v(1) by (fastforce simp: well_typed_def)
  then have "has_type ''integer'' r" using max_int_PInt [OF v(2)] by blast
  then show ?thesis using assms(1,4) v(3) by (force simp: well_typed_def dget_dset)
qed

lemma well_typed_other:
  assumes "well_typed schema st" and "on_key src dst f st = Inr st'"
    and "dst = ''log_level'' \<or> dst \<notin> fst ` set schema"
  shows "well_typed schema st'"
proof -
  obtain r where "st' = dset st dst r" using on_key_result [OF assms(2)] by blast
  then show ?thesis using assms(1,3) by (force simp: well_typed_def dget_dset)
qed

lemma special_cases_typed:
  assumes "special_cases env pkg dir st = Inr st'" and "well_typed schema st" and "''secret_key'' \<notin> fst ` set schema"
    and "\<exists>s. (''login_admin_limit'', s) \<in> set schema \<and> sc_type s = ''integer''"
    and "\<And>k s. (k, s) \<in> set schema \<Longrightarrow> k \<in> {''login_admin_limit'', ''login_session_limit''} \<Longrightarrow> sc_type s = ''integer''"
  shows "well_typed schema st'"
  using assms(1) unfolding special_cases_def
proof (rule steps_invariant [where P = "well_typed schema", rotated 2])
  show "well_typed schema st" by fact
next
  fix f a b assume f: "f \<in> set ([on_key ''flask_secret_key'' ''secret_key'' unhexlify, on_key ''metrics'' ''metrics'' compose_metrics,
      on_key ''log_level'' ''log_level'' compose_loglevel,
      on_key ''template_folders'' ''template_folders'' (\<lambda>l. append_to l (PStr (path_join pkg ''templates'')))] @
     (if map_of env ''APP_ENV'' \<noteq> Some ''prod'' then
        [on_key ''login_admin_limit'' ''login_admin_limit'' (\<lambda>v. max_int v 86400),
         on_key ''login_admin_limit'' ''login_session_limit'' (\<lambda>v. max_int v 86400)]
      else []) @
     [on_key ''babel_translation_directories'' ''babel_translation_directories'' (translations_in pkg)] @
     (case dir of None \<Rightarrow> []
      | Some dir \<Rightarrow> map (\<lambda>k. on_key k k (relative_to dir)) [''rbac_file'', ''db_migrations'', ''db_seed_file'']))"
    and a: "well_typed schema a" and b: "f a = Inr b"
  consider "f = on_key ''flask_secret_key'' ''secret_key'' unhexlify" | "f = on_key ''log_level'' ''log_level'' compose_loglevel"
    | k g where "f = on_key k k g" "\<And>v r. g v = Inr r \<Longrightarrow> same_kind v r"
    | k where "f = on_key ''login_admin_limit'' k (\<lambda>v. max_int v 86400)" "k \<in> {''login_admin_limit'', ''login_session_limit''}"
    using f kind_steps by (auto split: if_splits option.splits)
  then show "well_typed schema b"
  proof cases
    case 1
    then show ?thesis using well_typed_other [OF a] b assms(3) by blast
  next
    case 2
    then show ?thesis using well_typed_other [OF a] b by blast
  next
    case 3
    then show ?thesis using well_typed_same [OF a] b by blast
  next
    case 4
    then show ?thesis using well_typed_limit [OF a _ assms(4)] b assms(5) by blast
  qed
qed

lemma load_config_typed:
  assumes "load_config env valid pkg schema file kwargs st = Inr st'" and "distinct (map fst schema)"
    and "\<And>d k s. valid d = Inr () \<Longrightarrow> (k, s) \<in> set schema \<Longrightarrow> dhas d k \<Longrightarrow> has_type (sc_type s) (dget d k)"
    and "''secret_key'' \<notin> fst ` set schema"
    and "\<exists>s. (''login_admin_limit'', s) \<in> set schema \<and> sc_type s = ''integer''"
    and "\<And>k s. (k, s) \<in> set schema \<Longrightarrow> k \<in> {''login_admin_limit'', ''login_session_limit''} \<Longrightarrow> sc_type s = ''integer''"
  shows "well_typed schema st'"
proof -
  obtain ov st1 where r: "config_keys env kwargs schema st ov = Inr (st1, [])" and v: "valid st1 = Inr ()"
    and sp: "special_cases env pkg (map_option fst file) st1 = Inr st'"
    using load_config_parts [OF assms(1)] by blast
  have "well_typed schema st1"
    using config_keys_chosen [OF r assms(2)] assms(3) [OF v] by (auto simp: well_typed_def)
  then show ?thesis using special_cases_typed [OF sp _ assms(4,5)] assms(6) by blast
qed

section \<open>The endpoint shows no secret\<close>

lemma shown_values_keys:
  "shown_values ss st = Inr d \<Longrightarrow> dhas d k \<Longrightarrow> \<exists>s. (k, s) \<in> set ss \<and> \<not> hidden_key k s"
  by (induction ss arbitrary: d) (auto simp: dhas_Nil dhas_Cons split: if_splits sum.splits, blast+)

lemma config_get_shows:
  assumes "config_get E sv w = (Inr res, w')" and "snd res = 200"
  shows "\<exists>a d. access_control E None w = (Inr a, w) \<and> ''admin'' \<in> set (roles_of a) \<and>
    shown_values (sv_schema sv) (sv_state sv) = Inr d \<and> res = (d, 200)"
proof -
  obtain a w1 where a: "access_control E None w = (Inr a, w1)"
    using assms(1) by (auto simp: config_get_def py_simps split: prod.splits sum.splits)
  then have "w1 = w" using access_control_state [of E None w] by simp
  then show ?thesis using assms a
    by (auto simp: config_get_def py_simps msg_resp_def roles_of_def split: if_splits option.splits sum.splits)
qed

text \<open>The larger of a value and a day, taken twice.\<close>

lemma max_day: "max_int v n = Inr r \<Longrightarrow> max_int r n = Inr r' \<Longrightarrow> r' = r"
  by (cases v; auto simp: max_int_def split: sum.splits if_splits option.splits)


text \<open>A small schema; the file sets the level and the session limit, the environment the level.\<close>

definition demo_schema :: "(string \<times> cfg_schema) list" where
  "demo_schema =
     [(''flask_secret_key'', \<lparr>sc_type = ''string'', sc_default = Some (PStr ''e6''), sc_format = Some ''password''\<rparr>),
      (''log_level'', \<lparr>sc_type = ''string'', sc_default = Some (PStr ''info''), sc_format = None\<rparr>),
      (''login_admin_limit'', \<lparr>sc_type = ''integer'', sc_default = Some (PInt 900), sc_format = None\<rparr>),
      (''login_session_limit'', \<lparr>sc_type = ''integer'', sc_default = Some (PInt 7200), sc_format = None\<rparr>),
      (''metrics'', \<lparr>sc_type = ''object'', sc_default = Some (PDict []), sc_format = None\<rparr>),
      (''template_folders'', \<lparr>sc_type = ''array'', sc_default = Some (PList []), sc_format = None\<rparr>),
      (''babel_translation_directories'', \<lparr>sc_type = ''string'', sc_default = Some (PStr ''i18n''), sc_format = None\<rparr>),
      (''rbac_file'', \<lparr>sc_type = ''string'', sc_default = Some (PStr ''rbac''), sc_format = None\<rparr>),
      (''db_migrations'', \<lparr>sc_type = ''string'', sc_default = Some (PStr ''/m''), sc_format = None\<rparr>),
      (''db_seed_file'', \<lparr>sc_type = ''string'', sc_default = Some (PStr ''s''), sc_format = None\<rparr>)]"

definition demo_valid :: "dict \<Rightarrow> exc + unit" where
  "demo_valid d = (if \<forall>(k, s) \<in> set demo_schema. dhas d k \<longrightarrow> has_type (sc_type s) (dget d k) then Inr ()
     else Inl (Exc EValidationError ''not of the type''))"

definition demo_overrides :: dict where
  "demo_overrides = [(''log_level'', PStr ''error''), (''login_session_limit'', PInt 500000)]"

definition demo_load :: "exc + dict" where
  "demo_load = load_config [(''LOG_LEVEL'', ''debug'')] demo_valid ''/p'' demo_schema (Some (''/e'', PDict demo_overrides)) [] []"

definition demo_state :: dict where
  "demo_state = [(''flask_secret_key'', PStr ''e6''), (''log_level'', PInt 10), (''login_admin_limit'', PInt 86400),
     (''login_session_limit'', PInt 86400), (''metrics'', PDict []), (''template_folders'', PList [PStr ''/p/templates'']),
     (''babel_translation_directories'', PStr ''/p/i18n''), (''rbac_file'', PStr ''/e/rbac''), (''db_migrations'', PStr ''/m''),
     (''db_seed_file'', PStr ''/e/s''), (''secret_key'', PBytes [CHR 0xE6])]"

lemma demo_loads: "demo_load = Inr demo_state"
  by code_simp

section \<open>Properties\<close>



text \<open>C34: The loaded configuration is well typed: if the validator accepts only files whose values have
  the types of the schema, then every key but log_level holds a value of its type after the
  environment, the defaults and the completion of paths and limits.\<close>

lemma config_types:
  assumes "load_config env valid pkg schema file kwargs st = Inr st'" and "distinct (map fst schema)"
    and "\<And>d k s. valid d = Inr () \<Longrightarrow> (k, s) \<in> set schema \<Longrightarrow> dhas d k \<Longrightarrow> has_type (sc_type s) (dget d k)"
    and "''secret_key'' \<notin> fst ` set schema"
    and "\<exists>s. (''login_admin_limit'', s) \<in> set schema \<and> sc_type s = ''integer''"
    and "\<And>k s. (k, s) \<in> set schema \<Longrightarrow> k \<in> {''login_admin_limit'', ''login_session_limit''} \<Longrightarrow> sc_type s = ''integer''"
    and "(key, s) \<in> set schema" and "key \<noteq> ''log_level''"
  shows "has_type (sc_type s) (dget st' key)"
proof -
  have "well_typed schema st'"
    by (rule load_config_typed [OF assms(1,2) _ assms(4,5)]; (rule assms(3) | rule assms(6)); assumption)
  then show ?thesis using assms(7,8) by (auto simp: well_typed_def)
qed

lemma config_types_witness: "has_type ''array'' (dget demo_state ''template_folders'') \<and> demo_load = Inr demo_state"
proof -
  have v: "has_type (sc_type s) (dget d k)" if "demo_valid d = Inr ()" "(k, s) \<in> set demo_schema" "dhas d k" for d k s
    using that by (auto simp: demo_valid_def split: if_splits)
  have "has_type (sc_type \<lparr>sc_type = ''array'', sc_default = Some (PList []), sc_format = None\<rparr>) (dget demo_state ''template_folders'')"
    by (rule config_types [OF demo_loads [unfolded demo_load_def] _ v]) (auto simp: demo_schema_def)
  then show ?thesis using demo_loads by simp
qed

lemma config_get_hides_secrets:
  assumes "config_get E sv w = (Inr (d, 200), w')"
  shows "(\<exists>a. access_control E None w = (Inr a, w) \<and> ''admin'' \<in> set (roles_of a)) \<and>
    (\<forall>k. dhas d k \<longrightarrow> k \<noteq> ''db_url'' \<and> (\<exists>s. (k, s) \<in> set (sv_schema sv) \<and> sc_format s \<noteq> Some ''password''))"
proof -
  obtain a where a: "access_control E None w = (Inr a, w)" "''admin'' \<in> set (roles_of a)"
    and d: "shown_values (sv_schema sv) (sv_state sv) = Inr d"
    using config_get_shows [OF assms] by auto
  have "k \<noteq> ''db_url'' \<and> (\<exists>s. (k, s) \<in> set (sv_schema sv) \<and> sc_format s \<noteq> Some ''password'')" if "dhas d k" for k
    using shown_values_keys [OF d that] by (auto simp: hidden_key_def)
  then show ?thesis using a by blast
qed

definition demo_service :: service_config where
  "demo_service = \<lparr>sv_state = demo_state, sv_config = Some (config_tuple demo_state), sv_schema = demo_schema, sv_aes_secret = PNone\<rparr>"

lemma config_get_hides_secrets_witness:
  "\<exists>d. config_get (user_env ''/config/v1/config'') demo_service (logged_in_as [''admin''] []) = (Inr (d, 200), logged_in_as [''admin''] []) \<and>
     dhas d ''login_session_limit'' \<and> \<not> dhas d ''flask_secret_key''"
proof -
  have "hidden_key (fst p) (snd p) = (fst p = ''flask_secret_key'')" if "p \<in> set demo_schema" for p
    using that by (auto simp: demo_schema_def hidden_key_def)
  then obtain d where d: "shown_values demo_schema demo_state = Inr d" "dhas d ''login_session_limit''"
    by (simp add: demo_schema_def demo_state_def dict_simps hidden_key_def)
  have run: "config_get (user_env ''/config/v1/config'') demo_service (logged_in_as [''admin''] []) = (Inr (d, 200), logged_in_as [''admin''] [])"
    using d by (simp add: config_get_def py_simps admin_access_control admin_access_def user_access_def roles_of_def demo_service_def)
  have "\<not> dhas d ''flask_secret_key''"
    using config_get_hides_secrets [OF run] by (auto simp: demo_service_def demo_schema_def)
  then show ?thesis using run d(2) by blast
qed

lemma session_limit_ignored:
  assumes "load_config env valid pkg schema file kwargs st = Inr st'" and "map_of env ''APP_ENV'' \<noteq> Some ''prod''"
  shows "dget st' ''login_session_limit'' = dget st' ''login_admin_limit''"
proof -
  let ?eq = "\<lambda>s. dget s ''login_session_limit'' = dget s ''login_admin_limit''"
  obtain st1 where "special_cases env pkg (map_option fst file) st1 = Inr st'"
    using load_config_parts [OF assms(1)] by blast
  then obtain st2 st3 st4 where two: "steps [on_key ''login_admin_limit'' ''login_admin_limit'' (\<lambda>v. max_int v 86400),
         on_key ''login_admin_limit'' ''login_session_limit'' (\<lambda>v. max_int v 86400)] st2 = Inr st3"
    and rest: "steps [on_key ''babel_translation_directories'' ''babel_translation_directories'' (translations_in pkg)] st3 = Inr st4"
      "steps (case map_option fst file of None \<Rightarrow> []
        | Some dir \<Rightarrow> map (\<lambda>k. on_key k k (relative_to dir)) [''rbac_file'', ''db_migrations'', ''db_seed_file'']) st4 = Inr st'"
    using assms(2) unfolding special_cases_def steps_append
    by (auto simp del: steps.simps list.map split: sum.splits)
  have "?eq st3" using two by (auto simp: max_day dget_dset dest!: on_key_result dsub_dget split: sum.splits)
  then have "?eq st4" using rest(1) by (auto simp: dget_dset dest!: on_key_result split: sum.splits)
  then show ?thesis using rest(2)
    by (rule steps_invariant [where P = ?eq, rotated])
      (auto simp: dget_dset dest!: on_key_result split: option.splits)
qed

lemma session_limit_ignored_witness:
  "dget demo_state ''login_session_limit'' = PInt 86400 \<and> dget demo_overrides ''login_session_limit'' = PInt 500000"
proof -
  have "dget demo_state ''login_session_limit'' = dget demo_state ''login_admin_limit''"
    using session_limit_ignored [OF demo_loads [unfolded demo_load_def]] by simp
  then show ?thesis by (simp add: demo_state_def demo_overrides_def dict_simps)
qed

end
