(* ===== verification/Outside.thy ===== *)
theory Outside imports Confirmation Metrics begin

text \<open>
  Calls to the outside (mail servers, object stores, the work queue): which statements make none, and
  statements that make at most one, of a given form.
\<close>

section \<open>Statements without calls\<close>

lemma calls_on_redis [keeps_intros]: "keeps w_calls (on_redis f)"
  by (simp add: keeps_def py_simps)

lemma calls_on_db [keeps_intros]: "keeps w_calls (on_db f)"
  by (simp add: keeps_def py_simps)

lemma calls_draw [keeps_intros]: "keeps w_calls draw"
  by (simp add: keeps_def py_simps)

lemma calls_set_attr [keeps_intros]: "keeps w_calls (set_attr E m i a v)"
  by (simp add: keeps_def py_simps)

lemma calls_cache_put [keeps_intros]: "keeps w_calls (cache_put E k v)"
  by (simp add: keeps_def py_simps)

lemma calls_usage_notice [keeps_intros]: "keeps w_calls (usage_notice E m name uid c l)"
  by (auto simp: usage_notice_def Let_def intro!: keeps_intros keeps_modify)

lemma calls_grants_get [keeps_intros]: "keeps w_calls (grants_get E name uid)"
  by (auto simp: grants_get_def grants_init_def intro!: keeps_intros)

lemma calls_metrics_store [keeps_intros]: "keeps w_calls (metrics_store E uid name labels value)"
  by (auto simp: metrics_store_def store_grant_def Let_def intro!: keeps_intros split: pyval.splits)

section \<open>Statements with one call\<close>

definition one_call :: "(string \<times> dict \<Rightarrow> bool) \<Rightarrow> (('d, 'r, 'c) world, 'a) py \<Rightarrow> bool" where
  "one_call P m \<longleftrightarrow> (\<forall>w r w'. m w = (r, w') \<longrightarrow>
     w_calls w' = w_calls w \<or> (\<exists>c. P c \<and> w_calls w' = w_calls w @ [c]))"

named_theorems one_call_intros

lemma one_callD:
  "one_call P m \<Longrightarrow> m w = (r, w') \<Longrightarrow> w_calls w' = w_calls w \<or> (\<exists>c. P c \<and> w_calls w' = w_calls w @ [c])"
  by (simp add: one_call_def)

lemma one_call_keeps: "keeps w_calls m \<Longrightarrow> one_call P m"
  by (auto simp: one_call_def dest: keepsD)

lemma one_call_out [one_call_intros]: "P (name, args) \<Longrightarrow> one_call P (call_out name args r)"
  by (simp add: one_call_def py_simps)

text \<open>Statements before and after the one that calls; what it learns from those before.\<close>

lemma one_call_after:
  assumes "keeps w_calls m" and "yields Q m" and "\<And>x. Q x \<Longrightarrow> one_call P (f x)"
  shows "one_call P (bnd m f)"
  unfolding one_call_def
proof (intro allI impI)
  fix w r w' assume run: "bnd m f w = (r, w')"
  obtain r1 w1 where m: "m w = (r1, w1)" by fastforce
  note k = keepsD [OF assms(1) m]
  show "w_calls w' = w_calls w \<or> (\<exists>c. P c \<and> w_calls w' = w_calls w @ [c])"
  proof (cases r1)
    case (Inl e)
    then show ?thesis using run m k by (simp add: py_simps)
  next
    case (Inr x)
    then have "Q x" "f x w1 = (r, w')" using run m assms(2) by (auto simp: py_simps yields_def)
    then show ?thesis using one_callD [OF assms(3)] k by metis
  qed
qed

lemma yields_any: "yields (\<lambda>_. True) m"
  by (simp add: yields_def)

lemma one_call_bnd [one_call_intros]: "keeps w_calls m \<Longrightarrow> (\<And>x. one_call P (f x)) \<Longrightarrow> one_call P (bnd m f)"
  by (rule one_call_after [OF _ yields_any])

lemma one_call_before:
  assumes "one_call P m" and "\<And>x. keeps w_calls (f x)"
  shows "one_call P (bnd m f)"
  unfolding one_call_def
proof (intro allI impI)
  fix w r w' assume run: "bnd m f w = (r, w')"
  obtain r1 w1 where m: "m w = (r1, w1)" by fastforce
  have "w_calls w' = w_calls w1"
    using run m keepsD [OF assms(2)] by (cases r1) (auto simp: py_simps)
  then show "w_calls w' = w_calls w \<or> (\<exists>c. P c \<and> w_calls w' = w_calls w @ [c])"
    using one_callD [OF assms(1) m] by simp
qed

lemma one_call_if [one_call_intros]:
  "(b \<Longrightarrow> one_call P m) \<Longrightarrow> (\<not> b \<Longrightarrow> one_call P n) \<Longrightarrow> one_call P (if b then m else n)"
  by simp

end
