(* ===== verification/Messaging.thy ===== *)
theory Messaging imports Outside begin

text \<open>
  apicrud/messaging/send.py and format.py: the worker that delivers messages by mail, directly or
  through the gateway of a telephone carrier. The SMTP server, the templates of jinja2, the date and
  message-id functions are parameters; what is handed to SMTP is kept in \<open>w_calls\<close>.
\<close>

section \<open>Formatting\<close>

text \<open>
  The mail tools: connecting and logging in, delivery, the configured gateways, the template folders
  with \<open>ml_render folder name locale params\<close> (None is TemplateNotFound), and printed dates.
\<close>

record mailer =
  ml_connect :: "pyval \<Rightarrow> pyval \<Rightarrow> exc + unit"
  ml_login :: "pyval \<Rightarrow> pyval \<Rightarrow> exc + unit"
  ml_send :: "pyval \<Rightarrow> string \<Rightarrow> pyval \<Rightarrow> exc + unit"
  ml_gateways :: dict
  ml_folders :: "string list"
  ml_render :: "string \<Rightarrow> string \<Rightarrow> pyval \<Rightarrow> dict \<Rightarrow> (exc + string) option"
  ml_datetime :: "pyval \<Rightarrow> pyval \<Rightarrow> pyval \<Rightarrow> exc + string"
  ml_date :: "int \<Rightarrow> string"
  ml_msgid :: "nat \<Rightarrow> string"

text \<open>An argument given twice, by position or by name, is a TypeError.\<close>

definition with_kwargs :: "string list \<Rightarrow> dict \<Rightarrow> dict \<Rightarrow> exc + dict" where
  "with_kwargs positional named kwargs =
     (if \<exists>k \<in> set (positional @ map fst named). dhas kwargs k
      then Inl (Exc ETypeError ''got multiple values for keyword argument'') else Inr (named @ kwargs))"

text \<open>\<open>_render_template\<close>: the first folder that has the template renders it.\<close>

fun first_template :: "mailer \<Rightarrow> string list \<Rightarrow> string \<Rightarrow> pyval \<Rightarrow> dict \<Rightarrow> exc + string" where
  "first_template ML [] name lang params = Inl (Exc EAPIcrudFormatError (''template='' @ name @ '' not found''))"
| "first_template ML (f # fs) name lang params =
     (case ml_render ML f (name @ ''.j2'') lang params of
        None \<Rightarrow> first_template ML fs name lang params | Some r \<Rightarrow> r)"

definition render_template ::
    "('d, 'r, 'c) env \<Rightarrow> mailer \<Rightarrow> dict \<Rightarrow> pyval \<Rightarrow> pyval \<Rightarrow> dict \<Rightarrow> exc + string" where
  "render_template E ML settings name lang params =
     (case name of
        PStr t \<Rightarrow> first_template ML (ml_folders ML) t lang
          (dmerge params [(''siteurl'', dget settings ''url''), (''appname'', PStr (cf_APPNAME (e_cfg E)))])
      | _ \<Rightarrow> Inl (Exc ETypeError ''unsupported operand type(s) for +''))"

text \<open>A profile item of the recipient, or the value of the settings.\<close>

definition profile_item ::
    "('d, 'r, 'c) env \<Rightarrow> dict \<Rightarrow> dict \<Rightarrow> string \<Rightarrow> (('d, 'r, 'c) world, pyval) py" where
  "profile_item E settings contact item =
     bnd (one_or_none E (where_cond (CEq (''Profile'', ''item'') (PStr item))
        (where_cond (CEq (''Profile'', ''uid'') (dget contact ''uid'')) (query_of ''Profile'')))) (\<lambda>p. case p of
       Some row \<Rightarrow> ret (dget row ''value'') | None \<Rightarrow> ret (dget settings item))"

definition from_line :: "pyval \<Rightarrow> pyval \<Rightarrow> string" where
  "from_line name addr = py_str name @ '' <'' @ py_str addr @ ''>''"

text \<open>One text part of a mail: the template and the footer.\<close>

definition mail_part ::
    "('d, 'r, 'c) env \<Rightarrow> mailer \<Rightarrow> dict \<Rightarrow> pyval \<Rightarrow> pyval \<Rightarrow> string \<Rightarrow> dict \<Rightarrow> exc + string" where
  "mail_part E ML settings template lang selector params =
     (case with_kwargs [''template_name'', ''locale''] [(''selector'', PStr selector)] params of
        Inl e \<Rightarrow> Inl e
      | Inr ps \<Rightarrow> (case render_template E ML settings template lang ps of
          Inl e \<Rightarrow> Inl e
        | Inr body \<Rightarrow> (case render_template E ML settings (PStr ''footer'') lang ps of
            Inl e \<Rightarrow> Inl e | Inr foot \<Rightarrow> Inr (body @ foot))))"

text \<open>\<open>email\<close>: the headers and the plain and HTML parts of the mail, as a dict.\<close>

definition format_email ::
    "('d, 'r, 'c) env \<Rightarrow> mailer \<Rightarrow> dict \<Rightarrow> pyval \<Rightarrow> dict \<Rightarrow> pyval \<Rightarrow> dict \<Rightarrow> pyval list \<Rightarrow> dict \<Rightarrow> (('d, 'r, 'c) world, pyval) py" where
  "format_email E ML settings template frm sender_email contact attachments kwargs =
     bnd (related_one E ''Contact'' frm ''owner'') (\<lambda>owner.
     bnd (of_result (with_kwargs [] [(''sender'', dget owner ''name'')] kwargs)) (\<lambda>params0.
     bnd (profile_item E settings contact ''tz'') (\<lambda>tz.
     bnd (profile_item E settings contact ''lang'') (\<lambda>lang.
     bnd (if dhas kwargs ''starts''
          then bnd (of_result (ml_datetime ML (dget kwargs ''starts'') lang tz)) (\<lambda>s.
               ret (dset params0 ''starts_formatted'' (PStr s)))
          else ret params0) (\<lambda>params.
     bnd (related_one E ''Contact'' contact ''owner'') (\<lambda>person.
     bnd (gets w_now) (\<lambda>now.
     bnd (of_result (with_kwargs [''template_name'', ''locale''] [(''selector'', PStr ''subject'')] kwargs)) (\<lambda>sub.
     bnd (of_result (render_template E ML settings template lang sub)) (\<lambda>subject.
     bnd draw (\<lambda>n.
     bnd (of_result (mail_part E ML settings template lang ''email'' params)) (\<lambda>plain.
     bnd (of_result (mail_part E ML settings template lang ''html'' params)) (\<lambda>html.
     ret (PDict ([(''From'', PStr (from_line (dget owner ''name'') sender_email))] @
       (if dget frm ''info'' \<noteq> sender_email
        then [(''Reply-To'', PStr (from_line (dget owner ''name'') (dget frm ''info'')))] else []) @
       [(''To'', PStr (from_line (dget person ''name'') (dget contact ''info''))), (''Date'', PStr (ml_date ML now)),
        (''Subject'', PStr subject), (''Message-ID'', PStr (ml_msgid ML n)), (''plain'', PStr plain), (''html'', PStr html),
        (''attachments'', PList attachments)]))))))))))))))"

definition format_sms ::
    "('d, 'r, 'c) env \<Rightarrow> mailer \<Rightarrow> dict \<Rightarrow> pyval \<Rightarrow> dict \<Rightarrow> dict \<Rightarrow> dict \<Rightarrow> (('d, 'r, 'c) world, string) py" where
  "format_sms E ML settings template frm contact kwargs =
     bnd (profile_item E settings contact ''lang'') (\<lambda>lang.
     bnd (related_one E ''Contact'' frm ''owner'') (\<lambda>owner.
     bnd (of_result (with_kwargs [''template_name'', ''locale''] [(''selector'', PStr ''sms''), (''sender'', dget owner ''name'')] kwargs)) (\<lambda>params.
     of_result (render_template E ML settings template lang params))))"

section \<open>Sender and recipient\<close>

text \<open>The settings a Messaging object works with: those of the account, or of the account named admin.\<close>

definition messaging_settings ::
    "('d, 'r, 'c) env \<Rightarrow> pyval \<Rightarrow> (('d, 'r, 'c) world, dict) py" where
  "messaging_settings E account_id =
     bnd (if account_id = PNone then
            bnd (one_or_none E (filter_by [(''name'', PStr ''admin'')] (query_of ''Account''))) (\<lambda>a. case a of
              Some row \<Rightarrow> ret (dget row ''id'') | None \<Rightarrow> raise_exc (Exc EAPIcrudSendError ''Missing admin''))
          else ret account_id) (\<lambda>ident.
     settings_of E (cf_APPROVED_SENDERS (e_cfg E)) ident PNone)"

text \<open>
  The recipient: the contact with the given id, or for \<open>to_uid\<close> the id (not the record) of the
  person's active primary e-mail contact.
\<close>

definition recipient ::
    "('d, 'r, 'c) env \<Rightarrow> pyval \<Rightarrow> pyval \<Rightarrow> (('d, 'r, 'c) world, pyval + dict) py" where
  "recipient E to to_uid = try_catch
     (if truthy to then bnd (run_one E (filter_by [(''id'', to)] (query_of ''Contact''))) (\<lambda>c. ret (Inr c))
      else bnd (run_one E (where_cond (CEq (''Person'', ''id'') to_uid)
            (where_cond (CEq (''Contact'', ''status'') (PStr ''active''))
            (where_cond (CEq (''Contact'', ''type'') (PStr ''email''))
            (where_cond (CEqCol (''Contact'', ''info'') (''Person'', ''identity''))
            (join_model ''Person'' (query_of ''Contact'')))))) ) (\<lambda>c. ret (Inl (dget c ''id''))))
     (\<lambda>ex. if exc_kind ex = ENoResultFound
           then raise_exc (Exc EAPIcrudSendError (''Recipient cid='' @ py_str to @ '', uid='' @ py_str to_uid @ '' not found''))
           else raise_exc ex)"

text \<open>The sender's contact of the recipient's type, or any, by rank; errors of the first search do not count.\<close>

definition from_query :: "dict \<Rightarrow> query" where
  "from_query conds = order_by (''Contact'', ''rank'') False
     (where_cond (CIn (''Contact'', ''status'') [PStr ''active'', PStr ''unconfirmed'']) (filter_by conds (query_of ''Contact'')))"

definition get_frm ::
    "('d, 'r, 'c) env \<Rightarrow> dict \<Rightarrow> pyval \<Rightarrow> dict \<Rightarrow> (('d, 'r, 'c) world, pyval \<times> dict) py" where
  "get_frm E settings frm0 contact =
     (let frm = (if frm0 = PNone then dget settings ''administrator_id'' else frm0)
      in bnd (try_catch (run_first E (from_query [(''uid'', frm), (''type'', dget contact ''type'')])) (\<lambda>ex. ret None)) (\<lambda>c1.
         bnd (case c1 of Some c \<Rightarrow> ret (Some c) | None \<Rightarrow> run_first E (from_query [(''uid'', frm)])) (\<lambda>c2. case c2 of
           Some c \<Rightarrow> ret (frm, c)
         | None \<Rightarrow> raise_exc (Exc EAPIcrudSendError (''uid='' @ py_str frm @ '' cannot get From address'')))))"

section \<open>Sending\<close>

text \<open>\<open>smtp_session\<close>: any problem with the credential is a send error.\<close>

definition smtp_session :: "('d, 'r, 'c) env \<Rightarrow> mailer \<Rightarrow> dict \<Rightarrow> (('d, 'r, 'c) world, unit) py" where
  "smtp_session E ML settings =
     bnd (of_result (ml_connect ML (dget settings ''smtp_smarthost'') (dget settings ''smtp_port''))) (\<lambda>_.
     if dhas settings ''smtp_credential_id'' \<and> truthy (dget settings ''smtp_credential_id'') then
       try_catch
         (bnd (run_one E (filter_by [(''id'', dget settings ''smtp_credential_id'')] (query_of ''Credential''))) (\<lambda>cred.
          of_result (ml_login ML (dget cred ''key'') (dget cred ''secret''))))
         (\<lambda>ex. raise_exc (Exc EAPIcrudSendError (''Credential problem: '' @ exc_msg ex)))
     else ret ())"

text \<open>Two grants of the sender, of the day and of the month; the second is charged only if the first was.\<close>

definition charge :: "('d, 'r, 'c) env \<Rightarrow> pyval \<Rightarrow> string \<Rightarrow> string \<Rightarrow> (('d, 'r, 'c) world, unit) py" where
  "charge E frm daily monthly =
     bnd (metrics_store E frm daily [] PNone) (\<lambda>ok.
     if \<not> ok then raise_exc (Exc EAPIcrudSendError ''daily limit exceeded'')
     else bnd (metrics_store E frm monthly [] PNone) (\<lambda>ok'.
       if \<not> ok' then raise_exc (Exc EAPIcrudSendError ''daily limit exceeded'') else ret ()))"

definition sms_gateway :: "mailer \<Rightarrow> dict \<Rightarrow> exc + string" where
  "sms_gateway ML contact = (case dget contact ''carrier'' of
       PStr c \<Rightarrow> (case dsub (ml_gateways ML) c of
           Inl e \<Rightarrow> Inl e | Inr g \<Rightarrow> Inr (py_str (dget contact ''info'') @ ''@'' @ py_str g))
     | v \<Rightarrow> Inl (Exc EKeyError (py_str v)))"

definition sender_address :: "dict \<Rightarrow> dict \<Rightarrow> exc + pyval" where
  "sender_address settings frm_contact = (case dget settings ''approved_senders'' of
       PList xs \<Rightarrow> Inr (if dget frm_contact ''info'' \<in> set xs then dget frm_contact ''info'' else dget settings ''sender_email'')
     | _ \<Rightarrow> Inl (Exc ETypeError ''argument is not iterable''))"

text \<open>The destination address and the body, for a text message or a mail.\<close>

definition compose ::
    "('d, 'r, 'c) env \<Rightarrow> mailer \<Rightarrow> dict \<Rightarrow> pyval \<Rightarrow> pyval \<Rightarrow> dict \<Rightarrow> pyval \<Rightarrow> dict \<Rightarrow> pyval list \<Rightarrow> dict \<Rightarrow>
     (('d, 'r, 'c) world, string \<times> pyval) py" where
  "compose E ML settings frm template frm_contact sender contact attachments kwargs =
     (if dget contact ''type'' = PStr ''sms'' then
        bnd (charge E frm ''sms_daily_total'' ''sms_monthly_total'') (\<lambda>_.
        bnd (of_result (sms_gateway ML contact)) (\<lambda>dest.
        bnd (format_sms E ML settings template frm_contact contact kwargs) (\<lambda>body. ret (dest, PStr body))))
      else
        bnd (charge E frm ''email_daily_total'' ''email_monthly_total'') (\<lambda>_.
        bnd (of_result (with_kwargs [''sender_email''] [(''contact_id'', dget contact ''id'')] kwargs)) (\<lambda>ps.
        bnd (format_email E ML settings template frm_contact sender contact attachments ps) (\<lambda>body.
        ret (py_str (dget contact ''info''), body)))))"

definition deliver ::
    "('d, 'r, 'c) env \<Rightarrow> mailer \<Rightarrow> dict \<Rightarrow> bool \<Rightarrow> pyval \<Rightarrow> pyval \<Rightarrow> dict \<Rightarrow> dict \<Rightarrow> pyval list \<Rightarrow> dict \<Rightarrow>
     (('d, 'r, 'c) world, unit) py" where
  "deliver E ML settings smtp_open frm template frm_contact contact attachments kwargs =
     bnd (of_result (sender_address settings frm_contact)) (\<lambda>sender.
     if dget contact ''type'' \<in> {PStr ''email'', PStr ''sms''} then
       bnd (if smtp_open then ret () else smtp_session E ML settings) (\<lambda>_.
       bnd (compose E ML settings frm template frm_contact sender contact attachments kwargs) (\<lambda>(dest, body).
       bnd (call_out ''sendmail'' [(''from'', sender), (''to'', PStr dest), (''body'', body)] (ml_send ML sender dest body)) (\<lambda>_.
       bnd (gets w_now) (\<lambda>now.
       bnd (set_attr E ''Contact'' (dget contact ''id'') ''last_attempted'' (PTime now)) (\<lambda>_.
       commit E)))))
     else raise_exc (Exc EAPIcrudSendError (''unsupported type='' @ py_str (dget contact ''type''))))"

definition send ::
    "('d, 'r, 'c) env \<Rightarrow> mailer \<Rightarrow> dict \<Rightarrow> bool \<Rightarrow> pyval \<Rightarrow> pyval \<Rightarrow> pyval \<Rightarrow> pyval \<Rightarrow> pyval list \<Rightarrow> dict \<Rightarrow>
     (('d, 'r, 'c) world, unit) py" where
  "send E ML settings smtp_open frm0 to to_uid template attachments kwargs =
     bnd (recipient E to to_uid) (\<lambda>r. case r of
       Inl ident \<Rightarrow> raise_exc (Exc EAttributeError ''str object has no attribute info'')
     | Inr contact \<Rightarrow>
         if dget contact ''status'' = PStr ''disabled'' then ret ()
         else bnd (get_frm E settings frm0 contact) (\<lambda>(frm, frm_contact).
           deliver E ML settings smtp_open frm template frm_contact contact attachments kwargs))"

text \<open>The worker's task: a fresh Messaging object, then one message.\<close>

definition send_contact ::
    "('d, 'r, 'c) env \<Rightarrow> mailer \<Rightarrow> pyval \<Rightarrow> pyval \<Rightarrow> pyval \<Rightarrow> pyval \<Rightarrow> dict \<Rightarrow> (('d, 'r, 'c) world, unit) py" where
  "send_contact E ML frm to to_uid template kwargs =
     bnd (messaging_settings E PNone) (\<lambda>settings.
     send E ML settings False frm to to_uid template [] kwargs)"

section \<open>What is delivered\<close>

lemma keeps_recipient [keeps_intros]: "keeps v (recipient E to to_uid)"
  by (auto simp: recipient_def intro!: keeps_intros)

lemma keeps_get_frm [keeps_intros]: "keeps v (get_frm E settings frm contact)"
  by (auto simp: get_frm_def Let_def intro!: keeps_intros)

lemma keeps_smtp_session [keeps_intros]: "keeps v (smtp_session E ML settings)"
  by (auto simp: smtp_session_def intro!: keeps_intros)

lemma keeps_profile_item [keeps_intros]: "keeps v (profile_item E settings contact item)"
  by (auto simp: profile_item_def intro!: keeps_intros)

lemma calls_compose [keeps_intros]:
  "keeps w_calls (compose E ML settings frm template fc sender contact attachments kwargs)"
  by (auto simp: compose_def charge_def format_email_def format_sms_def intro!: keeps_intros)

text \<open>Where a mail goes: a text message through a gateway, a mail to the contact's own address.\<close>

definition goes_to :: "mailer \<Rightarrow> dict \<Rightarrow> string \<Rightarrow> bool" where
  "goes_to ML contact dest \<longleftrightarrow>
     (dget contact ''type'' = PStr ''email'' \<and> dest = py_str (dget contact ''info'')) \<or>
     (dget contact ''type'' = PStr ''sms'' \<and> sms_gateway ML contact = Inr dest)"

lemma compose_goes_to:
  assumes "compose E ML settings frm template fc sender contact attachments kwargs w = (Inr (dest, body), w')"
    and "dget contact ''type'' \<in> {PStr ''email'', PStr ''sms''}"
  shows "goes_to ML contact dest"
  using assms by (auto simp: compose_def goes_to_def py_simps split: if_splits prod.splits sum.splits)

definition own_mail :: "mailer \<Rightarrow> dict \<Rightarrow> dict \<Rightarrow> dict \<Rightarrow> string \<times> dict \<Rightarrow> bool" where
  "own_mail ML settings fc contact c \<longleftrightarrow> (\<exists>sender dest body.
     c = (''sendmail'', [(''from'', sender), (''to'', PStr dest), (''body'', body)]) \<and>
     sender_address settings fc = Inr sender \<and> goes_to ML contact dest)"

lemma compose_yields:
  assumes "dget contact ''type'' \<in> {PStr ''email'', PStr ''sms''}"
  shows "yields (\<lambda>p. goes_to ML contact (fst p)) (compose E ML settings frm template fc sender contact attachments kwargs)"
  by (auto simp: yields_def intro: compose_goes_to [OF _ assms])

lemma deliver_calls:
  "one_call (own_mail ML settings fc contact) (deliver E ML settings smtp_open frm template fc contact attachments kwargs)"
  unfolding deliver_def
proof (rule one_call_after [where Q = "\<lambda>s. sender_address settings fc = Inr s"])
  show "yields (\<lambda>s. sender_address settings fc = Inr s) (of_result (sender_address settings fc))"
    by (rule yields_of_result)
  fix sender assume s: "sender_address settings fc = Inr sender"
  show "one_call (own_mail ML settings fc contact)
     (if dget contact ''type'' \<in> {PStr ''email'', PStr ''sms''} then
       bnd (if smtp_open then ret () else smtp_session E ML settings) (\<lambda>_.
       bnd (compose E ML settings frm template fc sender contact attachments kwargs) (\<lambda>(dest, body).
       bnd (call_out ''sendmail'' [(''from'', sender), (''to'', PStr dest), (''body'', body)] (ml_send ML sender dest body)) (\<lambda>_.
       bnd (gets w_now) (\<lambda>now.
       bnd (set_attr E ''Contact'' (dget contact ''id'') ''last_attempted'' (PTime now)) (\<lambda>_.
       commit E)))))
     else raise_exc (Exc EAPIcrudSendError (''unsupported type='' @ py_str (dget contact ''type''))))"
  proof (rule one_call_if; (rule one_call_bnd)?)
    assume t: "dget contact ''type'' \<in> {PStr ''email'', PStr ''sms''}"
    show "one_call (own_mail ML settings fc contact)
       (bnd (compose E ML settings frm template fc sender contact attachments kwargs) (\<lambda>(dest, body).
       bnd (call_out ''sendmail'' [(''from'', sender), (''to'', PStr dest), (''body'', body)] (ml_send ML sender dest body)) (\<lambda>_.
       bnd (gets w_now) (\<lambda>now.
       bnd (set_attr E ''Contact'' (dget contact ''id'') ''last_attempted'' (PTime now)) (\<lambda>_.
       commit E)))))"
      by (rule one_call_after [OF calls_compose compose_yields [OF t]])
        (auto simp: own_mail_def s intro!: one_call_before one_call_out keeps_intros)
  qed (intro one_call_keeps keeps_intros)+
qed (rule keeps_intros)

lemma send_to_contact:
  assumes "send E ML settings smtp_open frm0 to to_uid template attachments kwargs w = (r, w')" and "truthy to"
    and "w_calls w' \<noteq> w_calls w"
  shows "\<exists>contact fc c. one_of (db_all (e_db E) (filter_by [(''id'', to)] (query_of ''Contact'')) (w_db w)) = Inr contact \<and>
    dget contact ''status'' \<noteq> PStr ''disabled'' \<and> own_mail ML settings fc contact c \<and> w_calls w' = w_calls w @ [c]"
proof -
  let ?q = "filter_by [(''id'', to)] (query_of ''Contact'')"
  obtain contact where contact: "one_of (db_all (e_db E) ?q (w_db w)) = Inr contact"
    and rest: "bnd (get_frm E settings frm0 contact) (\<lambda>(frm, frm_contact).
           deliver E ML settings smtp_open frm template frm_contact contact attachments kwargs) w = (r, w')"
    and s: "dget contact ''status'' \<noteq> PStr ''disabled''"
    using assms by (auto simp: send_def recipient_def py_simps run_one_run split: sum.splits if_splits)
  obtain r1 w1 where g: "get_frm E settings frm0 contact w = (r1, w1)" by fastforce
  have "w1 = w" using keepsD [OF keeps_get_frm [where v = id] g] by simp
  then obtain frm fc where "deliver E ML settings smtp_open frm template fc contact attachments kwargs w = (r, w')"
    using rest g assms(3) by (auto simp: bnd_run split: sum.splits)
  then show ?thesis using one_callD [OF deliver_calls] assms(3) contact s by metis
qed

section \<open>Properties\<close>

definition demo_mailer :: mailer where
  "demo_mailer = \<lparr>ml_connect = (\<lambda>h p. Inr ()), ml_login = (\<lambda>k s. Inr ()), ml_send = (\<lambda>a b c. Inr ()),
     ml_gateways = [(''att'', PStr ''mms.att.net'')], ml_folders = [''templates''],
     ml_render = (\<lambda>f name lang params. if name = ''hello.j2'' then Some (Inr (''Hello from '' @ py_str (dget params ''sender''))) else None),
     ml_datetime = (\<lambda>s l t. Inr []), ml_date = (\<lambda>t. []), ml_msgid = (\<lambda>n. [])\<rparr>"

definition mail_env :: "(mdb, mredis, mcache) env" where
  "mail_env = mem_env\<lparr>e_cfg := mem_config\<lparr>cf_METRICS :=
     [(''sms_daily_total'', demo_metric\<lparr>mt_style := ''counter''\<rparr>), (''sms_monthly_total'', demo_metric\<lparr>mt_style := ''counter''\<rparr>)]\<rparr>\<rparr>"

definition mail_settings :: dict where
  "mail_settings = [(''approved_senders'', PList []), (''sender_email'', PStr ''service@example.com''), (''lang'', PStr ''en'')]"

definition mail_world :: "(mdb, mredis, mcache) world" where
  "mail_world = mem_world [(''Contact'',
     [[(''id'', PStr ''c-1''), (''uid'', PStr ''u-2''), (''type'', PStr ''sms''), (''info'', PStr ''5005550006''),
       (''carrier'', PStr ''att''), (''status'', PStr ''active'')],
      [(''id'', PStr ''c-2''), (''uid'', PStr ''u-1''), (''type'', PStr ''sms''), (''info'', PStr ''5005550007''),
       (''carrier'', PStr ''att''), (''status'', PStr ''active''), (''owner'', PList [PDict [(''name'', PStr ''Ann'')]])]])]"

abbreviation mail_sent :: "(exc + unit) \<times> (mdb, mredis, mcache) world" where
  "mail_sent \<equiv> send mail_env demo_mailer mail_settings True (PStr ''u-1'') (PStr ''c-1'') PNone (PStr ''hello'') [] [] mail_world"

lemma mail_run: "w_calls (snd mail_sent) =
  [(''sendmail'', [(''from'', PStr ''service@example.com''), (''to'', PStr ''5005550006@mms.att.net''), (''body'', PStr ''Hello from Ann'')])]"
  by code_simp

text \<open>C22: A message that reaches the SMTP server at all is exactly one mail, to the address (or the
  carrier's gateway for a phone number) of the contact asked for, which is not disabled, and in the
  name of the configured sender or of an approved one.\<close>

lemma mail_goes_to_contact:
  assumes "send E ML settings smtp_open frm0 to to_uid template attachments kwargs w = (r, w')" and "truthy to"
    and "w_calls w' \<noteq> w_calls w"
  shows "\<exists>contact sender dest body. one_of (db_all (e_db E) (filter_by [(''id'', to)] (query_of ''Contact'')) (w_db w)) = Inr contact \<and>
    dget contact ''status'' \<noteq> PStr ''disabled'' \<and>
    w_calls w' = w_calls w @ [(''sendmail'', [(''from'', sender), (''to'', PStr dest), (''body'', body)])] \<and>
    goes_to ML contact dest \<and>
    (sender = dget settings ''sender_email'' \<or> (\<exists>xs. dget settings ''approved_senders'' = PList xs \<and> sender \<in> set xs))"
  using send_to_contact [OF assms] by (fastforce simp: own_mail_def sender_address_def split: pyval.splits if_splits)

lemma mail_goes_to_contact_witness:
  "\<exists>contact sender dest body. dget contact ''status'' \<noteq> PStr ''disabled'' \<and>
     w_calls (snd mail_sent) = [(''sendmail'', [(''from'', sender), (''to'', PStr dest), (''body'', body)])] \<and>
     goes_to demo_mailer contact dest \<and> sender = PStr ''service@example.com''"
proof -
  have s: "mail_sent = (fst mail_sent, snd mail_sent)" by simp
  have t: "truthy (PStr ''c-1'')" by simp
  have c: "w_calls (snd mail_sent) \<noteq> w_calls mail_world" by (simp add: mail_run) (simp add: mail_world_def mem_world_def)
  from mail_goes_to_contact [OF s t c] show ?thesis
    by (auto simp: mail_settings_def dget_def mail_world_def mem_world_def)
qed

lemma message_to_user_fails:
  "isl (fst (send E ML settings smtp_open frm0 PNone to_uid template attachments kwargs w)) \<and>
   snd (send E ML settings smtp_open frm0 PNone to_uid template attachments kwargs w) = w"
  by (auto simp: send_def recipient_def py_simps run_one_run split: sum.splits)

end
