(* ===== verification/Media_Storage.thy ===== *)
theory Media_Storage imports Outside Metric_Reports Service_Config begin

text \<open>
  apicrud/media/storage.py: the broker for uploads. It checks the album, the caller's permission and
  the grants, asks the vendor for a pre-signed URL, and keeps the description of the file in redis.
  The S3 client of boto3 is a parameter (B2 is not implemented in the source), as are the models Album
  and Picture, which the repository's own model files do not declare.
\<close>

section \<open>The name of an iPhone picture\<close>

definition hex_lower :: "char \<Rightarrow> bool" where
  "hex_lower c \<longleftrightarrow> is_digit c \<or> (97 \<le> (of_char c :: nat) \<and> (of_char c :: nat) \<le> 102)"

text \<open>\<open>[a-f0-9]{n}\<close> and \<open>-?\<close>: the text after them, if they match at the front.\<close>

definition eat_hex :: "nat \<Rightarrow> string \<Rightarrow> string option" where
  "eat_hex n s = (if n \<le> length s \<and> (\<forall>c \<in> set (take n s). hex_lower c) then Some (drop n s) else None)"

definition eat_one :: "string \<Rightarrow> string \<Rightarrow> string option" where
  "eat_one cs s = (case s of [] \<Rightarrow> None | c # r \<Rightarrow> if c \<in> set cs then Some r else None)"

definition eat_dash :: "string \<Rightarrow> string option" where
  "eat_dash s = Some (case s of [] \<Rightarrow> [] | c # r \<Rightarrow> if c = CHR ''-'' then r else s)"

fun eat_all :: "(string \<Rightarrow> string option) list \<Rightarrow> string \<Rightarrow> string option" where
  "eat_all [] s = Some s"
| "eat_all (f # fs) s = (case f s of None \<Rightarrow> None | Some r \<Rightarrow> eat_all fs r)"

definition iphone_name :: "string \<Rightarrow> bool" where
  "iphone_name s \<longleftrightarrow> (case eat_all [eat_hex 8, eat_dash, eat_hex 4, eat_dash, eat_one ''4'', eat_hex 3, eat_dash,
       eat_one ''89ab'', eat_hex 3, eat_dash, eat_hex 12] s of
     Some (c # r) \<Rightarrow> c \<noteq> newline \<and> take 4 r = ''jpeg'' | _ \<Rightarrow> False)"

text \<open>\<open>s.strip(chars)\<close>, \<open>uuid.UUID(s).bytes\<close> and the URL-safe Base64 without padding.\<close>

definition strip_chars :: "string \<Rightarrow> string \<Rightarrow> string" where
  "strip_chars cs s = rev (dropWhile (\<lambda>c. c \<in> set cs) (rev (dropWhile (\<lambda>c. c \<in> set cs) s)))"

definition uuid_bytes :: "string \<Rightarrow> exc + string" where
  "uuid_bytes s =
     (let h = filter (\<lambda>c. c \<noteq> CHR ''-'') (strip_chars ''{}'' s)
      in if length h \<noteq> 32 then Inl (Exc EValueError ''badly formed hexadecimal UUID string'')
         else case unhex h of None \<Rightarrow> Inl (Exc EValueError ''invalid literal for int() with base 16'') | Some b \<Rightarrow> Inr b)"

definition urlsafe :: "string \<Rightarrow> string" where
  "urlsafe s = filter (\<lambda>c. c \<noteq> CHR ''='') (map (\<lambda>c. if c = CHR ''+'' then CHR ''-'' else if c = CHR ''/'' then CHR ''_'' else c) (b64encode s))"

definition short_name :: "pyval \<Rightarrow> exc + pyval" where
  "short_name v = (case v of
       PStr s \<Rightarrow>
         if iphone_name (str_lower s) then
           (case uuid_bytes (strip_chars ''.jpeg'' s) of Inl e \<Rightarrow> Inl e | Inr b \<Rightarrow> Inr (PStr (urlsafe b @ ''.jpeg'')))
         else Inr v
     | _ \<Rightarrow> Inl (Exc EAttributeError ''object has no attribute lower''))"

section \<open>File metadata\<close>

definition meta_key :: "pyval \<Rightarrow> string \<Rightarrow> string" where
  "meta_key uid file_id = ''fid:'' @ py_str uid @ '':'' @ last_n 8 file_id"

text \<open>None for a key that is missing or unreadable.\<close>

definition get_file_meta :: "('d, 'r, 'c) env \<Rightarrow> pyval \<Rightarrow> string \<Rightarrow> (('d, 'r, 'c) world, pyval) py" where
  "get_file_meta E uid file_id = try_catch
     (bnd (redis_get E (meta_key uid file_id)) (\<lambda>v. case v of
        None \<Rightarrow> raise_exc (Exc ETypeError ''the JSON object must be str, bytes or bytearray, not NoneType'')
      | Some s \<Rightarrow> of_result (json_loads s)))
     (\<lambda>ex. ret PNone)"

text \<open>The set is with NX: a key that is there keeps its value.\<close>

definition update_file_meta :: "('d, 'r, 'c) env \<Rightarrow> pyval \<Rightarrow> string \<Rightarrow> dict \<Rightarrow> (('d, 'r, 'c) world, unit) py" where
  "update_file_meta E uid file_id meta = try_catch
     (bnd (of_result (json_dumps (cr_float_repr (e_crypt E)) (PDict meta))) (\<lambda>s.
      bnd (redis_set E (meta_key uid file_id) s (Some (cf_REDIS_TTL (e_cfg E))) True) (\<lambda>_. ret ())))
     (\<lambda>ex. ret ())"

definition del_file_meta :: "('d, 'r, 'c) env \<Rightarrow> pyval \<Rightarrow> string \<Rightarrow> (('d, 'r, 'c) world, unit) py" where
  "del_file_meta E uid file_id = try_catch
     (bnd (redis_delete E (meta_key uid file_id)) (\<lambda>_. ret ())) (\<lambda>ex. ret ())"

section \<open>Vendors\<close>

text \<open>
  The S3 client for a credential record: a pre-signed POST (its form fields and URL), and fetching,
  storing and deleting an object. The last two are calls to the outside.
\<close>

record s3_client =
  s3_presign :: "dict \<Rightarrow> pyval \<Rightarrow> string \<Rightarrow> int \<Rightarrow> exc + (pyval \<times> pyval)"
  s3_get :: "dict \<Rightarrow> pyval \<Rightarrow> string \<Rightarrow> exc + string"
  s3_put :: "dict \<Rightarrow> pyval \<Rightarrow> string \<Rightarrow> string \<Rightarrow> string \<Rightarrow> exc + pyval"
  s3_delete :: "dict \<Rightarrow> pyval \<Rightarrow> string \<Rightarrow> exc + pyval"

definition s3_upload_url :: "s3_client \<Rightarrow> dict \<Rightarrow> int \<Rightarrow> pyval \<Rightarrow> string \<Rightarrow> exc + resp" where
  "s3_upload_url S cred ttl bucket path = (case s3_presign S cred bucket path ttl of
       Inr (fs, url) \<Rightarrow> Inr ([(''fields'', fs), (''uploadUrl'', url)], 201)
     | Inl e \<Rightarrow> if exc_kind e = EClientError then Inr ([(''message'', PStr (exc_msg e)), (''bucket'', bucket)], 405) else Inl e)"

text \<open>StorageBackblaze is made without a session here, so its first query fails.\<close>

definition backblaze_upload_url :: "exc + resp" where
  "backblaze_upload_url = Inl (Exc EAttributeError ''NoneType object has no attribute query'')"

definition active_storage :: "pyval \<Rightarrow> query" where
  "active_storage ident = filter_by [(''id'', ident), (''status'', PStr ''active'')] (query_of ''Storage'')"

text \<open>
  The three object operations: for a missing volume the error is logged and the variable is unbound;
  other vendors answer None.
\<close>

definition on_volume ::
    "('d, 'r, 'c) env \<Rightarrow> pyval \<Rightarrow> (dict \<Rightarrow> dict \<Rightarrow> (('d, 'r, 'c) world, pyval) py) \<Rightarrow> (('d, 'r, 'c) world, pyval) py" where
  "on_volume E storage_id f =
     bnd (one_or_none E (active_storage storage_id)) (\<lambda>s. case s of
       None \<Rightarrow> raise_exc (Exc EUnboundLocalError ''storage'')
     | Some storage \<Rightarrow>
         bnd (related_one E ''Storage'' storage ''credentials'') (\<lambda>cred.
         if dget cred ''vendor'' = PStr ''aws'' then f storage cred else ret PNone))"

definition get_object :: "('d, 'r, 'c) env \<Rightarrow> s3_client \<Rightarrow> pyval \<Rightarrow> string \<Rightarrow> (('d, 'r, 'c) world, pyval) py" where
  "get_object E S storage_id path = on_volume E storage_id (\<lambda>storage cred.
     bnd (of_result (s3_get S cred (dget storage ''bucket'') path)) (\<lambda>b. ret (PBytes b)))"

definition put_object ::
    "('d, 'r, 'c) env \<Rightarrow> s3_client \<Rightarrow> pyval \<Rightarrow> string \<Rightarrow> string \<Rightarrow> string \<Rightarrow> (('d, 'r, 'c) world, pyval) py" where
  "put_object E S storage_id path content ctype = on_volume E storage_id (\<lambda>storage cred.
     call_out ''put_object'' [(''bucket'', dget storage ''bucket''), (''key'', PStr path), (''body'', PBytes content), (''type'', PStr ctype)]
       (s3_put S cred (dget storage ''bucket'') path content ctype))"

definition del_object :: "('d, 'r, 'c) env \<Rightarrow> s3_client \<Rightarrow> pyval \<Rightarrow> string \<Rightarrow> (('d, 'r, 'c) world, pyval) py" where
  "del_object E S storage_id path = on_volume E storage_id (\<lambda>storage cred.
     call_out ''delete_object'' [(''bucket'', dget storage ''bucket''), (''key'', PStr path)]
       (s3_delete S cred (dget storage ''bucket'') path))"

section \<open>Permission to upload\<close>

definition MIME_IMAGE_TYPES :: "string list" where
  "MIME_IMAGE_TYPES = [''gif'', ''heic'', ''jpeg'', ''png'', ''svg'']"

definition MIME_VIDEO_TYPES :: "string list" where
  "MIME_VIDEO_TYPES = [''mp4'', ''mpeg'']"

text \<open>A check of the request ends it with an answer, or lets it go on.\<close>

type_synonym verdict = "resp option"

definition parent_model :: "('d, 'r, 'c) env \<Rightarrow> pyval \<Rightarrow> exc + string" where
  "parent_model E resource =
     (case find (\<lambda>m. m \<notin> set (e_models E)) [''Album'', ''List'', ''Message''] of
        Some m \<Rightarrow> Inl (Exc EAttributeError (''module has no attribute '' @ m))
      | None \<Rightarrow> (case map_of [(PStr ''album'', ''Album''), (PStr ''list'', ''List''), (PStr ''message'', ''Message'')] resource of
          Some m \<Rightarrow> Inr m | None \<Rightarrow> Inl (Exc EKeyError (py_str resource))))"

definition album_query :: "pyval \<Rightarrow> query" where
  "album_query ident = filter_by [(''id'', ident), (''status'', PStr ''active'')] (query_of ''Album'')"

definition album_full :: "('d, 'r, 'c) env \<Rightarrow> dict \<Rightarrow> (('d, 'r, 'c) world, verdict) py" where
  "album_full E body =
     bnd (one_or_none E (album_query (dget body ''parent_id''))) (\<lambda>r. case r of
       None \<Rightarrow> ret (Some ([(''album_id'', dget body ''parent_id''), (''message'', PStr ''album not found'')], 404))
     | Some album \<Rightarrow>
         bnd (reads (\<lambda>w. db_related (e_db E) ''Album'' (dget album ''id'') ''pictures'' (w_db w))) (\<lambda>pictures.
         bnd (grants_get E ''album_size'' PNone) (\<lambda>max_size.
         bnd (of_result (py_ge (PInt (int (length pictures))) max_size)) (\<lambda>full.
         ret (if full then Some (msg_resp (''album is full (max='' @ py_str max_size @ '')'') 405) else None)))))"

text \<open>
  The parent record: an album with room in it. For a list or a message no record is looked up, and the
  permission check stumbles over the unbound variable.
\<close>

definition may_upload :: "('d, 'r, 'c) env \<Rightarrow> dict \<Rightarrow> (('d, 'r, 'c) world, verdict) py" where
  "may_upload E body =
     (let resource = dget_or body ''parent_type'' (PStr ''album'')
      in bnd (of_result (parent_model E resource)) (\<lambda>m.
         bnd (if resource = PStr ''album'' then album_full E body else ret None) (\<lambda>v. case v of
           Some answer \<Rightarrow> ret (Some answer)
         | None \<Rightarrow>
             bnd (access_control E (Some m)) (\<lambda>acc.
             if resource \<noteq> PStr ''album'' then raise_exc (Exc EUnboundLocalError ''record'')
             else bnd (with_permission E acc (CHR ''u'') (Some (album_query (dget body ''parent_id''))) PNone PNone PNone) (\<lambda>ok.
               ret (if ok then None else Some (msg_resp ''access_denied'' 403)))))))"

text \<open>The second part of the content type, None where there is none.\<close>

definition media_type :: "dict \<Rightarrow> exc + pyval" where
  "media_type body =
     (if \<not> truthy (dget body ''content_type'') then Inr PNone
      else case dget body ''content_type'' of
          PStr s \<Rightarrow> map_sum id PStr (item_at 1 (py_split (CHR ''/'') s))
        | _ \<Rightarrow> Inl (Exc EAttributeError ''object has no attribute split''))"

definition is_media :: "string list \<Rightarrow> pyval \<Rightarrow> bool" where
  "is_media types ctype \<longleftrightarrow> ctype \<in> PStr ` set types"

text \<open>A number of the body above a limit; an absent or zero number is not.\<close>

definition exceeds :: "pyval \<Rightarrow> pyval \<Rightarrow> exc + bool" where
  "exceeds v limit = (if \<not> truthy v then Inr False
     else case py_ge limit v of Inl e \<Rightarrow> Inl e | Inr ge \<Rightarrow> Inr (\<not> ge))"

definition quota_left :: "('d, 'r, 'c) env \<Rightarrow> pyval \<Rightarrow> string \<Rightarrow> (('d, 'r, 'c) world, bool) py" where
  "quota_left E uid name = bnd (metrics_check E uid name) (\<lambda>c. ret (c \<noteq> None \<and> c \<noteq> Some 0))"

text \<open>\<open>'%f' % v\<close>: six decimals.\<close>

definition six_decimals :: "pyval \<Rightarrow> string" where
  "six_decimals v = (case py_num v of
       None \<Rightarrow> py_str v
     | Some x \<Rightarrow> (let n = floor (\<bar>x\<bar> * 1000000 + 1 / 2)
         in (if x < 0 then ''-'' else []) @ show_int (n div 1000000) @ ''.'' @ tl (show_int (1000000 + n mod 1000000))))"

definition media_quota :: "('d, 'r, 'c) env \<Rightarrow> pyval \<Rightarrow> pyval \<Rightarrow> dict \<Rightarrow> (('d, 'r, 'c) world, verdict) py" where
  "media_quota E uid ctype body =
     (if is_media MIME_VIDEO_TYPES ctype then
        bnd (grants_get E ''video_duration_max'' PNone) (\<lambda>duration_max.
        bnd (quota_left E uid ''video_daily_total'') (\<lambda>ok.
        if \<not> ok then ret (Some (msg_resp ''daily video upload limit exceeded'' 405))
        else bnd (of_result (exceeds (dget body ''duration'') duration_max)) (\<lambda>long.
          ret (if long then Some (msg_resp (''video exceeds maximum duration='' @ six_decimals duration_max) 405) else None))))
      else if is_media MIME_IMAGE_TYPES ctype then
        bnd (quota_left E uid ''photo_daily_total'') (\<lambda>ok.
        ret (if \<not> ok then Some (msg_resp ''daily photo upload limit exceeded'' 405) else None))
      else ret None)"

definition size_quota :: "('d, 'r, 'c) env \<Rightarrow> dict \<Rightarrow> (('d, 'r, 'c) world, verdict) py" where
  "size_quota E body =
     bnd (grants_get E ''media_size_max'' PNone) (\<lambda>max_size.
     bnd (of_result (exceeds (dget body ''size'') max_size)) (\<lambda>big.
     ret (if big then Some (msg_resp (''file size exceeds max='' @ py_str max_size) 405) else None)))"

text \<open>Checks one after the other: the first answer is the answer.\<close>

definition unless_answered ::
    "(('d, 'r, 'c) world, verdict) py \<Rightarrow> (('d, 'r, 'c) world, resp) py \<Rightarrow> (('d, 'r, 'c) world, resp) py" where
  "unless_answered check rest = bnd check (\<lambda>v. case v of Some answer \<Rightarrow> ret answer | None \<Rightarrow> rest)"

section \<open>The upload URL\<close>

definition storage_path :: "dict \<Rightarrow> pyval \<Rightarrow> string \<Rightarrow> string" where
  "storage_path storage uid ident = strip_char (CHR ''/'')
     ((if truthy (dget storage ''prefix'') then py_str (dget storage ''prefix'') else []) @ ''/'' @ py_str uid @ ''/'' @ ident)"

definition file_meta ::
    "int \<Rightarrow> pyval \<Rightarrow> string \<Rightarrow> dict \<Rightarrow> dict \<Rightarrow> pyval \<Rightarrow> string \<Rightarrow> dict" where
  "file_meta start ctype ident body storage uid path =
     [(''created'', PFloat (of_int start / 1000000)), (''ctype'', ctype), (''duration'', dget body ''duration''),
      (''fid'', PStr ident), (''height'', dget body ''height''), (''modified'', dget body ''modified''),
      (''name'', dget body ''name''), (''oid'', dget storage ''uid''), (''path'', PStr path), (''pid'', dget body ''parent_id''),
      (''sid'', dget body ''storage_id''), (''size'', dget body ''size''), (''uid'', uid), (''width'', dget body ''width'')]"

definition vendor_url ::
    "s3_client \<Rightarrow> pyval \<Rightarrow> dict \<Rightarrow> int \<Rightarrow> dict \<Rightarrow> string \<Rightarrow> exc + resp" where
  "vendor_url S vendor cred ttl storage path =
     (if vendor = PStr ''backblaze'' then backblaze_upload_url
      else if vendor = PStr ''aws'' then s3_upload_url S cred ttl (dget storage ''bucket'') path
      else Inr (msg_resp (''Unsupported vendor='' @ py_str vendor) 405))"

text \<open>The URL from the vendor; only an answer 201 leaves a description of the file.\<close>

definition issue_url ::
    "('d, 'r, 'c) env \<Rightarrow> s3_client \<Rightarrow> pyval \<Rightarrow> int \<Rightarrow> dict \<Rightarrow> dict \<Rightarrow> pyval \<Rightarrow> dict \<Rightarrow> string \<Rightarrow> (('d, 'r, 'c) world, resp) py" where
  "issue_url E S uid ttl storage cred ctype body ident =
     (let path = storage_path storage uid ident;
          suffix = (if truthy ctype then ''.'' @ py_str ctype else [])
      in bnd (of_result (vendor_url S (dget cred ''vendor'') cred ttl storage (path @ suffix))) (\<lambda>(result, status).
         if status \<noteq> 201 then ret (result, status)
         else bnd (gets w_start) (\<lambda>start.
           bnd (update_file_meta E uid ident (file_meta start ctype ident body storage uid path)) (\<lambda>_.
           bnd (of_result (dsub result ''fields'')) (\<lambda>fs.
           bnd (of_result (dsub result ''uploadUrl'')) (\<lambda>url.
           ret ([(''params'', fs), (''upload_url'', url), (''file_id'', PStr ident)], status)))))))"

definition get_upload_url ::
    "('d, 'r, 'c) env \<Rightarrow> s3_client \<Rightarrow> pyval \<Rightarrow> int \<Rightarrow> dict \<Rightarrow> (('d, 'r, 'c) world, resp) py" where
  "get_upload_url E S uid ttl body0 =
     bnd (one_or_none E (active_storage (dget body0 ''storage_id''))) (\<lambda>s. case s of
       None \<Rightarrow> ret ([(''id'', dget body0 ''storage_id''), (''message'', PStr ''storage volume not found'')], 404)
     | Some storage \<Rightarrow>
         bnd (of_result (short_name (dget body0 ''name''))) (\<lambda>name.
         let body = dset body0 ''name'' name
         in unless_answered (may_upload E body)
           (bnd (related_one E ''Storage'' storage ''credentials'') (\<lambda>cred.
            bnd (gen_id 8 ''f-'' id_chars) (\<lambda>ident.
            bnd (of_result (media_type body)) (\<lambda>ctype.
            unless_answered (media_quota E uid ctype body)
              (unless_answered (size_quota E body)
                (issue_url E S uid ttl storage cred ctype body ident))))))))"

section \<open>Completion\<close>

text \<open>
  \<open>upload_complete\<close>: the worker is told first, the use of the quota is counted afterwards. The vendor's
  queue is \<open>w_calls\<close>.
\<close>

definition upload_complete ::
    "('d, 'r, 'c) env \<Rightarrow> (pyval \<Rightarrow> string \<Rightarrow> exc + unit) \<Rightarrow> pyval \<Rightarrow> string \<Rightarrow> pyval \<Rightarrow> (('d, 'r, 'c) world, resp) py" where
  "upload_complete E worker uid file_id status =
     bnd (get_file_meta E uid file_id) (\<lambda>meta.
     if truthy meta \<and> status = PStr ''done'' then
       (case meta of
          PDict d \<Rightarrow>
            bnd (of_result (dsub d ''created'')) (\<lambda>created.
            if py_num created = None then raise_exc (Exc ETypeError ''unsupported operand type(s) for -'')
            else
              bnd (call_out ''worker'' [(''uid'', uid), (''file_id'', PStr file_id)] (worker uid file_id)) (\<lambda>_.
              bnd (metrics_store E PNone ''file_upload_bytes_total'' [''ctype='' @ py_str (dget d ''ctype'')] (dget d ''size'')) (\<lambda>_.
              bnd (if is_media MIME_IMAGE_TYPES (dget d ''ctype'') then metrics_store E uid ''photo_daily_total'' [] PNone
                   else if is_media MIME_VIDEO_TYPES (dget d ''ctype'') then metrics_store E uid ''video_daily_total'' [] PNone
                   else ret True) (\<lambda>_.
              ret ([(''file_id'', PStr file_id)], 201)))))
        | _ \<Rightarrow> raise_exc (Exc ETypeError ''indices must be integers''))
     else ret ([(''file_id'', PStr file_id), (''message'', PStr ''unhandled frontend status'')], 405))"

section \<open>Albums for display\<close>

fun ints_of :: "string list \<Rightarrow> exc + int list" where
  "ints_of [] = Inr []"
| "ints_of (s # ss) = (case int_of_stored s of Inl e \<Rightarrow> Inl e | Inr i \<Rightarrow>
     (case ints_of ss of Inl e \<Rightarrow> Inl e | Inr is \<Rightarrow> Inr (i # is)))"

definition int_height :: "dict \<Rightarrow> int option" where
  "int_height picture = (case dget picture ''height'' of PInt h \<Rightarrow> if h = 0 then None else Some h | _ \<Rightarrow> None)"

text \<open>The sizes of the album that fit a picture; a picture without height takes all.\<close>

definition fitting_sizes :: "pyval \<Rightarrow> int option \<Rightarrow> exc + int list" where
  "fitting_sizes sizes height = (case sizes of
       PStr s \<Rightarrow> map_sum id (filter (\<lambda>x. case height of None \<Rightarrow> True | Some h \<Rightarrow> x \<le> h)) (ints_of (py_split (CHR '','') s))
     | _ \<Rightarrow> Inl (Exc EAttributeError ''object has no attribute split''))"

definition sized :: "string \<Rightarrow> int \<Rightarrow> string \<Rightarrow> string" where
  "sized uri n fmt = uri @ ''.'' @ show_int n @ ''.'' @ fmt"

definition source_set :: "string \<Rightarrow> string \<Rightarrow> int \<Rightarrow> pyval" where
  "source_set src bound n = PDict [(''srcSet'', PStr src), (''media'', PStr (''('' @ bound @ ''-width: '' @ show_int n @ ''px)''))]"

text \<open>\<open>'%d' % v\<close> of a number.\<close>

definition trunc_of :: "pyval \<Rightarrow> exc + int" where
  "trunc_of v = (case py_num v of
       None \<Rightarrow> Inl (Exc ETypeError ''%d format: a number is required'')
     | Some x \<Rightarrow> Inr (if 0 \<le> x then floor x else - floor (- x)))"

text \<open>The image set: every fitting size, then the original or (when it is too large) the last size.\<close>

definition image_set :: "string \<Rightarrow> string \<Rightarrow> int list \<Rightarrow> int option \<Rightarrow> bool \<Rightarrow> exc + pyval list" where
  "image_set uri fmt sizes height original =
     (let base = map (\<lambda>n. source_set (sized uri n fmt) ''max'' n) sizes
      in case height of
           Some h \<Rightarrow> if original then
               Inr (base @ [source_set (uri @ ''.'' @ fmt) ''max'' h, source_set (uri @ ''.'' @ fmt) ''min'' h])
             else if sizes = [] then Inl (Exc EIndexError ''list index out of range'')
             else Inr (base @ [source_set (sized uri (last sizes) fmt) ''min'' (last sizes)])
         | None \<Rightarrow> if sizes = [] then Inl (Exc EIndexError ''list index out of range'')
             else Inr (base @ [source_set (sized uri (last sizes) fmt) ''min'' (last sizes)]))"

definition picture_entry ::
    "('d, 'r, 'c) env \<Rightarrow> dict \<Rightarrow> int \<Rightarrow> dict \<Rightarrow> (('d, 'r, 'c) world, dict option) py" where
  "picture_entry E album thumbnail_height picture =
     bnd (related_one E ''Picture'' picture ''storage'') (\<lambda>storage.
     let uri = py_str (dget storage ''cdn_uri'') @ ''/'' @ py_str (dget picture ''path'');
         fmt = py_str (dget picture ''format_original'');
         height = int_height picture
     in bnd (of_result (fitting_sizes (dget album ''sizes'') height)) (\<lambda>sizes.
        if is_media MIME_VIDEO_TYPES (dget picture ''format_original'') then ret None
        else bnd (grants_get E ''photo_res_max'' PNone) (\<lambda>max_height.
          bnd (case height of None \<Rightarrow> ret True
               | Some h \<Rightarrow> of_result (py_ge max_height (PInt h))) (\<lambda>fits.
          bnd (if fits then ret (uri @ ''.'' @ fmt)
               else bnd (of_result (trunc_of max_height)) (\<lambda>n. ret (sized uri n fmt))) (\<lambda>original.
          bnd (of_result (image_set uri fmt sizes height fits)) (\<lambda>images.
          ret (Some [(''id'', dget picture ''id''), (''description'', dget picture ''caption''), (''duration'', dget picture ''duration''),
            (''height'', dget picture ''height''), (''imageSet'', PList images), (''name'', dget picture ''name''),
            (''original'', PStr original), (''path'', dget picture ''path''), (''size'', dget picture ''size''),
            (''thumbnail'', PStr (sized uri thumbnail_height fmt)), (''type'', PStr (''image/'' @ fmt)),
            (''uid'', dget picture ''uid''), (''width'', dget picture ''width'')])))))))"

fun picture_entries ::
    "('d, 'r, 'c) env \<Rightarrow> dict \<Rightarrow> int \<Rightarrow> dict list \<Rightarrow> (('d, 'r, 'c) world, dict list) py" where
  "picture_entries E album th [] = ret []"
| "picture_entries E album th (p # ps) =
     bnd (picture_entry E album th p) (\<lambda>e. bnd (picture_entries E album th ps) (\<lambda>es.
     ret (case e of None \<Rightarrow> es | Some d \<Rightarrow> d # es)))"

text \<open>The query asks for some active picture anywhere, and all pictures of the album are listed.\<close>

definition fetch_album_meta ::
    "('d, 'r, 'c) env \<Rightarrow> pyval \<Rightarrow> int \<Rightarrow> (('d, 'r, 'c) world, dict list) py" where
  "fetch_album_meta E album_id thumbnail_height =
     bnd (one_or_none E (where_cond (CEq (''Picture'', ''status'') (PStr ''active''))
        (where_cond (CEq (''Album'', ''id'') album_id) (query_of ''Album'')))) (\<lambda>a. case a of
       None \<Rightarrow> ret []
     | Some album \<Rightarrow>
         bnd (reads (\<lambda>w. db_related (e_db E) ''Album'' (dget album ''id'') ''pictures'' (w_db w))) (\<lambda>pictures.
         picture_entries E album thumbnail_height pictures))"

section \<open>Guards of the upload\<close>

lemma unless_answered_ok:
  "unless_answered check rest w = (Inr x, w') \<Longrightarrow>
   (\<exists>w1. check w = (Inr None, w1) \<and> rest w1 = (Inr x, w')) \<or> check w = (Inr (Some x), w')"
  by (auto simp: unless_answered_def py_simps split: prod.splits sum.splits option.splits)

lemma bnd_ok: "bnd m f w = (Inr y, w') \<Longrightarrow> \<exists>x w1. m w = (Inr x, w1) \<and> f x w1 = (Inr y, w')"
  by (auto simp: py_simps split: prod.splits sum.splits)

lemma album_full_refuses: "album_full E body w = (Inr (Some answer), w') \<Longrightarrow> snd answer \<noteq> 201"
  by (auto simp: album_full_def py_simps msg_resp_def split: prod.splits sum.splits option.splits if_splits)

lemma may_upload_refuses: "may_upload E body w = (Inr (Some answer), w') \<Longrightarrow> snd answer \<noteq> 201"
  by (auto simp: may_upload_def Let_def py_simps msg_resp_def dest: album_full_refuses split: prod.splits sum.splits option.splits if_splits)

lemma media_quota_refuses: "media_quota E uid ctype body w = (Inr (Some answer), w') \<Longrightarrow> snd answer \<noteq> 201"
  by (auto simp: media_quota_def py_simps msg_resp_def split: prod.splits sum.splits if_splits)

lemma size_quota_refuses: "size_quota E body w = (Inr (Some answer), w') \<Longrightarrow> snd answer \<noteq> 201"
  by (auto simp: size_quota_def py_simps msg_resp_def split: prod.splits sum.splits if_splits)

text \<open>What it means that an upload is allowed: the album is there and has room, the caller may update it.\<close>

definition room_in_album :: "('d, 'r, 'c) env \<Rightarrow> pyval \<Rightarrow> 'd \<Rightarrow> bool" where
  "room_in_album E parent d \<longleftrightarrow> (\<exists>album pictures max_size.
     one_of (db_all (e_db E) (album_query parent) d) = Inr album \<and>
     db_related (e_db E) ''Album'' (dget album ''id'') ''pictures'' d = Inr pictures \<and>
     (\<exists>w w'. grants_get E ''album_size'' PNone w = (Inr max_size, w') \<and> w_db w = d) \<and>
     py_ge (PInt (int (length pictures))) max_size = Inr False)"

lemma album_full_room:
  assumes "album_full E body w = (Inr None, w')"
  shows "room_in_album E (dget body ''parent_id'') (w_db w) \<and> w_db w' = w_db w"
proof -
  obtain album pictures max_size where
    a: "one_of (db_all (e_db E) (album_query (dget body ''parent_id'')) (w_db w)) = Inr album"
    and p: "db_related (e_db E) ''Album'' (dget album ''id'') ''pictures'' (w_db w) = Inr pictures"
    and g: "grants_get E ''album_size'' PNone w = (Inr max_size, w')"
    and f: "py_ge (PInt (int (length pictures))) max_size = Inr False"
    using assms by (auto simp: album_full_def py_simps split: prod.splits sum.splits option.splits if_splits)
  have "w_db w' = w_db w" using keepsD [OF keeps_grants_get g] .
  then show ?thesis using a p g f unfolding room_in_album_def by blast
qed

text \<open>The permission as the access control of the request gives it, in a world with the given database.\<close>

definition may_update :: "('d, 'r, 'c) env \<Rightarrow> string \<Rightarrow> query \<Rightarrow> 'd \<Rightarrow> bool" where
  "may_update E m q d \<longleftrightarrow> (\<exists>w a. w_db w = d \<and> access_control E (Some m) w = (Inr a, w) \<and>
     fst (with_permission E a (CHR ''u'') (Some q) PNone PNone PNone w) = Inr True)"

lemma may_upload_guard:
  assumes "may_upload E body w = (Inr None, w')"
  shows "dget_or body ''parent_type'' (PStr ''album'') = PStr ''album'' \<and>
    room_in_album E (dget body ''parent_id'') (w_db w) \<and>
    may_update E ''Album'' (album_query (dget body ''parent_id'')) (w_db w) \<and> w_db w' = w_db w"
proof -
  let ?q = "album_query (dget body ''parent_id'')"
  obtain m w1 a w2 where m: "parent_model E (dget_or body ''parent_type'' (PStr ''album'')) = Inr m"
    and album: "dget_or body ''parent_type'' (PStr ''album'') = PStr ''album''"
    and full: "album_full E body w = (Inr None, w1)"
    and a: "access_control E (Some m) w1 = (Inr a, w2)"
    and p: "with_permission E a (CHR ''u'') (Some ?q) PNone PNone PNone w2 = (Inr True, w')"
    using assms unfolding may_upload_def Let_def
    by (auto simp: py_simps split: prod.splits sum.splits option.splits if_splits)
  have "m = ''Album''" using m album by (auto simp: parent_model_def split: option.splits)
  moreover have "w2 = w1" "w' = w2"
    using access_control_state [of E "Some m" w1] with_permission_state [of E a "CHR ''u''" "Some ?q" PNone PNone PNone w2] a p by simp_all
  ultimately have "may_update E ''Album'' ?q (w_db w1)" using a p by (auto simp: may_update_def)
  then show ?thesis using album_full_room [OF full] album \<open>w2 = w1\<close> \<open>w' = w2\<close> by simp
qed

lemma size_quota_guard:
  "size_quota E body w = (Inr None, w') \<Longrightarrow> \<exists>limit. grants_get E ''media_size_max'' PNone w = (Inr limit, w') \<and>
     exceeds (dget body ''size'') limit = Inr False"
  by (auto simp: size_quota_def py_simps split: prod.splits sum.splits if_splits)

lemma issue_url_vendor:
  assumes "issue_url E S uid ttl storage cred ctype body ident w = (Inr (d, 201), w')"
  shows "dget cred ''vendor'' = PStr ''aws''"
  using assms by (auto simp: issue_url_def Let_def py_simps vendor_url_def backblaze_upload_url_def msg_resp_def
      split: prod.splits sum.splits if_splits)

lemma upload_guards:
  assumes "get_upload_url E S uid ttl body0 w = (Inr (d, 201), w')"
  shows "\<exists>storage. one_of (db_all (e_db E) (active_storage (dget body0 ''storage_id'')) (w_db w)) = Inr storage \<and>
    dget_or body0 ''parent_type'' (PStr ''album'') = PStr ''album'' \<and>
    room_in_album E (dget body0 ''parent_id'') (w_db w) \<and>
    may_update E ''Album'' (album_query (dget body0 ''parent_id'')) (w_db w) \<and>
    (\<exists>w1 w2 limit. grants_get E ''media_size_max'' PNone w1 = (Inr limit, w2) \<and> exceeds (dget body0 ''size'') limit = Inr False)"
proof -
  obtain storage name where s: "one_of (db_all (e_db E) (active_storage (dget body0 ''storage_id'')) (w_db w)) = Inr storage"
    and run: "unless_answered (may_upload E (dset body0 ''name'' name))
       (bnd (related_one E ''Storage'' storage ''credentials'') (\<lambda>cred.
        bnd (gen_id 8 ''f-'' id_chars) (\<lambda>ident.
        bnd (of_result (media_type (dset body0 ''name'' name))) (\<lambda>ctype.
        unless_answered (media_quota E uid ctype (dset body0 ''name'' name))
          (unless_answered (size_quota E (dset body0 ''name'' name))
            (issue_url E S uid ttl storage cred ctype (dset body0 ''name'' name) ident)))))) w = (Inr (d, 201), w')"
    using assms unfolding get_upload_url_def Let_def by (auto simp: py_simps split: prod.splits sum.splits option.splits if_splits)
  let ?body = "dset body0 ''name'' name"
  obtain w1 where may: "may_upload E ?body w = (Inr None, w1)"
    and rest: "bnd (related_one E ''Storage'' storage ''credentials'') (\<lambda>cred.
        bnd (gen_id 8 ''f-'' id_chars) (\<lambda>ident.
        bnd (of_result (media_type ?body)) (\<lambda>ctype.
        unless_answered (media_quota E uid ctype ?body)
          (unless_answered (size_quota E ?body)
            (issue_url E S uid ttl storage cred ctype ?body ident))))) w1 = (Inr (d, 201), w')"
    using unless_answered_ok [OF run] may_upload_refuses [of E ?body w "(d, 201)" w'] by auto
  then obtain cred ident ctype w2 where
    "unless_answered (media_quota E uid ctype ?body)
      (unless_answered (size_quota E ?body) (issue_url E S uid ttl storage cred ctype ?body ident)) w2 = (Inr (d, 201), w')"
    by (auto dest!: bnd_ok)
  from unless_answered_ok [OF this] media_quota_refuses [of E uid ctype ?body w2 "(d, 201)" w']
  obtain w3 where "unless_answered (size_quota E ?body) (issue_url E S uid ttl storage cred ctype ?body ident) w3 = (Inr (d, 201), w')"
    by auto
  from unless_answered_ok [OF this] size_quota_refuses [of E ?body w3 "(d, 201)" w']
  obtain w4 where q: "size_quota E ?body w3 = (Inr None, w4)" by auto
  have same: "dget ?body k = dget body0 k" "dget_or ?body k v = dget_or body0 k v" if "k \<noteq> ''name''" for k v
    using that by (simp_all add: dget_dset dget_or_def update_conv)
  from size_quota_guard [OF q] obtain limit where "grants_get E ''media_size_max'' PNone w3 = (Inr limit, w4)"
    "exceeds (dget body0 ''size'') limit = Inr False"
    by (auto simp: same)
  moreover have "dget_or body0 ''parent_type'' (PStr ''album'') = PStr ''album''"
    "room_in_album E (dget body0 ''parent_id'') (w_db w)"
    "may_update E ''Album'' (album_query (dget body0 ''parent_id'')) (w_db w)"
    using may_upload_guard [OF may] by (simp_all add: same)
  ultimately show ?thesis using s by blast
qed

section \<open>Pictures whose name is a UUID\<close>

definition solid :: "string \<Rightarrow> nat" where
  "solid s = length (filter (\<lambda>c. c \<noteq> CHR ''-'') s)"

lemma solid_append: "solid (a @ b) = solid a + solid b"
  by (simp add: solid_def)

lemma solid_pos: "CHR ''e'' \<in> set s \<Longrightarrow> 0 < solid s"
  by (auto simp: solid_def filter_empty_conv)

lemma strip_parts:
  "s = takeWhile (\<lambda>c. c \<in> set cs) s @ strip_chars cs s @ rev (takeWhile (\<lambda>c. c \<in> set cs) (rev (dropWhile (\<lambda>c. c \<in> set cs) s)))"
proof -
  have "rev xs = rev (dropWhile P xs) @ rev (takeWhile P xs)" for P and xs :: string
    by (metis rev_append takeWhile_dropWhile_id)
  from this [of "rev (dropWhile (\<lambda>c. c \<in> set cs) s)" "\<lambda>c. c \<in> set cs"] show ?thesis
    by (simp add: strip_chars_def)
qed

lemma strip_solid: "solid (strip_chars cs s) \<le> solid s"
  by (subst (2) strip_parts [of s cs]) (simp add: solid_append)

lemma strip_suffix:
  assumes "set v \<subseteq> set cs" and "\<exists>c \<in> set u. c \<notin> set cs"
  shows "strip_chars cs (u @ v) = strip_chars cs u"
proof -
  let ?P = "\<lambda>c. c \<in> set cs"
  have "dropWhile ?P (u @ v) = dropWhile ?P u @ v" using assms(2) by (auto intro: dropWhile_append1)
  moreover have "dropWhile ?P (rev v @ w) = dropWhile ?P w" for w using assms(1) by (intro dropWhile_append2) auto
  ultimately show ?thesis by (simp add: strip_chars_def)
qed

lemma strip_all: "(\<forall>c \<in> set s. c \<in> set cs) \<Longrightarrow> strip_chars cs s = []"
  using set_dropWhileD [of _ "\<lambda>c. c \<in> set cs" s] by (auto simp: strip_chars_def)

text \<open>A first or last digit e goes with the extension, and what is left is too short for a UUID.\<close>

lemma strip_e:
  assumes "u \<noteq> []" and "hd u = CHR ''e'' \<or> last u = CHR ''e''" and cs: "CHR ''e'' \<in> set cs" and v: "set v \<subseteq> set cs"
  shows "solid (strip_chars cs (u @ v)) < solid u"
proof (cases "\<exists>c \<in> set u. c \<notin> set cs")
  case True
  let ?P = "\<lambda>c. c \<in> set cs"
  let ?a = "takeWhile ?P u" and ?t = "dropWhile ?P u"
  let ?b = "rev (takeWhile ?P (rev ?t))"
  have "0 < solid ?a + solid ?b"
  proof (cases "hd u = CHR ''e''")
    case True
    then have "CHR ''e'' \<in> set ?a" using assms(1) cs by (cases u) auto
    then show ?thesis using solid_pos by simp
  next
    case False
    have t: "?t \<noteq> []" using True by auto
    moreover have "last u = last ?t" using t by (metis last_appendR takeWhile_dropWhile_id)
    ultimately have "hd (rev ?t) = CHR ''e''" "rev ?t \<noteq> []" using False assms(2) by (simp_all add: hd_rev)
    then have "CHR ''e'' \<in> set ?b" using cs by (cases "rev ?t") auto
    then show ?thesis using solid_pos by simp
  qed
  moreover have "solid u = solid ?a + solid (strip_chars cs u) + solid ?b"
    by (subst strip_parts [of u cs]) (simp only: solid_append)
  ultimately show ?thesis using strip_suffix [OF v True] by simp
next
  case False
  have "strip_chars cs (u @ v) = []" using False v by (intro strip_all) auto
  moreover have "CHR ''e'' \<in> set u" using assms(1,2) by (metis hd_in_set last_in_set)
  ultimately show ?thesis using solid_pos by (simp add: solid_def)
qed

lemma short_name_fails:
  assumes "iphone_name (str_lower (u @ ''.jpeg''))" and "solid u = 32"
    and "hd u = CHR ''e'' \<or> last u = CHR ''e''"
  shows "short_name (PStr (u @ ''.jpeg'')) = Inl (Exc EValueError ''badly formed hexadecimal UUID string'')"
proof -
  have "u \<noteq> []" using assms(2) by (auto simp: solid_def)
  then have "solid (strip_chars ''.jpeg'' (u @ ''.jpeg'')) < 32" using strip_e [of u "''.jpeg''" "''.jpeg''"] assms(2,3) by simp
  then have "solid (strip_chars ''{}'' (strip_chars ''.jpeg'' (u @ ''.jpeg''))) < 32"
    using strip_solid [of "''{}''" "strip_chars ''.jpeg'' (u @ ''.jpeg'')"] by linarith
  then show ?thesis using assms(1) by (simp add: short_name_def uuid_bytes_def solid_def del: append.simps)
qed

section \<open>First writer wins\<close>

context redis_contract
begin

lemma update_meta_keeps:
  assumes "e_redis E = R" and "view (w_now w) (w_redis w) (meta_key uid fid) = Some old"
    and "update_file_meta E uid fid meta w = (r, w')"
  shows "get_file_meta E uid fid w' = (fst (get_file_meta E uid fid w), w') \<and> w_now w' = w_now w"
proof -
  let ?k = "meta_key uid fid"
  have v: "view (w_now w) (snd (rd_set R ?k s ttl True (w_now w) (w_redis w))) ?k = view (w_now w) (w_redis w) ?k" for s ttl
    using assms(2) by (intro set_refused) simp_all
  have get: "get_file_meta E uid fid x = (case view (w_now x) (w_redis x) ?k of None \<Rightarrow> (Inr PNone, x)
      | Some s \<Rightarrow> (case json_loads s of Inl e \<Rightarrow> (Inr PNone, x) | Inr j \<Rightarrow> (Inr j, x)))" for x
    using assms(1) by (simp add: get_file_meta_def py_simps get_view split: option.splits sum.splits)
  have "w_now w' = w_now w \<and> view (w_now w') (w_redis w') ?k = view (w_now w) (w_redis w) ?k"
    using assms(1,3) v by (auto simp: update_file_meta_def py_simps split: sum.splits prod.splits)
  then show ?thesis by (auto simp: get split: option.splits sum.splits)
qed

end

section \<open>Properties\<close>

definition media_env :: "(mdb, mredis, mcache) env" where
  "media_env = (user_env ''/api/v1/storage'')\<lparr>e_policies := [(''album'', base_of ''album'')],
     e_models := [''Album'', ''List'', ''Message'', ''Storage''], e_attrs := (\<lambda>m a. a = ''uid'')\<rparr>"

definition media_world :: "(mdb, mredis, mcache) world" where
  "media_world = (logged_in [(''Storage'', [[(''id'', PStr ''s-1''), (''status'', PStr ''active''), (''bucket'', PStr ''media''),
       (''uid'', PStr ''u-0''), (''credentials'', PList [PDict [(''vendor'', PStr ''aws'')]])]]),
     (''Album'', [[(''id'', PStr ''a-1''), (''status'', PStr ''active''), (''uid'', PStr ''u-1''), (''pictures'', PList [])]])])
     \<lparr>w_grants := [(PStr ''defaults'', PDict [(''album_size'', PInt 2), (''media_size_max'', PInt 1000)]), (PStr ''u-1'', PDict [])]\<rparr>"

definition demo_s3 :: s3_client where
  "demo_s3 = \<lparr>s3_presign = (\<lambda>c b p t. Inr (PDict [], PStr ''https://media.example.com'')), s3_get = (\<lambda>c b p. Inr ''raw''),
     s3_put = (\<lambda>c b p x t. Inr (PBool True)), s3_delete = (\<lambda>c b p. Inr PNone)\<rparr>"

definition media_body :: dict where
  "media_body = [(''storage_id'', PStr ''s-1''), (''parent_id'', PStr ''a-1''), (''name'', PStr ''cat.png''), (''size'', PInt 900)]"

lemma media_env_simps: "e_cfg media_env = mem_config" "e_redis media_env = mem_redis" "e_crypt media_env = mem_crypt"
  "e_db media_env = mem_db" "e_cache media_env = mem_cache" "e_private media_env = [(''list'', ''list_id'')]"
  "e_req media_env = e_req (user_env ''/api/v1/storage'')" "e_models media_env = [''Album'', ''List'', ''Message'', ''Storage'']"
  "e_policies media_env = [(''album'', base_of ''album'')]" "e_attrs media_env m a = (a = ''uid'')"
  by (simp_all add: media_env_def)

lemma media_access: "access_control media_env m w = access_control (user_env ''/api/v1/storage'') m w"
proof -
  have d: "decrypt_json media_env = decrypt_json (user_env ''/api/v1/storage'')"
    by (simp add: media_env_def decrypt_json_def fun_eq_iff)
  have c: "e_cfg media_env = e_cfg (user_env ''/api/v1/storage'')" "e_redis media_env = e_redis (user_env ''/api/v1/storage'')"
    by (simp_all add: media_env_def)
  have s: "session_get media_env = session_get (user_env ''/api/v1/storage'')"
    unfolding session_get_def session_data_def d c ..
  show ?thesis
    unfolding access_control_def credentials_def session_get_arg_def s by (simp add: media_env_simps apikey_hash_def)
qed

lemma media_session: "access_control media_env m media_world = (Inr (user_access m), media_world)"
  unfolding media_access by (rule user_access_control) (simp_all add: media_world_def logged_in_world)

lemma media_rows: "db_all mem_db (active_storage (PStr ''s-1'')) (w_db media_world) =
    Inr [[(''id'', PStr ''s-1''), (''status'', PStr ''active''), (''bucket'', PStr ''media''),
       (''uid'', PStr ''u-0''), (''credentials'', PList [PDict [(''vendor'', PStr ''aws'')]])]]"
  "db_all mem_db (album_query (PStr ''a-1'')) (w_db media_world) =
    Inr [[(''id'', PStr ''a-1''), (''status'', PStr ''active''), (''uid'', PStr ''u-1''), (''pictures'', PList [])]]"
  "db_related mem_db ''Album'' (PStr ''a-1'') ''pictures'' (w_db media_world) = Inr []"
  "db_related mem_db ''Storage'' (PStr ''s-1'') ''credentials'' (w_db media_world) = Inr [[(''vendor'', PStr ''aws'')]]"
  unfolding media_world_def by (simp_all add: logged_in_world) code_simp+

lemma media_permission:
  "with_permission media_env (user_access (Some ''Album'')) (CHR ''u'') (Some (album_query (PStr ''a-1''))) PNone PNone PNone media_world =
     (Inr True, media_world)"
proof -
  let ?a = "user_access (Some ''Album'')" and ?t = "no_target\<lparr>tg_owner := PStr ''u-1''\<rparr>"
  have r: "ac_resource ?a = ''album''" "ac_uid ?a = PStr ''u-1''" "roles_of ?a = [''user'']" by code_simp+
  have "clean ''album''" "clean ''u-1''" "clean ''None''" "clean_role ''user''"
    by (simp_all add: clean_def rx_plain_def clean_role_def)
  then have "rbac_result media_env ?a ?t {} = Inr (set ''cdru'')"
    by (subst rbac_base) (simp_all add: r no_target_def media_env_simps)
  moreover have "q_model (album_query x) = ''Album''" for x by (simp add: album_query_def)
  ultimately show ?thesis
    by (simp add: with_permission_def rbac_permissions_def py_simps media_rows read_target_def r no_target_def media_env_simps dict_simps)
qed

lemma media_granted: "grants_get media_env ''album_size'' PNone media_world = (Inr (PInt 2), media_world)"
  "w_grants w = w_grants media_world \<Longrightarrow> w_redis w = w_redis media_world \<Longrightarrow> w_now w = w_now media_world \<Longrightarrow>
   grants_get media_env ''media_size_max'' PNone w = (Inr (PInt 1000), w)"
proof -
  have a: "access_control media_env None w = (Inr (user_access None), w)"
    if "w_redis w = w_redis media_world" "w_now w = w_now media_world" for w
    unfolding media_access using that by (intro user_access_control) (simp_all add: media_world_def logged_in_world)
  have u: "ac_uid (user_access None) = PStr ''u-1''" by code_simp
  show "grants_get media_env ''album_size'' PNone media_world = (Inr (PInt 2), media_world)"
    by (simp add: grants_get_def grants_init_def py_simps a u media_env_simps cache_sub_def mem_cache_def media_world_def dict_simps grant_value_def)
  assume w: "w_grants w = w_grants media_world" "w_redis w = w_redis media_world" "w_now w = w_now media_world"
  show "grants_get media_env ''media_size_max'' PNone w = (Inr (PInt 1000), w)"
    by (simp add: grants_get_def grants_init_def py_simps a [OF w(2,3)] u w(1) media_env_simps cache_sub_def mem_cache_def media_world_def dict_simps grant_value_def)
qed

lemma media_may_upload: "may_upload media_env media_body media_world = (Inr None, media_world)"
  by (simp add: may_upload_def parent_model_def album_full_def py_simps media_env_simps media_body_def dget_or_def dict_simps
      media_session media_permission media_rows media_granted(1) Let_def)

lemma update_file_meta_returns: "\<exists>w'. update_file_meta E uid fid meta w = (Inr (), w')"
  by (auto simp: update_file_meta_def py_simps split: sum.splits prod.splits)

lemma issue_url_signed:
  assumes "\<And>p. vendor_url S (dget cred ''vendor'') cred ttl storage p = Inr ([(''fields'', fs), (''uploadUrl'', url)], 201)"
  shows "\<exists>d w'. issue_url E S uid ttl storage cred ctype body ident w = (Inr (d, 201), w')"
proof -
  let ?m = "file_meta (w_start w) ctype ident body storage uid (storage_path storage uid ident)"
  obtain w1 where "update_file_meta E uid ident ?m w = (Inr (), w1)" using update_file_meta_returns by blast
  then show ?thesis by (simp add: issue_url_def Let_def py_simps assms dict_simps)
qed

lemma media_upload: "\<exists>d w'. get_upload_url media_env demo_s3 (PStr ''u-1'') 86400 media_body media_world = (Inr (d, 201), w')"
proof -
  have b: "dset media_body ''name'' (PStr ''cat.png'') = media_body" by (simp add: media_body_def)
  have n: "short_name (PStr ''cat.png'') = Inr (PStr ''cat.png'')" by code_simp
  obtain ident w1 where g: "gen_id 8 ''f-'' id_chars media_world = (Inr ident, w1)"
    and w: "w_grants w1 = w_grants media_world" "w_redis w1 = w_redis media_world" "w_now w1 = w_now media_world"
    by (simp add: gen_id_run)
  let ?vendor = "[(''vendor'', PStr ''aws'')] :: dict"
  let ?storage = "[(''id'', PStr ''s-1''), (''status'', PStr ''active''), (''bucket'', PStr ''media''),
       (''uid'', PStr ''u-0''), (''credentials'', PList [PDict ?vendor])] :: dict"
  have url: "vendor_url demo_s3 (PStr ''aws'') ?vendor 86400 ?storage p = Inr ([(''fields'', PDict []), (''uploadUrl'', PStr ''https://media.example.com'')], 201)" for p
    by (simp add: vendor_url_def s3_upload_url_def demo_s3_def)
  have v: "dget ?vendor ''vendor'' = PStr ''aws''" by (simp add: dict_simps)
  obtain d w' where i: "issue_url media_env demo_s3 (PStr ''u-1'') 86400 ?storage ?vendor PNone media_body ident w1 = (Inr (d, 201), w')"
    using issue_url_signed [of demo_s3 ?vendor 86400 ?storage] url unfolding v by blast
  show ?thesis
    using g b n i media_may_upload media_granted(2) [OF w]
    by (simp add: get_upload_url_def Let_def py_simps media_rows media_env_simps media_body_def dict_simps unless_answered_def related_one_def
        media_type_def media_quota_def is_media_def size_quota_def exceeds_def MIME_VIDEO_TYPES_def MIME_IMAGE_TYPES_def)
qed



lemma iphone_name_fails:
  assumes "iphone_name (str_lower (u @ ''.jpeg''))" and "solid u = 32"
    and "hd u = CHR ''e'' \<or> last u = CHR ''e''"
  shows "short_name (PStr (u @ ''.jpeg'')) = Inl (Exc EValueError ''badly formed hexadecimal UUID string'')"
  using short_name_fails [OF assms] .

lemma iphone_name_fails_witness:
  "short_name (PStr ''e1a2b3c4-0000-4000-8000-00000000000a.jpeg'') = Inl (Exc EValueError ''badly formed hexadecimal UUID string'')"
proof -
  have "short_name (PStr (''e1a2b3c4-0000-4000-8000-00000000000a'' @ ''.jpeg'')) = Inl (Exc EValueError ''badly formed hexadecimal UUID string'')"
    by (rule iphone_name_fails) code_simp+
  then show ?thesis by simp
qed

end
