(* ===== verification/Media_Processing.thy ===== *)
theory Media_Processing imports Media_Storage Account_Settings Dates begin

text \<open>
  apicrud/media/worker_processing.py: what the background worker does with an uploaded picture or video.
  The imaging library (Pillow with its two tables of EXIF tags) and \<open>dateutil.parser.parse\<close> are
  parameters. Floats are exact here; a coordinate is cut to an integer as \<open>int\<close> does.
\<close>

section \<open>EXIF values\<close>

text \<open>
  Text, bytes, integers, rationals (numbers in Pillow 6 and later, pairs before), tuples, and the
  dictionary of the GPS tags.
\<close>

datatype exif =
    XText string
  | XBytes string
  | XInt int
  | XRat rat
  | XTuple "exif list"
  | XTags "(int \<times> exif) list"

type_synonym exifs = "(string \<times> exif) list"

record image =
  img_width :: int
  img_height :: int
  img_exif :: "(int \<times> exif) list"

record imaging =
  im_open :: "string \<Rightarrow> exc + image"
  im_thumbnail :: "string \<Rightarrow> int \<Rightarrow> string \<Rightarrow> exc + string"
  im_resize :: "string \<Rightarrow> int \<Rightarrow> int \<Rightarrow> string \<Rightarrow> exc + string"
  im_tags :: "(int \<times> string) list"
  im_gpstags :: "(int \<times> string) list"
  im_parse_date :: "string \<Rightarrow> exc + pyval"

fun exif_true :: "exif option \<Rightarrow> bool" where
  "exif_true None = False"
| "exif_true (Some (XText s)) = (s \<noteq> [])"
| "exif_true (Some (XBytes s)) = (s \<noteq> [])"
| "exif_true (Some (XInt i)) = (i \<noteq> 0)"
| "exif_true (Some (XRat r)) = (r \<noteq> 0)"
| "exif_true (Some (XTuple xs)) = (xs \<noteq> [])"
| "exif_true (Some (XTags d)) = (d \<noteq> [])"

text \<open>What is stored of a value; integer keys are written as text.\<close>

fun exif_py :: "exif \<Rightarrow> pyval" where
  "exif_py (XText s) = PStr s"
| "exif_py (XBytes s) = PBytes s"
| "exif_py (XInt i) = PInt i"
| "exif_py (XRat r) = PFloat r"
| "exif_py (XTuple xs) = PList (map exif_py xs)"
| "exif_py (XTags d) = PDict (map (\<lambda>(k, v). (show_int k, exif_py v)) d)"

fun exif_num :: "exif \<Rightarrow> exc + rat" where
  "exif_num (XInt i) = Inr (of_int i)"
| "exif_num (XRat r) = Inr r"
| "exif_num x = Inl (Exc ETypeError ''unsupported operand type(s)'')"

text \<open>\<open>x[i]\<close> for a small index.\<close>

fun exif_at :: "exif \<Rightarrow> nat \<Rightarrow> exc + exif" where
  "exif_at (XText s) i = (if i < length s then Inr (XText [s ! i]) else Inl (Exc EIndexError ''string index out of range''))"
| "exif_at (XBytes s) i = (if i < length s then Inr (XInt (of_char (s ! i))) else Inl (Exc EIndexError ''index out of range''))"
| "exif_at (XTuple xs) i = (if i < length xs then Inr (xs ! i) else Inl (Exc EIndexError ''tuple index out of range''))"
| "exif_at (XTags d) i = (case map_of d (int i) of Some v \<Rightarrow> Inr v | None \<Rightarrow> Inl (Exc EKeyError (show_int (int i))))"
| "exif_at x i = Inl (Exc ETypeError ''object is not subscriptable'')"

text \<open>\<open>exif_at\<close> and a number at that place.\<close>

definition exif_num_at :: "exif \<Rightarrow> nat \<Rightarrow> exc + rat" where
  "exif_num_at x i = (case exif_at x i of Inl e \<Rightarrow> Inl e | Inr v \<Rightarrow> exif_num v)"

text \<open>\<open>photo._exif_get\<close>: the front of a text or tuple; None for a missing or empty field.\<close>

definition exif_get :: "exifs \<Rightarrow> string \<Rightarrow> nat \<Rightarrow> exc + pyval" where
  "exif_get x name max_width =
     (if \<not> exif_true (map_of x name) then Inr PNone
      else case map_of x name of
          Some (XText s) \<Rightarrow> Inr (PStr (take max_width s))
        | Some (XBytes s) \<Rightarrow> Inr (PBytes (take max_width s))
        | Some (XTuple xs) \<Rightarrow> Inr (exif_py (XTuple (take max_width xs)))
        | Some (XTags d) \<Rightarrow> Inl (Exc ETypeError ''unhashable type: slice'')
        | _ \<Rightarrow> Inl (Exc ETypeError ''object is not subscriptable''))"

text \<open>The fields by name: \<open>{TAGS[key]: val for key, val in exif_raw.items() if key in TAGS}\<close>.\<close>

definition named_fields :: "(int \<times> string) list \<Rightarrow> (int \<times> exif) list \<Rightarrow> exifs" where
  "named_fields tags raw =
     fold (\<lambda>(k, v) d. case map_of tags k of Some n \<Rightarrow> AList.update n v d | None \<Rightarrow> d) raw []"

section \<open>Places and times\<close>

definition whole :: "rat \<Rightarrow> int" where
  "whole x = (if 0 \<le> x then floor x else - floor (- x))"

definition decimal_from_degrees :: "exif \<Rightarrow> exif \<Rightarrow> exc + int" where
  "decimal_from_degrees dms hemisphere =
     (case exif_at dms 0 of Inl e \<Rightarrow> Inl e | Inr d0 \<Rightarrow>
     (case exif_num_at dms 1 of Inl e \<Rightarrow> Inl e | Inr m \<Rightarrow>
     (case exif_num d0 of Inl e \<Rightarrow> Inl e | Inr d \<Rightarrow>
     (case exif_num_at dms 2 of Inl e \<Rightarrow> Inl e | Inr s \<Rightarrow>
        let degrees = whole ((d + m / 60 + s / 3600) * 10 ^ 7)
        in Inr (if hemisphere \<in> {XText ''S'', XText ''W''} then - degrees else degrees)))))"

text \<open>A GPS tag in the field GPSInfo, which is usually a dictionary.\<close>

definition gps_item :: "exif \<Rightarrow> int \<Rightarrow> exc + exif option" where
  "gps_item info item = (case info of
       XTags d \<Rightarrow> Inr (map_of d item)
     | XTuple xs \<Rightarrow> if XInt item \<in> set xs \<or> XRat (of_int item) \<in> set xs then map_sum id Some (exif_at info (nat item)) else Inr None
     | _ \<Rightarrow> Inl (Exc ETypeError ''argument is not iterable''))"

fun gps_fields :: "(int \<times> string) list \<Rightarrow> exifs \<Rightarrow> exc + exifs" where
  "gps_fields [] x = Inr x"
| "gps_fields ((item, val) # tags) x =
     (case map_of x ''GPSInfo'' of
        None \<Rightarrow> Inl (Exc EKeyError ''GPSInfo'')
      | Some info \<Rightarrow> (case gps_item info item of
          Inl e \<Rightarrow> Inl e
        | Inr None \<Rightarrow> gps_fields tags x
        | Inr (Some v) \<Rightarrow> gps_fields tags (AList.update val v x)))"

definition coordinate :: "exifs \<Rightarrow> string \<Rightarrow> exc + int option" where
  "coordinate x name =
     (if \<not> exif_true (map_of x name) then Inr None
      else case map_of x (name @ ''Ref'') of
          None \<Rightarrow> Inl (Exc EKeyError (name @ ''Ref''))
        | Some r \<Rightarrow> map_sum id Some (decimal_from_degrees (the (map_of x name)) r))"

definition altitude_of :: "exifs \<Rightarrow> exc + rat option" where
  "altitude_of x =
     (if \<not> exif_true (map_of x ''GPSAltitude'') then Inr None
      else let a = the (map_of x ''GPSAltitude'')
        in case exif_at a 0 of Inl e \<Rightarrow> Inl e | Inr n \<Rightarrow>
          (case exif_at a 1 of Inl e \<Rightarrow> Inl e | Inr d \<Rightarrow>
          (case exif_num n of Inl e \<Rightarrow> Inl e | Inr p \<Rightarrow>
          (case exif_num d of Inl e \<Rightarrow> Inl e | Inr q \<Rightarrow>
             if q = 0 then Inl (Exc EZeroDivisionError ''division by zero'') else Inr (Some (p / q))))))"

text \<open>The dictionary keeps the GPS fields that were added to it.\<close>

definition gpsexif :: "imaging \<Rightarrow> exifs \<Rightarrow> exc + (int option \<times> int option \<times> rat option) \<times> exifs" where
  "gpsexif IM x =
     (case gps_fields (im_gpstags IM) x of Inl e \<Rightarrow> Inl e | Inr x' \<Rightarrow>
     (case coordinate x' ''GPSLatitude'' of Inl e \<Rightarrow> Inl e | Inr geolat \<Rightarrow>
     (case coordinate x' ''GPSLongitude'' of Inl e \<Rightarrow> Inl e | Inr geolong \<Rightarrow>
     (case altitude_of x' of Inl e \<Rightarrow> Inl e | Inr altitude \<Rightarrow>
        Inr ((geolat, geolong, altitude), x')))))"

text \<open>\<open>datetime.strptime\<close> with \<open>%Y:%m:%d %H:%M:%S\<close>; a blank of the format stands for one or more.\<close>

definition blanks :: "string \<Rightarrow> unit reading" where
  "blanks s = map (\<lambda>n. ((), drop n s)) (rev [1..<Suc (length (takeWhile is_space s))])"

definition exif_readings :: "string \<Rightarrow> (int \<times> int \<times> int \<times> int \<times> int \<times> int) reading" where
  "exif_readings s =
     andthen (four_digits s) (\<lambda>y s. andthen (literal '':'' s) (\<lambda>_ s.
     andthen (field (\<lambda>v. 1 \<le> v \<and> v \<le> 12) (\<lambda>v. 1 \<le> v) s) (\<lambda>m s. andthen (literal '':'' s) (\<lambda>_ s.
     andthen (day_field s) (\<lambda>d s. andthen (blanks s) (\<lambda>_ s.
     andthen (field (\<lambda>v. v \<le> 23) (\<lambda>_. True) s) (\<lambda>h s. andthen (literal '':'' s) (\<lambda>_ s.
     andthen (field (\<lambda>v. v \<le> 59) (\<lambda>_. True) s) (\<lambda>mi s. andthen (literal '':'' s) (\<lambda>_ s.
     andthen (field (\<lambda>v. v \<le> 61) (\<lambda>_. True) s) (\<lambda>se s. [((y, m, d, h, mi, se), s)])))))))))))"

definition exif_strptime :: "string \<Rightarrow> int option" where
  "exif_strptime s = (case exif_readings s of
       [] \<Rightarrow> None
     | ((y, m, d, h, mi, se), r) # _ \<Rightarrow>
         if r = [] \<and> valid_date y m d \<and> se \<le> 59 then Some (civil_time y m d h mi se 0) else None)"

definition exif_datetime :: "imaging \<Rightarrow> exifs \<Rightarrow> exc + pyval" where
  "exif_datetime IM x =
     (if \<not> exif_true (map_of x ''DateTimeOriginal'') then Inr PNone
      else case map_of x ''DateTimeOriginal'' of
          Some (XText s) \<Rightarrow> (case exif_strptime s of
              Some t \<Rightarrow> Inr (PTime t)
            | None \<Rightarrow> (case im_parse_date IM s of
                Inl e \<Rightarrow> if exc_kind e = EValueError then Inr PNone else Inl e
              | Inr d \<Rightarrow> Inr d))
        | _ \<Rightarrow> Inl (Exc ETypeError ''strptime() argument 1 must be str''))"

text \<open>The date of the upload's description; an unreadable one is logged with the file's id.\<close>

definition modified_date :: "dict \<Rightarrow> exc + pyval" where
  "modified_date meta = (case dsub meta ''modified'' of
       Inl e \<Rightarrow> Inl e
     | Inr v \<Rightarrow> if \<not> truthy v then Inr PNone else (case v of
          PStr s \<Rightarrow> (case strptime True s of
              Some t \<Rightarrow> Inr (PTime t)
            | None \<Rightarrow> map_sum id (\<lambda>_. PNone) (dsub meta ''fid''))
        | _ \<Rightarrow> Inl (Exc ETypeError ''strptime() argument 1 must be str'')))"

section \<open>Pictures and videos\<close>

definition dot_type :: "dict \<Rightarrow> exc + string" where
  "dot_type meta = (case dsub meta ''ctype'' of
       Inl e \<Rightarrow> Inl e
     | Inr (PStr s) \<Rightarrow> Inr (''.'' @ s)
     | Inr _ \<Rightarrow> Inl (Exc ETypeError ''can only concatenate str (not NoneType) to str''))"

definition path_of :: "dict \<Rightarrow> exc + string" where
  "path_of meta = (case dsub meta ''path'' of
       Inl e \<Rightarrow> Inl e
     | Inr (PStr s) \<Rightarrow> Inr s
     | Inr _ \<Rightarrow> Inl (Exc ETypeError ''unsupported operand type(s) for +''))"

text \<open>The uploaded file; an empty answer is an error.\<close>

definition fetch_raw ::
    "('d, 'r, 'c) env \<Rightarrow> s3_client \<Rightarrow> dict \<Rightarrow> string \<Rightarrow> (('d, 'r, 'c) world, string) py" where
  "fetch_raw E S meta suffix =
     bnd (of_result (dsub meta ''sid'')) (\<lambda>sid.
     bnd (of_result (path_of meta)) (\<lambda>path.
     bnd (get_object E S sid (path @ suffix)) (\<lambda>raw. case raw of
       PBytes b \<Rightarrow> if b = [] then raise_exc (Exc EMediaUploadError (''get_object failed for path='' @ path)) else ret b
     | _ \<Rightarrow> raise_exc (Exc EMediaUploadError (''get_object failed for path='' @ path)))))"

text \<open>What both kinds of record take from the description, in the order of the keyword arguments.\<close>

definition picture_base ::
    "('d, 'r, 'c) env \<Rightarrow> dict \<Rightarrow> (('d, 'r, 'c) world, dict) py" where
  "picture_base E meta =
     bnd (of_result (dsub meta ''fid'')) (\<lambda>fid.
     bnd (of_result (dsub meta ''name'')) (\<lambda>name.
     bnd (of_result (dsub meta ''path'')) (\<lambda>path.
     bnd (of_result (dsub meta ''oid'')) (\<lambda>oid.
     bnd (settings_of E (cf_APPROVED_SENDERS (e_cfg E)) PNone oid) (\<lambda>s.
     ret [(''id'', fid), (''name'', name), (''path'', path), (''category_id'', dget s ''category_id'')])))))"

text \<open>The new record is committed before the album is looked at.\<close>

definition save_picture :: "('d, 'r, 'c) env \<Rightarrow> dict \<Rightarrow> (('d, 'r, 'c) world, unit) py" where
  "save_picture E row = bnd (session_add E ''Picture'' row) (\<lambda>_. commit E)"

definition album_by_id :: "('d, 'r, 'c) env \<Rightarrow> dict \<Rightarrow> (('d, 'r, 'c) world, dict \<times> dict list) py" where
  "album_by_id E meta =
     bnd (of_result (dsub meta ''pid'')) (\<lambda>pid.
     bnd (run_one E (filter_by [(''id'', pid)] (query_of ''Album''))) (\<lambda>album.
     bnd (reads (\<lambda>w. db_related (e_db E) ''Album'' (dget album ''id'') ''pictures'' (w_db w))) (\<lambda>pictures.
     ret (album, pictures))))"

definition content_row :: "dict \<Rightarrow> dict list \<Rightarrow> dict" where
  "content_row meta pictures = [(''album_id'', dget meta ''pid''), (''picture_id'', dget meta ''fid''),
     (''rank'', PInt (int (length pictures) + 1))]"

text \<open>\<open>photo\<close>: the album and its cover. The picture list was loaded before the record was added.\<close>

definition add_to_album :: "('d, 'r, 'c) env \<Rightarrow> dict \<Rightarrow> bool \<Rightarrow> (('d, 'r, 'c) world, dict) py" where
  "add_to_album E meta cover =
     bnd (album_by_id E meta) (\<lambda>(album, pictures).
     bnd (session_add E ''AlbumContent'' (content_row meta pictures)) (\<lambda>_.
     bnd (if cover \<and> (pictures = [] \<or> dget album ''cover_id'' = PNone)
          then set_attr E ''Album'' (dget album ''id'') ''cover_id'' (dget meta ''fid'') else ret ()) (\<lambda>_.
     bnd (commit E) (\<lambda>_. ret album))))"

text \<open>One scaled copy: smaller than the image, or none.\<close>

definition put_scaled ::
    "('d, 'r, 'c) env \<Rightarrow> s3_client \<Rightarrow> imaging \<Rightarrow> dict \<Rightarrow> string \<Rightarrow> image \<Rightarrow> int \<Rightarrow> (('d, 'r, 'c) world, unit) py" where
  "put_scaled E S IM meta raw img n =
     (if img_height img \<le> n then ret ()
      else if img_height img = 0 then raise_exc (Exc EZeroDivisionError ''division by zero'')
      else bnd (of_result (im_resize IM raw (whole (of_int (img_width img * n) / of_int (img_height img))) n (py_str (dget meta ''ctype'')))) (\<lambda>b.
        bnd (put_object E S (dget meta ''sid'') (sized (py_str (dget meta ''path'')) n (py_str (dget meta ''ctype''))) b
               (''image/'' @ py_str (dget meta ''ctype''))) (\<lambda>ok.
        if truthy ok then ret () else raise_exc (Exc EMediaUploadError ''put_object failed''))))"

fun put_sizes ::
    "('d, 'r, 'c) env \<Rightarrow> s3_client \<Rightarrow> imaging \<Rightarrow> dict \<Rightarrow> string \<Rightarrow> image \<Rightarrow> int list \<Rightarrow> (('d, 'r, 'c) world, unit) py" where
  "put_sizes E S IM meta raw img [] = ret ()"
| "put_sizes E S IM meta raw img (n # ns) =
     bnd (put_scaled E S IM meta raw img n) (\<lambda>_. put_sizes E S IM meta raw img ns)"

definition album_sizes :: "dict \<Rightarrow> exc + int list" where
  "album_sizes album = (case dget album ''sizes'' of
       PStr s \<Rightarrow> ints_of (py_split (CHR '','') s)
     | _ \<Rightarrow> Inl (Exc EAttributeError ''object has no attribute split''))"

definition optional :: "('a \<Rightarrow> pyval) \<Rightarrow> 'a option \<Rightarrow> pyval" where
  "optional f v = (case v of None \<Rightarrow> PNone | Some x \<Rightarrow> f x)"

text \<open>The columns of a picture that the image determines.\<close>

definition picture_row ::
    "cryptops \<Rightarrow> pyval \<Rightarrow> dict \<Rightarrow> dict \<Rightarrow> pyval \<Rightarrow> pyval \<Rightarrow> int option \<times> int option \<times> rat option \<Rightarrow>
     pyval \<times> pyval \<Rightarrow> exifs \<Rightarrow> image \<Rightarrow> string \<Rightarrow> string \<Rightarrow> pyval \<Rightarrow> dict" where
  "picture_row C uid base meta compression taken gps maker x img raw tiny nbytes =
     base @ [(''uid'', uid), (''compression'', compression), (''datetime_original'', taken),
       (''format_original'', dget meta ''ctype''), (''geolat'', optional PInt (fst gps)), (''geolong'', optional PInt (fst (snd gps))),
       (''gps_altitude'', optional PFloat (snd (snd gps))), (''height'', PInt (img_height img)), (''is_encrypted'', PBool False),
       (''make'', fst maker), (''model'', snd maker), (''orientation'', optional exif_py (map_of x ''Orientation'')),
       (''privacy'', PStr ''invitee''), (''sha1'', PBytes (cr_sha1 C raw)), (''sha256'', PBytes (cr_sha256 C raw)),
       (''thumbnail50x50'', PBytes tiny), (''size'', nbytes), (''status'', PStr ''active''),
       (''storage_id'', dget meta ''sid''), (''width'', PInt (img_width img))]"

text \<open>What is read from the image: its EXIF fields, the place, the time taken and the small thumbnail.\<close>

definition read_image ::
    "imaging \<Rightarrow> int \<Rightarrow> string \<Rightarrow> string \<Rightarrow> exc + image \<times> exifs \<times> (int option \<times> int option \<times> rat option) \<times> pyval \<times> string" where
  "read_image IM tiny ctype raw =
     (case im_open IM raw of Inl e \<Rightarrow> Inl e | Inr img \<Rightarrow>
     (let x0 = named_fields (im_tags IM) (img_exif img)
      in case (if exif_true (map_of x0 ''GPSInfo'') then gpsexif IM x0 else Inr ((None, None, None), x0)) of
           Inl e \<Rightarrow> Inl e
         | Inr (gps, x) \<Rightarrow>
             (case exif_datetime IM x of Inl e \<Rightarrow> Inl e | Inr taken \<Rightarrow>
             (case im_thumbnail IM raw tiny ctype of Inl e \<Rightarrow> Inl e | Inr thumb \<Rightarrow>
                Inr (img, x, gps, taken, thumb)))))"

text \<open>The record of a still picture: committed before anything else is done with it.\<close>

definition photo_record ::
    "('d, 'r, 'c) env \<Rightarrow> imaging \<Rightarrow> int \<Rightarrow> pyval \<Rightarrow> dict \<Rightarrow> string \<Rightarrow> (('d, 'r, 'c) world, image) py" where
  "photo_record E IM tiny uid meta raw =
     bnd (of_result (read_image IM tiny (py_str (dget meta ''ctype'')) raw)) (\<lambda>(img, x, gps, taken, thumb).
     bnd (of_result (modified_date meta)) (\<lambda>modified.
     bnd (picture_base E meta) (\<lambda>base.
     bnd (of_result (exif_get x ''Compression'' 16)) (\<lambda>compression.
     bnd (of_result (exif_get x ''Make'' 16)) (\<lambda>make.
     bnd (of_result (exif_get x ''Model'' 32)) (\<lambda>model.
     bnd (of_result (dsub meta ''size'')) (\<lambda>nbytes.
     bnd (save_picture E (picture_row (e_crypt E) uid base meta compression (if truthy taken then taken else modified) gps
            (make, model) x img raw thumb nbytes)) (\<lambda>_. ret img))))))))"

text \<open>An original above the budget is thrown away.\<close>

definition drop_original ::
    "('d, 'r, 'c) env \<Rightarrow> s3_client \<Rightarrow> pyval \<Rightarrow> dict \<Rightarrow> string \<Rightarrow> int \<Rightarrow> (('d, 'r, 'c) world, unit) py" where
  "drop_original E S uid meta suffix height =
     bnd (grants_get E ''photo_res_max'' uid) (\<lambda>res_max.
     bnd (of_result (py_ge res_max (PInt height))) (\<lambda>fits.
     if fits then ret () else bnd (del_object E S (dget meta ''sid'') (py_str (dget meta ''path'') @ suffix)) (\<lambda>_. ret ())))"

definition photo ::
    "('d, 'r, 'c) env \<Rightarrow> s3_client \<Rightarrow> imaging \<Rightarrow> int \<Rightarrow> pyval \<Rightarrow> dict \<Rightarrow> (('d, 'r, 'c) world, unit) py" where
  "photo E S IM tiny uid meta =
     bnd (of_result (dot_type meta)) (\<lambda>suffix.
     bnd (fetch_raw E S meta suffix) (\<lambda>raw.
     bnd (photo_record E IM tiny uid meta raw) (\<lambda>img.
     bnd (add_to_album E meta True) (\<lambda>album.
     bnd (of_result (album_sizes album)) (\<lambda>sizes.
     bnd (put_sizes E S IM meta raw img sizes) (\<lambda>_.
     drop_original E S uid meta suffix (img_height img)))))))"

definition video ::
    "('d, 'r, 'c) env \<Rightarrow> s3_client \<Rightarrow> pyval \<Rightarrow> dict \<Rightarrow> (('d, 'r, 'c) world, unit) py" where
  "video E S uid meta =
     bnd (of_result (modified_date meta)) (\<lambda>modified.
     bnd (of_result (dot_type meta)) (\<lambda>suffix.
     bnd (fetch_raw E S meta suffix) (\<lambda>raw.
     bnd (picture_base E meta) (\<lambda>base.
     bnd (of_result (dsub meta ''duration'')) (\<lambda>duration.
     bnd (of_result (dsub meta ''height'')) (\<lambda>height.
     bnd (of_result (dsub meta ''size'')) (\<lambda>nbytes.
     bnd (of_result (dsub meta ''width'')) (\<lambda>width.
     bnd (save_picture E (base @ [(''uid'', uid), (''compression'', PNone), (''datetime_original'', modified), (''duration'', duration),
         (''format_original'', dget meta ''ctype''), (''geolat'', PNone), (''geolong'', PNone), (''gps_altitude'', PNone),
         (''height'', height), (''is_encrypted'', PBool False), (''make'', PNone), (''model'', PNone), (''orientation'', PNone),
         (''privacy'', PStr ''invitee''), (''sha1'', PBytes (cr_sha1 (e_crypt E) raw)), (''sha256'', PBytes (cr_sha256 (e_crypt E) raw)),
         (''thumbnail50x50'', PNone), (''size'', nbytes), (''status'', PStr ''active''), (''storage_id'', dget meta ''sid''),
         (''width'', width)])) (\<lambda>_.
     bnd (add_to_album E meta False) (\<lambda>_. ret ()))))))))))"

text \<open>
  \<open>MediaProcessing(uid, file_id)\<close> and what it is used for, up to its destructor, which removes the
  description of the file whether or not the work succeeded.
\<close>

definition process_media ::
    "('d, 'r, 'c) env \<Rightarrow> pyval \<Rightarrow> string \<Rightarrow> (pyval \<Rightarrow> (('d, 'r, 'c) world, 'a) py) \<Rightarrow> (('d, 'r, 'c) world, 'a) py" where
  "process_media E uid file_id work =
     bnd (get_file_meta E uid file_id) (\<lambda>meta w.
     case work meta w of (r, w1) \<Rightarrow> (case del_file_meta E uid file_id w1 of (_, w2) \<Rightarrow> (r, w2)))"

section \<open>Coordinates fit 32 bits\<close>

lemma whole_bound:
  assumes "\<bar>x\<bar> \<le> of_int n"
  shows "\<bar>whole x\<bar> \<le> n"
proof -
  have "0 \<le> floor \<bar>x\<bar>" by simp
  moreover have "\<bar>whole x\<bar> = \<bar>floor \<bar>x\<bar>\<bar>" by (cases "0 \<le> x") (simp_all add: whole_def abs_of_neg)
  moreover have "floor \<bar>x\<bar> \<le> n" using floor_mono [OF assms] by simp
  ultimately show ?thesis by linarith
qed

lemma decimal_bound:
  assumes "dms = XTuple [a, b, c]" and "exif_num a = Inr d" and "exif_num b = Inr m" and "exif_num c = Inr s"
    and "0 \<le> d" and "0 \<le> m" and "0 \<le> s" and "d + m / 60 + s / 3600 \<le> 180"
  shows "\<exists>v. decimal_from_degrees dms hemisphere = Inr v \<and> \<bar>v\<bar> \<le> 1800000000"
proof -
  let ?x = "(d + m / 60 + s / 3600) * 10 ^ 7"
  have "\<bar>?x\<bar> \<le> of_int 1800000000" using assms(5-8) by simp
  from whole_bound [OF this] show ?thesis
    by (auto simp: assms(1-4) decimal_from_degrees_def exif_num_at_def Let_def)
qed

section \<open>A place with an altitude\<close>

text \<open>Numbers have no parts, and pairs cannot be divided: one of the two fields raises TypeError.\<close>

lemma altitude_number: "exif_true (Some (XRat r)) \<Longrightarrow> map_of x ''GPSAltitude'' = Some (XRat r) \<Longrightarrow>
    altitude_of x = Inl (Exc ETypeError ''object is not subscriptable'')"
  by (simp add: altitude_of_def)

lemma coordinate_pairs:
  assumes "map_of x name = Some (XTuple [a, XTuple b, c])" and "map_of x (name @ ''Ref'') = Some r"
  shows "coordinate x name = Inl (Exc ETypeError ''unsupported operand type(s)'')"
  using assms by (simp add: coordinate_def decimal_from_degrees_def exif_num_at_def)

lemma gpsexif_fails:
  assumes fields: "gps_fields (im_gpstags IM) x = Inr y"
    and lat: "map_of y ''GPSLatitude'' = Some (XTuple [a, b, c])" and r: "map_of y ''GPSLatitudeRef'' = Some h"
    and alt: "map_of y ''GPSAltitude'' = Some v" and "exif_true (Some v)"
    and rep: "(\<exists>q. v = XRat q) \<or> (\<exists>p. b = XTuple p)"
  shows "\<exists>e. gpsexif IM x = Inl e"
  using rep
proof
  assume "\<exists>q. v = XRat q"
  then have "\<exists>e. altitude_of y = Inl e" using altitude_number [of _ y] alt \<open>exif_true (Some v)\<close> by auto
  then show ?thesis by (auto simp: gpsexif_def fields split: sum.splits)
next
  assume "\<exists>p. b = XTuple p"
  then have "\<exists>e. coordinate y ''GPSLatitude'' = Inl e" using coordinate_pairs [of y "''GPSLatitude''"] lat r by auto
  then show ?thesis by (auto simp: gpsexif_def fields)
qed

lemma keeps_related_one_any [keeps_intros]: "keeps v (related_one E m row a)"
  by (auto simp: related_one_def intro!: keeps_intros split: list.splits)

lemma keeps_get_object [keeps_intros]: "keeps v (get_object E S sid path)"
  by (auto simp: get_object_def on_volume_def intro!: keeps_intros split: option.splits)

lemma keeps_fetch_raw [keeps_intros]: "keeps v (fetch_raw E S meta suffix)"
  by (auto simp: fetch_raw_def intro!: keeps_intros split: pyval.splits)

text \<open>Nothing of such a picture is recorded.\<close>

lemma photo_unread:
  assumes "\<And>raw. \<exists>e. read_image IM tiny (py_str (dget meta ''ctype'')) raw = Inl e"
  shows "\<exists>e. photo E S IM tiny uid meta w = (Inl e, w)"
proof -
  have pr: "\<exists>e. photo_record E IM tiny uid meta raw v = (Inl e, v)" for raw v
    using assms [of raw] by (auto simp: photo_record_def py_simps)
  show ?thesis
  proof (cases "dot_type meta")
    case (Inr suffix)
    obtain r w1 where f: "fetch_raw E S meta suffix w = (r, w1)" by fastforce
    have "w1 = w" using keepsD [OF keeps_fetch_raw [where v = id] f] by simp
    show ?thesis
    proof (cases r)
      case (Inl e)
      then show ?thesis using f \<open>w1 = w\<close> by (simp add: photo_def py_simps \<open>dot_type meta = Inr suffix\<close>)
    next
      case (Inr raw)
      moreover obtain e where "photo_record E IM tiny uid meta raw w = (Inl e, w)" using pr by blast
      ultimately show ?thesis using f \<open>w1 = w\<close> by (simp add: photo_def py_simps \<open>dot_type meta = Inr suffix\<close>)
    qed
  qed (simp add: photo_def py_simps)
qed

section \<open>What is stored\<close>

lemma calls_settings_of [keeps_intros]: "keeps w_calls (settings_of E approved a u)"
  by (auto simp: settings_of_def account_settings_def settings_admin_def settings_fill_def settings_load_def settings_attach_def
      settings_cached_def settings_put_def settings_owner_def settings_global_def row_as_dict_def Let_def
      intro!: keeps_intros keeps_modify split: pyval.splits)

definition call_key :: "string \<times> dict \<Rightarrow> string \<times> pyval" where
  "call_key c = (fst c, dget (snd c) ''key'')"

text \<open>The calls that a statement adds when it succeeds.\<close>

definition adds :: "(string \<times> pyval) list \<Rightarrow> (('d, 'r, 'c) world, 'a) py \<Rightarrow> bool" where
  "adds ks m \<longleftrightarrow> (\<forall>w x w'. m w = (Inr x, w') \<longrightarrow> map call_key (w_calls w') = map call_key (w_calls w) @ ks)"

lemma addsD: "adds ks m \<Longrightarrow> m w = (Inr x, w') \<Longrightarrow> map call_key (w_calls w') = map call_key (w_calls w) @ ks"
  by (simp add: adds_def)

lemma adds_none: "keeps w_calls m \<Longrightarrow> adds [] m"
  by (auto simp: adds_def dest: keepsD)

lemma adds_bnd: "adds ks m \<Longrightarrow> (\<And>x. adds ls (f x)) \<Longrightarrow> adds (ks @ ls) (bnd m f)"
  unfolding adds_def by (auto simp: py_simps split: prod.splits sum.splits)

definition put_key :: "dict \<Rightarrow> int \<Rightarrow> string \<times> pyval" where
  "put_key meta n = (''put_object'', PStr (sized (py_str (dget meta ''path'')) n (py_str (dget meta ''ctype''))))"

lemma put_scaled_adds:
  "adds (if n < img_height img then [put_key meta n] else []) (put_scaled E S IM meta raw img n)"
  unfolding adds_def
  by (auto simp: put_scaled_def put_object_def on_volume_def related_one_def put_key_def call_key_def py_simps dget_def
      split: if_splits sum.splits prod.splits option.splits list.splits)

lemma put_sizes_adds:
  "adds (map (put_key meta) (filter (\<lambda>n. n < img_height img) ns)) (put_sizes E S IM meta raw img ns)"
proof (induction ns)
  case (Cons n ns)
  have "(map (put_key meta) (filter (\<lambda>n. n < img_height img) (n # ns))) =
      (if n < img_height img then [put_key meta n] else []) @ map (put_key meta) (filter (\<lambda>n. n < img_height img) ns)" by simp
  then show ?case using adds_bnd [OF put_scaled_adds Cons] by simp
qed (simp add: adds_none keeps_intros)

lemma calls_picture_base [keeps_intros]: "keeps w_calls (picture_base E meta)"
  by (auto simp: picture_base_def intro!: keeps_intros)

lemma calls_session_add [keeps_intros]: "keeps w_calls (session_add E m row)"
  by (simp add: keeps_def py_simps)

lemma calls_photo_record [keeps_intros]: "keeps w_calls (photo_record E IM tiny uid meta raw)"
  by (auto simp: photo_record_def save_picture_def intro!: keeps_intros)

lemma calls_add_to_album [keeps_intros]: "keeps w_calls (add_to_album E meta cover)"
  by (auto simp: add_to_album_def album_by_id_def intro!: keeps_intros)

text \<open>The vendor of a volume; objects can be stored and deleted at AWS only.\<close>

definition at_aws :: "('d, 'r, 'c) env \<Rightarrow> pyval \<Rightarrow> 'd \<Rightarrow> bool" where
  "at_aws E sid d \<longleftrightarrow> (case one_of (db_all (e_db E) (active_storage sid) d) of
       Inl e \<Rightarrow> False
     | Inr storage \<Rightarrow> (case db_related (e_db E) ''Storage'' (dget storage ''id'') ''credentials'' d of
         Inr (cred # _) \<Rightarrow> dget cred ''vendor'' = PStr ''aws'' | _ \<Rightarrow> False))"

lemma keeps_del_object [keeps_intros]: "keeps w_db (del_object E S sid path)"
  by (auto simp: del_object_def on_volume_def intro!: keeps_intros split: option.splits)

lemma del_object_calls:
  assumes "del_object E S sid path w = (Inr x, w')" and "at_aws E sid (w_db w')"
  shows "map call_key (w_calls w') = map call_key (w_calls w) @ [(''delete_object'', PStr path)]"
proof -
  have "at_aws E sid (w_db w)" using assms(2) keepsD [OF keeps_del_object assms(1)] by simp
  then show ?thesis using assms(1)
    by (auto simp: del_object_def on_volume_def related_one_def at_aws_def call_key_def py_simps dget_def
        split: if_splits sum.splits prod.splits option.splits list.splits)
qed

text \<open>The image that was processed, the copies it got and whether the original was kept.\<close>

lemma photo_calls:
  assumes run: "photo E S IM tiny uid meta w = (Inr (), w')" and aws: "at_aws E (dget meta ''sid'') (w_db w')"
  shows "\<exists>raw img album sizes res_max fits.
     im_open IM raw = Inr img \<and> album_sizes album = Inr sizes \<and> py_ge res_max (PInt (img_height img)) = Inr fits \<and>
     (\<exists>v v'. add_to_album E meta True v = (Inr album, v')) \<and> (\<exists>v v'. grants_get E ''photo_res_max'' uid v = (Inr res_max, v')) \<and>
     map call_key (w_calls w') = map call_key (w_calls w) @ map (put_key meta) (filter (\<lambda>n. n < img_height img) sizes) @
       (if fits then [] else [(''delete_object'', PStr (py_str (dget meta ''path'') @ ''.'' @ py_str (dget meta ''ctype'')))])"
proof -
  obtain suffix where suffix: "dot_type meta = Inr suffix" "suffix = ''.'' @ py_str (dget meta ''ctype'')"
    using run by (auto simp: photo_def py_simps dot_type_def dsub_def dget_def split: sum.splits pyval.splits option.splits)
  obtain raw w1 img w2 album w3 sizes w4 where
    raw: "fetch_raw E S meta suffix w = (Inr raw, w1)"
    and img: "photo_record E IM tiny uid meta raw w1 = (Inr img, w2)"
    and album: "add_to_album E meta True w2 = (Inr album, w3)" and sizes: "album_sizes album = Inr sizes"
    and puts: "put_sizes E S IM meta raw img sizes w3 = (Inr (), w4)"
    and drop: "drop_original E S uid meta suffix (img_height img) w4 = (Inr (), w')"
    using run suffix(1) by (auto simp: photo_def py_simps split: prod.splits sum.splits)
  have "im_open IM raw = Inr img"
    using img by (auto simp: photo_record_def read_image_def Let_def py_simps split: prod.splits sum.splits if_splits)
  moreover obtain res_max w5 fits where res: "grants_get E ''photo_res_max'' uid w4 = (Inr res_max, w5)"
    and fits: "py_ge res_max (PInt (img_height img)) = Inr fits"
    and del: "(if fits then ret () else bnd (del_object E S (dget meta ''sid'') (py_str (dget meta ''path'') @ suffix)) (\<lambda>_. ret ())) w5 = (Inr (), w')"
    using drop by (auto simp: drop_original_def py_simps split: prod.splits sum.splits)
  moreover have "map call_key (w_calls w') = map call_key (w_calls w5) @
      (if fits then [] else [(''delete_object'', PStr (py_str (dget meta ''path'') @ suffix))])"
    using del del_object_calls [OF _ aws, of S "py_str (dget meta ''path'') @ suffix" w5]
    by (cases fits) (auto simp: py_simps split: prod.splits sum.splits)
  moreover have "w_calls w5 = w_calls w4" "w_calls w3 = w_calls w"
    using keepsD [OF calls_grants_get res] keepsD [OF calls_add_to_album album] keepsD [OF calls_photo_record img]
      keepsD [OF keeps_fetch_raw raw] by simp_all
  ultimately show ?thesis using album sizes addsD [OF put_sizes_adds puts] suffix(2)
    by (intro exI [of _ raw] exI [of _ img] exI [of _ album] exI [of _ sizes] exI [of _ res_max] exI [of _ fits]) auto
qed

section \<open>The description of the file\<close>

lemma process_media_run:
  "process_media E uid file_id work w = (r, w') \<Longrightarrow>
   \<exists>w1. (\<exists>v. work v (snd (get_file_meta E uid file_id w)) = (r, w1)) \<and> w' = snd (del_file_meta E uid file_id w1)"
proof -
  have "\<exists>v. get_file_meta E uid file_id w = (Inr v, snd (get_file_meta E uid file_id w))"
    by (auto simp: get_file_meta_def py_simps split: sum.splits prod.splits)
  then show "process_media E uid file_id work w = (r, w') \<Longrightarrow> ?thesis"
    by (auto simp: process_media_def py_simps split: prod.splits)
qed

context redis_contract
begin

lemma processed_meta_gone:
  assumes "e_redis E = R" and "process_media E uid file_id work w = (r, w')"
  shows "fst (get_file_meta E uid file_id w') = Inr PNone"
proof -
  obtain w1 where "w' = snd (del_file_meta E uid file_id w1)" using process_media_run [OF assms(2)] by auto
  moreover have "view (w_now w1) (snd (rd_delete R (meta_key uid file_id) (w_now w1) (w_redis w1))) (meta_key uid file_id) = None"
    by (simp add: delete_same)
  ultimately have "rd_get R (meta_key uid file_id) (w_now w') (w_redis w') = Inr None"
    using assms(1) by (simp add: del_file_meta_def py_simps delete_result get_view)
  then show ?thesis using assms(1) by (simp add: get_file_meta_def py_simps)
qed

end

section \<open>Properties\<close>

text \<open>A picture of 1000 by 800 with a place, and a worker's world.\<close>

definition demo_image :: image where
  "demo_image = \<lparr>img_width = 1000, img_height = 800, img_exif = [(271, XText ''Acme'')]\<rparr>"

definition placed_image :: image where
  "placed_image = demo_image\<lparr>img_exif := [(34853, XTags [(1, XText ''N''), (2, XTuple [XRat 37, XRat 46, XRat 30]), (6, XRat 12)])]\<rparr>"

definition demo_imaging :: "image \<Rightarrow> imaging" where
  "demo_imaging img = \<lparr>im_open = (\<lambda>_. Inr img), im_thumbnail = (\<lambda>_ _ _. Inr ''tiny''), im_resize = (\<lambda>_ w h _. Inr (show_int w)),
     im_tags = [(271, ''Make''), (34853, ''GPSInfo'')],
     im_gpstags = [(1, ''GPSLatitudeRef''), (2, ''GPSLatitude''), (6, ''GPSAltitude'')], im_parse_date = (\<lambda>_. Inr PNone)\<rparr>"

definition photo_meta :: dict where
  "photo_meta = [(''ctype'', PStr ''png''), (''fid'', PStr ''f-1''), (''modified'', PNone), (''name'', PStr ''cat.png''),
     (''oid'', PStr ''u-0''), (''path'', PStr ''u-1/f-1''), (''pid'', PStr ''a-1''), (''sid'', PStr ''s-1''), (''size'', PInt 900)]"

definition photo_world :: "(mdb, mredis, mcache) world" where
  "photo_world = (mem_world [(''Storage'', [[(''id'', PStr ''s-1''), (''status'', PStr ''active''), (''bucket'', PStr ''media''),
       (''credentials'', PList [PDict [(''vendor'', PStr ''aws'')]])]]),
     (''Album'', [[(''id'', PStr ''a-1''), (''sizes'', PStr ''120,480,800''), (''pictures'', PList [])]])])
     \<lparr>w_settings := [(PNone, PDict [(''settings'', PDict [(''category_id'', PStr ''x-1'')]), (''uid'', PStr ''u-0'')])],
      w_grants := [(PStr ''defaults'', PDict [(''photo_res_max'', PInt 720)]), (PStr ''u-1'', PDict [])]\<rparr>"

lemma coordinate_fits:
  assumes "dms = XTuple [a, b, c]" and "exif_num a = Inr d" and "exif_num b = Inr m" and "exif_num c = Inr s"
    and "0 \<le> d" and "0 \<le> m" and "0 \<le> s" and "d + m / 60 + s / 3600 \<le> 180"
  shows "\<exists>v. decimal_from_degrees dms hemisphere = Inr v \<and> \<bar>v\<bar> < 2 ^ 31"
  using decimal_bound [OF assms, of hemisphere] by auto

lemma coordinate_fits_witness:
  "\<exists>v. decimal_from_degrees (XTuple [XInt 179, XInt 59, XRat (599 / 10)]) (XText ''W'') = Inr v \<and> \<bar>v\<bar> < 2 ^ 31"
  by (rule coordinate_fits [of _ "XInt 179" "XInt 59" "XRat (599 / 10)" 179 59 "599 / 10"]) simp_all

text \<open>C37: A picture whose EXIF data has a latitude and an altitude is never processed: with the altitude
  as a rational object or the coordinates as pairs, whichever the image library delivers, the two
  conversions contradict each other and one of them raises; nothing has been stored by then.\<close>

lemma placed_photo_fails:
  assumes "\<And>raw. im_open IM raw = Inr img" and "x = named_fields (im_tags IM) (img_exif img)" and "exif_true (map_of x ''GPSInfo'')"
    and "gps_fields (im_gpstags IM) x = Inr y" and "map_of y ''GPSLatitude'' = Some (XTuple [a, b, c])"
    and "map_of y ''GPSLatitudeRef'' = Some h" and "map_of y ''GPSAltitude'' = Some v" and "exif_true (Some v)"
    and "(\<exists>q. v = XRat q) \<or> (\<exists>p. b = XTuple p)"
  shows "\<exists>e. photo E S IM tiny uid meta w = (Inl e, w)"
proof (rule photo_unread)
  obtain e where "gpsexif IM x = Inl e" using gpsexif_fails [OF assms(4-9)] by auto
  then show "\<exists>e. read_image IM tiny (py_str (dget meta ''ctype'')) raw = Inl e" for raw
    using assms(1) [of raw] assms(3) by (simp add: read_image_def Let_def flip: assms(2))
qed

lemma placed_photo_fails_witness:
  "\<exists>e. photo mem_env demo_s3 (demo_imaging placed_image) 50 (PStr ''u-1'') photo_meta photo_world = (Inl e, photo_world)"
proof -
  let ?y = "[(''GPSInfo'', XTags [(1, XText ''N''), (2, XTuple [XRat 37, XRat 46, XRat 30]), (6, XRat 12)]),
    (''GPSLatitudeRef'', XText ''N''), (''GPSLatitude'', XTuple [XRat 37, XRat 46, XRat 30]), (''GPSAltitude'', XRat 12)]"
  show ?thesis
    by (rule placed_photo_fails [where img = placed_image and y = ?y and v = "XRat 12" and b = "XRat 46", OF _ refl])
      (simp_all add: demo_imaging_def placed_image_def named_fields_def gps_item_def)
qed



abbreviation photo_done :: "(exc + unit) \<times> (mdb, mredis, mcache) world" where
  "photo_done \<equiv> photo mem_env demo_s3 (demo_imaging demo_image) 50 (PStr ''u-1'') photo_meta photo_world"


lemma media_not_retried:
  assumes "redis_contract (e_redis E) view" and "process_media E uid file_id work w = (r, w')"
  shows "fst (get_file_meta E uid file_id w') = Inr PNone"
  using redis_contract.processed_meta_gone [OF assms(1) refl assms(2)] .

lemma media_not_retried_witness:
  "fst (get_file_meta mem_env (PStr ''u-1'') ''f-1''
     (snd (process_media mem_env (PStr ''u-1'') ''f-1'' (\<lambda>m. raise_exc (Exc EMediaUploadError [])) (photo_world :: (mdb, mredis, mcache) world)))) = Inr PNone"
proof -
  have "redis_contract (e_redis mem_env) mr_view" using memory.redis_contract_axioms by (simp add: mem_env_def)
  from media_not_retried [OF this surjective_pairing] show ?thesis .
qed

end
