(* ===== verification/Controllers.thy ===== *)
theory Controllers imports Media_Processing Metric_Reports Auth_Results Crud_Results Trashcan begin

text \<open>
  apicrud/controllers and the example's own controllers: the operations that do more than call the
  class they inherit from. Accounts and their passwords, contacts and their confirmation, grants,
  locations with their geocoder (apicrud/geocode.py), persons, settings, messages, API keys. The
  geocoder's HTTP client is a parameter.
\<close>

section \<open>Accounts\<close>

text \<open>
  \<open>AccountController.register\<close> answers \<open>POST /account\<close>, which asks for no credentials, and
  \<open>change_password\<close> answers \<open>PUT /account_password/{uid}\<close>, which asks for none either.
\<close>

definition account_register :: "('d, 'r, 'c) env \<Rightarrow> dict \<Rightarrow> (('d, 'r, 'c) world, resp) py" where
  "account_register E body =
     (if truthy (dget body ''forgot_password'')
      then forgot_password E (text_or_empty (dget body ''identity'')) (dget body ''username'') ''password_reset''
      else bnd (register E (text_or_empty (dget body ''identity'')) (text_or_empty (dget body ''username''))
                  (text_or_empty (dget body ''name'')) (Some ''confirm_new'') None) (\<lambda>retval.
        if 201 < snd retval then ret retval
        else bnd (of_result (dsub (fst retval) ''uid'')) (\<lambda>uid.
          account_add E (text_or_empty (dget body ''username'')) uid)))"

definition account_change_password :: "('d, 'r, 'c) env \<Rightarrow> pyval \<Rightarrow> dict \<Rightarrow> (('d, 'r, 'c) world, resp) py" where
  "account_change_password E uid body =
     change_password E uid (dget body ''new_password'') (dget body ''reset_token'') (dget body ''old_password'') (dget body ''verify_password'')"

definition account_get_password :: "('d, 'r, 'c) env \<Rightarrow> pyval \<Rightarrow> (('d, 'r, 'c) world, resp) py" where
  "account_get_password E uid =
     bnd (one_or_none E (filter_by [(''uid'', uid), (''status'', PStr ''active'')] (query_of ''Account''))) (\<lambda>r. case r of
       None \<Rightarrow> ret ([(''id'', uid), (''message'', PStr ''account not found'')], 404)
     | Some account \<Rightarrow> ret ([(''id'', uid), (''username'', dget account ''name'')], 200))"

text \<open>\<open>AuthController\<close>: logging in and out.\<close>

definition auth_login ::
    "('d, 'r, 'c) env \<Rightarrow> string option \<Rightarrow> directory \<Rightarrow> oauth \<Rightarrow> dict \<Rightarrow> (('d, 'r, 'c) world, login_result) py" where
  "auth_login E roles_from dir oa body =
     account_login E roles_from dir oa (dget body ''username'') (dget body ''password'') (dget body ''method'') (dget body ''otp'')
       (dget body ''nonce'')"

definition auth_logout :: "('d, 'r, 'c) env \<Rightarrow> (('d, 'r, 'c) world, resp) py" where
  "auth_logout E =
     bnd (case rq_authorization (e_req E) of
            None \<Rightarrow> ret ()
          | Some (username, password) \<Rightarrow> session_delete E (PStr username) password None) (\<lambda>_.
     ret (msg_resp ''logged out'' 200))"

section \<open>Contacts\<close>

text \<open>
  After a new contact, and after an update of one, the confirmation is requested; its answer, with the
  token that was sent, becomes part of the response.
\<close>

definition contact_create :: "('d, 'r, 'c) env \<Rightarrow> dict \<Rightarrow> (('d, 'r, 'c) world, resp) py" where
  "contact_create E body =
     bnd (crud_create E body ''x-'' []) (\<lambda>(retval, _).
     if snd retval = 201 then
       bnd (of_result (dsub (fst retval) ''id'')) (\<lambda>ident.
       bnd (confirmation_request E ident None ''contact_add'') (\<lambda>result.
       ret (dmerge (fst retval) (fst result), 201)))
     else ret retval)"

definition contact_update :: "('d, 'r, 'c) env \<Rightarrow> pyval \<Rightarrow> dict \<Rightarrow> (('d, 'r, 'c) world, resp) py" where
  "contact_update E ident body =
     bnd (update_contact E ident body) (\<lambda>retval.
     if snd retval = 200 then
       bnd (confirmation_request E ident None ''contact_add'') (\<lambda>result.
       ret (dmerge (fst retval) (fst result), 200))
     else ret retval)"

definition contact_confirmation :: "('d, 'r, 'c) env \<Rightarrow> pyval \<Rightarrow> (('d, 'r, 'c) world, resp) py" where
  "contact_confirmation E ident = confirmation_request E ident None ''contact_add''"

definition contact_confirm :: "('d, 'r, 'c) env \<Rightarrow> pyval \<Rightarrow> (('d, 'r, 'c) world, resp) py" where
  "contact_confirm E token = confirm E token False"

section \<open>API keys\<close>

definition scope_limits :: "('d, 'r, 'c) env \<Rightarrow> (string \<times> pyval) list" where
  "scope_limits E = [(''scopes'', PInt (cf_SCOPES_MAX (e_cfg E)))]"

definition apikey_post :: "('d, 'r, 'c) env \<Rightarrow> dict \<Rightarrow> (('d, 'r, 'c) world, resp) py" where
  "apikey_post E body = bnd (crud_create E body ''x-'' (scope_limits E)) (\<lambda>(retval, _). ret retval)"

definition apikey_put :: "('d, 'r, 'c) env \<Rightarrow> pyval \<Rightarrow> dict \<Rightarrow> (('d, 'r, 'c) world, resp) py" where
  "apikey_put E ident body = basic_update E ident (ddel body ''expires'') (CHR ''u'') (scope_limits E)"

section \<open>Grants\<close>

text \<open>
  The cached grants of the user are dropped after a creation, and before an update. Which user that is
  comes from the body, which \<open>create\<close> completes and \<open>update\<close> does not.
\<close>

definition grant_create :: "('d, 'r, 'c) env \<Rightarrow> dict \<Rightarrow> (('d, 'r, 'c) world, resp) py" where
  "grant_create E body0 =
     bnd (crud_create E (if truthy (dget body0 ''expires'') then body0 else ddel body0 ''expires'') ''x-'' []) (\<lambda>(retval, body).
     bnd (grants_uncache E (dget body ''uid'')) (\<lambda>_.
     ret retval))"

definition grant_update :: "('d, 'r, 'c) env \<Rightarrow> string \<Rightarrow> dict \<Rightarrow> (('d, 'r, 'c) world, resp) py" where
  "grant_update E ident body0 =
     bnd (grants_uncache E (dget body0 ''uid'')) (\<lambda>_.
     let body = (if truthy (dget body0 ''expires'') then body0 else dset body0 ''expires'' PNone)
     in if CHR '':'' \<in> set ident then
          bnd (crud_create E (ddel (dset body ''uid'' (PStr (hd (py_split (CHR '':'') ident)))) ''id'') ''x-'' []) (\<lambda>(retval, _).
          ret retval)
        else basic_update E (PStr ident) body (CHR ''u'') [])"

definition grant_get :: "('d, 'r, 'c) env \<Rightarrow> string \<Rightarrow> (('d, 'r, 'c) world, resp) py" where
  "grant_get E ident = bnd (basic_get E (PStr ident)) (\<lambda>res. crud_get E res ident)"

definition grant_find :: "('d, 'r, 'c) env \<Rightarrow> dict \<Rightarrow> (('d, 'r, 'c) world, resp) py" where
  "grant_find E kwargs = bnd (basic_find E kwargs) (\<lambda>res. grants_find E res kwargs)"

section \<open>Locations\<close>

text \<open>\<open>geocoder.mapquest\<close>: latitude and longitude, None for a place that is not found.\<close>

type_synonym geocoder = "string \<Rightarrow> exc + (pyval \<times> pyval)"

definition fixed_point :: "pyval \<Rightarrow> exc + pyval" where
  "fixed_point v = (case py_num v of
       None \<Rightarrow> Inl (Exc ETypeError ''unsupported operand type(s) for *'')
     | Some x \<Rightarrow> Inr (PInt (whole (x * 10 ^ 7))))"

definition place_text :: "dict \<Rightarrow> string" where
  "place_text d =
     (let here = py_str (dget d ''city'') @ '','' @ py_str (dget d ''state'') @ '','' @ py_str (dget d ''country'')
      in if truthy (dget d ''address'') \<or> truthy (dget d ''neighborhood'')
         then py_str (py_or (dget d ''address'') (dget d ''neighborhood'')) @ '','' @ here else here)"

definition geo_lookup ::
    "('d, 'r, 'c) env \<Rightarrow> geocoder \<Rightarrow> dict \<Rightarrow> (('d, 'r, 'c) world, pyval \<times> pyval \<times> pyval) py" where
  "geo_lookup E G d = (case G (place_text d) of
       Inl e \<Rightarrow> ret (PNone, PNone, PStr [])
     | Inr (lat, lng) \<Rightarrow>
         bnd (of_result (fixed_point lat)) (\<lambda>geolat.
         bnd (of_result (fixed_point lng)) (\<lambda>geolong.
         let neighborhood = (if truthy (dget d ''address'') \<and> \<not> truthy (dget d ''neighborhood'')
            then PStr (''A neighborhood'' @ (if truthy (dget d ''city'') then '' in '' @ py_str (dget d ''city'') else []))
            else dget d ''neighborhood'')
         in bnd (metrics_store E PNone ''geo_lookup_total'' [] PNone) (\<lambda>_.
            ret (geolat, geolong, neighborhood)))))"

definition location_fields :: "string list" where
  "location_fields = [''address'', ''neighborhood'', ''city'', ''state'', ''country'']"

definition geocoded :: "('d, 'r, 'c) env \<Rightarrow> geocoder \<Rightarrow> dict \<Rightarrow> (('d, 'r, 'c) world, dict) py" where
  "geocoded E G body =
     bnd (geo_lookup E G (filter (\<lambda>(item, _). item \<in> set location_fields) body)) (\<lambda>(geolat, geolong, neighborhood).
     ret (dset (dset (dset body ''geolat'' geolat) ''geolong'' geolong) ''neighborhood'' neighborhood))"

definition location_create :: "('d, 'r, 'c) env \<Rightarrow> geocoder \<Rightarrow> dict \<Rightarrow> (('d, 'r, 'c) world, resp) py" where
  "location_create E G body0 =
     bnd (if truthy (dget body0 ''city'') \<and> truthy (dget body0 ''state'') then geocoded E G body0 else ret body0) (\<lambda>body.
     bnd (crud_create E body ''x-'' []) (\<lambda>(retval, _). ret retval))"

text \<open>An invented neighborhood is looked up anew.\<close>

definition invented :: "pyval \<Rightarrow> bool" where
  "invented v \<longleftrightarrow> (case v of PStr s \<Rightarrow> take 14 s = ''A neighborhood'' | _ \<Rightarrow> False)"

definition location_update :: "('d, 'r, 'c) env \<Rightarrow> geocoder \<Rightarrow> pyval \<Rightarrow> dict \<Rightarrow> (('d, 'r, 'c) world, resp) py" where
  "location_update E G ident body0 =
     bnd (if truthy (dget body0 ''city'') \<and> truthy (dget body0 ''state'')
          then geocoded E G (if invented (dget body0 ''neighborhood'') then dset body0 ''neighborhood'' PNone else body0)
          else ret body0) (\<lambda>body.
     basic_update E ident body (CHR ''u'') [])"

fun private_items :: "('d, 'r, 'c) env \<Rightarrow> pyval list \<Rightarrow> (('d, 'r, 'c) world, pyval list) py" where
  "private_items E [] = ret []"
| "private_items E (PDict d # rest) =
     bnd (if dhas d ''geolat'' then bnd (of_result (dsub d ''privacy'')) (\<lambda>p. with_privacy E d (p = PStr ''public'')) else ret d) (\<lambda>d'.
     bnd (private_items E rest) (\<lambda>ds. ret (PDict d' # ds)))"
| "private_items E (x # rest) = raise_exc (Exc ETypeError ''argument is not iterable'')"

definition location_find :: "('d, 'r, 'c) env \<Rightarrow> dict \<Rightarrow> (('d, 'r, 'c) world, resp) py" where
  "location_find E kwargs =
     bnd (basic_find E kwargs) (\<lambda>(results, status).
     if status = 200 then
       (case dget results ''items'' of
          PList xs \<Rightarrow> bnd (private_items E xs) (\<lambda>ys. ret (dset results ''items'' (PList ys), status))
        | _ \<Rightarrow> raise_exc (Exc EKeyError ''items''))
     else ret (results, status))"

section \<open>Persons, settings, messages\<close>

text \<open>A person, and then its first contact; if that cannot be stored the person stays.\<close>

definition person_create :: "('d, 'r, 'c) env \<Rightarrow> dict \<Rightarrow> (('d, 'r, 'c) world, resp) py" where
  "person_create E body0 =
     bnd (access_control E None) (\<lambda>acc.
     bnd (crud_create E (dset body0 ''referrer_id'' (ac_uid acc)) ''u-'' []) (\<lambda>(retval, body).
     if snd retval \<noteq> 201 then ret retval
     else bnd (of_result (controller E)) (\<lambda>_.
       bnd gen_id_default (\<lambda>ident.
       bnd (of_result (dsub (fst retval) ''id'')) (\<lambda>uid.
       bnd (of_result (dsub body ''identity'')) (\<lambda>info.
       bnd (session_add E ''Contact'' [(''id'', PStr ident), (''uid'', uid), (''type'', PStr ''email''), (''info'', info),
              (''status'', PStr ''unconfirmed'')]) (\<lambda>_.
       bnd (try_catch (bnd (commit E) (\<lambda>_. ret None))
              (\<lambda>ex. ret (Some ([(''message'', PStr (exc_msg ex)), (''data'', PDict body)], 405)))) (\<lambda>r. case r of
         Some response \<Rightarrow> ret response
       | None \<Rightarrow> bnd (of_result (dsub body ''id'')) (\<lambda>i. ret ([(''id'', i)], 201))))))))))"

definition settings_update :: "('d, 'r, 'c) env \<Rightarrow> pyval \<Rightarrow> dict \<Rightarrow> (('d, 'r, 'c) world, resp) py" where
  "settings_update E ident body =
     bnd (basic_update E ident body (CHR ''u'') []) (\<lambda>retval.
     if snd retval = 200 then
       bnd (one_or_none E (filter_by [(''name'', PStr ''admin'')] (query_of ''Account''))) (\<lambda>admin.
       bnd (settings_uncache E (cf_APPROVED_SENDERS (e_cfg E)) (case admin of None \<Rightarrow> PNone | Some a \<Rightarrow> dget a ''id'')) (\<lambda>_.
       ret retval))
     else ret retval)"

text \<open>A message counts against the sender's daily grant whether or not it is accepted.\<close>

definition message_create :: "('d, 'r, 'c) env \<Rightarrow> dict \<Rightarrow> (('d, 'r, 'c) world, resp) py" where
  "message_create E body =
     bnd (access_control E None) (\<lambda>acc.
     bnd (metrics_store E (ac_uid acc) ''message_daily_total'' [] PNone) (\<lambda>ok.
     if \<not> ok then ret (msg_resp ''daily limit exceeded'' 405)
     else bnd (crud_create E (dset body ''sender_id'' (ac_uid acc)) ''x-'' []) (\<lambda>(retval, _).
       if snd retval = 201 \<and> truthy (dget body ''list_id'') then
         bnd (of_result (dsub (fst retval) ''id'')) (\<lambda>message_id.
         bnd (session_add E ''ListMessage'' [(''list_id'', dget body ''list_id''), (''message_id'', message_id)]) (\<lambda>_.
         bnd (commit E) (\<lambda>_. ret retval)))
       else ret retval)))"

section \<open>Locations in a list\<close>

text \<open>What others see of a location: no stored coordinates, a place rounded to 1/10000 degree, no address.\<close>

definition blurred :: "dict \<Rightarrow> dict \<Rightarrow> bool" where
  "blurred d d' \<longleftrightarrow> \<not> dhas d' ''geolat'' \<and> \<not> dhas d' ''geolong'' \<and>
     (truthy (dget d ''geolat'') \<and> truthy (dget d ''geolong'') \<longrightarrow>
        dget d' ''geo'' = PList [PFloat (round4 (degrees (dget d ''geolong''))), PFloat (round4 (degrees (dget d ''geolat'')))] \<and>
        (dhas d ''address'' \<longrightarrow> dget d' ''address'' = PStr []))"

lemma with_privacy_blurs:
  assumes "with_privacy E d False w = (Inr d', w')" and "access_control E None w = (Inr acc, w)" and "dget d ''uid'' \<noteq> ac_uid acc"
  shows "blurred d d'"
proof -
  obtain u where u: "dsub d ''uid'' = Inr u" "u \<noteq> ac_uid acc"
    using assms(1,3) by (cases "dsub d ''uid''") (auto simp: with_privacy_def py_simps dsub_def dget_def split: option.splits)
  then have d': "d' = ddel (ddel (if \<not> (truthy (dget d ''geolat'') \<and> truthy (dget d ''geolong'')) then d
      else (let r = dset d ''geo'' (PList [PFloat (round4 (degrees (dget d ''geolong''))), PFloat (round4 (degrees (dget d ''geolat'')))])
            in if dhas r ''address'' then dset r ''address'' (PStr []) else r)) ''geolong'') ''geolat''"
    using assms(1,2) by (auto simp: with_privacy_def py_simps Let_def split: if_splits)
  show ?thesis unfolding d' blurred_def by (auto simp: dict_simps Let_def)
qed

text \<open>An item of the list and what became of it.\<close>

definition shown_location :: "pyval \<Rightarrow> pyval \<Rightarrow> pyval \<Rightarrow> bool" where
  "shown_location me x y \<longleftrightarrow> (\<exists>d d'. x = PDict d \<and> y = PDict d' \<and> \<not> dhas d' ''geolat'' \<and>
     (dhas d ''geolat'' \<and> dget d ''privacy'' \<noteq> PStr ''public'' \<and> dget d ''uid'' \<noteq> me \<longrightarrow> blurred d d'))"

lemma private_item_shown:
  assumes "(if dhas d ''geolat'' then bnd (of_result (dsub d ''privacy'')) (\<lambda>p. with_privacy E d (p = PStr ''public'')) else ret d) w = (Inr d', w1)"
    and "access_control E None w = (Inr acc, w)"
  shows "shown_location (ac_uid acc) (PDict d) (PDict d') \<and> w1 = w"
proof (cases "dhas d ''geolat''")
  case True
  then obtain p where p: "dsub d ''privacy'' = Inr p" and run: "with_privacy E d (p = PStr ''public'') w = (Inr d', w1)"
    using assms(1) by (auto simp: py_simps split: sum.splits)
  have "dget d ''privacy'' = p" using p by (auto simp: dsub_def dget_def split: option.splits)
  moreover have "w1 = w" using keepsD [OF keeps_with_privacy [where v = id] run] by simp
  moreover have "\<not> dhas d' ''geolat''"
    using run assms(2) by (auto simp: with_privacy_def py_simps Let_def dict_simps split: if_splits sum.splits)
  ultimately show ?thesis using run with_privacy_blurs [OF _ assms(2)] by (auto simp: shown_location_def)
qed (use assms(1) in \<open>auto simp: shown_location_def py_simps\<close>)

lemma private_items_shown:
  assumes "private_items E xs w = (Inr ys, w')" and "access_control E None w = (Inr acc, w)"
  shows "list_all2 (shown_location (ac_uid acc)) xs ys \<and> w' = w"
  using assms
proof (induction E xs arbitrary: ys rule: private_items.induct)
  case (2 E d rest)
  obtain d' w1 where
    item: "(if dhas d ''geolat'' then bnd (of_result (dsub d ''privacy'')) (\<lambda>p. with_privacy E d (p = PStr ''public'')) else ret d) w = (Inr d', w1)"
    and more: "bnd (private_items E rest) (\<lambda>ds. ret (PDict d' # ds)) w1 = (Inr ys, w')"
    using bnd_ok [OF 2(2) [unfolded private_items.simps]] by blast
  have shown: "shown_location (ac_uid acc) (PDict d) (PDict d')" "w1 = w" using private_item_shown [OF item 2(3)] by simp_all
  obtain ds where ds: "private_items E rest w = (Inr ds, w')" "ys = PDict d' # ds"
    using bnd_ok [OF more] shown(2) by (auto simp: py_simps)
  then show ?case using 2(1) [OF ds(1) 2(3)] shown(1) by simp
qed (simp_all add: py_simps)

section \<open>Properties\<close>


text \<open>Scenario: one public location of another user, and a visitor.\<close>

definition loc_env :: "(mdb, mredis, mcache) env" where
  "loc_env = (example_env ''/api/v1/location'')\<lparr>e_policies := [(''location'', [pol ''.*'' ''location'' ''r''])]\<rparr>"

definition loc_row :: dict where
  "loc_row = [(''id'', PStr ''x-1''), (''name'', PStr ''office''), (''uid'', PStr ''u-2''), (''privacy'', PStr ''public''),
     (''status'', PStr ''active''), (''geolat'', PInt 377749295), (''geolong'', PInt (-1224194155)), (''owner'', PList [PDict [(''name'', PStr ''Bob'')]])]"

definition loc_world :: "(mdb, mredis, mcache) world" where
  "loc_world = mem_world [(''Location'', [loc_row])]"


section \<open>Resetting a password\<close>

context session_env
begin

lemma email_request_ok:
  assumes "one_of (db_all (e_db E) (filter_by [(''id'', PStr ident)] (query_of ''Contact'')) (w_db w)) = Inr contact"
    and "dget contact ''id'' = PStr ident" and "dget contact ''type'' \<noteq> PStr ''sms''"
    and "\<And>nonce. view (w_now w) (w_redis w) (ses_key None (PStr ident) nonce) = None"
  shows "\<exists>d w1. confirmation_request E (PStr ident) None template w = (Inr (d, 200), w1) \<and> w_db w1 = w_db w \<and> w_now w1 = w_now w"
proof -
  obtain nonce u where u: "random_letters 8 w = (Inr nonce, u)" "w_now u = w_now w" "w_redis u = w_redis w" "w_db u = w_db w"
    by (simp add: random_letters_run)
  let ?t = "cf_TOKEN_TIMEOUT (e_cfg E)"
  have "\<exists>d w'. session_create E (PStr ident) [] None (Some nonce) (Some ?t) [(''param'', PStr (contact_token E contact nonce (w_now u)))] u =
      (Inr (Some d), w') \<and> w_db w' = w_db u \<and> w_now w' = w_now u \<and>
      (\<forall>k t. w_now u \<le> t \<longrightarrow> k \<noteq> ses_key None (PStr ident) nonce \<longrightarrow> view t (w_redis w') k = view t (w_redis u) k)"
    by (rule session_create_ok) (use assms(4) u in simp_all)
  then show ?thesis using assms(1-3) u
    by (auto simp: confirmation_request_def Let_def py_simps send_message_def)
qed

text \<open>The answer to a request for a reset holds a token that will be accepted.\<close>

lemma register_answers_token:
  assumes "token_valid (e_crypt E)" and "truthy (dget body ''forgot_password'')"
    and run: "account_register E body w = (Inr (d, 200), w1)"
    and found: "forgot_contact E (case identity_normalize (text_or_empty (dget body ''identity'')) of None \<Rightarrow> PNone | Some i \<Rightarrow> PStr i)
      (dget body ''username'') w = (Inr (account, PStr ident), w)"
    and contact: "one_of (db_all (e_db E) (filter_by [(''id'', PStr ident)] (query_of ''Contact'')) (w_db w)) = Inr contact"
      "dget contact ''id'' = PStr ident" "dget contact ''info'' = PStr info" "CHR '':'' \<notin> set ident" "CHR '':'' \<notin> set info"
    and free: "\<And>nonce. view (w_now w) (w_redis w) (ses_key None (PStr ident) nonce) = None"
    and later: "w_redis w2 = w_redis w1" "w_db w2 = w_db w" "w_now w \<le> w_now w2"
      "w_now w2 < w_now w + cf_TOKEN_TIMEOUT (e_cfg E) * 1000000"
  shows "\<exists>nonce. confirm E (dget d ''token'') True w2 = confirm_contact E ident info nonce True contact w2"
proof -
  have "confirmation_request E (PStr ident) None ''password_reset'' w = (Inr (d, 200), w1)"
    using run found assms(2) by (simp add: account_register_def forgot_password_def Let_def py_simps)
  from requested_confirms [OF assms(1) this contact free later(1-3)] later(4) show ?thesis by simp
qed

end

text \<open>C38: A request to POST /account with forgot_password, which needs no credential, is answered with a
  token that confirms the contact of the account asked for as long as tokens last: the token reaches
  the requester and not only the mailbox.\<close>

lemma reset_token_disclosed:
  assumes "session_env E view" and "token_valid (e_crypt E)" and "truthy (dget body ''forgot_password'')"
    and "account_register E body w = (Inr (d, 200), w1)"
    and "forgot_contact E (case identity_normalize (text_or_empty (dget body ''identity'')) of None \<Rightarrow> PNone | Some i \<Rightarrow> PStr i)
      (dget body ''username'') w = (Inr (account, PStr ident), w)"
    and "one_of (db_all (e_db E) (filter_by [(''id'', PStr ident)] (query_of ''Contact'')) (w_db w)) = Inr contact"
      "dget contact ''id'' = PStr ident" "dget contact ''info'' = PStr info" "CHR '':'' \<notin> set ident" "CHR '':'' \<notin> set info"
    and "\<And>nonce. view (w_now w) (w_redis w) (ses_key None (PStr ident) nonce) = None"
    and "w_redis w2 = w_redis w1" "w_db w2 = w_db w" "w_now w \<le> w_now w2"
      "w_now w2 < w_now w + cf_TOKEN_TIMEOUT (e_cfg E) * 1000000"
  shows "\<exists>nonce. confirm E (dget d ''token'') True w2 = confirm_contact E ident info nonce True contact w2"
  using session_env.register_answers_token [OF assms] .

definition bob_tables :: "(string \<times> dict list) list" where
  "bob_tables = [(''Account'', [[(''id'', PStr ''a-2''), (''uid'', PStr ''u-2''), (''name'', PStr ''bob''), (''status'', PStr ''active''),
      (''is_admin'', PBool False), (''owner'', PList [PDict [(''id'', PStr ''u-2''), (''identity'', PStr ''bob@example.com'')]])]]),
    (''Person'', [[(''id'', PStr ''u-2''), (''identity'', PStr ''bob@example.com'')]]),
    (''Contact'', [[(''id'', PStr ''x-7''), (''info'', PStr ''bob@example.com''), (''type'', PStr ''email''), (''uid'', PStr ''u-2''),
      (''status'', PStr ''active'')]])]"

definition reset_body :: dict where
  "reset_body = [(''forgot_password'', PBool True), (''username'', PStr ''bob'')]"

lemma reset_token_disclosed_witness:
  "\<exists>d w1 nonce. account_register mem_env reset_body (mem_world bob_tables) = (Inr (d, 200), w1) \<and>
     confirm mem_env (dget d ''token'') True w1 =
       confirm_contact mem_env ''x-7'' ''bob@example.com'' nonce True (hd (table_of bob_tables ''Contact'')) w1"
proof -
  let ?w = "mem_world bob_tables :: (mdb, mredis, mcache) world" and ?c = "hd (table_of bob_tables ''Contact'')"
    and ?i = "case identity_normalize (text_or_empty (dget reset_body ''identity'')) of None \<Rightarrow> PNone | Some i \<Rightarrow> PStr i"
  have f: "dget reset_body ''username'' = PStr ''bob''" "truthy (dget reset_body ''forgot_password'')"
    "fst (forgot_contact mem_env ?i (PStr ''bob'') ?w) = Inr (hd (table_of bob_tables ''Account''), PStr ''x-7'')"
    "one_of (db_all mem_db (filter_by [(''id'', PStr ''x-7'')] (query_of ''Contact'')) (w_db ?w)) = Inr ?c"
    "dget ?c ''id'' = PStr ''x-7''" "dget ?c ''info'' = PStr ''bob@example.com''" "dget ?c ''type'' = PStr ''email''"
    "CHR '':'' \<notin> set ''x-7''" "CHR '':'' \<notin> set ''bob@example.com''" by code_simp+
  have same: "snd (forgot_contact mem_env ?i (PStr ''bob'') ?w) = ?w"
    by (rule unchanged_if_keeps) (auto simp: forgot_contact_def intro!: keeps_intros)
  have found: "forgot_contact mem_env ?i (dget reset_body ''username'') ?w = (Inr (hd (table_of bob_tables ''Account''), PStr ''x-7''), ?w)"
    using f(1,3) same by (simp add: prod_eq_iff)
  have v: "mr_view t (w_redis ?w) k = None" for t k by (simp add: mem_world_def mr_view_def)
  obtain d w1 where c: "confirmation_request mem_env (PStr ''x-7'') None ''password_reset'' ?w = (Inr (d, 200), w1)"
    "w_db w1 = w_db ?w" "w_now w1 = w_now ?w"
    using memory_sessions.email_request_ok [of "''x-7''" ?w ?c "''password_reset''"] f v by auto
  then have run: "account_register mem_env reset_body ?w = (Inr (d, 200), w1)"
    using found f(2) by (simp add: account_register_def forgot_password_def Let_def py_simps)
  have "\<exists>nonce. confirm mem_env (dget d ''token'') True w1 = confirm_contact mem_env ''x-7'' ''bob@example.com'' nonce True ?c w1"
    by (rule reset_token_disclosed [OF memory_sessions.session_env_axioms _ f(2) run found])
      (use f v c mem_tokens in \<open>simp_all add: mem_config_def\<close>)
  then show ?thesis using run by blast
qed

section \<open>Grants that changed\<close>

lemma grants_on_db [keeps_intros]: "keeps w_grants (on_db f)"
  by (simp add: keeps_def py_simps)

lemma grants_db_abort [keeps_intros]: "keeps w_grants (db_abort E)"
  by (auto simp: db_abort_def keeps_def py_simps)

lemma grants_relate_all [keeps_intros]: "keeps w_grants (relate_all E m ident limits as body)"
  by (induction as arbitrary: body) (auto simp: update_related_def unlink_related_def Let_def intro!: keeps_intros)

lemma grants_basic_update: "keeps w_grants (basic_update E ident body act limits)"
  by (auto simp: basic_update_def update_row_def Let_def intro!: keeps_intros)

lemma grant_change_hidden:
  assumes "cache_contract (e_cache E)" and "tc_get (e_cache E) (PStr ''defaults'') (w_now w) (w_grants w) \<noteq> None"
    and "dget body ''uid'' = PNone" and "CHR '':'' \<notin> set ident" and "grant_update E ident body w = (r, w')" and "uid \<noteq> PNone"
  shows "tc_get (e_cache E) uid t (w_grants w') = tc_get (e_cache E) uid t (w_grants w)"
proof -
  let ?w = "w\<lparr>w_grants := tc_pop (e_cache E) PNone (w_grants w)\<rparr>" and ?b = "if truthy (dget body ''expires'') then body else dset body ''expires'' PNone"
  have "grants_uncache E PNone w = (Inr (), ?w)"
    using assms(2) by (auto simp: grants_uncache_def grants_init_def py_simps split: option.splits)
  then have "basic_update E (PStr ident) ?b (CHR ''u'') [] ?w = (r, w')"
    using assms(3-5) by (simp add: grant_update_def Let_def py_simps)
  then have "w_grants w' = tc_pop (e_cache E) PNone (w_grants w)" using keepsD [OF grants_basic_update] by fastforce
  then show ?thesis using cache_contract.pop_other [OF assms(1)] assms(6) by simp
qed

lemma grant_change_hidden_witness:
  "tc_get mem_cache (PStr ''u-1'') 0 (w_grants (snd (grant_update (example_env ''/api/v1/grant'') ''g-1'' [(''value'', PStr ''5'')]
      ((mem_world [])\<lparr>w_grants := [(PStr ''defaults'', PDict []), (PStr ''u-1'', PDict [(''contacts'', PInt 20)])]\<rparr>)))) =
   Some (PDict [(''contacts'', PInt 20)])"
proof -
  let ?E = "example_env ''/api/v1/grant''" and ?b = "[(''value'', PStr ''5'')]"
    and ?w = "(mem_world [])\<lparr>w_grants := [(PStr ''defaults'', PDict []), (PStr ''u-1'', PDict [(''contacts'', PInt 20)])]\<rparr>"
  have run: "grant_update ?E ''g-1'' ?b ?w = (fst (grant_update ?E ''g-1'' ?b ?w), snd (grant_update ?E ''g-1'' ?b ?w))" by simp
  have c: "cache_contract (e_cache ?E)" using memory_cache.cache_contract_axioms by simp
  from grant_change_hidden [OF c _ _ _ run, of "PStr ''u-1''" 0] show ?thesis by (simp add: mem_cache_def dict_simps)
qed

end
