(* ===== verification/Lifecycle.thy ===== *)
theory Lifecycle imports Rate_Limit Metrics Account_Settings Mutex Trashcan begin

text \<open>
  What happens around a request (apicrud/initialize.py, apicrud/health.py) and when a process starts
  (apicrud/database.py): the hooks of flask, the health check, opening the database, migrating and
  seeding it. SQLAlchemy's engine, alembic and the YAML files are parameters; a wait that need not end
  is an option.
\<close>

section \<open>Requests\<close>

text \<open>\<open>request.url_rule.rule.split('/')[3]\<close>, None where there is none.\<close>

definition request_resource :: "('d, 'r, 'c) env \<Rightarrow> pyval" where
  "request_resource E = (let parts = py_split (CHR ''/'') (rq_rule (e_req E))
     in if 3 < length parts then PStr (parts ! 3) else PNone)"

definition abort_with :: "nat \<Rightarrow> string \<Rightarrow> (('d, 'r, 'c) world, 'a) py" where
  "abort_with code msg = raise_exc (Exc (EAbort code) msg)"

definition count_request :: "('d, 'r, 'c) env \<Rightarrow> (('d, 'r, 'c) world, unit) py" where
  "count_request E =
     (let resource = request_resource E
      in if resource = PStr ''metrics'' then ret ()
         else bnd (try_catch
                (bnd (metrics_store E PNone ''api_calls_total'' [''resource='' @ py_str resource] PNone) (\<lambda>_. ret True))
                (\<lambda>ex. if exc_kind ex = ERedisConnectionError then ret False else raise_exc ex)) (\<lambda>ok.
           if \<not> ok \<and> resource \<noteq> PStr ''health'' then abort_with 503 ''redis cache unreachable'' else ret ()))"

definition before_request :: "('d, 'r, 'c) env \<Rightarrow> string \<Rightarrow> (('d, 'r, 'c) world, unit) py" where
  "before_request E meth =
     bnd (modify (\<lambda>w. w\<lparr>w_start := w_now w\<rparr>)) (\<lambda>_.
     bnd (count_request E) (\<lambda>_.
     bnd (if meth = ''OPTIONS'' then ret False
          else rate_call E (rate_limit_init E False None) PNone ''*'' PNone) (\<lambda>over.
     if over then
       bnd (metrics_store E PNone ''api_errors_total'' [''code=429''] PNone) (\<lambda>_. abort_with 429 [])
     else ret ())))"

text \<open>\<open>after_request\<close>: the seconds the request took; a lost redis is ignored.\<close>

definition after_request :: "('d, 'r, 'c) env \<Rightarrow> (('d, 'r, 'c) world, unit) py" where
  "after_request E = try_catch
     (bnd (gets (\<lambda>w. of_int (w_now w - w_start w) / 1000000)) (\<lambda>secs.
      bnd (metrics_store E PNone ''api_request_seconds_total'' [] (PFloat secs)) (\<lambda>_. ret ())))
     (\<lambda>ex. if exc_kind ex = ERedisConnectionError then ret () else raise_exc ex)"

definition get_locale :: "('d, 'r, 'c) env \<Rightarrow> (('d, 'r, 'c) world, pyval) py" where
  "get_locale E =
     bnd (access_control E None) (\<lambda>acc.
     bnd (if ac_auth acc \<notin> {None, Some []} \<and> truthy (ac_uid acc) then
            bnd (account_settings E (cf_APPROVED_SENDERS (e_cfg E)) (ac_account_id acc) (ac_uid acc)) (\<lambda>_. settings_locale E)
          else ret PNone) (\<lambda>locale.
     ret (if truthy locale then locale else (case rq_language (e_req E) of None \<Rightarrow> PNone | Some l \<Rightarrow> PStr l))))"

text \<open>An HTTP error, or a problem that connexion raised: code, name or title, and what it says.\<close>

record http_error =
  he_code :: nat
  he_name :: string
  he_description :: string

definition error_body :: "http_error \<Rightarrow> resp" where
  "error_body err = ([(''message'', PStr (he_description err)),
     (''error'', PDict [(''status'', PStr (he_name err)), (''code'', PInt (int (he_code err)))])], he_code err)"

definition render_status_4xx :: "('d, 'r, 'c) env \<Rightarrow> http_error \<Rightarrow> (('d, 'r, 'c) world, resp) py" where
  "render_status_4xx E err =
     bnd (metrics_store E PNone ''api_errors_total'' [''code='' @ show_int (int (he_code err))] PNone) (\<lambda>_.
     ret (error_body err))"

definition render_problem :: "('d, 'r, 'c) env \<Rightarrow> http_error \<Rightarrow> (('d, 'r, 'c) world, resp) py" where
  "render_problem E err =
     bnd (metrics_store E PNone ''api_errors_total'' [''code='' @ show_int (int (he_code err))] PNone) (\<lambda>_.
     ret (error_body err))"

section \<open>Health\<close>

record build_info =
  bi_app_name :: string
  bi_service_name :: string
  bi_model :: "string option"
  bi_release_id :: pyval
  bi_build_date :: pyval
  bi_version :: pyval
  bi_apicrud :: string

definition healthcheck :: "('d, 'r, 'c) env \<Rightarrow> build_info \<Rightarrow> (('d, 'r, 'c) world, resp) py" where
  "healthcheck E b =
     (let notes0 = [PStr (''build_date:'' @ py_str (bi_build_date b))];
          report = (\<lambda>status notes output. [(''status'', PStr (if status = (200 :: nat) then ''pass'' else ''fail'')),
              (''description'', PStr (bi_app_name b @ '' - '' @ bi_service_name b)), (''notes'', PList notes),
              (''serviceId'', PStr (bi_service_name b))] @
              (if truthy (bi_release_id b) then [(''releaseId'', bi_release_id b)] else []) @
              (if truthy (bi_version b) then [(''version'', bi_version b)] else []) @ output)
      in case bi_model b of
           None \<Rightarrow> ret (report 200 notes0 [], 200)
         | Some m \<Rightarrow> try_catch
             (bnd (run_one E (query_of m)) (\<lambda>row.
              ret (report 200 (notes0 @ [PStr (''schema:'' @ py_str (dget row ''version_num'')), PStr (''apicrud_version:'' @ bi_apicrud b)]) [], 200)))
             (\<lambda>ex. ret (report 503 notes0 [(''output'', PStr (exc_msg ex))], 503)))"

section \<open>Opening the database\<close>

text \<open>
  An engine by its URL. What is outside: \<open>create_engine\<close>, \<open>create_all\<close> and connecting at a given time
  (an unreachable server raises OperationalError), alembic's head revision of a schema and its upgrade,
  and the seed file with the time zones.
\<close>

record engine =
  en_url :: string

record 'd dbserver =
  ds_create :: "string \<Rightarrow> exc + engine"
  ds_online :: "int \<Rightarrow> bool"
  ds_tables :: "'d \<Rightarrow> 'd"
  ds_head :: "string \<Rightarrow> string"
  ds_upgrade :: "string \<Rightarrow> 'd \<Rightarrow> (exc + unit) \<times> 'd"
  ds_seed :: "exc + (string \<times> dict list) list"
  ds_zones :: "exc + dict list"

record dbconfig =
  dc_migrate :: bool
  dc_maxtime :: int
  dc_schemas :: "string list"
  dc_seed :: bool

fun has_part :: "string \<Rightarrow> string \<Rightarrow> bool" where
  "has_part p [] = (p = [])"
| "has_part p (c # cs) = (take (length p) (c # cs) = p \<or> has_part p cs)"

text \<open>
  The engine that \<open>_init_db\<close> keeps. For PostgreSQL the execution options are not bound, and the error
  is caught like any failure of \<open>create_engine\<close>.
\<close>

definition open_engine ::
    "'d dbserver \<Rightarrow> engine option \<Rightarrow> string option \<Rightarrow> engine option \<Rightarrow> exc + engine option" where
  "open_engine DS current db_url given = (case current of
       Some e \<Rightarrow> Inr (Some e)
     | None \<Rightarrow> (case db_url of
         None \<Rightarrow> Inl (Exc ETypeError ''argument of type NoneType is not iterable'')
       | Some url \<Rightarrow> (case given of
           Some e \<Rightarrow> Inr (Some e)
         | None \<Rightarrow> if has_part ''postgres'' url then Inr None
             else (case ds_create DS url of Inl ex \<Rightarrow> Inr None | Inr e \<Rightarrow> Inr (Some e)))))"

text \<open>\<open>while t > 0\<close>: an attempt; if it fails, ten seconds' sleep. True if an attempt succeeded.\<close>

function retry_until ::
    "int \<Rightarrow> (('d, 'r, 'c) world, bool) py \<Rightarrow> (('d, 'r, 'c) world, bool) py" where
  "retry_until t attempt =
     (if t \<le> 0 then ret False
      else bnd attempt (\<lambda>ok. if ok then ret True else bnd (sleep_secs 10) (\<lambda>_. retry_until (t - 10) attempt)))"
  by pat_completeness auto
termination by (relation "measure (\<lambda>(t, _). nat t)") auto

declare retry_until.simps [simp del]

definition online :: "'d dbserver \<Rightarrow> (('d, 'r, 'c) world, bool) py" where
  "online DS = gets (\<lambda>w. ds_online DS (w_now w))"

definition init_db ::
    "'d dbserver \<Rightarrow> engine option \<Rightarrow> string option \<Rightarrow> engine option \<Rightarrow> (('d, 'r, 'c) world, engine option) py" where
  "init_db DS current db_url given =
     bnd (of_result (open_engine DS current db_url given)) (\<lambda>e. case e of
       None \<Rightarrow> ret None
     | Some en \<Rightarrow>
         bnd (retry_until 20 (bnd (online DS) (\<lambda>ok.
           if ok then bnd (modify (\<lambda>w. w\<lparr>w_db := ds_tables DS (w_db w)\<rparr>)) (\<lambda>_. ret True) else ret False))) (\<lambda>_.
         ret (Some en)))"

text \<open>
  \<open>get_session\<close>: the given engine, the one of the process, or a new one. A scoped session looks at its
  engine's URL.
\<close>

definition get_session ::
    "'d dbserver \<Rightarrow> engine option \<Rightarrow> bool \<Rightarrow> string option \<Rightarrow> engine option \<Rightarrow> (('d, 'r, 'c) world, engine option) py" where
  "get_session DS current scoped db_url given =
     bnd (case given of
            Some e \<Rightarrow> ret (Some e)
          | None \<Rightarrow> (case current of Some e \<Rightarrow> ret (Some e) | None \<Rightarrow> init_db DS None db_url None)) (\<lambda>e.
     if scoped \<and> e = None then raise_exc (Exc EAttributeError ''NoneType object has no attribute url'') else ret e)"

section \<open>Seeding\<close>

text \<open>Coordinates of the file become fixed-point numbers, which stay floats.\<close>

definition times_1e7 :: "pyval \<Rightarrow> exc + pyval" where
  "times_1e7 v = (case py_num v of
       None \<Rightarrow> Inl (Exc ETypeError ''can't multiply sequence by non-int of type float'')
     | Some x \<Rightarrow> Inr (PFloat (x * 10 ^ 7)))"

definition seed_record :: "dict \<Rightarrow> exc + dict" where
  "seed_record record =
     (if \<not> dhas record ''geolat'' then Inr record
      else case times_1e7 (dget record ''geolat'') of Inl e \<Rightarrow> Inl e | Inr lat \<Rightarrow>
        (case dsub record ''geolong'' of Inl e \<Rightarrow> Inl e | Inr v \<Rightarrow>
        (case times_1e7 v of Inl e \<Rightarrow> Inl e | Inr long \<Rightarrow> Inr (dset (dset record ''geolat'' lat) ''geolong'' long))))"

definition seed_rows :: "('d, 'r, 'c) env \<Rightarrow> string \<Rightarrow> dict list \<Rightarrow> (('d, 'r, 'c) world, unit) py" where
  "seed_rows E resource rows = for_each (\<lambda>record.
     bnd (of_result (seed_record record)) (\<lambda>body.
     bnd (of_result (models_attr E (capitalize resource))) (\<lambda>m.
     bnd (of_result (build_record E m body)) (\<lambda>row. session_add E m row)))) rows"

definition seed_new_db :: "('d, 'r, 'c) env \<Rightarrow> 'd dbserver \<Rightarrow> dbconfig \<Rightarrow> (('d, 'r, 'c) world, unit) py" where
  "seed_new_db E DS cfg =
     (if \<not> dc_seed cfg then ret ()
      else bnd (of_result (ds_seed DS)) (\<lambda>records0.
        bnd (if ''tz'' \<in> fst ` set records0 then ret records0
             else bnd (of_result (ds_zones DS)) (\<lambda>zones. ret (records0 @ [(''tz'', zones)]))) (\<lambda>records.
        bnd (for_each (\<lambda>(resource, rows). if resource = ''_constants'' then ret () else seed_rows E resource rows) records) (\<lambda>_.
        commit E))))"

section \<open>Migrations\<close>

text \<open>Statements that need not return: None is a run that never ends.\<close>

type_synonym ('w, 'a) may = "'w \<Rightarrow> ((exc + 'a) \<times> 'w) option"

definition runs :: "('w, 'a) py \<Rightarrow> ('w, 'a) may" where
  "runs m = (\<lambda>w. Some (m w))"

definition and_then :: "('w, 'a) may \<Rightarrow> ('a \<Rightarrow> ('w, 'b) may) \<Rightarrow> ('w, 'b) may" where
  "and_then m f = (\<lambda>w. case m w of
       None \<Rightarrow> None
     | Some (Inl e, w') \<Rightarrow> Some (Inl e, w')
     | Some (Inr x, w') \<Rightarrow> f x w')"

text \<open>
  The wait of an instance that does not migrate: \<open>while version != head and wait_time\<close>, five seconds
  each. The version is not read again, and only a wait of exactly zero ends the loop.
\<close>

partial_function (option) wait_rounds :: "bool \<Rightarrow> int \<Rightarrow> nat option" where
  "wait_rounds differs t =
     (if differs \<and> t \<noteq> 0 then Option.bind (wait_rounds differs (t - 5)) (\<lambda>n. Some (Suc n)) else Some 0)"

definition wait_for_schema :: "bool \<Rightarrow> int \<Rightarrow> (('d, 'r, 'c) world, unit) may" where
  "wait_for_schema differs t = (\<lambda>w. case wait_rounds differs t of
       None \<Rightarrow> None | Some n \<Rightarrow> Some (sleep_secs (5 * int n) w))"

definition upgrade ::
    "'d dbserver \<Rightarrow> string \<Rightarrow> int \<Rightarrow> (('d, 'r, 'c) world, unit) py" where
  "upgrade DS schema maxtime =
     bnd (retry_until maxtime (online DS)) (\<lambda>connected.
     if \<not> connected then raise_exc (Exc EOther ''SystemExit: 1'') else on_db (ds_upgrade DS schema))"

definition alembic_migrate ::
    "('d, 'r, 'c) env \<Rightarrow> 'd dbserver \<Rightarrow> dbconfig \<Rightarrow> string option \<Rightarrow> string \<Rightarrow> (('d, 'r, 'c) world, unit) may" where
  "alembic_migrate E DS cfg version schema =
     and_then
       (if version = Some (ds_head DS schema) then runs (ret ())
        else if dc_migrate cfg then runs (upgrade DS schema (dc_maxtime cfg))
        else wait_for_schema True (dc_maxtime cfg)) (\<lambda>_.
     if version = None \<and> schema = last (dc_schemas cfg) then runs (seed_new_db E DS cfg) else runs (ret ()))"

text \<open>The recorded version; a table that is missing or empty has none.\<close>

definition schema_version :: "('d, 'r, 'c) env \<Rightarrow> string \<Rightarrow> (('d, 'r, 'c) world, string option) py" where
  "schema_version E schema = try_catch
     (bnd (of_result (models_attr E (''AlembicVersion'' @ capitalize schema))) (\<lambda>m.
      bnd (run_one E (query_of m)) (\<lambda>row. ret (Some (py_str (dget row ''version_num''))))))
     (\<lambda>ex. if exc_kind ex \<in> {ENoResultFound, EOperationalError, EProgrammingError} then ret None else raise_exc ex)"

fun update_schemas ::
    "('d, 'r, 'c) env \<Rightarrow> 'd dbserver \<Rightarrow> dbconfig \<Rightarrow> string list \<Rightarrow> (('d, 'r, 'c) world, unit) may" where
  "update_schemas E DS cfg [] = runs (ret ())"
| "update_schemas E DS cfg (schema # rest) =
     and_then (runs (schema_version E schema)) (\<lambda>version.
     and_then (if dc_maxtime cfg = 0 then runs (ret ()) else alembic_migrate E DS cfg version schema) (\<lambda>_.
     update_schemas E DS cfg rest))"

definition schema_update :: "('d, 'r, 'c) env \<Rightarrow> 'd dbserver \<Rightarrow> dbconfig \<Rightarrow> engine option \<Rightarrow> (('d, 'r, 'c) world, unit) may" where
  "schema_update E DS cfg current =
     and_then (runs (get_session DS current True None None)) (\<lambda>_. update_schemas E DS cfg (dc_schemas cfg))"

text \<open>\<open>with Mutex(...)\<close>: released at the end whether or not the body raised; what the release raises wins.\<close>

definition with_mutex :: "('d, 'r, 'c) env \<Rightarrow> mutex \<Rightarrow> (('d, 'r, 'c) world, 'a) may \<Rightarrow> (('d, 'r, 'c) world, 'a) may" where
  "with_mutex E m body =
     and_then (runs (mutex_acquire E m)) (\<lambda>_ w. case body w of
       None \<Rightarrow> None
     | Some (r, w1) \<Rightarrow> (case mutex_release E m w1 of
         (Inl e, w2) \<Rightarrow> Some (Inl e, w2)
       | (Inr _, w2) \<Rightarrow> Some (r, w2)))"

definition initialize_db ::
    "('d, 'r, 'c) env \<Rightarrow> 'd dbserver \<Rightarrow> dbconfig \<Rightarrow> engine option \<Rightarrow> string option \<Rightarrow> engine option \<Rightarrow>
     (('d, 'r, 'c) world, bool) may" where
  "initialize_db E DS cfg current db_url given =
     and_then (runs (init_db DS current db_url given)) (\<lambda>opened.
     if dc_migrate cfg then
       and_then (runs (mutex_init E ''alembic'' 20 (dc_maxtime cfg))) (\<lambda>m w.
         case with_mutex E m (schema_update E DS cfg opened) w of
           None \<Rightarrow> None
         | Some (Inl e, w') \<Rightarrow> if exc_kind e = ETimeoutError then Some (Inr False, w') else Some (Inl e, w')
         | Some (Inr _, w') \<Rightarrow> Some (Inr True, w'))
     else and_then (schema_update E DS cfg opened) (\<lambda>_. runs (ret True)))"

section \<open>Waiting\<close>

lemma wait_rounds_multiple: "wait_rounds True (5 * int n) = Some n"
proof (induction n)
  case (Suc n)
  have "5 * int (Suc n) - 5 = 5 * int n" by simp
  with Suc show ?case by (subst wait_rounds.simps) simp
qed (subst wait_rounds.simps, simp)

text \<open>A run that ends went down to zero.\<close>

lemma wait_rounds_ends: "wait_rounds differs t = Some n \<Longrightarrow> differs \<Longrightarrow> t = 5 * int n"
proof (induction rule: wait_rounds.raw_induct [rotated, consumes 1])
  case (1 wait_rounds differs t n)
  show ?case
  proof (cases "t = 0")
    case True
    then show ?thesis using 1(2) by simp
  next
    case False
    then obtain k where "wait_rounds differs (t - 5) = Some k" "n = Suc k" using 1(2,3) by (auto split: bind_splits)
    then show ?thesis using 1(1) [of differs "t - 5" k] 1(3) by simp
  qed
qed

lemma retry_until_bound:
  assumes "keeps w_now attempt" and "retry_until t attempt w = (r, w')"
  shows "w_now w \<le> w_now w' \<and> w_now w' \<le> w_now w + (if t \<le> 0 then 0 else t + 9) * 1000000"
  using assms
proof (induction t attempt arbitrary: w rule: retry_until.induct)
  case (1 t attempt)
  obtain r1 w1 where a: "attempt w = (r1, w1)" by fastforce
  then have now: "w_now w1 = w_now w" using keepsD [OF 1(2)] by simp
  show ?case
  proof (cases "t \<le> 0 \<or> isl r1 \<or> r1 = Inr True")
    case True
    then show ?thesis using 1(3) a now by (subst (asm) retry_until.simps) (auto simp: py_simps split: if_splits sum.splits)
  next
    case False
    then have r1: "r1 = Inr False" and t: "0 < t" by (cases r1; simp)+
    have "retry_until (t - 10) attempt (w1\<lparr>w_now := w_now w1 + 10000000\<rparr>) = (r, w')"
      using 1(3) a r1 t by (subst (asm) retry_until.simps) (simp add: py_simps sleep_secs_def)
    from 1(1) [OF _ _ 1(2) this, of False] t show ?thesis by (simp add: now split: if_splits)
  qed
qed

section \<open>What a seed leaves behind\<close>

text \<open>Nothing is durable unless the whole seed was committed.\<close>

context db_contract
begin

lemma keeps_seed_rows [keeps_intros]: "e_db E = D \<Longrightarrow> keeps (\<lambda>w. durable (w_db w)) (seed_rows E resource rows)"
  by (auto simp: seed_rows_def intro!: keeps_intros)

lemma seed_unless:
  assumes "e_db E = D" and "seed_new_db E DS cfg w = (Inl ex, w')"
  shows "durable (w_db w') = durable (w_db w)"
proof -
  let ?load = "bnd (of_result (ds_seed DS)) (\<lambda>records0.
        bnd (if ''tz'' \<in> fst ` set records0 then ret records0
             else bnd (of_result (ds_zones DS)) (\<lambda>zones. ret (records0 @ [(''tz'', zones)]))) (\<lambda>records.
        for_each (\<lambda>(resource, rows). if resource = ''_constants'' then ret () else seed_rows E resource rows) records))"
  have k: "keeps (\<lambda>w. durable (w_db w)) ?load" using assms(1) by (auto intro!: keeps_intros)
  have "bnd ?load (\<lambda>_. commit E) w = (Inl ex, w')"
    using assms(2) by (auto simp: seed_new_db_def py_simps split: if_splits sum.splits prod.splits)
  then obtain r w1 where l: "?load w = (r, w1)" and "(isl r \<and> w' = w1) \<or> commit E w1 = (Inl ex, w')"
    by (cases "?load w") (auto simp: bnd_def split: sum.splits)
  then show ?thesis using keepsD [OF k l] commit_kept [OF assms(1), of w1 ex w'] by auto
qed

end

section \<open>Properties\<close>

definition lost_redis :: "mredis redisops" where
  "lost_redis = mem_redis\<lparr>rd_get := (\<lambda>k t s. Inl (Exc ERedisConnectionError ''Connection refused'')),
     rd_incrby := (\<lambda>k n t s. (Inl (Exc ERedisConnectionError ''Connection refused''), s))\<rparr>"

definition unreachable :: "'r redisops \<Rightarrow> bool" where
  "unreachable R \<longleftrightarrow> (\<exists>e. exc_kind e = ERedisConnectionError \<and> (\<forall>k t s. rd_get R k t s = Inl e) \<and>
     (\<forall>k n t s. rd_incrby R k n t s = (Inl e, s)))"

lemma lost_redis_unreachable: "unreachable lost_redis"
  by (auto simp: unreachable_def lost_redis_def)

lemma anonymous_unlimited:
  assumes "map_of (rq_headers (e_req E)) (cf_HEADER_AUTH_APIKEY (e_cfg E)) = None" and "rq_authorization (e_req E) = None"
  shows "rate_call E rl limit service PNone w = (Inr False, w)"
  using assms by (simp add: rate_call_def request_uid_def py_simps)

lemma count_request_lost:
  assumes "unreachable (e_redis E)" and "map_of (cf_METRICS (e_cfg E)) ''api_calls_total'' = Some m" and "mt_style m = ''counter''"
  shows "count_request E w =
    (if request_resource E \<in> {PStr ''metrics'', PStr ''health''} then Inr () else Inl (Exc (EAbort 503) ''redis cache unreachable''), w)"
proof -
  obtain e where "exc_kind e = ERedisConnectionError" "\<And>k n t s. rd_incrby (e_redis E) k n t s = (Inl e, s)"
    using assms(1) unfolding unreachable_def by blast
  then show ?thesis using assms(2,3) by (auto simp: count_request_def metrics_store_def Let_def py_simps abort_with_def)
qed

lemma redis_down_503:
  assumes "unreachable (e_redis E)" and "map_of (cf_METRICS (e_cfg E)) ''api_calls_total'' = Some m" and "mt_style m = ''counter''"
    and "map_of (rq_headers (e_req E)) (cf_HEADER_AUTH_APIKEY (e_cfg E)) = None" and "rq_authorization (e_req E) = None"
  shows "fst (before_request E meth w) =
    (if request_resource E \<in> {PStr ''metrics'', PStr ''health''} then Inr () else Inl (Exc (EAbort 503) ''redis cache unreachable''))"
  using anonymous_unlimited [OF assms(4,5)] by (simp add: before_request_def py_simps count_request_lost [OF assms(1-3)])

definition lost_env :: "(mdb, mredis, mcache) env" where
  "lost_env = mem_env\<lparr>e_redis := lost_redis, e_cfg := mem_config\<lparr>cf_METRICS := [(''api_calls_total'', demo_metric\<lparr>mt_style := ''counter''\<rparr>)]\<rparr>,
     e_req := (e_req mem_env)\<lparr>rq_rule := ''/api/v1/health'', rq_headers := [], rq_authorization := None\<rparr>\<rparr>"

lemma redis_down_503_witness: "fst (before_request lost_env ''GET'' (mem_world [])) = Inr ()"
proof -
  have r: "request_resource lost_env = PStr ''health''" by code_simp
  show ?thesis
    by (subst redis_down_503 [where m = "demo_metric\<lparr>mt_style := ''counter''\<rparr>"])
      (simp_all add: r, simp_all add: lost_env_def lost_redis_unreachable)
qed

text \<open>C36: An instance that waits for another one to migrate the schema stops waiting exactly when
  schema_maxtime is a multiple of five that is not negative; for any other value its loop never ends,
  even when the migration has finished.\<close>

lemma migration_wait_ends:
  assumes "\<not> dc_migrate cfg" and "version = Some v" and "v \<noteq> ds_head DS schema"
  shows "(\<exists>r w'. alembic_migrate E DS cfg version schema w = Some (r, w')) \<longleftrightarrow> 0 \<le> dc_maxtime cfg \<and> 5 dvd dc_maxtime cfg"
proof -
  have "(\<exists>n. wait_rounds True t = Some n) \<longleftrightarrow> 0 \<le> t \<and> 5 dvd t" for t
  proof
    assume "\<exists>n. wait_rounds True t = Some n"
    then show "0 \<le> t \<and> 5 dvd t" using wait_rounds_ends by fastforce
  next
    assume "0 \<le> t \<and> 5 dvd t"
    then have "t = 5 * int (nat (t div 5))" by auto
    then show "\<exists>n. wait_rounds True t = Some n" using wait_rounds_multiple by metis
  qed
  moreover have "(\<exists>r w'. alembic_migrate E DS cfg version schema w = Some (r, w')) \<longleftrightarrow> (\<exists>n. wait_rounds True (dc_maxtime cfg) = Some n)"
    using assms by (auto simp: alembic_migrate_def and_then_def wait_for_schema_def runs_def py_simps sleep_secs_def split: option.splits)
  ultimately show ?thesis by simp
qed

definition demo_server :: "mdb dbserver" where
  "demo_server = \<lparr>ds_create = (\<lambda>url. Inr \<lparr>en_url = url\<rparr>), ds_online = (\<lambda>_. True), ds_tables = id, ds_head = (\<lambda>_. ''cac2000912a5''),
     ds_upgrade = (\<lambda>_ d. (Inr (), d)), ds_seed = Inr [(''person'', [[(''id'', PStr ''x-1'')]])], ds_zones = Inr []\<rparr>"

definition demo_dbconfig :: dbconfig where
  "demo_dbconfig = \<lparr>dc_migrate = False, dc_maxtime = 12, dc_schemas = [''apicrud''], dc_seed = True\<rparr>"

lemma migration_wait_ends_witness:
  "\<not> (\<exists>r w'. alembic_migrate mem_env demo_server demo_dbconfig (Some ''0001'') ''apicrud'' (mem_world []) = Some (r, w'))"
  by (subst migration_wait_ends [where v = "''0001''"]) (simp_all add: demo_dbconfig_def demo_server_def)

lemma seed_all_or_nothing:
  assumes "db_contract (e_db E) durable" and "seed_new_db E DS cfg w = (Inl ex, w')"
  shows "durable (w_db w') = durable (w_db w)"
  using db_contract.seed_unless [OF assms(1) refl assms(2)] .

lemma seed_all_or_nothing_witness:
  "md_durable (w_db (snd (seed_new_db (mem_env\<lparr>e_models := []\<rparr>) demo_server demo_dbconfig (mem_world [])))) = md_durable (w_db (mem_world []))"
proof -
  have "fst (seed_new_db (mem_env\<lparr>e_models := []\<rparr>) demo_server demo_dbconfig (mem_world [])) =
      Inl (Exc EAttributeError ''module has no attribute Person'')" by code_simp
  then have "seed_new_db (mem_env\<lparr>e_models := []\<rparr>) demo_server demo_dbconfig (mem_world []) =
      (Inl (Exc EAttributeError ''module has no attribute Person''), snd (seed_new_db (mem_env\<lparr>e_models := []\<rparr>) demo_server demo_dbconfig (mem_world [])))"
    by (metis prod.collapse)
  from seed_all_or_nothing [OF _ this] memory_db.db_contract_axioms show ?thesis by simp
qed

lemma postgres_never_starts:
  assumes "has_part ''postgres'' url"
  shows "initialize_db E DS cfg None (Some url) None w \<noteq> Some (Inr True, w')"
proof -
  have s: "schema_update E DS cfg None w1 = Some (Inl (Exc ETypeError ''argument of type NoneType is not iterable''), w1)" for w1
    by (simp add: schema_update_def and_then_def runs_def get_session_def init_db_def open_engine_def py_simps)
  have "init_db DS None (Some url) None w = (Inr None, w)" by (simp add: init_db_def open_engine_def assms py_simps)
  then show ?thesis
    by (auto simp: initialize_db_def and_then_def runs_def with_mutex_def s split: prod.splits sum.splits if_splits)
qed

lemma postgres_never_starts_witness:
  "\<not> (\<exists>w'. initialize_db mem_env demo_server demo_dbconfig None (Some ''postgresql://db/app'') None (mem_world []) = Some (Inr True, w'))"
proof -
  have "has_part ''postgres'' ''postgresql://db/app''" by code_simp
  then show ?thesis using postgres_never_starts by blast
qed

lemma seed_without_migration:
  assumes "\<not> dc_migrate cfg" and "schema = last (dc_schemas cfg)" and "dc_maxtime cfg = 5 * int n"
  shows "alembic_migrate E DS cfg None schema w = Some (seed_new_db E DS cfg (w\<lparr>w_now := w_now w + dc_maxtime cfg * 1000000\<rparr>))"
  using assms by (simp add: alembic_migrate_def and_then_def wait_for_schema_def runs_def py_simps sleep_secs_def wait_rounds_multiple)

lemma seed_without_migration_witness:
  "alembic_migrate mem_env demo_server (demo_dbconfig\<lparr>dc_maxtime := 120\<rparr>) None ''apicrud'' (mem_world []) =
     Some (seed_new_db mem_env demo_server (demo_dbconfig\<lparr>dc_maxtime := 120\<rparr>) ((mem_world [])\<lparr>w_now := w_now (mem_world [] :: (mdb, mredis, mcache) world) + 120 * 1000000\<rparr>))"
  by (subst seed_without_migration [where n = 24]) (simp_all add: demo_dbconfig_def)

end
