(* ===== verification/Registry_Refresh.thy ===== *)
theory Registry_Refresh imports Registry begin

text \<open>
  The life of a registration (apicrud/service_registry.py: \<open>__init__\<close>, \<open>register\<close>, \<open>update\<close>,
  \<open>_save_entry\<close>): the module's globals as a record, the timers as the times they are due, and the
  steps in which time passes, a timer fires and other processes use the same redis.
\<close>

section \<open>The module's state and operations\<close>

record registry_config =
  rc_APP_PORT :: int
  rc_SERVICE_NAME :: string
  rc_INTERVAL :: int
  rc_TTL :: int

record registry_params =
  rp_secret :: string
  rp_interval :: int
  rp_ttl :: int

record registry_process =
  pr_params :: "registry_params option"
  pr_data :: "service_data option"
  pr_due :: "int list"

text \<open>\<open>a or b\<close> for an argument that may be None or empty.\<close>

definition str_or :: "string option \<Rightarrow> string \<Rightarrow> string" where
  "str_or a b = (case a of Some s \<Rightarrow> if s = [] then b else s | None \<Rightarrow> b)"

definition int_or :: "int option \<Rightarrow> int \<Rightarrow> int" where
  "int_or a b = (case a of Some n \<Rightarrow> if n = 0 then b else n | None \<Rightarrow> b)"

text \<open>The constructor: the parameters are set once per process unless a reload is asked for.\<close>

definition registry_open ::
    "('d, 'r, 'c) env \<Rightarrow> registry_config \<Rightarrow> string option \<Rightarrow> string option \<Rightarrow> bool \<Rightarrow> int option \<Rightarrow>
     registry_process \<Rightarrow> string \<times> registry_process" where
  "registry_open E rc aes_secret public_url reload ttl p =
     (str_or public_url (cf_PUBLIC_URL (e_cfg E)),
      if pr_params p = None \<or> reload
      then p\<lparr>pr_params := Some \<lparr>rp_secret = str_or aes_secret (cf_REDIS_AES_SECRET (e_cfg E)),
        rp_interval = rc_INTERVAL rc, rp_ttl = int_or ttl (rc_TTL rc)\<rparr>\<rparr>
      else p)"

text \<open>\<open>_save_entry\<close>: the key is composed outside of the \<open>try\<close>.\<close>

definition save_entry ::
    "('d, 'r, 'c) env \<Rightarrow> registry_process \<Rightarrow> (('d, 'r, 'c) world, unit) py" where
  "save_entry E p = (case pr_data p of
       None \<Rightarrow> raise_exc (Exc EKeyError ''name'')
     | Some sd \<Rightarrow> (case pr_params p of
         None \<Rightarrow> ret ()
       | Some rp \<Rightarrow> registry_save E (rp_secret rp) (rp_ttl rp) sd))"

text \<open>\<open>resolve\<close> stands for gethostbyname, \<open>print_time\<close> prints a time.\<close>

definition registry_register ::
    "('d, 'r, 'c) env \<Rightarrow> registry_config \<Rightarrow> (string \<Rightarrow> string option) \<Rightarrow> (int \<Rightarrow> string) \<Rightarrow> string \<Rightarrow>
     string list \<Rightarrow> string option \<Rightarrow> string \<Rightarrow> int option \<Rightarrow> registry_process \<Rightarrow>
     (('d, 'r, 'c) world, registry_process) py" where
  "registry_register E rc resolve print_time url endpoints service_name ident tcp_port p =
     bnd (reads (\<lambda>w. Inr (w_now w))) (\<lambda>t.
       let sd = registry_entry endpoints (case resolve ident of None \<Rightarrow> PNone | Some a \<Rightarrow> PStr a)
             (int_or tcp_port (rc_APP_PORT rc)) url (print_time (t - t mod 1000000))
             (str_or service_name (rc_SERVICE_NAME rc)) ident;
           q = p\<lparr>pr_data := Some sd\<rparr>
       in bnd (save_entry E q) (\<lambda>_. ret (q\<lparr>pr_due := (t + 1000000) # pr_due q\<rparr>)))"

text \<open>\<open>update\<close>, run by a timer: save the entry and start the next timer.\<close>

definition registry_update ::
    "('d, 'r, 'c) env \<Rightarrow> registry_process \<Rightarrow> (('d, 'r, 'c) world, registry_process) py" where
  "registry_update E p =
     bnd (save_entry E p) (\<lambda>_. bnd (reads (\<lambda>w. Inr (w_now w))) (\<lambda>t. case pr_params p of
       None \<Rightarrow> raise_exc (Exc EKeyError ''interval'')
     | Some rp \<Rightarrow> ret (p\<lparr>pr_due := (t + rp_interval rp * 1000000) # pr_due p\<rparr>)))"

section \<open>Steps\<close>

text \<open>
  A timer fires at most \<open>late\<close> microseconds after it is due; until then time may pass. Whatever other
  processes do in between leaves the key of this instance alone.
\<close>

inductive registry_step ::
    "('d, 'r, 'c) env \<Rightarrow> (int \<Rightarrow> 'r \<Rightarrow> string \<Rightarrow> string option) \<Rightarrow> int \<Rightarrow> string \<Rightarrow>
     registry_process \<times> ('d, 'r, 'c) world \<Rightarrow> registry_process \<times> ('d, 'r, 'c) world \<Rightarrow> bool"
  for E view late key where
  elapse: "w_now w \<le> t \<Longrightarrow> \<forall>d \<in> set (pr_due p). t \<le> d + late \<Longrightarrow>
    registry_step E view late key (p, w) (p, w\<lparr>w_now := t\<rparr>)"
| fire: "d \<in> set (pr_due p) \<Longrightarrow> d \<le> w_now w \<Longrightarrow>
    registry_update E (p\<lparr>pr_due := remove1 d (pr_due p)\<rparr>) w = (Inr p', w') \<Longrightarrow>
    registry_step E view late key (p, w) (p', w')"
| other: "w_now w' = w_now w \<Longrightarrow>
    \<forall>t. w_now w \<le> t \<longrightarrow> view t (w_redis w') key = view t (w_redis w) key \<Longrightarrow>
    registry_step E view late key (p, w) (p, w')"

inductive_cases registry_stepE: "registry_step E view late key (p, w) (p', w')"

text \<open>
  The invariant: some timer will fire before the entry expires, lateness included.
\<close>

definition refreshed ::
    "('d, 'r, 'c) env \<Rightarrow> (int \<Rightarrow> 'r \<Rightarrow> string \<Rightarrow> string option) \<Rightarrow> int \<Rightarrow> service_data \<Rightarrow> registry_params \<Rightarrow>
     registry_process \<times> ('d, 'r, 'c) world \<Rightarrow> bool" where
  "refreshed E view late sd rp s \<longleftrightarrow> (case s of (p, w) \<Rightarrow>
     pr_data p = Some sd \<and> pr_params p = Some rp \<and>
     (\<exists>d \<in> set (pr_due p). \<exists>data. w_now w \<le> d + late \<and>
       decrypt_json E (rp_secret rp) data = Inr (PDict (sd_info sd)) \<and>
       (\<forall>t. w_now w \<le> t \<longrightarrow> t \<le> d + late \<longrightarrow>
         view t (w_redis w) (registry_key (sd_name sd) (sd_id sd)) = Some data)))"

section \<open>A registration stays\<close>

context session_env
begin

lemma save_entry_run:
  assumes "pr_data p = Some sd" and "pr_params p = Some rp" and "storable (sd_info sd)"
  shows "\<exists>data w'. save_entry E p w = (Inr (), w') \<and> w_now w' = w_now w \<and>
    decrypt_json E (rp_secret rp) data = Inr (PDict (sd_info sd)) \<and>
    (\<forall>t. w_now w \<le> t \<longrightarrow> t < w_now w + rp_ttl rp * 1000000 \<longrightarrow>
      view t (w_redis w') (registry_key (sd_name sd) (sd_id sd)) = Some data)"
  using registry_save_run [OF assms(3)] assms(1,2) by (simp add: save_entry_def)

lemma fired_refreshes:
  assumes sd: "pr_data p = Some sd" and rp: "pr_params p = Some rp" and "storable (sd_info sd)"
    and late: "0 \<le> late" "0 \<le> rp_interval rp" "rp_interval rp * 1000000 + late < rp_ttl rp * 1000000"
    and run: "registry_update E p w = (Inr p', w')"
  shows "refreshed E view late sd rp (p', w')"
proof -
  obtain data u where u: "save_entry E p w = (Inr (), u)" "w_now u = w_now w"
    "decrypt_json E (rp_secret rp) data = Inr (PDict (sd_info sd))"
    "\<forall>t. w_now w \<le> t \<longrightarrow> t < w_now w + rp_ttl rp * 1000000 \<longrightarrow>
      view t (w_redis u) (registry_key (sd_name sd) (sd_id sd)) = Some data"
    using save_entry_run [OF sd rp assms(3)] by blast
  then have p': "p' = p\<lparr>pr_due := (w_now w + rp_interval rp * 1000000) # pr_due p\<rparr>" "w' = u"
    using run rp by (simp_all add: registry_update_def py_simps)
  show ?thesis unfolding refreshed_def p'
    using sd rp late u by (auto intro!: exI [of _ data])
qed

lemma step_refreshes:
  assumes "registry_step E view late (registry_key (sd_name sd) (sd_id sd)) s s'"
    and "storable (sd_info sd)" and "0 \<le> late" and "0 \<le> rp_interval rp"
    and "rp_interval rp * 1000000 + late < rp_ttl rp * 1000000"
    and "refreshed E view late sd rp s"
  shows "refreshed E view late sd rp s'"
  using assms(1,6)
proof (induction rule: registry_step.induct)
  case (elapse w t p)
  then show ?case unfolding refreshed_def by fastforce
next
  case (fire d p w p' w')
  have "pr_data p = Some sd" "pr_params p = Some rp" using fire(4) by (auto simp: refreshed_def)
  then show ?case
    by (intro fired_refreshes [OF _ _ assms(2-5) fire(3)]) simp_all
next
  case (other w' w p)
  then show ?case unfolding refreshed_def by fastforce
qed

lemma steps_refresh:
  assumes "(registry_step E view late (registry_key (sd_name sd) (sd_id sd)))\<^sup>*\<^sup>* s s'"
    and "storable (sd_info sd)" and "0 \<le> late" and "0 \<le> rp_interval rp"
    and "rp_interval rp * 1000000 + late < rp_ttl rp * 1000000"
    and "refreshed E view late sd rp s"
  shows "refreshed E view late sd rp s'"
  using assms(1) by (induction rule: rtranclp_induct) (auto intro: assms(6) step_refreshes [OF _ assms(2-5)])

lemma register_refreshes:
  assumes "registry_register E rc resolve print_time url endpoints service ident tcp_port p w = (Inr p', w')"
    and "pr_params p = Some rp" and "pr_data p' = Some sd" and "storable (sd_info sd)"
    and "0 \<le> late" and "1000000 + late < rp_ttl rp * 1000000"
  shows "refreshed E view late sd rp (p', w')"
proof -
  let ?q = "p\<lparr>pr_data := Some sd\<rparr>"
  obtain data u where u: "save_entry E ?q w = (Inr (), u)" "w_now u = w_now w"
    "decrypt_json E (rp_secret rp) data = Inr (PDict (sd_info sd))"
    "\<forall>t. w_now w \<le> t \<longrightarrow> t < w_now w + rp_ttl rp * 1000000 \<longrightarrow>
      view t (w_redis u) (registry_key (sd_name sd) (sd_id sd)) = Some data"
    using save_entry_run [of ?q sd rp w] assms(2,4) by auto
  have "save_entry E ?q w = (Inr (), u) \<and> p' = ?q\<lparr>pr_due := (w_now w + 1000000) # pr_due ?q\<rparr> \<and> w' = u"
    using assms(1,3) u(1)
    by (auto simp: registry_register_def py_simps Let_def split: prod.splits sum.splits)
  then show ?thesis unfolding refreshed_def
    using assms(2,5,6) u by (auto intro!: exI [of _ data])
qed

lemma stays_readable:
  assumes "refreshed E view late sd rp (p', w')" and "storable (sd_info sd)" and "0 \<le> late"
    and "0 \<le> rp_interval rp" and "rp_interval rp * 1000000 + late < rp_ttl rp * 1000000"
    and "CHR '':'' \<notin> set (sd_name sd)" and "CHR '':'' \<notin> set (sd_id sd)"
    and "(registry_step E view late (registry_key (sd_name sd) (sd_id sd)))\<^sup>*\<^sup>* (p', w') (q, v)"
  shows "registry_read E (rp_secret rp) (registry_key (sd_name sd) (sd_id sd)) v =
    (Inr (Some (dset (dset (sd_info sd) ''name'' (PStr (sd_name sd))) ''id'' (PStr (sd_id sd)))), v)"
proof -
  have "refreshed E view late sd rp (q, v)" by (rule steps_refresh [OF assms(8,2-5,1)])
  then obtain data where "decrypt_json E (rp_secret rp) data = Inr (PDict (sd_info sd))"
    "view (w_now v) (w_redis v) (registry_key (sd_name sd) (sd_id sd)) = Some data"
    unfolding refreshed_def by force
  then show ?thesis using registry_read_live assms(6,7) by blast
qed

end

section \<open>Properties\<close>

text \<open>C18: A registered instance stays registered: as long as its timers fire with a lateness that leaves
  the refresh interval below the time to live, and other processes leave its key alone, every
  reachable state has an entry in redis that decrypts to what was registered, with the name and id of
  its key.\<close>

lemma registration_stays:
  assumes "session_env E view"
    and "registry_register E rc resolve print_time url endpoints service ident tcp_port p w = (Inr p', w')"
    and "pr_params p = Some rp" and "pr_data p' = Some sd" and "storable (sd_info sd)"
    and "0 \<le> late" and "0 \<le> rp_interval rp" and "1000000 + late < rp_ttl rp * 1000000"
    and "rp_interval rp * 1000000 + late < rp_ttl rp * 1000000"
    and "CHR '':'' \<notin> set (sd_name sd)" and "CHR '':'' \<notin> set (sd_id sd)"
    and "(registry_step E view late (registry_key (sd_name sd) (sd_id sd)))\<^sup>*\<^sup>* (p', w') (q, v)"
  shows "registry_read E (rp_secret rp) (registry_key (sd_name sd) (sd_id sd)) v =
    (Inr (Some (dset (dset (sd_info sd) ''name'' (PStr (sd_name sd))) ''id'' (PStr (sd_id sd)))), v)"
  using session_env.stays_readable [OF assms(1) session_env.register_refreshes [OF assms(1-6,8)] assms(5-7,9-12)] .

lemma registration_stays_witness:
  "\<exists>p' w'. registry_register mem_env \<lparr>rc_APP_PORT = 8080, rc_SERVICE_NAME = ''main'', rc_INTERVAL = 30, rc_TTL = 60\<rparr>
       (\<lambda>_. None) (\<lambda>_. ''2022-01-01T00:00:00'') ''http://localhost:3000'' [''account''] None ''h1'' None
       \<lparr>pr_params = Some \<lparr>rp_secret = ''sec'', rp_interval = 30, rp_ttl = 60\<rparr>, pr_data = None, pr_due = []\<rparr>
       (mem_world []) = (Inr p', w') \<and>
     (\<exists>info. registry_read mem_env ''sec'' ''reg:main:h1'' (w'\<lparr>w_now := 1640995201000000\<rparr>) =
       (Inr (Some info), w'\<lparr>w_now := 1640995201000000\<rparr>) \<and> dget info ''port'' = PInt 8080)"
proof -
  let ?rp = "\<lparr>rp_secret = ''sec'', rp_interval = 30, rp_ttl = 60\<rparr>"
  let ?p = "\<lparr>pr_params = Some ?rp, pr_data = None, pr_due = []\<rparr>"
  let ?rc = "\<lparr>rc_APP_PORT = 8080, rc_SERVICE_NAME = ''main'', rc_INTERVAL = 30, rc_TTL = 60\<rparr>"
  let ?sd = "registry_entry [''account''] PNone 8080 ''http://localhost:3000'' ''2022-01-01T00:00:00'' ''main'' ''h1''"
  let ?q = "?p\<lparr>pr_data := Some ?sd\<rparr>"
  have st: "storable (sd_info ?sd)" by (simp add: storable_def registry_entry_def)
  obtain u where u: "save_entry mem_env ?q (mem_world []) = (Inr (), u)" "w_now u = w_now (mem_world [])"
    using session_env.save_entry_run [OF memory_sessions.session_env_axioms _ _ st, of ?q ?rp "mem_world []"] by auto
  have run: "registry_register mem_env ?rc (\<lambda>_. None) (\<lambda>_. ''2022-01-01T00:00:00'') ''http://localhost:3000''
      [''account''] None ''h1'' None ?p (mem_world []) = (Inr (?q\<lparr>pr_due := [1640995201000000]\<rparr>), u)"
    using u(1) by (simp add: registry_register_def py_simps str_or_def int_or_def Let_def mem_world_def)
  have "(registry_step mem_env mr_view 0 (registry_key ''main'' ''h1''))\<^sup>*\<^sup>*
      (?q\<lparr>pr_due := [1640995201000000]\<rparr>, u) (?q\<lparr>pr_due := [1640995201000000]\<rparr>, u\<lparr>w_now := 1640995201000000\<rparr>)"
    using u(2) by (intro r_into_rtranclp registry_step.elapse) (simp_all add: mem_world_def)
  then have "registry_read mem_env ''sec'' (registry_key ''main'' ''h1'') (u\<lparr>w_now := 1640995201000000\<rparr>) =
      (Inr (Some (dset (dset (sd_info ?sd) ''name'' (PStr ''main'')) ''id'' (PStr ''h1''))), u\<lparr>w_now := 1640995201000000\<rparr>)"
    using registration_stays [OF memory_sessions.session_env_axioms run, of ?rp ?sd 0] st
    by (simp add: registry_entry_def)
  then show ?thesis using run
    by (intro exI [of _ "?q\<lparr>pr_due := [1640995201000000]\<rparr>"] exI [of _ u])
      (simp add: registry_key_def registry_entry_def dict_simps)
qed

end
