(* ===== verification/Migration.thy ===== *)
theory Migration imports Schema begin

text \<open>
  The database migrations (apicrud/alembic/versions/cac2000912a5_initialize.py and
  example/alembic/versions/b972839aee75_initialize.py): the steps of each \<open>upgrade()\<close> as data, what a
  database does with a sequence of such steps, and the comparison of the tables the migrations leave
  behind with the tables the models of \<open>Schema\<close> declare. The names of constraints and indexes are
  left out.
\<close>

section \<open>Steps and the database that runs them\<close>

datatype table_constraint =
    ForeignKey string string bool \<comment> \<open>column, table whose id it refers to, ON DELETE CASCADE\<close>
  | PrimaryKey "string list"
  | UniqueKey "string list"

record table =
  tbl_name :: string
  tbl_columns :: "column list"
  tbl_constraints :: "table_constraint list"

datatype schema_step =
    CreateTable table
  | CreateIndex string "string list"
  | AddConstraint string table_constraint
  | AddColumn string column

fun find_table :: "table list \<Rightarrow> string \<Rightarrow> table option" where
  "find_table [] n = None"
| "find_table (t # ts) n = (if tbl_name t = n then Some t else find_table ts n)"

fun find_column :: "column list \<Rightarrow> string \<Rightarrow> column option" where
  "find_column [] n = None"
| "find_column (c # cs) n = (if col_name c = n then Some c else find_column cs n)"

definition has_columns :: "table \<Rightarrow> string list \<Rightarrow> bool" where
  "has_columns t cs = list_all (\<lambda>c. find_column (tbl_columns t) c \<noteq> None) cs"

definition has_key :: "table \<Rightarrow> string \<Rightarrow> bool" where
  "has_key t c = (PrimaryKey [c] \<in> set (tbl_constraints t) \<or> UniqueKey [c] \<in> set (tbl_constraints t) \<or>
     (case find_column (tbl_columns t) c of Some k \<Rightarrow> col_primary k \<or> col_unique k | None \<Rightarrow> False))"

text \<open>
  What the database asks of a constraint: its columns are in the table; the table a foreign key
  refers to exists (it may be the table itself), its id is a key and has the column's type.
\<close>

fun constraint_ok :: "table list \<Rightarrow> table \<Rightarrow> table_constraint \<Rightarrow> bool" where
  "constraint_ok s t (PrimaryKey cs) = has_columns t cs"
| "constraint_ok s t (UniqueKey cs) = has_columns t cs"
| "constraint_ok s t (ForeignKey c r casc) =
     (case (find_column (tbl_columns t) c, find_table s r) of
        (Some k, Some t') \<Rightarrow> has_key t' ''id'' \<and>
          (case find_column (tbl_columns t') ''id'' of
             Some i \<Rightarrow> col_type i = col_type k | None \<Rightarrow> False)
      | _ \<Rightarrow> False)"

definition table_ok :: "table list \<Rightarrow> table \<Rightarrow> bool" where
  "table_ok s t = (distinct (map col_name (tbl_columns t)) \<and>
     list_all (constraint_ok s t) (tbl_constraints t))"

definition replace_table :: "table list \<Rightarrow> table \<Rightarrow> table list" where
  "replace_table s t = map (\<lambda>u. if tbl_name u = tbl_name t then t else u) s"

text \<open>A step of \<open>upgrade()\<close>; None where the database refuses it.\<close>

fun run_step :: "schema_step \<Rightarrow> table list \<Rightarrow> table list option" where
  "run_step (CreateTable t) s =
     (if find_table s (tbl_name t) = None \<and> table_ok (s @ [t]) t then Some (s @ [t]) else None)"
| "run_step (CreateIndex n cs) s =
     (case find_table s n of None \<Rightarrow> None | Some t \<Rightarrow> if has_columns t cs then Some s else None)"
| "run_step (AddConstraint n k) s =
     (case find_table s n of None \<Rightarrow> None
      | Some t \<Rightarrow> if constraint_ok s t k
          then Some (replace_table s (t\<lparr>tbl_constraints := tbl_constraints t @ [k]\<rparr>)) else None)"
| "run_step (AddColumn n c) s =
     (case find_table s n of None \<Rightarrow> None
      | Some t \<Rightarrow> if find_column (tbl_columns t) (col_name c) = None
          then Some (replace_table s (t\<lparr>tbl_columns := tbl_columns t @ [c]\<rparr>)) else None)"

fun run_steps :: "schema_step list \<Rightarrow> table list \<Rightarrow> table list option" where
  "run_steps [] s = Some s"
| "run_steps (x # xs) s = (case run_step x s of None \<Rightarrow> None | Some s' \<Rightarrow> run_steps xs s')"

definition default_country :: string where
  "default_country = ''US''"

section \<open>The core tables\<close>

definition create_people :: table where
  "create_people = \<lparr>tbl_name = ''people'',
     tbl_columns = [
       needed (col ''id'' (TString 16)),
       needed (col ''name'' (TString 64)),
       needed (col ''identity'' (TString 64)),
       col ''referrer_id'' (TString 16),
       server_default ''public'' (needed (col ''privacy'' (TString 8))),
       server_default ''(CURRENT_TIMESTAMP)'' (needed (col ''created'' TTimestamp)),
       col ''modified'' TTimestamp,
       needed (col ''status'' (TEnum [''active'', ''disabled'', ''suspended'']))],
     tbl_constraints = [
       ForeignKey ''referrer_id'' ''people'' False,
       PrimaryKey [''id''],
       UniqueKey [''id''],
       UniqueKey [''identity'']]\<rparr>"

definition create_time_zone_name :: table where
  "create_time_zone_name = \<lparr>tbl_name = ''time_zone_name'',
     tbl_columns = [
       needed (col ''id'' TInteger),
       needed (col ''name'' (TString 32)),
       server_default ''active'' (needed (col ''status'' (TEnum [''active'', ''disabled''])))],
     tbl_constraints = [
       PrimaryKey [''id''],
       UniqueKey [''id''],
       UniqueKey [''name'']]\<rparr>"

definition create_apikeys :: table where
  "create_apikeys = \<lparr>tbl_name = ''apikeys'',
     tbl_columns = [
       needed (col ''id'' (TString 16)),
       needed (col ''name'' (TString 64)),
       needed (col ''uid'' (TString 16)),
       needed (col ''prefix'' (TString 8)),
       needed (col ''hashvalue'' (TEncrypted 96)),
       col ''expires'' TTimestamp,
       col ''last_used'' TTimestamp,
       server_default ''(CURRENT_TIMESTAMP)'' (needed (col ''created'' TTimestamp)),
       col ''modified'' TTimestamp,
       server_default ''active'' (needed (col ''status'' (TEnum [''active'', ''disabled''])))],
     tbl_constraints = [
       ForeignKey ''uid'' ''people'' False,
       PrimaryKey [''id''],
       UniqueKey [''id''],
       UniqueKey [''prefix''],
       UniqueKey [''name'', ''uid'']]\<rparr>"

definition create_categories :: table where
  "create_categories = \<lparr>tbl_name = ''categories'',
     tbl_columns = [
       needed (col ''id'' (TString 16)),
       needed (col ''name'' (TString 64)),
       needed (col ''uid'' (TString 16)),
       server_default ''(CURRENT_TIMESTAMP)'' (needed (col ''created'' TTimestamp)),
       col ''modified'' TTimestamp,
       server_default ''active'' (needed (col ''status'' (TEnum [''active'', ''disabled''])))],
     tbl_constraints = [
       ForeignKey ''uid'' ''people'' False,
       PrimaryKey [''id''],
       UniqueKey [''id''],
       UniqueKey [''name'', ''uid'']]\<rparr>"

definition create_contacts :: table where
  "create_contacts = \<lparr>tbl_name = ''contacts'',
     tbl_columns = [
       needed (col ''id'' (TString 16)),
       server_default ''home'' (needed (col ''label'' (TString 16))),
       server_default ''email'' (needed (col ''type'' (TString 12))),
       col ''carrier'' (TString 16),
       col ''info'' (TString 255),
       server_default ''0'' (needed (col ''muted'' TBoolean)),
       server_default ''1'' (needed (col ''rank'' TInteger)),
       needed (col ''uid'' (TString 16)),
       server_default ''member'' (needed (col ''privacy'' (TString 8))),
       server_default ''(CURRENT_TIMESTAMP)'' (needed (col ''created'' TTimestamp)),
       col ''modified'' TTimestamp,
       server_default ''unconfirmed'' (needed (col ''status'' (TEnum [''active'', ''unconfirmed'', ''disabled''])))],
     tbl_constraints = [
       ForeignKey ''uid'' ''people'' True,
       PrimaryKey [''id''],
       UniqueKey [''id''],
       UniqueKey [''info'', ''type'']]\<rparr>"

definition create_grants :: table where
  "create_grants = \<lparr>tbl_name = ''grants'',
     tbl_columns = [
       needed (col ''id'' (TString 16)),
       needed (col ''name'' (TString 24)),
       needed (col ''value'' (TString 64)),
       needed (col ''uid'' (TString 16)),
       col ''expires'' TTimestamp,
       server_default ''(CURRENT_TIMESTAMP)'' (needed (col ''created'' TTimestamp)),
       col ''modified'' TTimestamp,
       server_default ''active'' (needed (col ''status'' (TEnum [''active'', ''disabled''])))],
     tbl_constraints = [
       ForeignKey ''uid'' ''people'' True,
       PrimaryKey [''id''],
       UniqueKey [''id''],
       UniqueKey [''name'', ''uid'']]\<rparr>"

definition create_locations :: table where
  "create_locations = \<lparr>tbl_name = ''locations'',
     tbl_columns = [
       unique (primary (col ''id'' (TString 16))),
       col ''name'' (TString 255),
       col ''address'' (TString 255),
       needed (col ''city'' (TString 64)),
       col ''state'' (TString 16),
       col ''postalcode'' (TString 12),
       server_default default_country (needed (col ''country'' (TString 2))),
       col ''geolat'' TInteger,
       col ''geolong'' TInteger,
       col ''neighborhood'' (TString 32),
       server_default ''public'' (needed (col ''privacy'' (TString 8))),
       needed (col ''uid'' (TString 16)),
       needed (col ''category_id'' (TString 16)),
       server_default ''now()'' (needed (col ''created'' TTimestamp)),
       col ''modified'' TTimestamp,
       needed (col ''status'' (TEnum [''active'', ''disabled'']))],
     tbl_constraints = [
       ForeignKey ''uid'' ''people'' False,
       ForeignKey ''category_id'' ''categories'' False]\<rparr>"

definition create_profileitems :: table where
  "create_profileitems = \<lparr>tbl_name = ''profileitems'',
     tbl_columns = [
       needed (col ''id'' (TString 16)),
       needed (col ''uid'' (TString 16)),
       needed (col ''item'' (TString 16)),
       col ''value'' (TString 96),
       col ''location_id'' (TString 16),
       col ''tz_id'' TInteger,
       server_default ''public'' (needed (col ''privacy'' (TString 8))),
       server_default ''(CURRENT_TIMESTAMP)'' (needed (col ''created'' TTimestamp)),
       col ''modified'' TTimestamp,
       needed (col ''status'' (TEnum [''active'', ''disabled'']))],
     tbl_constraints = [
       ForeignKey ''location_id'' ''locations'' False,
       ForeignKey ''tz_id'' ''time_zone_name'' False,
       ForeignKey ''uid'' ''people'' True,
       PrimaryKey [''id''],
       UniqueKey [''id''],
       UniqueKey [''uid'', ''item'']]\<rparr>"

definition create_lists :: table where
  "create_lists = \<lparr>tbl_name = ''lists'',
     tbl_columns = [
       needed (col ''id'' (TString 16)),
       needed (col ''name'' (TString 64)),
       col ''description'' TText,
       server_default ''public'' (needed (col ''privacy'' (TString 8))),
       needed (col ''category_id'' (TString 16)),
       needed (col ''uid'' (TString 16)),
       server_default ''(CURRENT_TIMESTAMP)'' (needed (col ''created'' TTimestamp)),
       col ''modified'' TTimestamp,
       needed (col ''status'' (TEnum [''active'', ''disabled'']))],
     tbl_constraints = [
       ForeignKey ''category_id'' ''categories'' False,
       ForeignKey ''uid'' ''people'' True,
       PrimaryKey [''id''],
       UniqueKey [''id''],
       UniqueKey [''name'', ''uid'']]\<rparr>"

definition create_listmembers :: table where
  "create_listmembers = \<lparr>tbl_name = ''listmembers'',
     tbl_columns = [
       primary (col ''uid'' (TString 16)),
       primary (col ''list_id'' (TString 16)),
       server_default ''member'' (needed (col ''authorization'' (TString 8))),
       server_default ''(CURRENT_TIMESTAMP)'' (needed (col ''created'' TTimestamp))],
     tbl_constraints = [
       ForeignKey ''list_id'' ''lists'' True,
       ForeignKey ''uid'' ''people'' True]\<rparr>"

definition create_settings :: table where
  "create_settings = \<lparr>tbl_name = ''settings'',
     tbl_columns = [
       needed (col ''id'' (TString 16)),
       needed (col ''name'' (TString 32)),
       server_default ''public'' (needed (col ''privacy'' (TString 8))),
       server_default ''587'' (needed (col ''smtp_port'' TInteger)),
       col ''smtp_smarthost'' (TString 255),
       col ''smtp_credential_id'' (TString 16),
       server_default ''US'' (needed (col ''country'' (TString 2))),
       server_default ''en_US'' (needed (col ''lang'' (TString 6))),
       server_default ''598'' (needed (col ''tz_id'' TInteger)),
       col ''url'' (TString 255),
       server_default ''Example apicrud Application'' (col ''window_title'' (TString 127)),
       needed (col ''default_cat_id'' (TString 16)),
       needed (col ''administrator_id'' (TString 16)),
       col ''default_hostlist_id'' (TString 16),
       server_default ''(CURRENT_TIMESTAMP)'' (needed (col ''created'' TTimestamp)),
       col ''modified'' TTimestamp],
     tbl_constraints = [
       ForeignKey ''administrator_id'' ''people'' False,
       ForeignKey ''default_cat_id'' ''categories'' False,
       ForeignKey ''default_hostlist_id'' ''lists'' False,
       ForeignKey ''tz_id'' ''time_zone_name'' False,
       PrimaryKey [''id''],
       UniqueKey [''id'']]\<rparr>"

definition create_accounts :: table where
  "create_accounts = \<lparr>tbl_name = ''accounts'',
     tbl_columns = [
       unique (primary (col ''id'' (TString 16))),
       needed (col ''name'' (TString 32)),
       needed (col ''uid'' (TString 16)),
       needed (col ''password'' (TEncrypted 128)),
       server_default ''0'' (needed (col ''password_must_change'' TBoolean)),
       col ''totp_secret'' (TEncrypted 64),
       col ''backup_codes'' (TBinary 256),
       server_default ''0'' (needed (col ''is_admin'' TBoolean)),
       needed (col ''settings_id'' (TString 16)),
       col ''last_login'' TTimestamp,
       server_default ''(CURRENT_TIMESTAMP)'' (needed (col ''created'' TTimestamp)),
       col ''modified'' TTimestamp,
       needed (col ''status'' (TEnum [''active'', ''disabled'']))],
     tbl_constraints = [
       ForeignKey ''settings_id'' ''settings'' False,
       ForeignKey ''uid'' ''people'' True,
       UniqueKey [''id'', ''uid''],
       UniqueKey [''name''],
       UniqueKey [''uid'']]\<rparr>"

definition create_scopes :: table where
  "create_scopes = \<lparr>tbl_name = ''scopes'',
     tbl_columns = [
       needed (col ''id'' (TString 16)),
       needed (col ''name'' (TString 32)),
       needed (col ''settings_id'' (TString 16)),
       server_default ''(CURRENT_TIMESTAMP)'' (needed (col ''created'' TTimestamp)),
       col ''modified'' TTimestamp,
       server_default ''active'' (needed (col ''status'' (TEnum [''active'', ''disabled''])))],
     tbl_constraints = [
       ForeignKey ''settings_id'' ''settings'' False,
       PrimaryKey [''id''],
       UniqueKey [''id''],
       UniqueKey [''name'', ''settings_id'']]\<rparr>"

definition create_apikeyscopes :: table where
  "create_apikeyscopes = \<lparr>tbl_name = ''apikeyscopes'',
     tbl_columns = [
       primary (col ''apikey_id'' (TString 16)),
       primary (col ''scope_id'' (TString 16)),
       server_default ''(CURRENT_TIMESTAMP)'' (needed (col ''created'' TTimestamp))],
     tbl_constraints = [
       ForeignKey ''apikey_id'' ''apikeys'' True,
       ForeignKey ''scope_id'' ''scopes'' True]\<rparr>"

definition create_credentials :: table where
  "create_credentials = \<lparr>tbl_name = ''credentials'',
     tbl_columns = [
       primary (col ''id'' (TString 16)),
       needed (col ''name'' (TString 64)),
       needed (col ''vendor'' (TString 32)),
       col ''type'' (TString 16),
       col ''url'' (TString 64),
       col ''key'' (TString 128),
       col ''secret'' (TEncrypted 128),
       col ''otherdata'' (TEncrypted 1024),
       col ''expires'' TTimestamp,
       needed (col ''settings_id'' (TString 16)),
       needed (col ''uid'' (TString 16)),
       server_default ''(CURRENT_TIMESTAMP)'' (needed (col ''created'' TTimestamp)),
       col ''modified'' TTimestamp,
       server_default ''active'' (needed (col ''status'' (TEnum [''active'', ''disabled''])))],
     tbl_constraints = [
       ForeignKey ''uid'' ''people'' True,
       ForeignKey ''settings_id'' ''settings'' False,
       UniqueKey [''id''],
       UniqueKey [''name'', ''uid'']]\<rparr>"

definition create_storageitems :: table where
  "create_storageitems = \<lparr>tbl_name = ''storageitems'',
     tbl_columns = [
       needed (col ''id'' (TString 16)),
       needed (col ''name'' (TString 32)),
       col ''prefix'' (TString 128),
       needed (col ''bucket'' (TString 64)),
       server_default ''us-east-2'' (col ''region'' (TString 16)),
       col ''cdn_uri'' (TString 64),
       col ''identifier'' (TString 64),
       server_default ''public'' (needed (col ''privacy'' (TString 8))),
       col ''credentials_id'' (TString 16),
       needed (col ''uid'' (TString 16)),
       server_default ''(CURRENT_TIMESTAMP)'' (needed (col ''created'' TTimestamp)),
       col ''modified'' TTimestamp,
       server_default ''active'' (needed (col ''status'' (TEnum [''active'', ''disabled''])))],
     tbl_constraints = [
       ForeignKey ''credentials_id'' ''credentials'' False,
       ForeignKey ''uid'' ''people'' True,
       PrimaryKey [''id''],
       UniqueKey [''id''],
       UniqueKey [''name'', ''uid'']]\<rparr>"

definition core_upgrade :: "schema_step list" where
  "core_upgrade = [
     CreateTable create_people,
     CreateTable create_time_zone_name,
     CreateTable create_apikeys,
     CreateTable create_categories,
     CreateTable create_contacts,
     CreateIndex ''contacts'' [''uid''],
     CreateTable create_grants,
     CreateTable create_locations,
     CreateTable create_profileitems,
     CreateTable create_lists,
     CreateTable create_listmembers,
     CreateIndex ''listmembers'' [''list_id''],
     AddConstraint ''listmembers'' (UniqueKey [''list_id'', ''uid'']),
     CreateTable create_settings,
     CreateTable create_accounts,
     CreateTable create_scopes,
     CreateTable create_apikeyscopes,
     CreateIndex ''apikeyscopes'' [''apikey_id''],
     AddConstraint ''apikeyscopes'' (UniqueKey [''apikey_id'', ''scope_id'']),
     CreateTable create_credentials,
     AddConstraint ''settings'' (ForeignKey ''smtp_credential_id'' ''credentials'' False),
     CreateTable create_storageitems,
     AddColumn ''settings'' (col ''default_storage_id'' (TString 16)),
     AddConstraint ''settings'' (ForeignKey ''default_storage_id'' ''storageitems'' False)]"


section \<open>The tables of the example application\<close>

definition create_messages :: table where
  "create_messages = \<lparr>tbl_name = ''messages'',
     tbl_columns = [
       needed (col ''id'' (TString 16)),
       needed (col ''content'' TText),
       col ''subject'' (TString 128),
       needed (col ''sender_id'' (TString 16)),
       col ''recipient_id'' (TString 16),
       col ''album_id'' (TString 16),
       col ''list_id'' (TString 16),
       server_default ''secret'' (needed (col ''privacy'' (TString 8))),
       col ''published'' TBoolean,
       needed (col ''uid'' (TString 16)),
       col ''viewed'' TTimestamp,
       server_default ''(CURRENT_TIMESTAMP)'' (needed (col ''created'' TTimestamp)),
       col ''modified'' TTimestamp,
       server_default ''active'' (needed (col ''status'' (TEnum [''active'', ''disabled''])))],
     tbl_constraints = [
       ForeignKey ''recipient_id'' ''people'' False,
       ForeignKey ''sender_id'' ''people'' False,
       ForeignKey ''uid'' ''people'' True,
       PrimaryKey [''id''],
       UniqueKey [''id'']]\<rparr>"

definition create_directmessages :: table where
  "create_directmessages = \<lparr>tbl_name = ''directmessages'',
     tbl_columns = [
       primary (col ''message_id'' (TString 16)),
       primary (col ''uid'' (TString 16)),
       server_default ''(CURRENT_TIMESTAMP)'' (needed (col ''created'' TTimestamp))],
     tbl_constraints = [
       ForeignKey ''message_id'' ''messages'' True,
       ForeignKey ''uid'' ''people'' True]\<rparr>"

definition create_listmessages :: table where
  "create_listmessages = \<lparr>tbl_name = ''listmessages'',
     tbl_columns = [
       primary (col ''message_id'' (TString 16)),
       primary (col ''list_id'' (TString 16)),
       server_default ''(CURRENT_TIMESTAMP)'' (needed (col ''created'' TTimestamp))],
     tbl_constraints = [
       ForeignKey ''list_id'' ''lists'' True,
       ForeignKey ''message_id'' ''messages'' True]\<rparr>"

definition example_upgrade :: "schema_step list" where
  "example_upgrade = [
     CreateTable create_messages,
     CreateTable create_directmessages,
     CreateIndex ''directmessages'' [''uid''],
     AddConstraint ''directmessages'' (UniqueKey [''message_id'', ''uid'']),
     CreateTable create_listmessages,
     CreateIndex ''listmessages'' [''list_id''],
     AddConstraint ''listmessages'' (UniqueKey [''list_id'', ''message_id''])]"

section \<open>Comparison with the models\<close>

datatype difference =
    NoTable string
  | NoColumn string string
  | ExtraColumn string string
  | OtherType string string coltype coltype
  | OtherNull string string
  | OtherDefault string string "string option" "string option"
  | OtherReference string string "(string \<times> bool) option" "(string \<times> bool) option"
  | OtherPrimary string
  | OtherUnique string

text \<open>
  What the metadata of a model declares: the storage type of a column (that of the id referred to,
  for a foreign key), its reference, and the sets of columns that are keys.
\<close>

definition stored_type :: "coltype \<Rightarrow> coltype" where
  "stored_type ct = (case ct of TRef r _ \<Rightarrow> if r = mdl_table Tz then TInteger else TString 16 | _ \<Rightarrow> ct)"

definition declared_reference :: "column \<Rightarrow> (string \<times> bool) option" where
  "declared_reference c = (case col_type c of TRef r casc \<Rightarrow> Some (r, casc) | _ \<Rightarrow> None)"

definition declared_unique :: "model \<Rightarrow> string list list" where
  "declared_unique m = map (\<lambda>c. [col_name c]) (filter col_unique (mdl_columns m)) @ mdl_unique m"

definition declared_primary :: "model \<Rightarrow> string list" where
  "declared_primary m = map col_name (filter col_primary (mdl_columns m))"

definition actual_reference :: "table \<Rightarrow> string \<Rightarrow> (string \<times> bool) option" where
  "actual_reference t c =
     List.find (\<lambda>_. True) (concat (map (\<lambda>k. case k of
       ForeignKey d r casc \<Rightarrow> if d = c then [(r, casc)] else [] | _ \<Rightarrow> []) (tbl_constraints t)))"

definition actual_unique :: "table \<Rightarrow> string list list" where
  "actual_unique t = map (\<lambda>c. [col_name c]) (filter col_unique (tbl_columns t)) @
     concat (map (\<lambda>k. case k of UniqueKey cs \<Rightarrow> [cs] | _ \<Rightarrow> []) (tbl_constraints t))"

definition actual_primary :: "table \<Rightarrow> string list" where
  "actual_primary t = map col_name (filter col_primary (tbl_columns t)) @
     concat (map (\<lambda>k. case k of PrimaryKey cs \<Rightarrow> cs | _ \<Rightarrow> []) (tbl_constraints t))"

definition same_members :: "'a list \<Rightarrow> 'a list \<Rightarrow> bool" where
  "same_members xs ys = (list_all (\<lambda>x. x \<in> set ys) xs \<and> list_all (\<lambda>y. y \<in> set xs) ys)"

definition same_keys :: "string list list \<Rightarrow> string list list \<Rightarrow> bool" where
  "same_keys xs ys = (list_all (\<lambda>x. list_ex (same_members x) ys) xs \<and>
     list_all (\<lambda>y. list_ex (same_members y) xs) ys)"

text \<open>\<open>func.now()\<close> and CURRENT_TIMESTAMP are the same default.\<close>

definition default_value :: "column \<Rightarrow> string option" where
  "default_value c = (if col_default c = Some ''(CURRENT_TIMESTAMP)'' then Some ''now()'' else col_default c)"

definition column_difference :: "table \<Rightarrow> column \<Rightarrow> difference list" where
  "column_difference t d = (let n = col_name d in
     case find_column (tbl_columns t) n of
       None \<Rightarrow> [NoColumn (tbl_name t) n]
     | Some c \<Rightarrow>
         (if col_type c = stored_type (col_type d) then []
          else [OtherType (tbl_name t) n (col_type c) (stored_type (col_type d))]) @
         (if col_nullable c = col_nullable d then [] else [OtherNull (tbl_name t) n]) @
         (if default_value c = default_value d then []
          else [OtherDefault (tbl_name t) n (col_default c) (col_default d)]) @
         (if actual_reference t n = declared_reference d then []
          else [OtherReference (tbl_name t) n (actual_reference t n) (declared_reference d)]))"

definition table_difference :: "table \<Rightarrow> model \<Rightarrow> difference list" where
  "table_difference t m =
     concat (map (column_difference t) (mdl_columns m)) @
     map (\<lambda>c. ExtraColumn (tbl_name t) (col_name c))
       (filter (\<lambda>c. find_column (mdl_columns m) (col_name c) = None) (tbl_columns t)) @
     (if same_members (actual_primary t) (declared_primary m) then [] else [OtherPrimary (tbl_name t)]) @
     (if same_keys (actual_unique t) (declared_unique m) then [] else [OtherUnique (tbl_name t)])"

definition schema_difference :: "table list \<Rightarrow> model list \<Rightarrow> difference list" where
  "schema_difference s ms = concat (map (\<lambda>m. case find_table s (mdl_table m) of
     None \<Rightarrow> [NoTable (mdl_table m)] | Some t \<Rightarrow> table_difference t m) ms)"

section \<open>What a migrated database satisfies\<close>

text \<open>
  No two tables and no two columns of a table share a name, and every constraint stands: the rows a
  foreign key refers to are in a table that is there, by a key of the same type. Every step a database
  accepts keeps this, since tables, columns and constraints are only ever added.
\<close>

definition wf_schema :: "table list \<Rightarrow> bool" where
  "wf_schema s = (distinct (map tbl_name s) \<and> list_all (table_ok s) s)"

definition grows :: "table list \<Rightarrow> table list \<Rightarrow> bool" where
  "grows s s' = (\<forall>n t. find_table s n = Some t \<longrightarrow> (\<exists>t'. find_table s' n = Some t' \<and>
     (\<forall>c k. find_column (tbl_columns t) c = Some k \<longrightarrow> find_column (tbl_columns t') c = Some k) \<and>
     set (tbl_constraints t) \<subseteq> set (tbl_constraints t')))"

lemma find_column_append:
  "find_column (xs @ ys) c = (case find_column xs c of Some k \<Rightarrow> Some k | None \<Rightarrow> find_column ys c)"
  by (induction xs) auto

lemma find_column_none [simp]: "find_column xs c = None \<longleftrightarrow> c \<notin> set (map col_name xs)"
  by (induction xs) auto

lemma find_table_append:
  "find_table (xs @ ys) n = (case find_table xs n of Some t \<Rightarrow> Some t | None \<Rightarrow> find_table ys n)"
  by (induction xs) auto

lemma find_table_none [simp]: "find_table xs n = None \<longleftrightarrow> n \<notin> set (map tbl_name xs)"
  by (induction xs) auto

lemma find_table_name: "find_table s n = Some t \<Longrightarrow> tbl_name t = n \<and> t \<in> set s"
  by (induction s) (auto split: if_splits)

lemma find_table_replace:
  "find_table (replace_table s t) n =
     (if n = tbl_name t \<and> n \<in> set (map tbl_name s) then Some t else find_table s n)"
  by (induction s) (auto simp: replace_table_def)

lemma has_key_grows:
  assumes "has_key t c" and "\<And>c k. find_column (tbl_columns t) c = Some k \<Longrightarrow> find_column (tbl_columns t') c = Some k"
    and "set (tbl_constraints t) \<subseteq> set (tbl_constraints t')"
  shows "has_key t' c"
proof -
  consider "PrimaryKey [c] \<in> set (tbl_constraints t) \<or> UniqueKey [c] \<in> set (tbl_constraints t)"
    | k where "find_column (tbl_columns t) c = Some k" "col_primary k \<or> col_unique k"
    using assms(1) by (auto simp: has_key_def simp del: find_column_none split: option.splits)
  then show ?thesis
  proof cases
    case 1
    then show ?thesis using assms(3) by (auto simp: has_key_def)
  next
    case 2
    then show ?thesis using assms(2) [OF 2(1)] by (simp add: has_key_def)
  qed
qed

lemma has_columns_grows:
  assumes "has_columns t cs" and "\<And>c k. find_column (tbl_columns t) c = Some k \<Longrightarrow> find_column (tbl_columns t') c = Some k"
  shows "has_columns t' cs"
  using assms unfolding has_columns_def list_all_iff by fastforce

lemma constraint_ok_grows:
  assumes ok: "constraint_ok s t k" and g: "grows s s'"
    and c: "\<And>c k. find_column (tbl_columns t) c = Some k \<Longrightarrow> find_column (tbl_columns t') c = Some k"
  shows "constraint_ok s' t' k"
proof (cases k)
  case (ForeignKey c r casc)
  then obtain x u i where x: "find_column (tbl_columns t) c = Some x" and u: "find_table s r = Some u"
    and i: "find_column (tbl_columns u) ''id'' = Some i" "col_type i = col_type x" "has_key u ''id''"
    using ok by (auto split: option.splits)
  obtain u' where u': "find_table s' r = Some u'"
    "\<And>c k. find_column (tbl_columns u) c = Some k \<Longrightarrow> find_column (tbl_columns u') c = Some k"
    "set (tbl_constraints u) \<subseteq> set (tbl_constraints u')"
    using g u unfolding grows_def by blast
  have "has_key u' ''id''" using has_key_grows [OF i(3) u'(2) u'(3)] .
  then show ?thesis using ForeignKey c [OF x] u'(1) u'(2) [OF i(1)] i(2) by simp
qed (use ok c has_columns_grows in auto)

lemma grows_refl: "grows s s" by (auto simp: grows_def)

lemma grows_append: "grows s (s @ [t])" by (auto simp: grows_def find_table_append)

lemma grows_replace:
  assumes "find_table s n = Some t" and "tbl_name t' = tbl_name t"
    and "\<And>c k. find_column (tbl_columns t) c = Some k \<Longrightarrow> find_column (tbl_columns t') c = Some k"
    and "set (tbl_constraints t) \<subseteq> set (tbl_constraints t')"
  shows "grows s (replace_table s t')"
  using assms find_table_name [OF assms(1)] unfolding grows_def
  by (auto simp: find_table_replace)

lemma wf_replace:
  assumes wf: "wf_schema s" and t: "find_table s n = Some t" and n: "tbl_name t' = tbl_name t"
    and c: "\<And>c k. find_column (tbl_columns t) c = Some k \<Longrightarrow> find_column (tbl_columns t') c = Some k"
    and k: "set (tbl_constraints t) \<subseteq> set (tbl_constraints t')"
    and ok: "distinct (map col_name (tbl_columns t'))"
      "\<And>x. x \<in> set (tbl_constraints t') - set (tbl_constraints t) \<Longrightarrow> constraint_ok s t x"
  shows "wf_schema (replace_table s t')"
proof -
  have g: "grows s (replace_table s t')" by (rule grows_replace [OF t n c k])
  have t_ok: "table_ok s t" using wf find_table_name [OF t] by (auto simp: wf_schema_def list_all_iff)
  have new: "table_ok (replace_table s t') t'"
    using t_ok ok constraint_ok_grows [OF _ g c] unfolding table_ok_def list_all_iff by blast
  have old: "table_ok (replace_table s t') u" if "u \<in> set s" for u
    using wf that constraint_ok_grows [OF _ g] unfolding wf_schema_def table_ok_def list_all_iff by metis
  have "map tbl_name (replace_table s t') = map tbl_name s" by (induction s) (auto simp: replace_table_def)
  moreover have "table_ok (replace_table s t') u" if u: "u \<in> set (replace_table s t')" for u
    using u new old by (auto simp: replace_table_def split: if_splits)
  ultimately show ?thesis using wf unfolding wf_schema_def list_all_iff by simp
qed

lemma wf_columns: "wf_schema s \<Longrightarrow> find_table s n = Some t \<Longrightarrow> distinct (map col_name (tbl_columns t))"
  using find_table_name [of s n t] by (auto simp: wf_schema_def list_all_iff table_ok_def)

lemma run_step_wf:
  assumes "wf_schema s" and "run_step x s = Some s'"
  shows "wf_schema s'"
proof (cases x)
  case (CreateTable t)
  then have *: "s' = s @ [t]" "tbl_name t \<notin> set (map tbl_name s)" "table_ok (s @ [t]) t"
    using assms(2) by (auto split: if_splits)
  have "table_ok (s @ [t]) u" if "u \<in> set s" for u
    using assms(1) that constraint_ok_grows [OF _ grows_append] unfolding wf_schema_def table_ok_def list_all_iff by metis
  then show ?thesis using * assms(1) by (auto simp: wf_schema_def list_all_iff)
next
  case (CreateIndex n cs)
  then show ?thesis using assms by (auto split: option.splits if_splits)
next
  case (AddConstraint n k)
  then obtain t where "find_table s n = Some t" "constraint_ok s t k"
    "s' = replace_table s (t\<lparr>tbl_constraints := tbl_constraints t @ [k]\<rparr>)"
    using assms(2) by (auto split: option.splits if_splits)
  then show ?thesis using wf_columns [OF assms(1)] by (auto intro!: wf_replace [OF assms(1)])
next
  case (AddColumn n c)
  then obtain t where "find_table s n = Some t" "find_column (tbl_columns t) (col_name c) = None"
    "s' = replace_table s (t\<lparr>tbl_columns := tbl_columns t @ [c]\<rparr>)"
    using assms(2) by (auto simp del: find_column_none split: option.splits if_splits)
  then show ?thesis using wf_columns [OF assms(1)]
    by (auto intro!: wf_replace [OF assms(1)] simp: find_column_append)
qed

lemma run_steps_wf: "wf_schema s \<Longrightarrow> run_steps xs s = Some s' \<Longrightarrow> wf_schema s'"
  by (induction xs arbitrary: s) (auto split: option.splits intro: run_step_wf)

lemma upgrade_accepted: "run_steps (core_upgrade @ example_upgrade) [] \<noteq> None"
  by code_simp



end
