(* ===== verification/Crud_Store.thy ===== *)
theory Crud_Store imports Crud_Results Trashcan begin

text \<open>
  What the operations of apicrud/basic_crud.py do to the stored records. The tables of a session are
  seen as a map from the name of a model and an id to a record; \<open>create\<close>, \<open>update\<close> and \<open>delete\<close>
  implement an insertion, a merge and a removal on it, and \<open>get\<close> reads it.
\<close>

section \<open>The stored records\<close>

abbreviation by_id :: "string \<Rightarrow> string \<Rightarrow> query" where
  "by_id m i \<equiv> filter_by [(''id'', PStr i)] (query_of m)"

text \<open>
  SQL statements on one primary key: \<open>rows d m i\<close> is the record the session sees under id \<open>i\<close>, in
  a session \<open>d\<close> whose primary keys are unique. An insertion may fill in defaults of columns that were
  not given, a deletion may cascade to other records.
\<close>

locale record_store =
  fixes D :: "'d dbops"
    and rows :: "'d \<Rightarrow> string \<Rightarrow> string \<Rightarrow> dict option"
    and unique_ids :: "'d \<Rightarrow> bool"
  assumes select_id: "unique_ids d \<Longrightarrow>
      db_all D (by_id m i) d = Inr (case rows d m i of None \<Rightarrow> [] | Some r \<Rightarrow> [r])"
    and insert_new: "unique_ids d \<Longrightarrow> dget row ''id'' = PStr i \<Longrightarrow> rows d m i = None \<Longrightarrow>
      unique_ids (db_add D m row d) \<and>
      (\<exists>r. rows (db_add D m row d) m i = Some r \<and> (\<forall>k. dhas row k \<longrightarrow> dget r k = dget row k))"
    and insert_others: "unique_ids d \<Longrightarrow> dget row ''id'' = PStr i \<Longrightarrow> rows d m i = None \<Longrightarrow>
      (m', j) \<noteq> (m, i) \<Longrightarrow> rows (db_add D m row d) m' j = rows d m' j"
    and merge_row: "unique_ids d \<Longrightarrow> distinct (map fst kvs) \<Longrightarrow> dget_or kvs ''id'' (PStr i) = PStr i \<Longrightarrow>
      db_update D (by_id m i) kvs d = (Inr n, d') \<Longrightarrow>
      unique_ids d' \<and> rows d' m' j =
        (if (m', j) = (m, i) then map_option (\<lambda>r. dmerge r kvs) (rows d m i) else rows d m' j)"
    and remove_row: "unique_ids d \<Longrightarrow> db_delete D (by_id m i) d = (Inr n, d') \<Longrightarrow>
      unique_ids d' \<and> rows d' m i = None \<and> rows d' m' j \<in> {None, rows d m' j} \<and> (n = 0 \<longleftrightarrow> rows d m i = None)"
    and commit_keeps: "unique_ids d \<Longrightarrow> db_commit D d = (Inr (), d') \<Longrightarrow>
      unique_ids d' \<and> rows d' m i = rows d m i"
begin

lemma one_of_id: "unique_ids d \<Longrightarrow> one_of (db_all D (by_id m i) d) = Inr r \<Longrightarrow> rows d m i = Some r"
  by (auto simp: select_id one_of_def split: option.splits)

end

section \<open>The tables in memory\<close>

definition mem_rows :: "mdb \<Rightarrow> string \<Rightarrow> string \<Rightarrow> dict option" where
  "mem_rows d m i = find (\<lambda>r. dget r ''id'' = PStr i) (table_of (md_current d) m)"

definition mem_unique :: "mdb \<Rightarrow> bool" where
  "mem_unique d \<longleftrightarrow> (\<forall>m. distinct (map (\<lambda>r. dget r ''id'') (table_of (md_current d) m)))"

lemma by_id_parts: "q_joins (by_id m i) = []" "q_slice (by_id m i) = None"
  by (simp_all add: query_of_def filter_by_def)

lemma mem_by_id: "matches ts (by_id m i) = (\<lambda>r. dget r ''id'' = PStr i)"
  by (simp add: matches_def by_id_parts fun_eq_iff)

lemma table_of_put: "table_of (md_current (put_table m rs d)) m' = (if m' = m then rs else table_of (md_current d) m')"
  by (simp add: table_of_def put_table_def update_conv)

lemma filter_find:
  "distinct (map f xs) \<Longrightarrow> filter (\<lambda>x. f x = a) xs = (case find (\<lambda>x. f x = a) xs of None \<Rightarrow> [] | Some x \<Rightarrow> [x])"
proof (induction xs)
  case (Cons x xs)
  show ?case
  proof (cases "f x = a")
    case True
    then have "\<forall>y \<in> set xs. f y \<noteq> a" using Cons.prems by (auto simp: image_iff)
    then show ?thesis using True by (simp add: filter_empty_conv)
  qed (use Cons in simp)
qed simp

lemma find_append: "find P (xs @ ys) = (case find P xs of None \<Rightarrow> find P ys | Some x \<Rightarrow> Some x)"
  by (induction xs) auto

lemma find_absent: "find P xs = None \<longleftrightarrow> (\<forall>x \<in> set xs. \<not> P x)"
  by (induction xs) auto

lemma find_map_same:
  "(\<And>x. x \<in> set xs \<Longrightarrow> P (f x) = P x) \<Longrightarrow> find P (map f xs) = map_option f (find P xs)"
  by (induction xs) auto

lemma find_filter_none: "find P (filter (\<lambda>x. \<not> P x) xs) = None"
  by (simp add: find_absent)

lemma find_filter_other: "(\<And>x. P x \<Longrightarrow> Q x) \<Longrightarrow> find P (filter Q xs) = find P xs"
  by (induction xs) auto

lemma dget_dmerge: "distinct (map fst kvs) \<Longrightarrow> dget (dmerge r kvs) k = dget_or kvs k (dget r k)"
  by (cases "map_of kvs k") (simp_all add: dget_def dget_or_def map_of_dmerge map_add_def)

lemma merged_id: "distinct (map fst kvs) \<Longrightarrow> dget_or kvs ''id'' (PStr i) = PStr i \<Longrightarrow> dget r ''id'' = PStr i \<Longrightarrow> dget (dmerge r kvs) ''id'' = PStr i"
  by (simp add: dget_dmerge)

lemma mem_by_id_select: "mem_select (by_id m i) d = filter (\<lambda>r. dget r ''id'' = PStr i) (table_of (md_current d) m)"
  by (simp add: mem_select_def mem_by_id by_id_parts)

lemma mem_rows_put: "mem_rows (put_table m rs d) m' j = (if m' = m then find (\<lambda>r. dget r ''id'' = PStr j) rs else mem_rows d m' j)"
  by (simp add: mem_rows_def table_of_put)

lemma mem_unique_put:
  "mem_unique d \<Longrightarrow> distinct (map (\<lambda>r. dget r ''id'') rs) \<Longrightarrow> mem_unique (put_table m rs d)"
  by (simp add: mem_unique_def table_of_put)

interpretation memory_store: record_store mem_db mem_rows mem_unique
proof
  fix d :: mdb and m m' i j :: string and row kvs :: dict and n :: nat and d' :: mdb
  let ?is = "\<lambda>i r. dget r ''id'' = PStr i" and ?rows = "table_of (md_current d) m"
  assume u: "mem_unique d"
  then have dist: "distinct (map (\<lambda>r. dget r ''id'') ?rows)" by (simp add: mem_unique_def)
  show "db_all mem_db (by_id m i) d = Inr (case mem_rows d m i of None \<Rightarrow> [] | Some r \<Rightarrow> [r])"
    using filter_find [OF dist] by (simp add: mem_db_def mem_by_id_select mem_rows_def)
  show "mem_unique d' \<and> mem_rows d' m i = mem_rows d m i" if "db_commit mem_db d = (Inr (), d')"
    using that u by (auto simp: mem_db_def mem_unique_def mem_rows_def)
  show "mem_unique d' \<and> mem_rows d' m i = None \<and> mem_rows d' m' j \<in> {None, mem_rows d m' j} \<and> (n = 0 \<longleftrightarrow> mem_rows d m i = None)"
    if del: "db_delete mem_db (by_id m i) d = (Inr n, d')"
  proof -
    have d': "d' = put_table m (filter (\<lambda>r. \<not> ?is i r) ?rows) d" "n = length (filter (?is i) ?rows)"
      using del by (auto simp: mem_db_def mem_delete_def mem_by_id Let_def)
    have "find (?is j) (filter (\<lambda>r. \<not> ?is i r) ?rows) = (if j = i then None else find (?is j) ?rows)"
      by (auto simp: find_filter_none intro: find_filter_other)
    then show ?thesis using mem_unique_put [OF u] dist
      by (auto simp: d' mem_rows_put mem_rows_def table_of_put distinct_map_filter find_absent filter_empty_conv)
  qed
  show "mem_unique d' \<and> mem_rows d' m' j =
      (if (m', j) = (m, i) then map_option (\<lambda>r. dmerge r kvs) (mem_rows d m i) else mem_rows d m' j)"
    if id: "distinct (map fst kvs)" "dget_or kvs ''id'' (PStr i) = PStr i" and upd: "db_update mem_db (by_id m i) kvs d = (Inr n, d')"
  proof -
    let ?f = "\<lambda>r. if ?is i r then dmerge r kvs else r"
    have d': "d' = put_table m (map ?f ?rows) d"
      using upd by (auto simp: mem_db_def mem_update_def mem_by_id Let_def)
    have same: "dget (?f r) ''id'' = dget r ''id''" for r using merged_id [OF id] by simp
    then have ids: "map (\<lambda>r. dget r ''id'') (map ?f ?rows) = map (\<lambda>r. dget r ''id'') ?rows" by simp
    have "mem_unique (put_table m (map ?f ?rows) d)"
      by (rule mem_unique_put [OF u]) (simp only: ids dist)
    moreover have "find (?is j) (map ?f ?rows) = map_option ?f (find (?is j) ?rows)"
      using same by (intro find_map_same) simp
    moreover have "map_option ?f (find (?is j) ?rows) =
        (if j = i then map_option (\<lambda>r. dmerge r kvs) (find (?is i) ?rows) else find (?is j) ?rows)"
    proof (cases "find (?is j) ?rows")
      case (Some r)
      then have "?is j r" by (auto simp: find_Some_iff)
      then show ?thesis using Some by auto
    qed auto
    ultimately show ?thesis by (auto simp: d' mem_rows_def table_of_put)
  qed
  show "mem_unique (db_add mem_db m row d) \<and>
      (\<exists>r. mem_rows (db_add mem_db m row d) m i = Some r \<and> (\<forall>k. dhas row k \<longrightarrow> dget r k = dget row k))"
    if "dget row ''id'' = PStr i" "mem_rows d m i = None"
  proof -
    have new: "\<forall>r \<in> set ?rows. \<not> ?is i r" using that(2) by (simp add: mem_rows_def find_absent)
    then have "mem_unique (put_table m (?rows @ [row]) d)"
      using dist that(1) by (intro mem_unique_put [OF u]) (auto simp: image_iff)
    moreover have "find (?is i) (?rows @ [row]) = Some row"
      using new that(1) by (simp add: find_append find_absent [THEN iffD2])
    ultimately show ?thesis by (simp add: mem_db_def mem_rows_def table_of_put)
  qed
  show "mem_rows (db_add mem_db m row d) m' j = mem_rows d m' j"
    if "dget row ''id'' = PStr i" "mem_rows d m i = None" "(m', j) \<noteq> (m, i)"
    using that by (auto simp: mem_db_def mem_rows_def table_of_put find_append split: option.splits)
qed

section \<open>From the state before to the state after\<close>

text \<open>
  \<open>ends Q m\<close>: when \<open>m\<close> returns, its value and the database before and after it are related by \<open>Q\<close>.
  The statements of a handler that read keep the database, so that the relation is that of the few
  statements that write.
\<close>

definition ends :: "('a \<Rightarrow> 'd \<Rightarrow> 'd \<Rightarrow> bool) \<Rightarrow> (('d, 'r, 'c) world, 'a) py \<Rightarrow> bool" where
  "ends Q m \<longleftrightarrow> (\<forall>w x w'. m w = (Inr x, w') \<longrightarrow> Q x (w_db w) (w_db w'))"

named_theorems ends_intros

lemma endsD: "ends Q m \<Longrightarrow> m w = (Inr x, w') \<Longrightarrow> Q x (w_db w) (w_db w')"
  by (simp add: ends_def)

lemma ends_ret [ends_intros]: "(\<And>d. Q x d d) \<Longrightarrow> ends Q (ret x)"
  by (simp add: ends_def py_simps)

lemma ends_raise [ends_intros]: "ends Q (raise_exc e)"
  by (simp add: ends_def py_simps)

lemma ends_then:
  assumes "keeps w_db m" and "yields P m" and "\<And>x. P x \<Longrightarrow> ends Q (f x)"
  shows "ends Q (bnd m f)"
  unfolding ends_def
proof (intro allI impI)
  fix w x w' assume "bnd m f w = (Inr x, w')"
  then obtain y v where m: "m w = (Inr y, v)" and f: "f y v = (Inr x, w')"
    by (auto simp: py_simps split: prod.splits sum.splits)
  have "Q x (w_db v) (w_db w')" using endsD [OF assms(3) f] yieldsD [OF assms(2) m] .
  then show "Q x (w_db w) (w_db w')" using keepsD [OF assms(1) m] by simp
qed

lemma ends_bnd [ends_intros]: "keeps w_db m \<Longrightarrow> (\<And>x. ends Q (f x)) \<Longrightarrow> ends Q (bnd m f)"
  by (rule ends_then [where P = "\<lambda>_. True"]) (auto simp: yields_def)

lemma ends_map: "ends P m \<Longrightarrow> (\<And>x d d'. P x d d' \<Longrightarrow> Q (f x) d d') \<Longrightarrow> ends Q (bnd m (\<lambda>x. ret (f x)))"
  by (auto simp: ends_def py_simps split: prod.splits sum.splits)

lemma ends_value: "yields (\<lambda>x. \<forall>d d'. Q x d d') m \<Longrightarrow> ends Q m"
  by (auto simp: ends_def dest: yieldsD)

lemma ends_try:
  assumes "ends Q m" and "\<And>e. yields (\<lambda>x. \<forall>d d'. Q x d d') (h e)"
  shows "ends Q (try_catch m h)"
  unfolding ends_def
proof (intro allI impI)
  fix w x w' assume run: "try_catch m h w = (Inr x, w')"
  show "Q x (w_db w) (w_db w')"
  proof (cases "m w")
    case (Pair r v)
    then show ?thesis using run assms(1) yieldsD [OF assms(2), of _ v x w']
      by (cases r) (auto simp: py_simps ends_def)
  qed
qed

lemma ends_after:
  assumes "ends P m" and "\<And>x. keeps w_db (f x)" and "\<And>x. yields (\<lambda>y. \<forall>d d'. P x d d' \<longrightarrow> Q y d d') (f x)"
  shows "ends Q (bnd m f)"
  unfolding ends_def
proof (intro allI impI)
  fix w y w' assume "bnd m f w = (Inr y, w')"
  then obtain x v where m: "m w = (Inr x, v)" and f: "f x v = (Inr y, w')"
    by (auto simp: py_simps split: prod.splits sum.splits)
  have "w_db w' = w_db v" using keepsD [OF assms(2) f] .
  then show "Q y (w_db w) (w_db w')" using endsD [OF assms(1) m] yieldsD [OF assms(3) f] by simp
qed

lemma ends_if [ends_intros]: "(b \<Longrightarrow> ends Q m) \<Longrightarrow> (\<not> b \<Longrightarrow> ends Q n) \<Longrightarrow> ends Q (if b then m else n)"
  by simp

lemma ends_case_option [ends_intros]:
  "(x = None \<Longrightarrow> ends Q m) \<Longrightarrow> (\<And>y. x = Some y \<Longrightarrow> ends Q (f y)) \<Longrightarrow> ends Q (case x of None \<Rightarrow> m | Some y \<Rightarrow> f y)"
  by (cases x) auto

lemma ends_case_sum [ends_intros]:
  "(\<And>y. x = Inl y \<Longrightarrow> ends Q (f y)) \<Longrightarrow> (\<And>y. x = Inr y \<Longrightarrow> ends Q (g y)) \<Longrightarrow>
   ends Q (case x of Inl y \<Rightarrow> f y | Inr y \<Rightarrow> g y)"
  by (cases x) auto

lemma ends_case_prod [ends_intros]:
  "(\<And>y z. x = (y, z) \<Longrightarrow> ends Q (f y z)) \<Longrightarrow> ends Q (case x of (y, z) \<Rightarrow> f y z)"
  by (cases x) auto

lemma ends_let [ends_intros]: "(\<And>y. y = x \<Longrightarrow> ends Q (f y)) \<Longrightarrow> ends Q (let y = x in f y)"
  by simp

section \<open>Creation\<close>

text \<open>
  What a creation takes over from the request: every entry but those the service computes itself; an
  empty owner or category is replaced too.
\<close>

definition computed :: "string set" where
  "computed = {''created'', ''expires'', ''prefix'', ''hashvalue''}"

definition filled_in :: "string set" where
  "filled_in = {''uid'', ''category_id''}"

definition service_keys :: "string set" where
  "service_keys = computed \<union> filled_in \<union> {''id'', ''status'', ''modified'', ''totp'', ''totp_secret''}"

definition taken :: "dict \<Rightarrow> string \<Rightarrow> bool" where
  "taken b k \<longleftrightarrow> dhas b k \<and> k \<notin> computed \<and> (k \<in> filled_in \<longrightarrow> truthy (dget b k))"

definition taken_over :: "dict \<Rightarrow> dict \<Rightarrow> bool" where
  "taken_over b b' \<longleftrightarrow> (\<forall>k. (taken b k \<longrightarrow> dhas b' k \<and> dget b' k = dget b k) \<and>
     (dhas b' k \<longrightarrow> dhas b k \<or> k \<in> service_keys))"

text \<open>A body that names no related records of the model.\<close>

definition unrelated :: "('d, 'r, 'c) env \<Rightarrow> string \<Rightarrow> dict \<Rightarrow> bool" where
  "unrelated E m b \<longleftrightarrow> (\<forall>a \<in> set (case e_related E m of None \<Rightarrow> [] | Some as \<Rightarrow> as). \<not> dhas b a \<and> a \<notin> service_keys)"

lemma taken_refl [simp]: "taken_over b b"
  by (simp add: taken_over_def taken_def)

lemma taken_trans: "taken_over a b \<Longrightarrow> taken_over b c \<Longrightarrow> taken_over a c"
  unfolding taken_over_def taken_def by metis

lemma taken_id:
  assumes "taken_over b b'" and "dget b ''id'' = PStr i"
  shows "dget b' ''id'' = PStr i"
proof -
  have "dhas b ''id''" using assms(2) by (auto simp: dhas_def dget_def split: option.splits)
  then have "taken b ''id''" by (simp add: taken_def computed_def filled_in_def)
  then show ?thesis using assms unfolding taken_over_def by simp
qed

lemma taken_unrelated: "taken_over b b' \<Longrightarrow> unrelated E m b \<Longrightarrow> unrelated E m b'"
  unfolding taken_over_def unrelated_def by blast

lemma taken_new:
  assumes "\<not> taken b k" and "k \<in> service_keys"
  shows "taken_over b (dset b k v)"
  unfolding taken_over_def
proof (intro allI conjI impI)
  fix j assume j: "taken b j"
  then have "j \<noteq> k" using assms by auto
  then show "dhas (dset b k v) j" "dget (dset b k v) j = dget b j"
    using j by (simp_all add: taken_def dict_simps)
next
  fix j assume "dhas (dset b k v) j"
  then show "dhas b j \<or> j \<in> service_keys" using assms(2) by (auto simp: dict_simps)
qed

lemma taken_dset: "k \<in> computed \<or> \<not> truthy (dget b k) \<and> k \<in> filled_in \<Longrightarrow> taken_over b (dset b k v)"
  by (rule taken_new) (auto simp: taken_def service_keys_def)

lemma taken_stamp: "\<not> dhas b ''id'' \<Longrightarrow> taken_over b (dset (dset b ''id'' v) ''created'' t)"
  by (rule taken_trans [OF taken_new taken_dset]) (simp_all add: taken_def computed_def service_keys_def)

lemma taken_expires: "convert_expires b = Inr b' \<Longrightarrow> taken_over b b'"
  using taken_dset [of "''expires''" b] by (auto simp: convert_expires_def computed_def split: if_splits pyval.splits sum.splits)

lemma dget_or_has: "dhas b k \<Longrightarrow> dget_or b k v = dget b k"
  by (auto simp: dget_or_def dget_def dhas_def)

lemma taken_status: "taken_over b (dset b ''status'' (dget_or b ''status'' v))"
  unfolding taken_over_def taken_def by (simp add: dict_simps dget_or_has service_keys_def)

lemma ddel_absent: "\<not> dhas b k \<Longrightarrow> ddel b k = b"
  by (simp add: dhas_def delete_id map_of_eq_None_iff)

lemma taken_category: "yields (\<lambda>c. \<forall>b. c = Some b \<longrightarrow> taken_over body b) (new_category E m acc body)"
  by (auto simp: new_category_def filled_in_def intro!: yields_intros taken_dset)

lemma taken_secret: "yields (\<lambda>(b, info). taken_over body b) (new_secret E resource body)"
  by (auto simp: new_secret_def computed_def intro!: yields_intros taken_trans [OF taken_dset taken_dset])

lemma take_related_absent: "\<forall>a \<in> set as. \<not> dhas b a \<Longrightarrow> take_related limits as b = Inr (True, b)"
  by (induction as) (auto simp: ddel_absent)

lemma related_items_absent: "\<forall>a \<in> set as. \<not> dhas b a \<Longrightarrow> related_items as b = []"
  by (simp add: related_items_def filter_empty_conv)

lemma build_record_same: "build_record E m b = Inr b' \<Longrightarrow> b' = b"
  by (auto simp: build_record_def split: option.splits prod.splits)

context record_store
begin

text \<open>A new record is in the table, with everything that was given, and no other has changed.\<close>

definition inserted :: "string \<Rightarrow> string \<Rightarrow> dict \<Rightarrow> 'd \<Rightarrow> 'd \<Rightarrow> bool" where
  "inserted m i row d d' \<longleftrightarrow> (unique_ids d \<longrightarrow> rows d m i = None \<longrightarrow> unique_ids d' \<and>
     (\<exists>r. rows d' m i = Some r \<and> (\<forall>k. dhas row k \<longrightarrow> dget r k = dget row k)) \<and>
     (\<forall>m' j. (m', j) \<noteq> (m, i) \<longrightarrow> rows d' m' j = rows d m' j))"

lemma insert_stores:
  assumes "e_db E = D" and "dget row ''id'' = PStr i"
  shows "ends (\<lambda>r d d'. snd r = 201 \<longrightarrow> fst r = (''id'', PStr i) # info \<and> inserted m i row d d')
    (insert_record E m i row [] info)"
  unfolding ends_def
proof (intro allI impI)
  fix w x w' assume run: "insert_record E m i row [] info w = (Inr x, w')" and ok: "snd x = 201"
  let ?d = "db_add D m row (w_db w)"
  have x: "fst x = (''id'', PStr i) # info" and "fst (db_commit D ?d) = Inr ()" "w_db w' = snd (db_commit D ?d)"
    using run ok assms(1)
    by (auto simp: insert_record_def py_simps db_abort_def msg_resp_def split: sum.splits if_splits prod.splits)
  then have c: "db_commit D ?d = (Inr (), w_db w')" by (metis prod.collapse)
  have "inserted m i row (w_db w) (w_db w')" unfolding inserted_def
  proof (intro impI)
    assume u: "unique_ids (w_db w)" and n: "rows (w_db w) m i = None"
    note new = insert_new [OF u assms(2) n]
    show "unique_ids (w_db w') \<and>
        (\<exists>r. rows (w_db w') m i = Some r \<and> (\<forall>k. dhas row k \<longrightarrow> dget r k = dget row k)) \<and>
        (\<forall>m' j. (m', j) \<noteq> (m, i) \<longrightarrow> rows (w_db w') m' j = rows (w_db w) m' j)"
      using new commit_keeps [OF _ c] insert_others [OF u assms(2) n] by auto
  qed
  with x show "fst x = (''id'', PStr i) # info \<and> inserted m i row (w_db w) (w_db w')" by simp
qed
definition created_as :: "string \<Rightarrow> dict \<Rightarrow> resp \<times> dict \<Rightarrow> 'd \<Rightarrow> 'd \<Rightarrow> bool" where
  "created_as m b r d d' \<longleftrightarrow> (snd (fst r) = 201 \<longrightarrow>
     (\<exists>i. dget (fst (fst r)) ''id'' = PStr i \<and> dget (snd r) ''id'' = PStr i \<and>
       taken_over b (snd r) \<and> inserted m i (snd r) d d'))"

lemma created_weaken: "taken_over a b \<Longrightarrow> created_as m b r d d' \<Longrightarrow> created_as m a r d d'"
  by (auto simp: created_as_def intro: taken_trans)

lemma created_from: "taken_over a b \<Longrightarrow> ends (created_as m b) f \<Longrightarrow> ends (created_as m a) f"
  by (auto simp: ends_def intro: created_weaken)

lemma created_failed [simp]: "s \<noteq> 201 \<Longrightarrow> created_as m b ((r, s), b') d d'"
  by (simp add: created_as_def)

lemma create_row_stores:
  assumes D: "e_db E = D" and rel: "unrelated E m b" and i: "dget b ''id'' = PStr i"
  shows "ends (created_as m b) (create_row E res m i limits b)"
proof -
  have "ends (created_as m b) (bnd (insert_record E m i row [] info) (\<lambda>response. ret (response, row)))"
    if "taken_over b row" for row info
    using taken_id [OF that i] that
    by (intro ends_map [OF insert_stores [OF D]]) (auto simp: created_as_def dget_Cons)
  note inserts = this
  have absent: "\<forall>a \<in> set (case e_related E m of None \<Rightarrow> [] | Some as \<Rightarrow> as). \<not> dhas b a"
    using rel by (simp add: unrelated_def)
  show ?thesis
    unfolding create_row_def Let_def take_related_absent [OF absent] related_items_absent [OF absent]
      bnd_of_Inr prod.case not_True_eq_False if_False
    by (rule ends_then [OF _ taken_secret])
      (auto simp: new_secret_def msg_resp_def dest!: build_record_same intro!: ends_intros keeps_intros inserts)
qed

lemma create_allowed_stores:
  assumes D: "e_db E = D" and rel: "unrelated E m b" and i: "dget b ''id'' = PStr i"
  shows "ends (created_as m b) (create_allowed E res m acc i limits b)"
proof -
  have "ends (created_as m b) (create_row E res m i limits b')" if "taken_over b b'" for b'
    using created_from [OF that create_row_stores [OF D taken_unrelated [OF that rel] taken_id [OF that i]]] .
  note row = this
  have st: "taken_over b (if h then dset b' ''status'' (dget_or b' ''status'' v) else b')" if "taken_over b b'" for b' v h
    using taken_trans [OF that taken_status] that by simp
  show ?thesis unfolding create_allowed_def Let_def
    by (rule ends_then [OF _ taken_category])
      (auto simp: msg_resp_def over_limit_def new_category_def intro!: ends_intros keeps_intros row st)
qed

lemma create_stores:
  assumes D: "e_db E = D" and c: "controller E = Inr (res, m)" and res: "res \<noteq> ''contact''" and rel: "unrelated E m b"
  shows "ends (created_as m b) (crud_create E b id_prefix limits)"
proof -
  have allowed: "ends (created_as m b) (create_allowed E res m acc i limits b')"
    if "taken_over (dset (dset b ''id'' (PStr i)) ''created'' t) b'" "\<not> dhas b ''id''" for acc i b' t
  proof (rule created_from [OF taken_trans [OF taken_stamp [OF that(2)] that(1)]])
    have "dget (dset (dset b ''id'' (PStr i)) ''created'' t) ''id'' = PStr i" by (simp add: dict_simps)
    from taken_id [OF that(1) this] show "ends (created_as m b') (create_allowed E res m acc i limits b')"
      by (rule create_allowed_stores [OF D taken_unrelated [OF taken_trans [OF taken_stamp [OF that(2)] that(1)] rel]])
  qed
  have owner: "taken_over b1 (if h \<and> \<not> truthy (dget b2 ''uid'') then dset b2 ''uid'' v else b2)" if "taken_over b1 b2" for b1 b2 h v
    using taken_trans [OF that taken_dset [of "''uid''" b2 v]] that by (simp add: filled_in_def)
  show ?thesis unfolding crud_create_def c bnd_of_Inr prod.case Let_def
    using res by (auto simp: bad_id_def msg_resp_def dest!: taken_expires
        intro!: ends_intros keeps_intros allowed owner)
qed

end

section \<open>What get shows\<close>

lemma del_all_same: "del_all ks d = Inr d' \<Longrightarrow> k \<notin> set ks \<Longrightarrow> dget d' k = dget d k"
  by (induction ks arbitrary: d) (auto simp: dict_simps split: if_splits)

text \<open>A column that is shown as it is stored.\<close>

definition shown_column :: "('d, 'r, 'c) env \<Rightarrow> string \<Rightarrow> string \<Rightarrow> bool" where
  "shown_column E m k \<longleftrightarrow> plain_column E m k \<and> k \<notin> set (e_exclude E m) \<and>
     k \<notin> response_keys \<and> k \<notin> {''modified'', ''geolat'', ''geolong''}"

lemma row_shows: "shown_column E m k \<Longrightarrow> yields (\<lambda>d. dget d k = dget row k) (row_as_dict E m row)"
  unfolding row_as_dict_def
  by (rule yields_reads)
    (auto simp: shown_column_def plain_column_def as_dict_of_def dict_simps add_hybrid_get
      dest!: del_all_same add_related_get split: sum.splits)

text \<open>What an answer tells of a column: the record is there, and who may see it sees this value.\<close>

definition tells :: "resp \<Rightarrow> string \<Rightarrow> pyval \<Rightarrow> bool" where
  "tells r k v \<longleftrightarrow> snd r \<noteq> 404 \<and> (snd r = 200 \<longrightarrow> dget (fst r) k = v)"

lemma tells_pair: "s \<noteq> 404 \<Longrightarrow> (s = 200 \<Longrightarrow> dget d k = v) \<Longrightarrow> tells (d, s) k v"
  by (simp add: tells_def)

lemma get_row_tells:
  assumes k: "shown_column E m k"
  shows "yields (\<lambda>r. tells r k (dget row k)) (crud_get_row E m acc q ident row)"
proof -
  have owner: "yields (\<lambda>d'. dget d' k = dget d k) (add_owner E m row b d)" for b d
    using k by (auto simp: add_owner_def shown_column_def response_keys_def dict_simps intro!: yields_intros)
  have cat: "yields (\<lambda>d'. dget d' k = dget d k) (add_category E m row b d)" for b d
    using k by (auto simp: add_category_def shown_column_def response_keys_def dict_simps intro!: yields_intros)
  have privacy: "yields (\<lambda>d'. dget d' k = dget d k) (with_privacy E d b)" for b d
    using k by (auto simp: with_privacy_def shown_column_def response_keys_def dict_simps Let_def intro!: yields_intros)
  have located: "yields (\<lambda>r. tells r k v) (bnd (with_privacy E d b) (\<lambda>d'. ret (d', 200)))"
    if "dget d k = v" for b d v
    by (rule yields_then [OF privacy]) (use that in \<open>simp add: yields_intros tells_pair\<close>)
  have drop: "dget (dset (drop_modified d) ''rbac'' v) k = dget d k" for d v
    using k by (auto simp: drop_modified_def shown_column_def response_keys_def dict_simps)
  show ?thesis unfolding crud_get_row_def
  proof (rule yields_then [OF row_shows [OF k]], rule yields_then [OF owner], rule yields_bnd,
      rule yields_then [OF cat], rule yields_bnd)
    fix d0 d1 c d2 actions
    assume "dget d0 k = dget row k" "dget d1 k = dget d0 k" "dget d2 k = dget d1 k"
    then show "yields (\<lambda>r. tells r k (dget row k)) (
        let rbac = actions - {CHR ''c''};
         d = dset (drop_modified d2) ''rbac'' (PStr (rbac_string rbac));
         readable = CHR ''r'' \<in> rbac
     in if dhas d ''geolat'' then
          bnd (of_result (dsub d ''privacy'')) (\<lambda>privacy.
          if privacy = PStr ''secret'' \<and> \<not> readable then ret (msg_resp ''access denied'' 403)
          else bnd (with_privacy E d readable) (\<lambda>d'. ret (d', 200)))
        else if readable then ret (d, 200)
        else ret (fst (denied_id ident), if roles_of acc \<noteq> [] then 403 else 401))"
      unfolding Let_def
      by (auto simp: drop msg_resp_def intro!: yields_intros located tells_pair)
  qed
qed

context record_store
begin

lemma get_shows:
  assumes D: "e_db E = D" and c: "controller E = Inr (res, m)" and u: "unique_ids (w_db w)"
    and k: "shown_column E m k" and run: "basic_get E (PStr i) w = (Inr (d, 200), w')"
  shows "\<exists>r. rows (w_db w) m i = Some r \<and> dget d k = dget r k"
proof -
  obtain acc v where a: "access_control E (Some m) w = (Inr acc, v)"
    using run by (auto simp: basic_get_def c py_simps split: prod.splits sum.splits)
  then have v: "w_db v = w_db w" using keepsD [OF keeps_access_control] by blast
  obtain row where row: "one_of (db_all D (by_id m i) (w_db w)) = Inr row"
    and get: "crud_get_row E m acc (by_id m i) (PStr i) row v = (Inr (d, 200), w')"
    using run a v D by (auto simp: basic_get_def c py_simps Let_def split: sum.splits if_splits)
  show ?thesis using one_of_id [OF u row] yieldsD [OF get_row_tells [OF k] get] by (simp add: tells_def)
qed

lemma get_tells:
  assumes D: "e_db E = D" and c: "controller E = Inr (res, m)" and u: "unique_ids (w_db w)"
    and k: "shown_column E m k" and row: "rows (w_db w) m i = Some row" and run: "basic_get E (PStr i) w = (Inr r, w')"
  shows "tells r k (dget row k)"
proof -
  obtain acc v where a: "access_control E (Some m) w = (Inr acc, v)"
    using run by (auto simp: basic_get_def c py_simps split: prod.splits sum.splits)
  then have v: "w_db v = w_db w" using keepsD [OF keeps_access_control] by blast
  have "one_of (db_all D (by_id m i) (w_db w)) = Inr row" by (simp add: select_id [OF u] row one_of_def)
  then have "crud_get_row E m acc (by_id m i) (PStr i) row v = (Inr r, w')"
    using run a v D by (auto simp: basic_get_def c py_simps Let_def split: sum.splits if_splits)
  then show ?thesis by (rule yieldsD [OF get_row_tells [OF k]])
qed

text \<open>An id that names no record is answered 404 to everyone.\<close>

lemma get_absent:
  assumes D: "e_db E = D" and c: "controller E = Inr (res, m)" and u: "unique_ids (w_db w)"
    and "rows (w_db w) m i = None" and run: "basic_get E (PStr i) w = (Inr r, w')"
  shows "snd r = 404"
proof -
  obtain acc v where a: "access_control E (Some m) w = (Inr acc, v)"
    using run by (auto simp: basic_get_def c py_simps split: prod.splits sum.splits)
  then have v: "w_db v = w_db w" using keepsD [OF keeps_access_control] by blast
  show ?thesis
    using run a v D select_id [OF u, where m = m and i = i] assms(4)
    by (auto simp: basic_get_def c py_simps Let_def one_of_def split: sum.splits if_splits)
qed

end

section \<open>Update\<close>

definition adjusted :: "string set" where
  "adjusted = {''modified'', ''expires'', ''totp'', ''totp_secret''}"

text \<open>The columns that an update writes, for a body with distinct keys.\<close>

definition changes_of :: "string \<Rightarrow> dict \<Rightarrow> dict \<Rightarrow> bool" where
  "changes_of i b b' \<longleftrightarrow> distinct (map fst b') \<and> dget_or b' ''id'' (PStr i) = PStr i \<and>
     (\<forall>k v. k \<notin> adjusted \<longrightarrow> dget_or b' k v = dget_or b k v) \<and> (\<forall>k. dhas b' k \<longrightarrow> dhas b k \<or> k \<in> adjusted)"

lemma dget_or_dset: "dget_or (dset d k v) k' u = (if k' = k then v else dget_or d k' u)"
  by (simp add: dget_or_def update_conv)

lemma dget_or_ddel: "dget_or (ddel d k) k' u = (if k' = k then u else dget_or d k' u)"
  by (simp add: dget_or_def delete_conv)

lemma changes_dset: "changes_of i b b' \<Longrightarrow> k \<in> adjusted \<Longrightarrow> changes_of i b (dset b' k v)"
  by (auto simp: changes_of_def dget_or_dset distinct_update dict_simps adjusted_def)

lemma changes_ddel: "changes_of i b b' \<Longrightarrow> k \<in> adjusted \<Longrightarrow> changes_of i b (ddel b' k)"
  by (auto simp: changes_of_def dget_or_ddel distinct_delete dict_simps adjusted_def)

lemma changes_body:
  assumes "distinct (map fst b)" and "\<not> (dhas b ''id'' \<and> dget b ''id'' \<noteq> PStr i)"
    and "convert_expires (dset b ''modified'' t) = Inr b'"
  shows "changes_of i b (update_totp b')"
proof -
  have "changes_of i b b" using assms(1,2)
    by (cases "map_of b ''id''") (simp_all add: changes_of_def dget_or_def dget_def dhas_def)
  then have m: "changes_of i b (dset b ''modified'' t)" by (rule changes_dset) (simp add: adjusted_def)
  then have "changes_of i b b'" using assms(3) changes_dset [OF m, of "''expires''"]
    by (auto simp: convert_expires_def adjusted_def split: if_splits pyval.splits sum.splits)
  then show ?thesis using changes_ddel [of i b b' "''totp''"] changes_dset [of i b "ddel b' ''totp''" "''totp_secret''"]
    by (auto simp: update_totp_def adjusted_def)
qed

context record_store
begin

lemma relate_all_unrelated: "\<forall>a \<in> set as. \<not> dhas body a \<Longrightarrow> relate_all E m ident limits as body = ret (Inr body)"
  by (induction as) auto

text \<open>One record is changed in the columns of the body, no other.\<close>

definition updated :: "string \<Rightarrow> string \<Rightarrow> dict \<Rightarrow> 'd \<Rightarrow> 'd \<Rightarrow> bool" where
  "updated m i b d d' \<longleftrightarrow> (unique_ids d \<longrightarrow> unique_ids d' \<and> rows d m i \<noteq> None \<and>
     (\<forall>m' j. rows d' m' j = (if (m', j) = (m, i) then map_option (\<lambda>r. dmerge r b) (rows d m i) else rows d m' j)))"

lemma write_updates:
  assumes D: "e_db E = D" and b: "distinct (map fst b)" "dget_or b ''id'' (PStr i) = PStr i"
  shows "ends (\<lambda>x d d'. unique_ids d \<longrightarrow> unique_ids d' \<and>
      (\<forall>m' j. rows d' m' j = (if (m', j) = (m, i) then map_option (\<lambda>r. dmerge r b) (rows d m i) else rows d m' j)))
    (bnd (on_db (db_update (e_db E) (by_id m i) b)) (\<lambda>_. bnd (commit E) (\<lambda>_. ret c)))"
  unfolding ends_def
proof (intro allI impI)
  fix w x w'
  assume run: "bnd (on_db (db_update (e_db E) (by_id m i) b)) (\<lambda>_. bnd (commit E) (\<lambda>_. ret c)) w = (Inr x, w')"
    and u: "unique_ids (w_db w)"
  obtain r d where upd: "db_update D (by_id m i) b (w_db w) = (r, d)" by fastforce
  obtain n where n: "r = Inr n" and c: "db_commit D d = (Inr (), w_db w')"
    using run D upd by (auto simp: py_simps split: sum.splits prod.splits) (metis prod.collapse)
  show "unique_ids (w_db w') \<and>
      (\<forall>m' j. rows (w_db w') m' j = (if (m', j) = (m, i) then map_option (\<lambda>r. dmerge r b) (rows (w_db w) m i) else rows (w_db w) m' j))"
    using merge_row [OF u b upd [unfolded n]] commit_keeps [OF _ c] by auto
qed

lemma update_row_stores:
  assumes D: "e_db E = D" and b: "distinct (map fst b)" "dget_or b ''id'' (PStr i) = PStr i"
  shows "ends (\<lambda>r d d'. snd r = 200 \<longrightarrow> updated m i b d d') (update_row E m (PStr i) b act)"
proof -
  let ?P = "\<lambda>(r :: resp + dict) d d'. case r of Inl resp \<Rightarrow> snd resp \<noteq> 200 | Inr c \<Rightarrow> updated m i b d d'"
  let ?put = "\<lambda>c :: dict. bnd (on_db (db_update (e_db E) (by_id m i) b)) (\<lambda>_. bnd (commit E) (\<lambda>_. ret (Inr c :: resp + dict)))"
  have writes: "ends ?P (bnd (run_one E (by_id m i)) (\<lambda>row. bnd (row_as_dict E m row) ?put))"
    unfolding ends_def
  proof (intro allI impI)
    fix w x w' assume run: "bnd (run_one E (by_id m i)) (\<lambda>row. bnd (row_as_dict E m row) ?put) w = (Inr x, w')"
    then obtain row c v where row: "one_of (db_all D (by_id m i) (w_db w)) = Inr row"
      and "row_as_dict E m row w = (Inr c, v)" and wr: "?put c v = (Inr x, w')"
      using D by (auto simp: py_simps split: sum.splits prod.splits)
    then have v: "w_db v = w_db w" using keepsD [OF keeps_row_as_dict] by blast
    have x: "x = Inr c" using wr by (auto simp: py_simps split: sum.splits prod.splits)
    show "?P x (w_db w) (w_db w')"
      using endsD [OF write_updates [OF D b] wr] v one_of_id [OF _ row] by (simp add: x updated_def)
  qed
  have abort: "yields (\<lambda>x. \<forall>d d'. ?P x d d') (bnd (db_abort E) (\<lambda>response. ret (Inl response)))"
    by (rule yields_then [OF yields_db_abort]) (auto intro!: yields_intros)
  have "ends ?P (try_catch
       (bnd (access_control E (Some m)) (\<lambda>acc.
        bnd (with_permission E acc act (Some (by_id m i)) PNone PNone PNone) (\<lambda>allowed.
        if \<not> allowed then ret (Inl (denied_id (PStr i)))
        else bnd (run_one E (by_id m i)) (\<lambda>row. bnd (row_as_dict E m row) ?put))))
       (\<lambda>ex. if exc_kind ex = EIntegrityError
             then ret (Inl ([(''message'', PStr ''duplicate or other conflict''), (''data'', PStr (exc_msg ex))], 405))
             else bnd (db_abort E) (\<lambda>response. ret (Inl response))))"
    by (rule ends_try) (auto simp: denied_id_def intro!: ends_intros keeps_intros yields_intros writes abort)
  then show ?thesis unfolding update_row_def Let_def
    by (rule ends_after)
      (auto intro!: keeps_intros yields_intros split: sum.splits)
qed

lemma update_stores:
  assumes D: "e_db E = D" and c: "controller E = Inr (res, m)" and rel: "unrelated E m b" and b: "distinct (map fst b)"
  shows "ends (\<lambda>r d d'. snd r = 200 \<longrightarrow> (\<exists>b'. changes_of i b b' \<and> updated m i b' d d')) (basic_update E (PStr i) b act limits)"
proof -
  have row: "ends (\<lambda>r d d'. snd r = 200 \<longrightarrow> (\<exists>b'. changes_of i b b' \<and> updated m i b' d d')) (update_row E m (PStr i) (update_totp b') act)"
    if "convert_expires (dset b ''modified'' t) = Inr b'" "\<not> (dhas b ''id'' \<and> dget b ''id'' \<noteq> PStr i)" for b' t
  proof -
    have ch: "changes_of i b (update_totp b')" by (rule changes_body [OF b that(2,1)])
    have "ends (\<lambda>r d d'. snd r = 200 \<longrightarrow> updated m i (update_totp b') d d') (update_row E m (PStr i) (update_totp b') act)"
      by (rule update_row_stores [OF D]) (use ch in \<open>simp_all add: changes_of_def\<close>)
    then show ?thesis using ch by (auto simp: ends_def)
  qed
  have same: "relate_all E m (PStr i) limits (case e_related E m of None \<Rightarrow> [] | Some as \<Rightarrow> as) (update_totp b') = ret (Inr (update_totp b'))"
    if "convert_expires (dset b ''modified'' t) = Inr b'" "\<not> (dhas b ''id'' \<and> dget b ''id'' \<noteq> PStr i)" for b' t
  proof (rule relate_all_unrelated, rule ballI)
    fix a assume a: "a \<in> set (case e_related E m of None \<Rightarrow> [] | Some as \<Rightarrow> as)"
    have "adjusted \<subseteq> service_keys" by (auto simp: adjusted_def service_keys_def computed_def)
    then show "\<not> dhas (update_totp b') a"
      using changes_body [OF b that(2,1)] rel a unfolding changes_of_def unrelated_def by blast
  qed
  have tail: "ends (\<lambda>r d d'. snd r = 200 \<longrightarrow> (\<exists>b'. changes_of i b b' \<and> updated m i b' d d'))
      (bnd (relate_all E m (PStr i) limits (case e_related E m of None \<Rightarrow> [] | Some as \<Rightarrow> as) (update_totp b')) (\<lambda>r. case r of
         Inl response \<Rightarrow> ret response
       | Inr body \<Rightarrow> bnd (access_control E None) (\<lambda>_. update_row E m (PStr i) body act)))"
    if "convert_expires (dset b ''modified'' (PTime t)) = Inr b'" "\<not> (dhas b ''id'' \<and> dget b ''id'' \<noteq> PStr i)" for b' t
    unfolding same [OF that] bnd_ret sum.case
    by (rule ends_bnd) (auto intro!: keeps_intros row [OF that])
  show ?thesis
    unfolding basic_update_def c bnd_of_Inr prod.case
    by (auto simp: bad_id_def msg_resp_def intro!: ends_intros keeps_intros tail)
qed

end

section \<open>Deletion\<close>

context record_store
begin

text \<open>
  A deletion with force removes the records named (and perhaps others that depend on them); without
  it they stay, with the status disabled and everything else as it was.
\<close>

definition deleted :: "bool \<Rightarrow> string \<Rightarrow> string set \<Rightarrow> 'd \<Rightarrow> 'd \<Rightarrow> bool" where
  "deleted force m I d d' \<longleftrightarrow> (unique_ids d \<longrightarrow> unique_ids d' \<and> (\<forall>m' j.
     if force then (m' = m \<and> j \<in> I \<longrightarrow> rows d' m' j = None) \<and> rows d' m' j \<in> {None, rows d m' j}
     else (case rows d m' j of None \<Rightarrow> rows d' m' j = None
       | Some r \<Rightarrow> (\<exists>r'. rows d' m' j = Some r' \<and>
           (\<forall>k. dget r' k = (if m' = m \<and> j \<in> I \<and> k = ''status'' then PStr ''disabled'' else dget r k))))))"

lemma deleted_none: "deleted force m {} d d"
  by (auto simp: deleted_def split: option.splits)

lemma deleted_more:
  assumes "deleted force m I d d'" and "deleted force m J d' d''"
  shows "deleted force m (I \<union> J) d d''"
  unfolding deleted_def
proof (intro impI conjI allI)
  assume u: "unique_ids d"
  then have u': "unique_ids d'" using assms(1) by (simp add: deleted_def)
  then show "unique_ids d''" using assms(2) by (simp add: deleted_def)
  fix m' j
  let ?R = "\<lambda>K a b. if force then (m' = m \<and> j \<in> K \<longrightarrow> rows b m' j = None) \<and> rows b m' j \<in> {None, rows a m' j}
     else (case rows a m' j of None \<Rightarrow> rows b m' j = None
       | Some r \<Rightarrow> (\<exists>r'. rows b m' j = Some r' \<and>
           (\<forall>k. dget r' k = (if m' = m \<and> j \<in> K \<and> k = ''status'' then PStr ''disabled'' else dget r k))))"
  have 1: "?R I d d'" using assms(1) u unfolding deleted_def by blast
  have 2: "?R J d' d''" using assms(2) u' unfolding deleted_def by blast
  show "?R (I \<union> J) d d''"
  proof (cases force)
    case True
    then show ?thesis using 1 2 by auto
  next
    case False
    then show ?thesis using 1 2 by (cases "rows d m' j") auto
  qed
qed

lemma delete_one_stores:
  assumes D: "e_db E = D"
  shows "ends (\<lambda>fl d d'. case fl of Continue n \<Rightarrow> errors \<le> n \<and> deleted force m {i} d d' | Return r \<Rightarrow> snd r \<notin> {204, 404})
    (delete_one E m force (PStr i) errors)"
proof -
  let ?Q = "\<lambda>(fl :: (nat, resp) flow) d d'. case fl of Continue n \<Rightarrow> errors \<le> n \<and> deleted force m {i} d d' | Return r \<Rightarrow> snd r \<notin> {204, 404}"
  have abort: "yields (\<lambda>x. \<forall>d d'. ?Q x d d') (bnd (db_abort E) (\<lambda>response. ret (Return response)))"
    by (rule yields_then [OF yields_db_abort]) (auto intro!: yields_intros)
  have hard: "ends ?Q (bnd (on_db (db_delete (e_db E) (by_id m i))) (\<lambda>n. ret (Continue (if n = 0 then errors + 1 else errors))))"
    if force
    using that D remove_row by (auto simp: ends_def py_simps deleted_def split: sum.splits) (metis prod.collapse insertE singletonD)+
  have soft: "ends ?Q (bnd (on_db (db_update (e_db E) (by_id m i) [(''status'', PStr ''disabled'')])) (\<lambda>_. ret (Continue errors)))"
    if f: "\<not> force"
    unfolding ends_def
  proof (intro allI impI)
    fix w w' and x :: "(nat, resp) flow"
    let ?kvs = "[(''status'', PStr ''disabled'')]"
    assume run: "bnd (on_db (db_update (e_db E) (by_id m i) ?kvs)) (\<lambda>_. ret (Continue errors)) w = (Inr x, w')"
    obtain n where upd: "db_update D (by_id m i) ?kvs (w_db w) = (Inr n, w_db w')" and x: "x = Continue errors"
      using run D by (auto simp: py_simps split: sum.splits) (metis prod.collapse)
    have "deleted force m {i} (w_db w) (w_db w')"
      using f merge_row [OF _ _ _ upd]
      by (auto simp: deleted_def dget_or_def dict_simps split: option.splits)
    then show "?Q x (w_db w) (w_db w')" by (simp add: x)
  qed
  show ?thesis unfolding delete_one_def Let_def
    by (rule ends_try) (auto simp: denied_id_def intro!: ends_intros keeps_intros hard soft abort)
qed

lemma delete_each_stores:
  assumes D: "e_db E = D"
  shows "ends (\<lambda>fl d d'. case fl of Continue n \<Rightarrow> errors \<le> n \<and> deleted force m (set is) d d' | Return r \<Rightarrow> snd r \<notin> {204, 404})
    (for_loop (delete_one E m force) (map PStr is) errors)"
proof (induction "is" arbitrary: errors)
  case Nil
  then show ?case by (auto simp: deleted_none intro!: ends_intros)
next
  case (Cons i "is")
  show ?case unfolding ends_def
  proof (intro allI impI)
    fix w w' and fl :: "(nat, resp) flow"
    assume "for_loop (delete_one E m force) (map PStr (i # is)) errors w = (Inr fl, w')"
    then obtain x v where one: "delete_one E m force (PStr i) errors w = (Inr x, v)"
      and rest: "(case x of Continue n \<Rightarrow> for_loop (delete_one E m force) (map PStr is) n | Return r \<Rightarrow> ret (Return r)) v = (Inr fl, w')"
      by (auto simp: py_simps split: prod.splits sum.splits)
    note first = endsD [OF delete_one_stores [OF D] one]
    show "case fl of Continue n \<Rightarrow> errors \<le> n \<and> deleted force m (set (i # is)) (w_db w) (w_db w') | Return r \<Rightarrow> snd r \<notin> {204, 404}"
    proof (cases x)
      case (Continue n)
      then show ?thesis using first endsD [OF Cons.IH [where errors = n], where w = v and x = fl and w' = w'] rest deleted_more [of force m "{i}"]
        by (auto split: flow.splits)
    next
      case (Return r)
      then show ?thesis using first rest by (auto simp: py_simps)
    qed
  qed
qed

lemma delete_stores:
  assumes D: "e_db E = D" and c: "controller E = Inr (res, m)"
  shows "ends (\<lambda>r d d'. snd r \<in> {204, 404} \<longrightarrow> deleted force m (set is) d d') (basic_delete E (map PStr is) force)"
  unfolding ends_def
proof (intro allI impI)
  fix w w' and r :: resp
  assume run: "basic_delete E (map PStr is) force w = (Inr r, w')" and ok: "snd r \<in> {204, 404}"
  obtain acc u where a: "access_control E None w = (Inr acc, u)"
    using run by (auto simp: basic_delete_def c py_simps split: prod.splits sum.splits)
  then have u: "w_db u = w_db w" using keepsD [OF keeps_access_control] by blast
  obtain fl v where l: "for_loop (delete_one E m force) (map PStr is) 0 u = (Inr fl, v)"
    and f: "(case fl of Return response \<Rightarrow> ret response | Continue errors \<Rightarrow> finish_delete E errors) v = (Inr r, w')"
    using run a by (auto simp: basic_delete_def c py_simps split: prod.splits sum.splits)
  note each = endsD [OF delete_each_stores [OF D] l]
  obtain n where n: "fl = Continue n" "deleted force m (set is) (w_db u) (w_db v)"
    using each f ok by (cases fl) (auto simp: py_simps)
  have "db_commit D (w_db v) = (Inr (), w_db w')"
  proof -
    have "fst (db_commit D (w_db v)) = Inr () \<and> w_db w' = snd (db_commit D (w_db v))"
      using f ok n(1) D by (auto simp: finish_delete_def py_simps db_abort_def msg_resp_def split: sum.splits if_splits)
    then show ?thesis by (metis prod.collapse)
  qed
  then have "deleted force m {} (w_db v) (w_db w')" if "unique_ids (w_db v)"
  proof -
    have "unique_ids (w_db w')" "\<And>m' j. rows (w_db w') m' j = rows (w_db v) m' j"
      using commit_keeps [OF that] \<open>db_commit D (w_db v) = (Inr (), w_db w')\<close> by blast+
    then show ?thesis by (simp add: deleted_def split: option.splits)
  qed
  then have "deleted force m {} (w_db v) (w_db w')" unfolding deleted_def by blast
  then show "deleted force m (set is) (w_db w) (w_db w')" using deleted_more [OF n(2)] u by fastforce
qed

end

section \<open>Requests one after the other\<close>

text \<open>
  Two requests on one resource, by different callers perhaps: what the first did is what the second
  sees, if nothing else happened to the database between them.
\<close>

definition same_service :: "('d, 'r, 'c) env \<Rightarrow> ('d, 'r, 'c) env \<Rightarrow> string \<Rightarrow> string \<Rightarrow> bool" where
  "same_service E E' res m \<longleftrightarrow> e_db E' = e_db E \<and> controller E = Inr (res, m) \<and> controller E' = Inr (res, m)"

context record_store
begin

lemma create_then_get:
  assumes S: "e_db E = D" "same_service E E' res m" and res: "res \<noteq> ''contact''" "unrelated E m b"
    and run: "crud_create E b id_prefix limits w = (Inr ((d, 201), b'), w1)"
    and new: "unique_ids (w_db w)" "\<And>i. dget d ''id'' = PStr i \<Longrightarrow> rows (w_db w) m i = None"
    and same: "w_db w2 = w_db w1"
    and get: "basic_get E' (dget d ''id'') w2 = (Inr r, w3)"
    and k: "shown_column E' m k" "taken b k"
  shows "tells r k (dget b k)"
proof -
  obtain i where i: "dget d ''id'' = PStr i" and t: "taken_over b b'" and ins: "inserted m i b' (w_db w) (w_db w1)"
    using endsD [OF create_stores [OF S(1) _ res] run] S(2) by (auto simp: created_as_def same_service_def)
  obtain row where row: "unique_ids (w_db w2)" "rows (w_db w2) m i = Some row" "\<And>k. dhas b' k \<Longrightarrow> dget row k = dget b' k"
    using ins new i same by (auto simp: inserted_def)
  have "tells r k (dget row k)"
    using get_tells [OF _ _ row(1) k(1) row(2) get [unfolded i]] S by (auto simp: same_service_def)
  then show ?thesis using row(3) t k(2) by (auto simp: taken_over_def)
qed

lemma update_between_gets:
  assumes S: "e_db E = D" "same_service E E' res m" "same_service E E0 res m" and b: "unrelated E m b" "distinct (map fst b)"
    and u: "unique_ids (w_db w)" and get0: "basic_get E0 (PStr j) w0 = (Inr (r0, 200), w')" and w0: "w_db w0 = w_db w"
    and run: "basic_update E (PStr i) b act limits w = (Inr (d, 200), w1)" and same: "w_db w2 = w_db w1"
    and get: "basic_get E' (PStr j) w2 = (Inr r, w3)"
    and k: "shown_column E0 m k" "shown_column E' m k" "k \<notin> adjusted"
  shows "tells r k (if j = i then dget_or b k (dget r0 k) else dget r0 k)"
proof -
  obtain b' where ch: "changes_of i b b'" and up: "updated m i b' (w_db w) (w_db w1)"
    using endsD [OF update_stores [OF S(1) _ b] run] S(2) by (auto simp: same_service_def)
  obtain row0 where row0: "rows (w_db w) m j = Some row0" "dget r0 k = dget row0 k"
    using get_shows [OF _ _ _ k(1) get0] S u w0 by (auto simp: same_service_def)
  have u2: "unique_ids (w_db w2)" using up u same by (simp add: updated_def)
  have "rows (w_db w2) m j = Some (if j = i then dmerge row0 b' else row0)"
    using up u same row0(1) by (cases "j = i") (simp_all add: updated_def)
  then have "tells r k (dget (if j = i then dmerge row0 b' else row0) k)"
    using get_tells [OF _ _ u2 k(2) _ get] S by (auto simp: same_service_def)
  then show ?thesis using row0(2) ch k(3) by (auto simp: changes_of_def dget_dmerge split: if_splits)
qed

lemma delete_then_get:
  assumes S: "e_db E = D" "same_service E E' res m" and u: "unique_ids (w_db w)"
    and run: "basic_delete E (map PStr is) True w = (Inr (d, 204), w1)" and same: "w_db w2 = w_db w1"
    and i: "i \<in> set is" and get: "basic_get E' (PStr i) w2 = (Inr r, w3)"
  shows "snd r = 404"
proof -
  have "deleted True m (set is) (w_db w) (w_db w1)"
    using endsD [OF delete_stores [OF S(1)] run] S(2) by (auto simp: same_service_def)
  then have "unique_ids (w_db w2)" "rows (w_db w2) m i = None" using u i same by (auto simp: deleted_def)
  then show ?thesis using get_absent [OF _ _ _ _ get] S by (auto simp: same_service_def)
qed

lemma disabled_row:
  assumes "deleted False m I d d'" and "unique_ids d" and "rows d m' j = Some r"
  shows "\<exists>r'. rows d' m' j = Some r' \<and>
    (\<forall>k. dget r' k = (if m' = m \<and> j \<in> I \<and> k = ''status'' then PStr ''disabled'' else dget r k))"
proof -
  have "case rows d m' j of None \<Rightarrow> rows d' m' j = None
     | Some r \<Rightarrow> \<exists>r'. rows d' m' j = Some r' \<and>
         (\<forall>k. dget r' k = (if m' = m \<and> j \<in> I \<and> k = ''status'' then PStr ''disabled'' else dget r k))"
    using assms(1,2) unfolding deleted_def if_False by blast
  then show ?thesis unfolding assms(3) option.case .
qed

lemma disable_then_get:
  assumes S: "e_db E = D" "same_service E E' res m" and u: "unique_ids (w_db w)"
    and run: "basic_delete E (map PStr is) False w = (Inr (d, 204), w1)" and same: "w_db w2 = w_db w1"
    and get0: "basic_get E' (PStr i) w = (Inr (r0, 200), w')" and get: "basic_get E' (PStr i) w2 = (Inr r, w3)"
    and k: "shown_column E' m k"
  shows "tells r k (if i \<in> set is \<and> k = ''status'' then PStr ''disabled'' else dget r0 k)"
proof -
  have del: "deleted False m (set is) (w_db w) (w_db w1)"
    using endsD [OF delete_stores [OF S(1)] run] S(2) by (auto simp: same_service_def)
  then have u2: "unique_ids (w_db w2)" using u same by (simp add: deleted_def)
  obtain row0 where row0: "rows (w_db w) m i = Some row0" "dget r0 k = dget row0 k"
    using get_shows [OF _ _ u k get0] S by (auto simp: same_service_def)
  obtain r' where r': "rows (w_db w2) m i = Some r'"
    "dget r' k = (if i \<in> set is \<and> k = ''status'' then PStr ''disabled'' else dget row0 k)"
    using disabled_row [OF del u row0(1)] same by auto
  have "tells r k (dget r' k)" using get_tells [OF _ _ u2 k r'(1) get] S by (auto simp: same_service_def)
  then show ?thesis unfolding r'(2) row0(2) .
qed

end

section \<open>Properties\<close>

text \<open>An example service in which everyone may do everything with people.\<close>

definition open_env :: "(mdb, mredis, mcache) env" where
  "open_env = (example_env ''/api/v1/person'')\<lparr>e_policies := [(''person'', [pol ''.*'' ''person:.*'' ''cdru''])]\<rparr>"

lemma no_people_unique: "mem_unique (w_db (mem_world []))"
  by (simp add: mem_unique_def mem_world_def table_of_def)

lemma open_hybrid: "e_hybrid open_env ''Person'' = []"
  by code_simp

lemma open_exclude: "e_exclude open_env ''Person'' = []"
  by code_simp

lemma open_related: "e_related open_env ''Person'' = Some [''lists'']"
  by code_simp

lemma open_controller: "controller open_env = Inr (''person'', ''Person'')"
  by code_simp

lemma open_env_facts: "e_db open_env = mem_db" "same_service open_env open_env ''person'' ''Person''"
  "shown_column open_env ''Person'' ''name''" "shown_column open_env ''Person'' ''identity''"
  by (simp_all add: open_env_def [THEN arg_cong [where f = e_db]] same_service_def open_controller shown_column_def plain_column_def
      response_keys_def open_hybrid open_exclude open_related)

lemma open_store: "record_store (e_db open_env) mem_rows mem_unique"
  using memory_store.record_store_axioms open_env_facts(1) by simp

text \<open>The first request makes a person.\<close>

abbreviation cyd :: dict where
  "cyd \<equiv> [(''name'', PStr ''Cyd''), (''identity'', PStr ''cyd@example.com'')]"

definition cyd_row :: dict where
  "cyd_row = cyd @ [(''id'', PStr ''p-1qc01234''), (''created'', PTime 1640995200000000), (''status'', PStr ''active'')]"

definition guest :: access where
  "guest = \<lparr>ac_model = Some ''Person'', ac_auth = None, ac_uid = PNone, ac_account_id = PNone, ac_method = PNone,
     ac_identity = PNone, ac_apikey_id = None, ac_primary = ''list'', ac_auth_ids = []\<rparr>"

abbreviation numbered_world :: "(mdb, mredis, mcache) world" where
  "numbered_world \<equiv> (mem_world [])\<lparr>w_pos := 6\<rparr>"

lemma open_attrs: "\<not> e_attrs open_env ''Person'' ''uid''" "\<not> e_attrs open_env ''Person'' ''category_id''"
  "e_attrs open_env ''Person'' ''status''" "e_attrs open_env ''Person'' ''id''" "e_attrs open_env ''Person'' ''created''"
  "e_attrs open_env ''Person'' ''name''" "e_attrs open_env ''Person'' ''identity''"
  by code_simp+

lemma guest_access: "access_control open_env (Some ''Person'') w = (Inr guest, w)"
  by (simp add: access_control_def credentials_def open_env_def py_simps guest_def Let_def mem_config_def)

lemma guest_id: "gen_id 8 ''p-'' id_chars (mem_world []) = (Inr ''p-1qc01234'', numbered_world)"
  by (simp add: gen_id_run mem_world_def days_2018_def int2base_three id_chars_nth char_of_def upt_rec bit_0)

lemma guest_permission:
  "with_permission open_env guest (CHR ''c'') None PNone (PStr ''list'') PNone numbered_world = (Inr True, numbered_world)"
proof -
  have "fst (with_permission open_env guest (CHR ''c'') None PNone (PStr ''list'') PNone numbered_world) = Inr True"
    by code_simp
  then show ?thesis using keepsD [OF keeps_with_permission [where v = id]] by (metis id_apply prod.collapse)
qed

lemma guest_grants: "\<exists>w. grants_get open_env ''persons'' PNone numbered_world = (Inr PNone, w) \<and> w_db w = w_db numbered_world"
proof -
  have "fst (grants_get open_env ''persons'' PNone numbered_world) = Inr PNone" by code_simp
  then show ?thesis using keepsD [OF keeps_grants_get] by (metis prod.collapse)
qed

lemma cyd_made: "\<exists>d b' w1. crud_create open_env cyd ''p-'' [] (mem_world []) = (Inr ((d, 201), b'), w1) \<and>
  dget d ''id'' = PStr ''p-1qc01234'' \<and> w_db w1 = w_db (mem_world [(''Person'', [cyd_row])])"
proof -
  obtain w where g: "grants_get open_env ''persons'' PNone numbered_world = (Inr PNone, w)"
    and w: "w_db w = w_db numbered_world" using guest_grants by blast
  have e: "e_db open_env = mem_db" "cf_DEFAULT_GRANTS (e_cfg open_env) = cf_DEFAULT_GRANTS mem_config"
    by (simp_all add: open_env_def)
  show ?thesis
    by (simp add: crud_create_def open_controller py_simps guest_access guest_id guest_permission Let_def dict_simps
        dget_Cons dhas_Cons convert_expires_def open_attrs guest_def [THEN arg_cong [where f = ac_uid]]
        guest_def [THEN arg_cong [where f = ac_primary]] create_allowed_def grant_name_def ends_with_def new_category_def g
        over_limit_def e dget_or_def mem_config_def create_row_def open_related new_secret_def build_record_def
        open_hybrid related_items_def insert_record_def w mem_db_def put_table_def cyd_row_def)
      (simp add: mem_world_def table_of_def)
qed

lemma answered_200: "(case fst (p :: (exc + resp) \<times> 'w) of Inl _ \<Rightarrow> False | Inr r \<Rightarrow> snd r = 200) \<Longrightarrow> \<exists>r w. p = (Inr (r, 200), w)"
  by (cases p) (auto split: sum.splits)

lemma cyd_read: "\<exists>r w. basic_get open_env (PStr ''p-1qc01234'') (mem_world [(''Person'', [cyd_row])]) = (Inr (r, 200), w)"
  by (rule answered_200) code_simp

text \<open>C4: What BasicCRUD.create stores, BasicCRUD.get shows: after a creation that answered 201 in a
  session with unique ids, a get of the new id (by whatever caller, as long as the tables were not
  touched in between) is not answered 404, and when it answers 200 every shown column has the value of
  the request, but those that the service computes itself. Over every database that keeps the laws of
  single-row statements; for bodies without related records and for every resource but contact.\<close>

lemma created_record_is_read:
  assumes "record_store (e_db E) rows unique_ids" and "same_service E E' res m" and "res \<noteq> ''contact''" and "unrelated E m b"
    and "crud_create E b id_prefix limits w = (Inr ((d, 201), b'), w1)"
    and "unique_ids (w_db w)" and "\<And>i. dget d ''id'' = PStr i \<Longrightarrow> rows (w_db w) m i = None"
    and "w_db w2 = w_db w1" and "basic_get E' (dget d ''id'') w2 = (Inr r, w3)"
    and "shown_column E' m k" and "taken b k"
  shows "tells r k (dget b k)"
  using record_store.create_then_get [OF assms(1) refl assms(2-)] .

lemma created_record_is_read_witness:
  "\<exists>d b' w1 w2 r w3. crud_create open_env [(''name'', PStr ''Cyd''), (''identity'', PStr ''cyd@example.com'')] ''p-'' [] (mem_world []) =
     (Inr ((d, 201), b'), w1) \<and> w_db w2 = w_db w1 \<and> basic_get open_env (dget d ''id'') w2 = (Inr (r, 200), w3) \<and>
     dget r ''name'' = PStr ''Cyd''"
proof -
  obtain d b' w1 where run: "crud_create open_env cyd ''p-'' [] (mem_world []) = (Inr ((d, 201), b'), w1)"
    and d: "dget d ''id'' = PStr ''p-1qc01234''" and w1: "w_db (mem_world [(''Person'', [cyd_row])]) = w_db w1"
    using cyd_made by auto
  obtain r w3 where get: "basic_get open_env (dget d ''id'') (mem_world [(''Person'', [cyd_row])]) = (Inr (r, 200), w3)"
    using cyd_read d by auto
  have u: "unrelated open_env ''Person'' cyd" "taken cyd ''name''"
    by (simp_all add: unrelated_def open_related taken_def computed_def filled_in_def service_keys_def dhas_Cons dhas_Nil)
  have n: "mem_rows (w_db (mem_world [])) ''Person'' i = None" for i
    by (simp add: mem_rows_def mem_world_def table_of_def)
  have "tells (r, 200) ''name'' (dget cyd ''name'')"
    by (rule created_record_is_read [OF open_store open_env_facts(2) _ u(1) run no_people_unique n w1 get open_env_facts(3) u(2)]) simp
  then show ?thesis using run w1 get by (auto simp: dget_Cons tells_def)
qed

text \<open>C5: BasicCRUD.update implements a merge into one record of an abstract store: between two gets
  before and after an update that answered 200, no record is lost, the record updated shows the values
  of the body in the columns the body names and its old values in all others, and every other record
  of the resource shows what it showed. (The columns the service adjusts itself, such as modified, are
  excepted.)\<close>

lemma updated_record_is_read:
  assumes "record_store (e_db E) rows unique_ids" and "same_service E E' res m" and "same_service E E0 res m"
    and "unrelated E m b" and "distinct (map fst b)" and "unique_ids (w_db w)"
    and "basic_get E0 (PStr j) w0 = (Inr (r0, 200), w')" and "w_db w0 = w_db w" and "basic_update E (PStr i) b act limits w = (Inr (d, 200), w1)"
    and "w_db w2 = w_db w1" and "basic_get E' (PStr j) w2 = (Inr r, w3)"
    and "shown_column E0 m k" and "shown_column E' m k" and "k \<notin> adjusted"
  shows "tells r k (if j = i then dget_or b k (dget r0 k) else dget r0 k)"
  using record_store.update_between_gets [OF assms(1) refl assms(2-)] .

text \<open>Ann is renamed, Bob is removed or disabled.\<close>

definition person :: "string \<Rightarrow> string \<Rightarrow> string \<Rightarrow> string \<Rightarrow> dict" where
  "person i n e s = [(''id'', PStr i), (''name'', PStr n), (''identity'', PStr e), (''status'', PStr s)]"

definition people :: "dict list \<Rightarrow> (mdb, mredis, mcache) world" where
  "people rs = mem_world [(''Person'', rs)]"

abbreviation ann :: dict where
  "ann \<equiv> person ''p-1'' ''Ann'' ''ann@example.com'' ''active''"

abbreviation anna :: dict where
  "anna \<equiv> person ''p-1'' ''Anna'' ''ann@example.com'' ''active'' @ [(''modified'', PTime 1640995200000000)]"

abbreviation bob :: "string \<Rightarrow> dict" where
  "bob \<equiv> person ''p-2'' ''Bob'' ''bob@example.com''"

abbreviation rename_ann :: "(exc + resp) \<times> (mdb, mredis, mcache) world" where
  "rename_ann \<equiv> basic_update open_env (PStr ''p-1'') [(''name'', PStr ''Anna'')] (CHR ''u'') [] (people [ann, bob ''active''])"

abbreviation remove_bob :: "bool \<Rightarrow> (exc + resp) \<times> (mdb, mredis, mcache) world" where
  "remove_bob force \<equiv> basic_delete open_env (map PStr [''p-2'']) force (people [ann, bob ''active''])"

lemma people_unique: "mem_unique (w_db (people [ann, bob ''active'']))"
  by (auto simp: mem_unique_def people_def mem_world_def table_of_def person_def dget_Cons)

lemma answered:
  "(case fst (p :: (exc + resp) \<times> 'w) of Inl _ \<Rightarrow> False | Inr r \<Rightarrow> snd r = s) \<Longrightarrow> \<exists>r. p = (Inr (r, s), snd p)"
  by (cases p) (auto split: sum.splits)

lemma ann_renamed: "\<exists>r. rename_ann = (Inr (r, 200), snd rename_ann)"
  by (rule answered) code_simp

lemma anna_stored: "w_db (people [anna, bob ''active'']) = w_db (snd rename_ann)"
  by code_simp

lemma anna_read: "\<exists>r. basic_get open_env (PStr ''p-1'') (people [anna, bob ''active'']) =
    (Inr (r, 200), snd (basic_get open_env (PStr ''p-1'') (people [anna, bob ''active''])))"
  by (rule answered) code_simp

lemma ann_read: "\<exists>r. basic_get open_env (PStr ''p-1'') (people [ann, bob ''active'']) =
    (Inr (r, 200), snd (basic_get open_env (PStr ''p-1'') (people [ann, bob ''active''])))"
  by (rule answered) code_simp

lemma bob_read: "\<exists>r. basic_get open_env (PStr ''p-2'') (people [ann, bob ''active'']) =
    (Inr (r, 200), snd (basic_get open_env (PStr ''p-2'') (people [ann, bob ''active''])))"
  by (rule answered) code_simp

lemma bob_removed: "\<exists>r. remove_bob True = (Inr (r, 204), snd (remove_bob True))"
  by (rule answered) code_simp

lemma bob_gone: "w_db (people [ann]) = w_db (snd (remove_bob True))"
  by code_simp

lemma bob_absent: "\<exists>r. basic_get open_env (PStr ''p-2'') (people [ann]) =
    (Inr (r, 404), snd (basic_get open_env (PStr ''p-2'') (people [ann])))"
  by (rule answered) code_simp

lemma bob_disabled: "\<exists>r. remove_bob False = (Inr (r, 204), snd (remove_bob False))"
  by (rule answered) code_simp

lemma bob_off: "w_db (people [ann, bob ''disabled'']) = w_db (snd (remove_bob False))"
  by code_simp

lemma bob_off_read: "\<exists>r. basic_get open_env (PStr ''p-2'') (people [ann, bob ''disabled'']) =
    (Inr (r, 200), snd (basic_get open_env (PStr ''p-2'') (people [ann, bob ''disabled''])))"
  by (rule answered) code_simp

lemma updated_record_is_read_witness:
  "\<exists>d w1 w2 r w3. rename_ann = (Inr (d, 200), w1) \<and> w_db w2 = w_db w1 \<and>
     basic_get open_env (PStr ''p-1'') w2 = (Inr (r, 200), w3) \<and> dget r ''name'' = PStr ''Anna''"
proof -
  let ?b = "[(''name'', PStr ''Anna'')]"
  obtain d r0 r where run: "rename_ann = (Inr (d, 200), snd rename_ann)"
    and get0: "basic_get open_env (PStr ''p-1'') (people [ann, bob ''active'']) =
      (Inr (r0, 200), snd (basic_get open_env (PStr ''p-1'') (people [ann, bob ''active''])))"
    and get: "basic_get open_env (PStr ''p-1'') (people [anna, bob ''active'']) =
      (Inr (r, 200), snd (basic_get open_env (PStr ''p-1'') (people [anna, bob ''active''])))"
    using ann_renamed ann_read anna_read by blast
  have u: "unrelated open_env ''Person'' ?b" "distinct (map fst ?b)" "''name'' \<notin> adjusted"
    by (simp_all add: unrelated_def open_related service_keys_def computed_def filled_in_def adjusted_def dhas_Cons dhas_Nil)
  have "tells (r, 200) ''name'' (if ''p-1'' = ''p-1'' then dget_or ?b ''name'' (dget r0 ''name'') else dget r0 ''name'')"
    by (rule updated_record_is_read [OF open_store open_env_facts(2) open_env_facts(2) u(1,2) people_unique get0 refl run
        anna_stored get open_env_facts(3) open_env_facts(3) u(3)])
  then have "dget r ''name'' = PStr ''Anna''" by (simp add: dget_or_def tells_def)
  then show ?thesis using run anna_stored get by blast
qed

text \<open>C12: After a forced BasicCRUD.delete of a list of ids that answered 204, a get of any of these ids
  is answered 404, whoever asks.\<close>

lemma deleted_record_is_gone:
  assumes "record_store (e_db E) rows unique_ids" and "same_service E E' res m" and "unique_ids (w_db w)"
    and "basic_delete E (map PStr is) True w = (Inr (d, 204), w1)" and "w_db w2 = w_db w1"
    and "i \<in> set is" and "basic_get E' (PStr i) w2 = (Inr r, w3)"
  shows "snd r = 404"
  using record_store.delete_then_get [OF assms(1) refl assms(2-)] .

lemma deleted_record_is_gone_witness:
  "\<exists>d w1 w2 r w3. remove_bob True = (Inr (d, 204), w1) \<and> w_db w2 = w_db w1 \<and>
     basic_get open_env (PStr ''p-2'') w2 = (Inr r, w3) \<and> snd r = 404"
proof -
  obtain d r where run: "remove_bob True = (Inr (d, 204), snd (remove_bob True))"
    and get: "basic_get open_env (PStr ''p-2'') (people [ann]) = (Inr (r, 404), snd (basic_get open_env (PStr ''p-2'') (people [ann])))"
    using bob_removed bob_absent by blast
  have "snd (r, 404 :: nat) = 404"
    by (rule deleted_record_is_gone [OF open_store open_env_facts(2) people_unique run bob_gone _ get]) simp
  then show ?thesis using run bob_gone get by blast
qed

text \<open>C13: A BasicCRUD.delete without force only disables: gets before and after it find the same records
  and show the same in every column of every record of the resource, but the status of the ids in the
  list, which is disabled.\<close>

lemma disabled_record_keeps_rest:
  assumes "record_store (e_db E) rows unique_ids" and "same_service E E' res m" and "unique_ids (w_db w)"
    and "basic_delete E (map PStr is) False w = (Inr (d, 204), w1)" and "w_db w2 = w_db w1"
    and "basic_get E' (PStr i) w = (Inr (r0, 200), w')" and "basic_get E' (PStr i) w2 = (Inr r, w3)"
    and "shown_column E' m k"
  shows "tells r k (if i \<in> set is \<and> k = ''status'' then PStr ''disabled'' else dget r0 k)"
  using record_store.disable_then_get [OF assms(1) refl assms(2-)] .

lemma open_shows_status: "shown_column open_env ''Person'' ''status''"
  by (simp add: shown_column_def plain_column_def response_keys_def open_hybrid open_exclude open_related)

lemma disabled_record_keeps_rest_witness:
  "\<exists>d w1 w2 r w3. remove_bob False = (Inr (d, 204), w1) \<and> w_db w2 = w_db w1 \<and>
     basic_get open_env (PStr ''p-2'') w2 = (Inr (r, 200), w3) \<and> dget r ''status'' = PStr ''disabled''"
proof -
  obtain d r0 r where run: "remove_bob False = (Inr (d, 204), snd (remove_bob False))"
    and get0: "basic_get open_env (PStr ''p-2'') (people [ann, bob ''active'']) =
      (Inr (r0, 200), snd (basic_get open_env (PStr ''p-2'') (people [ann, bob ''active''])))"
    and get: "basic_get open_env (PStr ''p-2'') (people [ann, bob ''disabled'']) =
      (Inr (r, 200), snd (basic_get open_env (PStr ''p-2'') (people [ann, bob ''disabled''])))"
    using bob_disabled bob_read bob_off_read by blast
  have "tells (r, 200) ''status''
      (if ''p-2'' \<in> set [''p-2''] \<and> ''status'' = ''status'' then PStr ''disabled'' else dget r0 ''status'')"
    by (rule disabled_record_keeps_rest [OF open_store open_env_facts(2) people_unique run bob_off get0 get open_shows_status])
  then have "dget r ''status'' = PStr ''disabled''" by (simp add: tells_def)
  then show ?thesis using run bob_off get by blast
qed

end
