(* ===== verification/Routes.thy ===== *)
theory Routes imports Controllers Crud_Store begin

text \<open>
  The operations of the controllers that pass a request on: lists with their limit, accounts,
  sign-in, trashcan, metrics and health; and the table of controllers that the service keeps
  (\<open>state.controllers\<close>), which example/controllers fills when it starts.
\<close>

section \<open>Lists\<close>

text \<open>A list holds at most as many members as the grant \<open>list_size\<close> of the caller says.\<close>

definition list_limits :: "('d, 'r, 'c) env \<Rightarrow> (('d, 'r, 'c) world, (string \<times> pyval) list) py" where
  "list_limits E = bnd (grants_get E ''list_size'' PNone) (\<lambda>v. ret [(''members'', v)])"

definition list_create :: "('d, 'r, 'c) env \<Rightarrow> dict \<Rightarrow> (('d, 'r, 'c) world, resp) py" where
  "list_create E body =
     bnd (list_limits E) (\<lambda>limits. bnd (crud_create E body ''x-'' limits) (\<lambda>(retval, _). ret retval))"

definition list_update :: "('d, 'r, 'c) env \<Rightarrow> pyval \<Rightarrow> dict \<Rightarrow> (('d, 'r, 'c) world, resp) py" where
  "list_update E ident body = bnd (list_limits E) (\<lambda>limits. basic_update E ident body (CHR ''u'') limits)"

section \<open>Accounts and sign-in\<close>

definition account_create :: "('d, 'r, 'c) env \<Rightarrow> dict \<Rightarrow> (('d, 'r, 'c) world, resp) py" where
  "account_create E body = account_add E (text_or_empty (dget body ''identity'')) (dget body ''uid'')"

definition auth_callback ::
    "('d, 'r, 'c) env \<Rightarrow> oauth \<Rightarrow> string \<Rightarrow> string \<Rightarrow> (('d, 'r, 'c) world, login_result) py" where
  "auth_callback E oa meth code = oauth2_callback E oa meth code"

definition auth_auth_params :: "('d, 'r, 'c) env \<Rightarrow> (('d, 'r, 'c) world, resp) py" where
  "auth_auth_params E = auth_params E"

definition auth_totp_generate ::
    "('d, 'r, 'c) env \<Rightarrow> (string \<Rightarrow> pyval \<Rightarrow> string \<Rightarrow> string) \<Rightarrow> (('d, 'r, 'c) world, resp) py" where
  "auth_totp_generate E uri = totp_generate E uri"

definition auth_totp_register :: "('d, 'r, 'c) env \<Rightarrow> dict \<Rightarrow> (('d, 'r, 'c) world, resp \<times> pyval) py" where
  "auth_totp_register E body = totp_register E body"

definition auth_find :: "('d, 'r, 'c) env \<Rightarrow> (string \<Rightarrow> bool) \<Rightarrow> resp" where
  "auth_find E client = methods E client"

section \<open>Trashcan and metrics\<close>

definition trashcan_find :: "('d, 'r, 'c) env \<Rightarrow> dict \<Rightarrow> (('d, 'r, 'c) world, resp) py" where
  "trashcan_find E kwargs = trash_find E kwargs"

definition trashcan_get :: "('d, 'r, 'c) env \<Rightarrow> string \<Rightarrow> (('d, 'r, 'c) world, resp) py" where
  "trashcan_get E ident = trash_get E ident"

definition trashcan_update :: "('d, 'r, 'c) env \<Rightarrow> string \<Rightarrow> dict \<Rightarrow> (('d, 'r, 'c) world, resp) py" where
  "trashcan_update E ident body = trash_update E ident body"

definition trashcan_delete :: "('d, 'r, 'c) env \<Rightarrow> string list \<Rightarrow> (('d, 'r, 'c) world, resp) py" where
  "trashcan_delete E ids = trash_delete E ids"

definition metric_find :: "('d, 'r, 'c) env \<Rightarrow> procfs \<Rightarrow> dict \<Rightarrow> (('d, 'r, 'c) world, resp) py" where
  "metric_find E p kwargs = metrics_find E p PNone kwargs"

definition metric_collect ::
    "('d, 'r, 'c) env \<Rightarrow> procfs \<Rightarrow> dict \<Rightarrow> (('d, 'r, 'c) world, (resp + string \<times> nat)) py" where
  "metric_collect E p kwargs = metrics_collect E p PNone kwargs"

section \<open>The table of controllers\<close>

text \<open>
  How the constructor of a controller enters itself: \<open>super().__init__\<close> with the name of the resource
  (the model is called like it), with a model, or without one. The first entry of a resource stays,
  but that of the trashcan is replaced. The metrics keep no entry. A controller without a model has
  the empty string in its place.
\<close>

datatype controller_class = Named string | Modelled string string | Plain string | Replacing string | Unlisted string

fun class_resource :: "controller_class \<Rightarrow> string" where
  "class_resource (Named r) = r"
| "class_resource (Modelled r m) = r"
| "class_resource (Plain r) = r"
| "class_resource (Replacing r) = r"
| "class_resource (Unlisted r) = r"

text \<open>\<open>BasicCRUD.__init__\<close>.\<close>

definition crud_init ::
    "('d, 'r, 'c) env \<Rightarrow> string \<Rightarrow> string option \<Rightarrow> (string \<times> string) list \<Rightarrow> exc + (string \<times> string) list" where
  "crud_init E resource model tbl =
     (if resource \<in> fst ` set tbl then Inr tbl
      else case (case model of Some m \<Rightarrow> Inr m | None \<Rightarrow> models_attr E (capitalize resource)) of
        Inl e \<Rightarrow> Inl e
      | Inr m \<Rightarrow> Inr (tbl @ [(resource, m)]))"

fun class_init ::
    "('d, 'r, 'c) env \<Rightarrow> controller_class \<Rightarrow> (string \<times> string) list \<Rightarrow> exc + (string \<times> string) list" where
  "class_init E (Named r) tbl = crud_init E r None tbl"
| "class_init E (Modelled r m) tbl = (case models_attr E m of Inl e \<Rightarrow> Inl e | Inr m' \<Rightarrow> crud_init E r (Some m') tbl)"
| "class_init E (Plain r) tbl = Inr (if r \<in> fst ` set tbl then tbl else tbl @ [(r, [])])"
| "class_init E (Replacing r) tbl = Inr (AList.update r [] tbl)"
| "class_init E (Unlisted r) tbl = Inr tbl"

text \<open>\<open>resources\<close>: every controller is made once; the result is the list of their resources.\<close>

fun resources ::
    "('d, 'r, 'c) env \<Rightarrow> controller_class list \<Rightarrow> (string \<times> string) list \<Rightarrow> exc + (string list \<times> (string \<times> string) list)" where
  "resources E [] tbl = Inr ([], tbl)"
| "resources E (c # cs) tbl = (case class_init E c tbl of
       Inl e \<Rightarrow> Inl e
     | Inr tbl' \<Rightarrow> map_sum id (apfst ((#) (class_resource c))) (resources E cs tbl'))"

definition example_classes :: "controller_class list" where
  "example_classes = [Named ''account'', Modelled ''apikey'' ''APIkey'', Plain ''auth'', Named ''category'',
     Named ''contact'', Named ''credential'', Named ''grant'', Named ''list'', Named ''location'', Named ''message'',
     Unlisted ''metric'', Named ''person'', Named ''profile'', Named ''scope'', Named ''settings'',
     Replacing ''trashcan'', Named ''tz'']"

section \<open>The controllers that were made\<close>

text \<open>A controller that answers requests has a model of the service, or none at all.\<close>

definition with_models :: "('d, 'r, 'c) env \<Rightarrow> (string \<times> string) list \<Rightarrow> bool" where
  "with_models E tbl \<longleftrightarrow> (\<forall>e \<in> set tbl. snd e = [] \<or> snd e \<in> set (e_models E))"

lemma crud_init_models:
  "crud_init E r model tbl = Inr tbl' \<Longrightarrow> (\<And>m. model = Some m \<Longrightarrow> m \<in> set (e_models E)) \<Longrightarrow> with_models E tbl \<Longrightarrow>
   with_models E tbl'"
  by (auto simp: with_models_def crud_init_def models_attr_def split: if_splits option.splits)

lemma class_init_models: "class_init E c tbl = Inr tbl' \<Longrightarrow> with_models E tbl \<Longrightarrow> with_models E tbl'"
proof (cases c)
  case (Replacing r)
  have "\<forall>e \<in> set (AList.update r [] tbl). snd e = [] \<or> e \<in> set tbl" by (induction tbl) auto
  then show "class_init E c tbl = Inr tbl' \<Longrightarrow> with_models E tbl \<Longrightarrow> with_models E tbl'"
    using Replacing by (auto simp: with_models_def)
next
  case (Plain r)
  then show "class_init E c tbl = Inr tbl' \<Longrightarrow> with_models E tbl \<Longrightarrow> with_models E tbl'"
    by (auto simp: with_models_def split: if_splits)
qed (auto simp: models_attr_def split: if_splits dest: crud_init_models)

lemma resources_ConsE:
  assumes "resources E (c # cs) tbl = Inr (names, tbl')"
  obtains tbl1 ns where "class_init E c tbl = Inr tbl1" and "resources E cs tbl1 = Inr (ns, tbl')" and "names = class_resource c # ns"
proof -
  obtain tbl1 where c: "class_init E c tbl = Inr tbl1" using assms by (auto split: sum.splits)
  then show ?thesis using assms that by (cases "resources E cs tbl1") auto
qed

lemma resources_models:
  assumes "resources E cs tbl = Inr (names, tbl')" and "with_models E tbl"
  shows "with_models E tbl'"
  using assms
proof (induction cs arbitrary: tbl names)
  case (Cons c cs)
  show ?case by (rule resources_ConsE [OF Cons.prems(1)]) (use Cons.IH class_init_models Cons.prems(2) in blast)
qed simp

lemma resources_names: "resources E cs tbl = Inr (names, tbl') \<Longrightarrow> names = map class_resource cs"
proof (induction cs arbitrary: tbl names)
  case (Cons c cs)
  show ?case by (rule resources_ConsE [OF Cons.prems]) (use Cons.IH in auto)
qed simp

lemma example_controllers:
  "resources mem_env example_classes [] = Inr (map class_resource example_classes,
     [(''account'', ''Account''), (''apikey'', ''APIkey''), (''auth'', []), (''category'', ''Category''),
      (''contact'', ''Contact''), (''credential'', ''Credential''), (''grant'', ''Grant''), (''list'', ''List''),
      (''location'', ''Location''), (''message'', ''Message''), (''person'', ''Person''), (''profile'', ''Profile''),
      (''scope'', ''Scope''), (''settings'', ''Settings''), (''trashcan'', []), (''tz'', ''Tz'')])"
  by code_simp

section \<open>The size of a list\<close>

lemma take_related_fits:
  assumes "take_related limits as b = Inr (True, b')" and "a \<in> set as" and "dhas b a"
    and "map_of limits a = Some v" and "elements (dget b a) = Inr xs"
  shows "longer xs v = Inr False"
  using assms
proof (induction as arbitrary: b)
  case (Cons a' as)
  show ?case
  proof (cases "a' = a")
    case True
    then show ?thesis using Cons.prems by (auto split: sum.splits if_splits)
  next
    case False
    then have "take_related limits as (ddel b a') = Inr (True, b')"
      using Cons.prems(1) by (auto split: option.splits sum.splits if_splits)
    then show ?thesis using Cons.IH [of "ddel b a'"] Cons.prems False by (auto simp: dict_simps)
  qed
qed simp

lemma create_row_fits:
  assumes "a \<in> set (case e_related E m of None \<Rightarrow> [] | Some as \<Rightarrow> as)" and "dhas b a"
    and "map_of limits a = Some v" and "elements (dget b a) = Inr xs"
  shows "yields (\<lambda>r. snd (fst r) = 201 \<longrightarrow> longer xs v = Inr False) (create_row E res m i limits b)"
  unfolding create_row_def Let_def
  by (rule yields_then [where Q = "\<lambda>(fits, b'). fits \<longrightarrow> longer xs v = Inr False"])
    (auto simp: msg_resp_def dest: take_related_fits [OF _ assms] intro!: yields_intros yields_of_result)

lemma taken_kept: "taken_over b b' \<Longrightarrow> taken b a \<Longrightarrow> dhas b' a \<and> dget b' a = dget b a"
  by (simp add: taken_over_def)

lemma create_allowed_fits:
  assumes a: "a \<in> set (case e_related E m of None \<Rightarrow> [] | Some as \<Rightarrow> as)" "taken b a"
    and xs: "map_of limits a = Some v" "elements (dget b a) = Inr xs"
  shows "yields (\<lambda>r. snd (fst r) = 201 \<longrightarrow> longer xs v = Inr False) (create_allowed E res m acc i limits b)"
proof -
  have row: "yields (\<lambda>r. snd (fst r) = 201 \<longrightarrow> longer xs v = Inr False) (create_row E res m i limits b')"
    if "taken_over b b'" for b'
    using taken_kept [OF that a(2)] xs by (intro create_row_fits [OF a(1)]) auto
  have st: "taken_over b (if h then dset b' ''status'' (dget_or b' ''status'' x) else b')" if "taken_over b b'" for b' x h
    using taken_trans [OF that taken_status] that by simp
  show ?thesis unfolding create_allowed_def Let_def
    by (rule yields_then [OF taken_category]) (auto simp: msg_resp_def intro!: yields_intros row st)
qed

lemma crud_create_fits:
  assumes c: "controller E = Inr (res, m)" and res: "res \<noteq> ''contact''"
    and a: "a \<in> set (case e_related E m of None \<Rightarrow> [] | Some as \<Rightarrow> as)" "taken b a"
    and xs: "map_of limits a = Some v" "elements (dget b a) = Inr xs"
  shows "yields (\<lambda>r. snd (fst r) = 201 \<longrightarrow> longer xs v = Inr False) (crud_create E b id_prefix limits)"
proof -
  have allowed: "yields (\<lambda>r. snd (fst r) = 201 \<longrightarrow> longer xs v = Inr False) (create_allowed E res m acc i limits b')"
    if "taken_over (dset (dset b ''id'' (PStr i)) ''created'' t) b'" "\<not> dhas b ''id''" for acc i b' t
  proof -
    have t: "taken_over b b'" using taken_trans [OF taken_stamp [OF that(2)] that(1)] .
    from taken_kept [OF t a(2)] have "dget b' a = dget b a" by simp
    moreover have "taken b' a" using a(2) taken_kept [OF t a(2)] by (auto simp: taken_def)
    ultimately show ?thesis using xs by (intro create_allowed_fits [OF a(1)]) auto
  qed
  have owner: "taken_over b1 (if h \<and> \<not> truthy (dget b2 ''uid'') then dset b2 ''uid'' x else b2)" if "taken_over b1 b2" for b1 b2 h x
    using taken_trans [OF that taken_dset [of "''uid''" b2 x]] that by (simp add: filled_in_def)
  show ?thesis unfolding crud_create_def c bnd_of_Inr prod.case Let_def
    using res by (auto simp: bad_id_def msg_resp_def dest!: taken_expires intro!: yields_intros allowed owner)
qed

lemma update_related_fits:
  assumes "elements ids = Inr xs"
  shows "yields (\<lambda>r. snd r = 200 \<longrightarrow> truthy v \<longrightarrow> longer xs v = Inr False) (update_related E m ident a ids (Some v))"
  unfolding update_related_def
  by (rule yields_then [where Q = "\<lambda>over. truthy v \<longrightarrow> longer xs v = Inr over"])
    (auto simp: assms Let_def intro!: yields_intros yields_of_result)

lemma yields_mono: "yields P m \<Longrightarrow> (\<And>x. P x \<Longrightarrow> Q x) \<Longrightarrow> yields Q m"
  by (simp add: yields_def)

lemma relate_all_fits:
  assumes "a \<in> set as" and "dhas b a" and "map_of limits a = Some v" and "elements (dget b a) = Inr xs" and "truthy v"
  shows "yields (\<lambda>r. case r of Inl response \<Rightarrow> snd response \<noteq> 200 | Inr _ \<Rightarrow> longer xs v = Inr False) (relate_all E m ident limits as b)"
  using assms
proof (induction as arbitrary: b)
  case (Cons a' as)
  show ?case
  proof (cases "a' = a")
    case True
    have stop: "yields (\<lambda>r. case r of Inl response \<Rightarrow> snd response \<noteq> 200 | Inr _ \<Rightarrow> True) (relate_all E m ident limits as b')" for b'
      by (induction as arbitrary: b') (auto intro!: yields_intros)
    have rest: "yields (\<lambda>r. case r of Inl response \<Rightarrow> snd response \<noteq> 200 | Inr _ \<Rightarrow> longer xs v = Inr False) (relate_all E m ident limits as b')"
      if fits: "longer xs v = Inr False" for b'
      by (rule yields_mono [OF stop]) (use fits in \<open>auto split: sum.splits\<close>)
    have "yields (\<lambda>r. snd r = 200 \<longrightarrow> longer xs v = Inr False) (update_related E m ident a (dget b a) (Some v))"
      using update_related_fits [OF Cons.prems(4), of v E m ident a] Cons.prems(5) by simp
    then have "yields (\<lambda>r. case r of Inl response \<Rightarrow> snd response \<noteq> 200 | Inr _ \<Rightarrow> longer xs v = Inr False)
      (bnd (update_related E m ident a (dget b a) (Some v)) (\<lambda>response.
        if snd response \<noteq> 200 then ret (Inl response) else relate_all E m ident limits as (ddel b a)))"
      by (rule yields_then) (rule yields_if, rule yields_ret, simp, rule rest, simp)
    then show ?thesis using True Cons.prems by simp
  next
    case False
    then show ?thesis using Cons by (auto simp: dict_simps intro!: yields_intros)
  qed
qed simp

lemma update_keeps_entry:
  assumes "convert_expires (dset b ''modified'' t) = Inr b'" and "a \<notin> adjusted"
  shows "dhas (update_totp b') a = dhas b a" "dget (update_totp b') a = dget b a"
  using assms by (auto simp: adjusted_def update_totp_def convert_expires_def dict_simps split: if_splits pyval.splits sum.splits)

lemma basic_update_fits:
  assumes c: "controller E = Inr (res, m)" and a: "a \<in> set (case e_related E m of None \<Rightarrow> [] | Some as \<Rightarrow> as)" "a \<notin> adjusted"
    and xs: "dhas b a" "map_of limits a = Some v" "elements (dget b a) = Inr xs" "truthy v"
  shows "yields (\<lambda>r. snd r = 200 \<longrightarrow> longer xs v = Inr False) (basic_update E ident b act limits)"
proof -
  have tail: "yields (\<lambda>r. snd r = 200 \<longrightarrow> longer xs v = Inr False)
      (bnd (relate_all E m ident limits (case e_related E m of None \<Rightarrow> [] | Some as \<Rightarrow> as) (update_totp b')) (\<lambda>r. case r of
         Inl response \<Rightarrow> ret response
       | Inr body \<Rightarrow> bnd (access_control E None) (\<lambda>_. update_row E m ident body act)))"
    if "convert_expires (dset b ''modified'' (PTime t)) = Inr b'" for b' t
  proof (rule yields_then [OF relate_all_fits [OF a(1) _ xs(2) _ xs(4)]])
    show "dhas (update_totp b') a" "elements (dget (update_totp b') a) = Inr xs"
      using update_keeps_entry [OF that a(2)] xs by simp_all
    show "yields (\<lambda>r. snd r = 200 \<longrightarrow> longer xs v = Inr False) (case r of
         Inl response \<Rightarrow> ret response
       | Inr body \<Rightarrow> bnd (access_control E None) (\<lambda>_. update_row E m ident body act))"
      if "case r of Inl response \<Rightarrow> snd response \<noteq> 200 | Inr _ \<Rightarrow> longer xs v = Inr False" for r :: "resp + dict"
      using that by (cases r) (auto simp: yields_def py_simps)
  qed
  show ?thesis unfolding basic_update_def c bnd_of_Inr prod.case
    by (auto simp: bad_id_def msg_resp_def intro!: yields_intros tail)
qed

text \<open>A limit of zero is no limit for an update.\<close>

lemma relate_all_zero: "relate_all E m ident [(''members'', PInt 0)] as b = relate_all E m ident [] as b"
proof (induction as arbitrary: b)
  case (Cons a as)
  have "update_related E m ident a' ids (Some (PInt 0)) = update_related E m ident a' ids None" for a' ids
    by (simp add: update_related_def)
  then show ?case using Cons by (simp cong: if_cong)
qed simp

lemma zero_list_size_unlimited:
  "grants_get E ''list_size'' PNone w = (Inr (PInt 0), v) \<Longrightarrow>
   list_update E ident body w = basic_update E ident body (CHR ''u'') [] v"
  unfolding basic_update_def relate_all_zero [symmetric]
  by (simp add: list_update_def list_limits_def py_simps basic_update_def)

section \<open>Properties\<close>

lemma members_kept: "dhas b ''members'' \<Longrightarrow> taken b ''members''" "''members'' \<notin> adjusted"
  by (simp_all add: taken_def computed_def filled_in_def adjusted_def)

text \<open>C28: A list never gets more members than the grant list_size of the caller: whenever
  ListController.create answers 201, or update answers 200 and the grant is not zero, the body names
  at most that many members. (With a grant of zero update checks nothing, which lemma
  zero_list_size_unlimited shows.)\<close>

lemma list_size_kept:
  assumes c: "controller E = Inr (res, m)" "res \<noteq> ''contact''" and a: "e_related E m = Some as" "''members'' \<in> set as"
    and grant: "grants_get E ''list_size'' PNone w = (Inr (PInt n), v)"
    and body: "dhas body ''members''" "elements (dget body ''members'') = Inr xs"
    and run: "list_create E body w = (Inr (d, 201), w1) \<or> n \<noteq> 0 \<and> list_update E ident body w = (Inr (d, 200), w1)"
  shows "int (length xs) \<le> n"
proof -
  let ?limits = "[(''members'', PInt n)]"
  have as: "''members'' \<in> set (case e_related E m of None \<Rightarrow> [] | Some as \<Rightarrow> as)" using a by simp
  have "longer xs (PInt n) = Inr False" if made: "list_create E body w = (Inr (d, 201), w1)"
  proof -
    obtain b where "crud_create E body ''x-'' ?limits v = (Inr ((d, 201), b), w1)"
      using made grant by (auto simp: list_create_def list_limits_def py_simps split: prod.splits sum.splits)
    from yieldsD [OF crud_create_fits [OF c as members_kept(1) [OF body(1)] _ body(2)] this] show ?thesis by simp
  qed
  moreover have "longer xs (PInt n) = Inr False" if "n \<noteq> 0" "list_update E ident body w = (Inr (d, 200), w1)"
  proof -
    have "basic_update E ident body (CHR ''u'') ?limits v = (Inr (d, 200), w1)"
      using that grant by (simp add: list_update_def list_limits_def py_simps)
    from yieldsD [OF basic_update_fits [OF c(1) as members_kept(2) body(1) _ body(2)] this] show ?thesis
      using that(1) by simp
  qed
  ultimately show ?thesis using run by (auto simp: longer_def)
qed

definition list_env :: "(mdb, mredis, mcache) env" where
  "list_env = (example_env ''/api/v1/list'')\<lparr>e_policies := [(''list'', [pol ''.*'' ''list:.*'' ''cdru''])],
     e_cfg := mem_config\<lparr>cf_DEFAULT_GRANTS := [(''list_size'', PInt 2)]\<rparr>\<rparr>"

lemma list_env_table: "controller list_env = Inr (''list'', ''List'')"
  by code_simp

lemma list_env_related: "e_related list_env ''List'' = Some [''members'']"
  by code_simp

lemma list_env_grant: "fst (grants_get list_env ''list_size'' PNone (mem_world one_list)) = Inr (PInt 2)"
  by code_simp

lemma list_stored: "\<exists>d. list_update list_env (PStr ''x-9'') [(''members'', PList [PStr ''p-1''])] (mem_world one_list) =
    (Inr (d, 200), snd (list_update list_env (PStr ''x-9'') [(''members'', PList [PStr ''p-1''])] (mem_world one_list)))"
  by (rule answered) code_simp

lemma list_size_kept_witness:
  "\<exists>d w1. list_update list_env (PStr ''x-9'') [(''members'', PList [PStr ''p-1''])] (mem_world one_list) = (Inr (d, 200), w1) \<and>
     int (length [PStr ''p-1'']) \<le> 2"
proof -
  let ?b = "[(''members'', PList [PStr ''p-1''])]"
  obtain d w1 where run: "list_update list_env (PStr ''x-9'') ?b (mem_world one_list) = (Inr (d, 200), w1)"
    using list_stored by blast
  obtain v where g: "grants_get list_env ''list_size'' PNone (mem_world one_list) = (Inr (PInt 2), v)"
    using list_env_grant by (metis prod.collapse)
  have "int (length [PStr ''p-1'']) \<le> 2"
    by (rule list_size_kept [OF list_env_table _ list_env_related _ g, of ?b])
      (use run in \<open>auto simp: dhas_Cons dget_Cons elements_def\<close>)
  then show ?thesis using run by blast
qed

text \<open>What \<open>AccessControl\<close> knows of a caller without a session.\<close>

definition nobody :: "('d, 'r, 'c) env \<Rightarrow> string option \<Rightarrow> access" where
  "nobody E m = \<lparr>ac_model = m, ac_auth = None, ac_uid = PNone, ac_account_id = PNone, ac_method = PNone,
     ac_identity = PNone, ac_apikey_id = None, ac_primary = fst (hd (e_private E)), ac_auth_ids = []\<rparr>"

text \<open>C8: Logging out ends the session: after AuthController.logout with some credentials, every later
  request with the same credentials is that of a caller without a session (AccessControl knows no
  roles, no user and no account), as long as nobody logs in on the same redis key in between. Over
  every redis that keeps the contract.\<close>

lemma logout_ends_session:
  assumes "redis_contract (e_redis E) view" and "rq_authorization (e_req E) = Some (u, t)"
    and run: "auth_logout E w = (Inr r, w1)" and "w_now w \<le> w_now w2"
    and key: "view (w_now w2) (w_redis w2) (ses_key None (PStr u) t) = view (w_now w2) (w_redis w1) (ses_key None (PStr u) t)"
    and E': "e_redis E' = e_redis E" "rq_authorization (e_req E') = Some (u, t)"
      "map_of (rq_headers (e_req E')) (cf_HEADER_AUTH_APIKEY (e_cfg E')) = None"
  shows "access_control E' m w2 = (Inr (nobody E' m), w2)"
proof -
  let ?k = "ses_key None (PStr u) t"
  note laws = redis_contract.get_view [OF assms(1)] redis_contract.delete_result [OF assms(1)] redis_contract.delete_same [OF assms(1)]
  have "w_redis w1 = snd (rd_delete (e_redis E) ?k (w_now w) (w_redis w))"
    using run assms(2) by (auto simp: auth_logout_def session_delete_def py_simps laws(2))
  then have "view (w_now w2) (w_redis w2) ?k = None" using key laws(3) assms(4) by simp
  then have "session_get E' (PStr u) t None w2 = (Inr None, w2)"
    by (simp add: session_get_def py_simps E' laws(1) session_data_def)
  then show ?thesis
    by (simp add: access_control_def credentials_def E' session_get_arg_def py_simps nobody_def Let_def)
qed

lemma logout_ends_session_witness:
  "access_control (user_env ''/api/v1/auth'') None (logged_in []) = (Inr (user_access None), logged_in []) \<and>
   (let w1 = snd (auth_logout (user_env ''/api/v1/auth'') (logged_in []))
    in access_control (user_env ''/api/v1/auth'') None w1 = (Inr (nobody (user_env ''/api/v1/auth'') None), w1))"
proof -
  let ?E = "user_env ''/api/v1/auth''"
  obtain r w1 where run: "auth_logout ?E (logged_in []) = (Inr r, w1)" and now: "w_now w1 = w_now (logged_in [])"
    by (auto simp: auth_logout_def session_delete_def py_simps memory.delete_result)
  have "access_control ?E None w1 = (Inr (nobody ?E None), w1)"
    by (rule logout_ends_session [OF _ _ run]) (use memory.redis_contract_axioms now in \<open>simp_all add: mem_config_def\<close>)
  then show ?thesis using run user_access_control [of "logged_in []" "[]"] by (simp add: logged_in_world)
qed

end
