(* ===== verification/Startup.thy ===== *)
theory Startup imports Routes Lifecycle Registry_Refresh Service_Config begin

text \<open>
  The start of a process: \<open>app\<close> and \<open>worker\<close> of apicrud/initialize.py, the initialisation of the LDAP
  and OAuth2 clients (auth/ldap_func.py, auth/oauth2_func.py), and alembic/env.py. Connexion, flask,
  ldap3, authlib and alembic are parameters.
\<close>

section \<open>The directory\<close>

text \<open>\<open>LDAPServerPool\<close> with its servers (URL and port), and the connection, if one was opened.\<close>

record ldap_pool =
  lp_strategy :: pyval
  lp_active :: pyval
  lp_exhaust :: pyval
  lp_servers :: "(string \<times> pyval) list"

record 'l ldap_state =
  ld_pool :: "ldap_pool option"
  ld_conn :: "'l option"

text \<open>
  \<open>connect\<close> stands for \<open>LDAPConnection\<close> with \<open>auto_bind\<close>: the pool, the user, the password and the way
  to authenticate.
\<close>

definition ldap_server :: "dict \<Rightarrow> pyval \<Rightarrow> exc + (string \<times> pyval)" where
  "ldap_server params name = (case dsub params ''scheme'' of
       Inl e \<Rightarrow> Inl e
     | Inr scheme \<Rightarrow> (case dsub params ''port'' of
         Inl e \<Rightarrow> Inl e
       | Inr port \<Rightarrow> Inr (py_str scheme @ ''://'' @ py_str name, port)))"

fun ldap_servers :: "dict \<Rightarrow> pyval list \<Rightarrow> exc + (string \<times> pyval) list" where
  "ldap_servers params [] = Inr []"
| "ldap_servers params (n # ns) = (case ldap_server params n of
       Inl e \<Rightarrow> Inl e
     | Inr s \<Rightarrow> map_sum id ((#) s) (ldap_servers params ns))"

text \<open>The pool is made with the strategy in the place of \<open>pool_exhaust\<close>.\<close>

definition ldap_make_pool :: "dict \<Rightarrow> exc + ldap_pool" where
  "ldap_make_pool params = (case dsub params ''pool_strategy'' of
       Inl e \<Rightarrow> Inl e
     | Inr strategy \<Rightarrow> (case dsub params ''pool_active'' of
         Inl e \<Rightarrow> Inl e
       | Inr active \<Rightarrow> Inr \<lparr>lp_strategy = strategy, lp_active = active, lp_exhaust = strategy, lp_servers = []\<rparr>))"

definition ldap_connect ::
    "dict \<Rightarrow> pyval \<Rightarrow> (ldap_pool \<Rightarrow> pyval \<Rightarrow> pyval \<Rightarrow> pyval \<Rightarrow> exc + 'l) \<Rightarrow> ldap_pool \<Rightarrow> 'l ldap_state \<Rightarrow> 'l ldap_state" where
  "ldap_connect params password connect pool st = (case dsub params ''bind_dn'' of
       Inl e \<Rightarrow> st
     | Inr dn \<Rightarrow> if \<not> truthy dn then st
         else (case dsub params ''authentication'' of
           Inl e \<Rightarrow> st
         | Inr auth \<Rightarrow> (case connect pool dn password auth of Inl e \<Rightarrow> st | Inr c \<Rightarrow> st\<lparr>ld_conn := Some c\<rparr>)))"

definition ldap_init ::
    "dict \<Rightarrow> pyval \<Rightarrow> (ldap_pool \<Rightarrow> pyval \<Rightarrow> pyval \<Rightarrow> pyval \<Rightarrow> exc + 'l) \<Rightarrow> 'l ldap_state \<Rightarrow> exc + 'l ldap_state" where
  "ldap_init params password connect st = (case dsub params ''servers'' of
       Inl e \<Rightarrow> Inl e
     | Inr servers \<Rightarrow> if \<not> truthy servers then Inr st
         else (case ldap_make_pool params of
           Inl e \<Rightarrow> Inl e
         | Inr pool \<Rightarrow> (case elements servers of
             Inl e \<Rightarrow> Inl e
           | Inr names \<Rightarrow> (case ldap_servers params names of
               Inl e \<Rightarrow> Inl e
             | Inr ss \<Rightarrow> let full = pool\<lparr>lp_servers := ss\<rparr>
                 in Inr (ldap_connect params password connect full (st\<lparr>ld_pool := Some full\<rparr>))))))"

section \<open>External providers\<close>

text \<open>A provider that authlib knows: name, id and secret of the client, and the configured arguments.\<close>

record provider =
  pv_name :: string
  pv_client_id :: string
  pv_client_secret :: "string option"
  pv_args :: dict

definition client_var :: "string \<Rightarrow> string \<Rightarrow> string" where
  "client_var p what = str_upper p @ ''_CLIENT_'' @ what"

definition oauth2_init :: "cfg_env \<Rightarrow> (string \<times> dict) list \<Rightarrow> provider list" where
  "oauth2_init env params = concat (map (\<lambda>(p, args).
     case map_of env (client_var p ''ID'') of
       None \<Rightarrow> []
     | Some cid \<Rightarrow> if cid = [] then []
         else [\<lparr>pv_name = p, pv_client_id = cid, pv_client_secret = map_of env (client_var p ''SECRET''), pv_args = args\<rparr>])
     params)"

text \<open>The test that \<open>SessionAuth.methods\<close> makes for each provider.\<close>

definition has_client :: "cfg_env \<Rightarrow> string \<Rightarrow> bool" where
  "has_client env p \<longleftrightarrow> (case map_of env (client_var p ''ID'') of None \<Rightarrow> False | Some cid \<Rightarrow> cid \<noteq> [])"

section \<open>The service\<close>

text \<open>What a process is started with, and what has been set up when it serves.\<close>

record ('d, 'l) launch =
  la_config :: "exc + service_config"
  la_apis :: "exc + unit"
  la_registry :: registry_config
  la_resolve :: "string \<Rightarrow> string option"
  la_print_time :: "int \<Rightarrow> string"
  la_host :: string
  la_classes :: "controller_class list"
  la_database :: "'d dbserver"
  la_dbconfig :: dbconfig
  la_db_url :: "string option"
  la_rbac :: "exc + rbac_file"
  la_methods :: "string list"
  la_ldap :: dict
  la_ldap_password :: pyval
  la_connect :: "ldap_pool \<Rightarrow> pyval \<Rightarrow> pyval \<Rightarrow> pyval \<Rightarrow> exc + 'l"
  la_environ :: cfg_env
  la_providers :: "(string \<times> dict) list"

record 'l service_state =
  ss_config :: service_config
  ss_controllers :: "(string \<times> string) list"
  ss_registry :: registry_process
  ss_policies :: "(string \<times> policy list) list"
  ss_ldap :: "'l ldap_state"
  ss_providers :: "provider list"

definition announce ::
    "('d, 'r, 'c) env \<Rightarrow> ('d, 'l) launch \<Rightarrow> string list \<Rightarrow> registry_process \<Rightarrow> (('d, 'r, 'c) world, registry_process) py" where
  "announce E L endpoints p = (case registry_open E (la_registry L) None None False None p of
     (url, q) \<Rightarrow> registry_register E (la_registry L) (la_resolve L) (la_print_time L) url endpoints None (la_host L) None q)"

definition load_rules :: "('d, 'l) launch \<Rightarrow> exc + (string \<times> policy list) list" where
  "load_rules L = (case la_rbac L of Inl e \<Rightarrow> Inl e | Inr f \<Rightarrow> load_rbac f)"

definition init_clients ::
    "('d, 'l) launch \<Rightarrow> 'l service_state \<Rightarrow> exc + 'l service_state" where
  "init_clients L s = (case (if ''ldap'' \<in> set (la_methods L)
         then ldap_init (la_ldap L) (la_ldap_password L) (la_connect L) (ss_ldap s) else Inr (ss_ldap s)) of
       Inl e \<Rightarrow> Inl e
     | Inr d \<Rightarrow> Inr (s\<lparr>ss_ldap := d, ss_providers := (if la_providers L \<noteq> []
         then oauth2_init (la_environ L) (la_providers L) else ss_providers s)\<rparr>))"

definition app ::
    "('d, 'r, 'c) env \<Rightarrow> ('d, 'l) launch \<Rightarrow> 'l service_state \<Rightarrow> (('d, 'r, 'c) world, 'l service_state) may" where
  "app E L s =
     and_then (runs (of_result (la_config L))) (\<lambda>config.
     and_then (runs (of_result (la_apis L))) (\<lambda>_.
     and_then (runs (of_result (resources E (la_classes L) (ss_controllers s)))) (\<lambda>(endpoints, tbl).
     and_then (runs (announce E L endpoints (ss_registry s))) (\<lambda>p.
     and_then (initialize_db E (la_database L) (la_dbconfig L) None (la_db_url L) None) (\<lambda>ready.
     and_then (if ready then runs (bnd (gets w_now) (\<lambda>t.
         bnd (metrics_store E PNone ''api_start_timestamp'' [] (PInt (t div 1000000))) (\<lambda>_. ret ())))
       else runs (ret ())) (\<lambda>_.
     and_then (runs (of_result (load_rules L))) (\<lambda>rules.
     runs (of_result (init_clients L
       (s\<lparr>ss_config := config, ss_controllers := tbl, ss_registry := p, ss_policies := rules\<rparr>))))))))))"

text \<open>A worker only loads the configuration; the metrics remember how to send notifications.\<close>

definition worker :: "('d, 'l) launch \<Rightarrow> 'l service_state \<Rightarrow> exc + 'l service_state" where
  "worker L s = map_sum id (\<lambda>config. s\<lparr>ss_config := config\<rparr>) (la_config L)"

section \<open>The environment of alembic\<close>

text \<open>
  What alembic is given: the URL, whether it alters tables by copying them, the table with its version
  and which objects (kind and schema) it compares when it generates a migration.
\<close>

record migration_context =
  mc_url :: string
  mc_batch :: bool
  mc_version_table :: string
  mc_include :: "string \<Rightarrow> string option \<Rightarrow> bool"

definition migration_url :: "cfg_env \<Rightarrow> string" where
  "migration_url env = environ env ''DB_URL'' ''sqlite:////tmp/apicrud.db''"

definition include_object :: "string \<Rightarrow> string option \<Rightarrow> string \<Rightarrow> bool" where
  "include_object kind obj_schema schema = (\<not> (kind = ''table'' \<and> obj_schema \<noteq> Some schema))"

definition run_migrations_offline :: "exc + 'a" where
  "run_migrations_offline = Inl (Exc EOther ''AssertionError: Function not supported'')"

text \<open>\<open>run\<close> stands for \<open>run_migrations\<close> in a transaction on a connection to the URL.\<close>

definition run_migrations_online ::
    "(migration_context \<Rightarrow> exc + 'a) \<Rightarrow> cfg_env \<Rightarrow> string \<Rightarrow> exc + 'a" where
  "run_migrations_online run env schema = run
     \<lparr>mc_url = migration_url env, mc_batch = True, mc_version_table = ''alembic_version_'' @ schema,
      mc_include = (\<lambda>kind obj_schema. include_object kind obj_schema schema)\<rparr>"

definition env_core :: "bool \<Rightarrow> (migration_context \<Rightarrow> exc + 'a) \<Rightarrow> cfg_env \<Rightarrow> exc + 'a" where
  "env_core offline run env = (if offline then run_migrations_offline else run_migrations_online run env ''apicrud'')"

definition env_main :: "bool \<Rightarrow> (migration_context \<Rightarrow> exc + 'a) \<Rightarrow> cfg_env \<Rightarrow> exc + 'a" where
  "env_main offline run env = (if offline then run_migrations_offline else run_migrations_online run env ''main'')"

section \<open>Health\<close>

text \<open>\<open>HealthController.get\<close> of the example: name of the application and the service, and its build.\<close>

record app_version =
  av_vcs_ref :: pyval
  av_build_date :: pyval
  av_version :: pyval

definition health_get ::
    "('d, 'r, 'c) env \<Rightarrow> string \<Rightarrow> string \<Rightarrow> app_version \<Rightarrow> string \<Rightarrow> (('d, 'r, 'c) world, resp) py" where
  "health_get E app_name service_name v apicrud = healthcheck E
     \<lparr>bi_app_name = app_name, bi_service_name = service_name, bi_model = Some ''AlembicVersionMain'',
      bi_release_id = av_vcs_ref v, bi_build_date = av_build_date v, bi_version = av_version v, bi_apicrud = apicrud\<rparr>"

section \<open>What has been set up\<close>

lemma oauth2_init_names: "map pv_name (oauth2_init env params) = filter (has_client env) (map fst params)"
  by (induction params) (auto simp: oauth2_init_def has_client_def split: option.splits)

text \<open>The providers that the login screen offers are those that were registered, in their places.\<close>

lemma offered_providers:
  assumes "cf_AUTH_PARAMS (e_cfg E) = map fst (la_providers L)" and "init_clients L s = Inr s'" and "la_providers L \<noteq> []"
  shows "dget (fst (auth_find E (has_client (la_environ L)))) ''items'' =
    PList (map PStr (concat (map (\<lambda>m. if m = ''oauth2'' then map pv_name (ss_providers s') else [m]) (cf_AUTH_METHODS (e_cfg E)))))"
proof -
  have "ss_providers s' = oauth2_init (la_environ L) (la_providers L)"
    using assms(2,3) by (auto simp: init_clients_def split: sum.splits)
  then show ?thesis using assms(1) by (simp add: auth_find_def methods_def Let_def oauth2_init_names dget_Cons cong: if_cong)
qed

lemma and_thenE:
  assumes "and_then m f w = Some (Inr y, w')"
  obtains x v where "m w = Some (Inr x, v)" and "f x v = Some (Inr y, w')"
  using assms by (auto simp: and_then_def split: option.splits prod.splits sum.splits)

text \<open>
  A service that has started: the policies are those of the file, the controllers those of the
  classes, each with a model or with none, and the entry in the registry names them all and is about
  to be refreshed.
\<close>

definition serving :: "('d, 'r, 'c) env \<Rightarrow> ('d, 'l) launch \<Rightarrow> 'l service_state \<Rightarrow> bool" where
  "serving E L s \<longleftrightarrow> load_rules L = Inr (ss_policies s) \<and> la_config L = Inr (ss_config s) \<and>
     with_models E (ss_controllers s) \<and> pr_due (ss_registry s) \<noteq> [] \<and>
     (\<exists>sd. pr_data (ss_registry s) = Some sd \<and> dget (sd_info sd) ''endpoints'' = PList (map (PStr \<circ> class_resource) (la_classes L)))"

lemma announced:
  assumes "announce E L endpoints p w = (Inr q, w')"
  shows "pr_due q \<noteq> [] \<and> (\<exists>sd. pr_data q = Some sd \<and> dget (sd_info sd) ''endpoints'' = PList (map PStr endpoints))"
  using assms by (auto simp: announce_def registry_open_def registry_register_def registry_entry_def py_simps Let_def dget_Cons
      split: prod.splits sum.splits if_splits)

lemma app_serves:
  assumes "app E L s w = Some (Inr s', w')" and "ss_controllers s = []"
  shows "serving E L s'"
proof -
  obtain config endpoints tbl p rules v where config: "la_config L = Inr config"
    and tbl: "resources E (la_classes L) [] = Inr (endpoints, tbl)"
    and p: "announce E L endpoints (ss_registry s) w = (Inr p, v)" and rules: "load_rules L = Inr rules"
    and s': "init_clients L (s\<lparr>ss_config := config, ss_controllers := tbl, ss_registry := p, ss_policies := rules\<rparr>) = Inr s'"
    using assms by (auto simp: app_def runs_def py_simps elim!: and_thenE split: prod.splits)
  have "with_models E tbl" using resources_models [OF tbl] by (simp add: with_models_def)
  moreover have "endpoints = map class_resource (la_classes L)" by (rule resources_names [OF tbl])
  ultimately show ?thesis using announced [OF p] config rules s'
    by (auto simp: serving_def init_clients_def split: sum.splits)
qed

text \<open>The number of rounds that a pool waits for a dead server cannot be configured.\<close>

lemma pool_exhaust_ignored:
  "ldap_make_pool (dset params ''pool_exhaust'' v) = ldap_make_pool params"
  by (simp add: ldap_make_pool_def dict_simps cong: sum.case_cong)

text \<open>A directory that cannot be reached does not stop the service.\<close>

lemma ldap_down:
  assumes "ldap_init params password connect st = Inr st'"
    and "\<And>pool user auth. \<exists>e. connect pool user password auth = Inl e"
  shows "ld_conn st' = ld_conn st"
proof -
  have "ld_conn (ldap_connect params password connect pool s) = ld_conn s" for pool s
  proof (cases "dsub params ''bind_dn''")
    case (Inr dn)
    then show ?thesis
      using assms(2) by (auto simp: ldap_connect_def split: sum.splits) (metis sum.distinct(1))
  qed (simp add: ldap_connect_def)
  then show ?thesis using assms(1) by (auto simp: ldap_init_def Let_def split: sum.splits if_splits)
qed

end
