(* ===== verification/Spec2Isabelle.thy ===== *)
theory Spec2Isabelle imports Foundations Mutex Rate_Limit Account_Settings Dates Crud_Results Trashcan Login_Results
  Metric_Reports Service_Config Messaging Media_Processing Controllers Lifecycle Registry_Refresh Migration Crud_Store Startup begin

text \<open>
  Verification of apicrud (src/apicrud), a Python framework for REST services on flask, SQLAlchemy and
  redis: controllers for create, read, update, delete and search on database resources, access
  control, sessions, the credentials that open them, and the counters that limit their use.

  How the program fits together. A request reaches a controller that inherits \<open>BasicCRUD\<close>
  (basic_crud.py). It asks \<open>AccessControl\<close> (access.py) who calls, which reads the session of
  \<open>SessionManager\<close> (session_manager.py) from redis, and which policies of rbac.yaml grant what; it
  asks \<open>Grants\<close> (grants.py) for limits, reads and writes through the database session of the request
  and commits. \<open>SessionAuth\<close> (session_auth.py) and auth/*.py open sessions after a login, under the lockout
  of \<open>RateLimit\<close> (ratelimit.py), and \<open>Confirmation\<close> (messaging/confirmation.py) confirms addresses with
  tokens that are kept in sessions of their own. \<open>Metrics\<close> counts, \<open>ServiceRegistry\<close> finds other
  instances, \<open>AccountSettings\<close> caches settings, \<open>Trashcan\<close> lists and restores disabled records. At start
  \<open>ServiceConfig\<close> (service_config.py) composes the configuration and database.py opens, migrates and
  seeds the database; initialize.py counts every request and reports errors. \<open>Messaging\<close> (messaging/send.py)
  delivers mail in a worker, \<open>StorageAPI\<close> (media/storage.py) issues upload URLs, and \<open>MediaProcessing\<close>
  (media/worker_processing.py) reads the uploaded pictures and stores scaled copies. The controllers
  (controllers) add to \<open>BasicCRUD\<close> what is particular to a resource.

  The machine. Python statements are functions of the state and exception monad of Prelude: from a
  world to a value or an exception, and the world afterwards; a \<open>try\<close> keeps the changes that were made
  before the exception. The record \<open>world\<close> of Services holds what one request sees: the database
  session, redis, the process-wide caches, the clock in microseconds, a stream of random numbers and
  the messages handed to the sender and the calls of other servers in order (SMTP, object storage). The record \<open>env\<close> holds what stays fixed: the operations of the
  services, the configuration, the request, the models and the policies. Database, redis, cache and
  cryptography are not under src/: they are parameters, as are the SMTP session, the template engine,
  the object storage, the image library, the geocoder and the schema validator (records of functions in
  their theories). The locales \<open>redis_contract\<close>, \<open>redis_counters\<close>, \<open>redis_keys\<close>, \<open>redis_scanning\<close>, \<open>db_contract\<close>, \<open>query_contract\<close>, \<open>record_store\<close>, \<open>ttl_cache\<close> and \<open>session_env\<close> state
  what they document. Each is interpreted on the in-memory services of Services and Memory, on which
  every theorem with hypotheses is applied to an example.

  The theories, in the order of their imports:
  \<^item> Prelude: Python values, dictionaries, the monad, \<open>keeps\<close>, \<open>unless\<close> and \<open>yields\<close> with the rules that
    prove them along a handler, strings and numbers.
  \<^item> Services, Memory: the interfaces above and their in-memory instances.
  \<^item> Utils (utils.py, const.py), Json (the json module as it is used), Codec (aes_encrypt.py), Dates
    (\<open>_fromdate\<close>), Schema (models/base.py, models/api.py and the models of the example): the data.
  \<^item> Session_Manager and Mutex (session_manager.py): sessions as an abstract store that the code
    implements; the lock as a step relation with its reachable states.
  \<^item> Access (access.py), Grants (grants.py), Rate_Limit (ratelimit.py), Metrics (metrics.py, \<open>store\<close> and
    \<open>check\<close>) and Metric_Reports (its \<open>find\<close> and \<open>collect\<close>), Registry and Registry_Refresh
    (service_registry.py; the life of a registration as a step relation), Account_Settings (account_settings.py).
  \<^item> Crud (basic_crud.py, \<open>with_privacy\<close> of geocode.py, \<open>db_abort\<close> of database.py) with Crud_Results;
    Trashcan (trashcan.py); Crud_Store: the records as a map, and what create, update, delete and get, one after the
    other, do to it.
  \<^item> Confirmation (messaging/confirmation.py), Accounts and Login (session_auth.py, auth/local_func.py,
    totp_func.py, ldap_func.py, oauth2_func.py, oauth2.py), Credentials (auth/local_user.py, totp.py,
    apikey.py), with Auth_Results, Lockout and Login_Results.
  \<^item> Service_Config (service_config.py), Outside (calls of other servers), Messaging (messaging/send.py,
    format.py, messaging.py of the example), Media_Storage and Media_Processing (media/storage.py,
    worker_processing.py), Controllers (controllers/*.py with code of their own, geocode.py), Lifecycle
    (initialize.py, health.py, database.py).
  \<^item> Migration (the alembic scripts): the steps of both \<open>upgrade()\<close> functions, a database that accepts
    or refuses them, and the comparison with Schema.
  \<^item> Routes (the controllers that pass requests on, example/controllers with the table of controllers) and
    Startup (\<open>app\<close> and \<open>worker\<close> of initialize.py, \<open>ldap_init\<close>, \<open>oauth2_init\<close>, alembic/env.py).
  \<^item> Foundations: results about ids, identities, json and encryption.

  What the lemmas show. For the handlers, that requests that succeed insert, merge and remove records as a
  map from ids to records would and the next request reads what they wrote, that requests that fail leave
  the committed data alone and that answers hide what the models hide; where the code falls short of it (relations that are
  replaced before the permission is checked), a theorem shows that instead. For access control, what
  the interpreter of policies grants. For sessions, tokens, one-time passwords and API keys, who is let
  in, until when and how often; the lockout is an invariant over all sequences of attempts. For limits
  and budgets, the exact number of admitted uses. For pages, that a client that follows the cursors
  sees every row once, and what a list may hold. Round trips of json, encryption and tokens; bounds of ids, pages and coordinates.

  For the configuration, which source wins, that values have their types and that secrets stay
  hidden. For media and mail, under which conditions an upload URL is issued, which objects a picture
  leaves behind, whom a mail reaches. For the start of the service, that seeding is atomic, that a
  registration never lapses while its timers fire, that the migrations run and where they differ from
  the models. Where the code fails on ordinary input, a theorem states the failure.

  Bounds and fuel. Integers of Python are \<open>int\<close>; the clock is a number of microseconds. The parser of
  Json takes the length of the text as fuel, which it cannot exceed since each step consumes a
  character. \<open>walk_pages\<close> takes a number of pages; any number above that of the rows is enough. Theorems
  that compare dates or digits as text name the range of years in which they hold. Strings are lists of
  8-bit characters, and the theorems about encodings are about ASCII text.

  Loops that may not end (\<open>wait_rounds\<close> of database.py) are partial functions into an option, where
  None means that the loop never returns. Floating-point numbers are
  rational numbers, without rounding.

  Not modelled: log and tracing output (where building a log call can raise, it is modelled), the HTTP
  and YAML layers, what connexion does with the OpenAPI files when the application is assembled, the
  clients of boto3, b2, ldap3 and authlib, the configuration of flask and celery, names of indexes and
  constraints, the setup and documentation scripts and the tests. They are input and output or calls of
  libraries; PROJECT.json lists each with its reason.
\<close>

end
